(* ===== verification/Prelude.thy ===== *)
theory Prelude
  imports Main "HOL-Library.AList" "HOL-Library.Multiset"
begin

text \<open>
  Shared vocabulary of the development: Go's integers, clock readings and maps, the
  errors of the storage package, and the generic lemmas the component theories rest on.

  \<^item> Go's \<open>int32\<close> and \<open>int64\<close> are \<^typ>\<open>int\<close> with the two's-complement wrap-around written
    out (\<open>wrap32\<close>, \<open>wrap64\<close>) at every operation of the source that can leave the range.
  \<^item> A \<open>time.Time\<close> is the number of nanoseconds since the zero time, so \<open>IsZero\<close> is
    \<open>t = 0\<close>, \<open>After\<close> is \<open>>\<close> and \<open>Before\<close> is \<open><\<close>.  Operations take the clock reading
    \<open>now\<close> as an argument: the readings of one critical section are one value.
  \<^item> A Go map is an association list with distinct keys.  The list order stands for the
    order a \<open>range\<close> loop happens to visit the entries in; Go leaves that order open, and
    so do the theorems, which hold for every list (the step relation of the lease
    protocol has a rule that permutes it at any moment).
\<close>

named_theorems fence_simps \<open>the lease fence and its success conditions\<close>
named_theorems gomap_simps \<open>lookups after updates of Go maps\<close>

section \<open>Machine integers, time\<close>

definition wrap :: "int \<Rightarrow> int \<Rightarrow> int" where
  "wrap half x = (x + half) mod (2 * half) - half"

definition wrap32 :: "int \<Rightarrow> int" where
  "wrap32 x = wrap 2147483648 x"

definition wrap64 :: "int \<Rightarrow> int" where
  "wrap64 x = wrap 9223372036854775808 x"

lemma wrap_id: "- half \<le> x \<Longrightarrow> x < half \<Longrightarrow> wrap half x = x"
  by (simp add: wrap_def)

lemma wrap_range:
  assumes "0 < half"
  shows "- half \<le> wrap half x \<and> wrap half x < half"
proof -
  have "0 \<le> (x + half) mod (2 * half)" and "(x + half) mod (2 * half) < 2 * half"
    using assms by simp_all
  then show ?thesis by (simp add: wrap_def)
qed

lemma wrap32_id: "- 2147483648 \<le> x \<Longrightarrow> x < 2147483648 \<Longrightarrow> wrap32 x = x"
  by (simp add: wrap32_def wrap_id)

lemma wrap64_id: "- 9223372036854775808 \<le> x \<Longrightarrow> x < 9223372036854775808 \<Longrightarrow> wrap64 x = x"
  by (simp add: wrap64_def wrap_id)

abbreviation max_int32 :: int where "max_int32 \<equiv> 2147483647"
abbreviation max_int64 :: int where "max_int64 \<equiv> 9223372036854775807"

lemma wrap64_suc: "0 \<le> x \<Longrightarrow> x < max_int64 \<Longrightarrow> wrap64 (x + 1) = x + 1"
  by (simp add: wrap64_id)

lemma wrap32_suc: "0 \<le> x \<Longrightarrow> x < max_int32 \<Longrightarrow> wrap32 (x + 1) = x + 1"
  by (simp add: wrap32_id)

type_synonym time = int
type_synonym duration = int

abbreviation zero_time :: time where "zero_time \<equiv> 0"

definition Second :: duration where "Second = 1000000000"

text \<open>\<open>time.Duration(n) * time.Second\<close> is an \<open>int64\<close> product.\<close>

definition seconds :: "int \<Rightarrow> duration" where
  "seconds n = wrap64 (n * Second)"

lemma seconds_id: "0 \<le> n \<Longrightarrow> n \<le> 9000000000 \<Longrightarrow> seconds n = n * Second"
  by (simp add: seconds_def Second_def wrap64_id)

lemma seconds_nonneg: "0 \<le> n \<Longrightarrow> n \<le> 9000000000 \<Longrightarrow> 0 \<le> seconds n"
  by (simp add: seconds_id Second_def)

section \<open>Go maps\<close>

type_synonym 'v gomap = "(string \<times> 'v) list"

definition gm_get :: "'v gomap \<Rightarrow> string \<Rightarrow> 'v option" where
  "gm_get m k = map_of m k"

definition gm_put :: "string \<Rightarrow> 'v \<Rightarrow> 'v gomap \<Rightarrow> 'v gomap" where
  "gm_put k v m = AList.update k v m"

definition gm_del :: "string \<Rightarrow> 'v gomap \<Rightarrow> 'v gomap" where
  "gm_del k m = filter (\<lambda>e. fst e \<noteq> k) m"

text \<open>\<open>len(m)\<close>, the values a \<open>range\<close> loop visits, and the loop that deletes every entry
  satisfying a condition.\<close>

definition gm_vals :: "'v gomap \<Rightarrow> 'v list" where
  "gm_vals m = map snd m"

definition gm_prune :: "('v \<Rightarrow> bool) \<Rightarrow> 'v gomap \<Rightarrow> 'v gomap" where
  "gm_prune P m = filter (\<lambda>e. \<not> P (snd e)) m"

text \<open>\<open>if _, ok := m[s]; !ok { m[s] = make(...) }\<close> and the lookup in a map of maps.\<close>

definition gm_ensure :: "string \<Rightarrow> 'v \<Rightarrow> 'v gomap \<Rightarrow> 'v gomap" where
  "gm_ensure k d m = (case gm_get m k of None \<Rightarrow> gm_put k d m | Some _ \<Rightarrow> m)"

definition gm_get2 :: "'v gomap gomap \<Rightarrow> string \<Rightarrow> string \<Rightarrow> 'v option" where
  "gm_get2 m s k = (case gm_get m s of None \<Rightarrow> None | Some inner \<Rightarrow> gm_get inner k)"

definition gm_inner :: "'v gomap gomap \<Rightarrow> string \<Rightarrow> 'v gomap" where
  "gm_inner m s = (case gm_get m s of None \<Rightarrow> [] | Some inner \<Rightarrow> inner)"

definition gm_put2 :: "string \<Rightarrow> string \<Rightarrow> 'v \<Rightarrow> 'v gomap gomap \<Rightarrow> 'v gomap gomap" where
  "gm_put2 s k v m = gm_put s (gm_put k v (gm_inner m s)) m"

text \<open>\<open>delete(m[s], k)\<close>, with the inner map dropped once it is empty.\<close>

definition gm_del2 :: "string \<Rightarrow> string \<Rightarrow> 'v gomap gomap \<Rightarrow> 'v gomap gomap" where
  "gm_del2 s k m =
     (case gm_get m s of None \<Rightarrow> m
      | Some inner \<Rightarrow>
          (let inner' = gm_del k inner
           in if inner' = [] then gm_del s m else gm_put s inner' m))"

abbreviation gm_wf :: "'v gomap \<Rightarrow> bool" where
  "gm_wf m \<equiv> distinct (map fst m)"

lemma gm_get_put [simp, gomap_simps]:
  "gm_get (gm_put k v m) k' = (if k' = k then Some v else gm_get m k')"
  by (simp add: gm_get_def gm_put_def update_conv')

lemma gm_get_Nil [simp, gomap_simps]: "gm_get [] k = None"
  by (simp add: gm_get_def)

lemma gm_get_del [simp, gomap_simps]:
  "gm_get (gm_del k m) k' = (if k' = k then None else gm_get m k')"
  by (induction m) (auto simp: gm_get_def gm_del_def)

lemma gm_wf_put [simp]: "gm_wf m \<Longrightarrow> gm_wf (gm_put k v m)"
  by (simp add: gm_put_def distinct_update)

lemma gm_wf_filter: "gm_wf m \<Longrightarrow> gm_wf (filter P m)"
  by (induction m) auto

lemma gm_wf_del [simp]: "gm_wf m \<Longrightarrow> gm_wf (gm_del k m)"
  by (simp add: gm_del_def gm_wf_filter)

lemma gm_wf_prune [simp]: "gm_wf m \<Longrightarrow> gm_wf (gm_prune P m)"
  by (simp add: gm_prune_def gm_wf_filter)

lemma gm_get_in: "gm_wf m \<Longrightarrow> (gm_get m k = Some v) = ((k, v) \<in> set m)"
  by (simp add: gm_get_def)

lemma gm_get_SomeD: "gm_get m k = Some v \<Longrightarrow> (k, v) \<in> set m"
  by (simp add: gm_get_def map_of_SomeD)

lemma gm_keys_put:
  "map fst (gm_put k v m) = (if gm_get m k = None then map fst m @ [k] else map fst m)"
  by (induction m) (auto simp: gm_put_def gm_get_def)

lemma gm_del_keys: "map fst (gm_del k m) = filter (\<lambda>x. x \<noteq> k) (map fst m)"
  by (simp add: gm_del_def filter_map comp_def)

lemma gm_get_None: "gm_get m k = None \<longleftrightarrow> k \<notin> fst ` set m"
  by (simp add: gm_get_def map_of_eq_None_iff)

lemma length_gm_put: "length (gm_put k v m) = (if gm_get m k = None then Suc (length m) else length m)"
  using arg_cong [OF gm_keys_put [of k v m], of length] by (simp split: if_splits)

lemma length_gm_del: "length (gm_del k m) \<le> length m"
  by (simp add: gm_del_def)

lemma length_gm_del_less: "k \<in> fst ` set m \<Longrightarrow> length (gm_del k m) < length m"
  by (auto simp: gm_del_def intro: length_filter_less)

lemma gm_get_filter:
  "gm_wf m \<Longrightarrow> gm_get (filter P m) k =
     (case gm_get m k of None \<Rightarrow> None | Some v \<Rightarrow> if P (k, v) then Some v else None)"
proof (induction m)
  case (Cons e m)
  then show ?case
    by (cases e) (force simp: gm_get_def split: option.splits dest: map_of_SomeD)
qed (simp add: gm_get_def)

lemma gm_get_prune [gomap_simps]:
  "gm_wf m \<Longrightarrow> gm_get (gm_prune P m) k =
     (case gm_get m k of None \<Rightarrow> None | Some v \<Rightarrow> if P v then None else Some v)"
  by (simp add: gm_prune_def gm_get_filter split: option.splits)

lemma gm_vals_get: "gm_wf m \<Longrightarrow> (v \<in> set (gm_vals m)) = (\<exists>k. gm_get m k = Some v)"
  by (auto simp: gm_vals_def gm_get_in) force

lemma gm_get_vals: "gm_get m k = Some v \<Longrightarrow> v \<in> set (gm_vals m)"
  by (force simp: gm_vals_def dest: gm_get_SomeD)

lemma set_gm_put: "gm_wf m \<Longrightarrow>
   set (gm_put k v m) = insert (k, v) {e \<in> set m. fst e \<noteq> k}"
  by (induction m) (force simp: gm_put_def)+

lemma gm_get_inner [simp]: "gm_get (gm_inner m s) k = gm_get2 m s k"
  by (simp add: gm_inner_def gm_get2_def split: option.split)

lemma gm_get2_put2 [simp, gomap_simps]:
  "gm_get2 (gm_put2 s k v m) s' k' =
     (if s' = s \<and> k' = k then Some v else gm_get2 m s' k')"
  by (auto simp: gm_put2_def gm_get2_def gm_inner_def split: option.splits)

lemma gm_get_del_Nil: "gm_del k m = [] \<Longrightarrow> k' \<noteq> k \<Longrightarrow> gm_get m k' = None"
  using gm_get_del [of k m k'] by simp

lemma gm_get2_del2 [simp, gomap_simps]:
  "gm_get2 (gm_del2 s k m) s' k' =
     (if s' = s \<and> k' = k then None else gm_get2 m s' k')"
  by (auto simp: gm_del2_def gm_get2_def Let_def gm_get_del_Nil split: option.splits)

text \<open>A search with one possible answer finds it, in any order.\<close>

lemma find_only:
  assumes "x \<in> set xs" "\<And>y. y \<in> set xs \<Longrightarrow> P y \<Longrightarrow> y = x" "P x"
  shows "List.find P xs = Some x"
proof (cases "List.find P xs")
  case None
  with assms(1,3) show ?thesis by (auto simp: find_None_iff)
next
  case (Some y)
  then have "y \<in> set xs" "P y" by (auto simp: find_Some_iff)
  with assms(2) Some show ?thesis by simp
qed

text \<open>Counting entries is independent of the iteration order.\<close>

lemma length_filter_mset: "mset xs = mset ys \<Longrightarrow> length (filter P xs) = length (filter P ys)"
  by (metis mset_filter size_mset)

lemma gm_get_perm: "mset m = mset m' \<Longrightarrow> gm_wf m \<Longrightarrow> gm_get m k = gm_get m' k"
  by (metis gm_get_def mset_eq_setD map_of_inject_set mset_map mset_eq_imp_distinct_iff)

lemma gm_wf_perm: "mset m = mset m' \<Longrightarrow> gm_wf m = gm_wf m'"
  by (metis mset_map mset_eq_imp_distinct_iff)

section \<open>Invariants over runs\<close>

text \<open>
  A component's operations form a step relation; what every step keeps, every run keeps,
  and a quantity no step decreases never decreases along a run.
\<close>

locale kept_by_steps =
  fixes step :: "'s \<Rightarrow> 's \<Rightarrow> bool" and Inv :: "'s \<Rightarrow> bool"
  assumes kept: "step s t \<Longrightarrow> Inv s \<Longrightarrow> Inv t"
begin

lemma kept_run: "step\<^sup>*\<^sup>* s t \<Longrightarrow> Inv s \<Longrightarrow> Inv t"
  by (induction rule: rtranclp_induct) (auto dest: kept)

end

section \<open>Errors\<close>

text \<open>The sentinels of \<open>pkg/storage/store.go\<close>.\<close>

datatype storage_error =
    StErrNotFound | StErrLeaseConflict | StErrRequestTerminal | StErrMachineNotToolOwner
  | StErrRequestExists | StErrTooManyPendingRequests | StErrToolOwnershipConflict
  | StErrChunkWindowGap | StErrSerializationConflict

type_synonym 'a st_result = "storage_error + 'a"

end
