(* ===== verification/Request_Model.thy ===== *)
theory Request_Model
  imports Prelude "HOL-Library.Sublist"
begin

text \<open>
  \<open>pkg/model/request.go\<close>: the request record, its status machine's methods, the bounded
  stream window (append, trim, replay) and the two deadlines of a lease.  The window is
  refined against an unbounded log: the retained chunks are always the tail of everything
  appended, and a replay after sequence \<open>k\<close> continues the log without gap or repetition.
\<close>

section \<open>The request\<close>

datatype request_status = Pending | Claimed | Running | Done | Failed | Stalled | Cancelled

text \<open>\<open>interface{}\<close> results: the dynamic types the request code tells apart.  Any other
  dynamic value is passed through unread.\<close>

datatype go_value =
    VNil
  | VString string
  | VStringMap "(string \<times> string) list"
  | VMap "(string \<times> go_value) list"
  | VOther string

abbreviation ResultTypeResolution :: string where "ResultTypeResolution \<equiv> ''resolution''"
abbreviation ResultTypeRejection :: string where "ResultTypeRejection \<equiv> ''rejection''"
abbreviation ResultTypeInterrupt :: string where "ResultTypeInterrupt \<equiv> ''interrupt''"
abbreviation ResultTypeStreaming :: string where "ResultTypeStreaming \<equiv> ''streaming''"

record request =
  r_ID :: string
  r_SessionID :: string
  r_ToolName :: string
  r_Status :: request_status
  r_Input :: string
  r_Result :: go_value
  r_ResultType :: string
  r_StreamResults :: "string list"
  r_StreamStartSeq :: int
  r_NextStreamSeq :: int
  r_Error :: string
  r_Meta :: "string gomap option"
  r_ExecutingMachineID :: string
  r_Attempts :: int
  r_MaxAttempts :: int
  r_TimeoutSeconds :: int
  r_BackoffSeconds :: int
  r_VisibleAt :: time
  r_NextAttemptAt :: "time option"
  r_LeasedBy :: string
  r_LeasedAt :: "time option"
  r_LeaseEpoch :: int
  r_IdempotencyKey :: string
  r_LastError :: string
  r_DeadLetter :: bool
  r_CreatedAt :: time
  r_UpdatedAt :: time

record chunk_window =
  w_StartSeq :: int
  w_NextSeq :: int
  w_Chunks :: "string list"

definition defaultRequestMaxAttempts :: int where "defaultRequestMaxAttempts = 3"
definition defaultRequestTimeoutSeconds :: int where "defaultRequestTimeoutSeconds = 45"
definition defaultRequestBackoffSeconds :: int where "defaultRequestBackoffSeconds = 5"
definition maxRequestStreamChunks :: nat where "maxRequestStreamChunks = 100"
definition MaxRequestStreamWindowBytes :: nat where "MaxRequestStreamWindowBytes = 8388608"
definition MaxRequestChunkBytes :: nat where "MaxRequestChunkBytes = 524288"
definition MaxChunkBatchBytes :: nat where "MaxChunkBatchBytes = 32 * MaxRequestChunkBytes"
definition MaxChunkBatchPayloadBytes :: nat where
  "MaxChunkBatchPayloadBytes = MaxChunkBatchBytes - 65536"

definition IsTerminalStatus :: "request_status \<Rightarrow> bool" where
  "IsTerminalStatus s \<longleftrightarrow> s = Done \<or> s = Failed \<or> s = Cancelled"

text \<open>\<open>IsTerminal\<close> on a nil pointer is false.\<close>

definition IsTerminal :: "request option \<Rightarrow> bool" where
  "IsTerminal r = (case r of None \<Rightarrow> False
     | Some q \<Rightarrow> r_Status q = Done \<or> r_Status q = Failed \<or> r_Status q = Cancelled)"

definition NewRequest :: "string \<Rightarrow> time \<Rightarrow> string \<Rightarrow> string \<Rightarrow> string \<Rightarrow> request" where
  "NewRequest uuid now sessionID toolName input =
     \<lparr> r_ID = uuid, r_SessionID = sessionID, r_ToolName = toolName, r_Status = Pending,
       r_Input = input, r_Result = VNil, r_ResultType = '''', r_StreamResults = [],
       r_StreamStartSeq = 1, r_NextStreamSeq = 1, r_Error = '''', r_Meta = Some [],
       r_ExecutingMachineID = '''', r_Attempts = 0, r_MaxAttempts = defaultRequestMaxAttempts,
       r_TimeoutSeconds = defaultRequestTimeoutSeconds,
       r_BackoffSeconds = defaultRequestBackoffSeconds, r_VisibleAt = now,
       r_NextAttemptAt = None, r_LeasedBy = '''', r_LeasedAt = None, r_LeaseEpoch = 0,
       r_IdempotencyKey = '''', r_LastError = '''', r_DeadLetter = False,
       r_CreatedAt = now, r_UpdatedAt = now \<rparr>"

definition SetRunning :: "time \<Rightarrow> string \<Rightarrow> request \<Rightarrow> request" where
  "SetRunning now machineID r =
     r\<lparr> r_Status := Running, r_ExecutingMachineID := machineID, r_UpdatedAt := now \<rparr>"

definition SetClaimedBy :: "time \<Rightarrow> string \<Rightarrow> request \<Rightarrow> request" where
  "SetClaimedBy now machineID r =
     r\<lparr> r_Status := Claimed, r_ExecutingMachineID := machineID, r_UpdatedAt := now \<rparr>"

definition SetResult :: "time \<Rightarrow> go_value \<Rightarrow> string \<Rightarrow> string \<Rightarrow> request \<Rightarrow> request" where
  "SetResult now result resultType errorMsg r =
     r\<lparr> r_Result := result, r_ResultType := resultType, r_Error := errorMsg,
        r_Status := (if resultType = ResultTypeRejection then Failed else Done),
        r_UpdatedAt := now, r_LeasedBy := '''', r_LeasedAt := None,
        r_VisibleAt := now, r_NextAttemptAt := None \<rparr>"

section \<open>The stream window\<close>

definition EnsureStreamSequenceDefaults :: "request \<Rightarrow> request" where
  "EnsureStreamSequenceDefaults r =
     (let r1 = (if r_StreamStartSeq r \<le> 0 then r\<lparr> r_StreamStartSeq := 1 \<rparr> else r);
          minimumNextSeq =
            wrap32 (r_StreamStartSeq r1 + wrap32 (int (length (r_StreamResults r1))))
      in if r_NextStreamSeq r1 < minimumNextSeq
         then r1\<lparr> r_NextStreamSeq := minimumNextSeq \<rparr> else r1)"

text \<open>The backward pass of \<open>trimStreamWindow\<close>: \<open>bytes\<close> of payload and \<open>kept\<close> chunks have been
  accepted so far; the list holds the older chunks, newest first.\<close>

fun trim_keep :: "nat \<Rightarrow> nat \<Rightarrow> string list \<Rightarrow> nat" where
  "trim_keep bytes kept [] = kept"
| "trim_keep bytes kept (c # cs) =
     (let bytes' = bytes + length c
      in if bytes' > MaxRequestStreamWindowBytes \<or> kept + 1 > maxRequestStreamChunks
         then kept else trim_keep bytes' (kept + 1) cs)"

definition trimStreamWindow :: "request \<Rightarrow> request" where
  "trimStreamWindow r =
     (let n = length (r_StreamResults r);
          keep = trim_keep 0 0 (rev (r_StreamResults r));
          dropped = n - keep
      in if dropped = 0 then r
         else r\<lparr> r_StreamStartSeq := wrap32 (r_StreamStartSeq r + wrap32 (int dropped)),
                 r_StreamResults := drop (n - keep) (r_StreamResults r) \<rparr>)"

definition AddStreamChunk :: "time \<Rightarrow> string \<Rightarrow> request \<Rightarrow> request \<times> int" where
  "AddStreamChunk now chunk r =
     (let r1 = EnsureStreamSequenceDefaults r;
          seq = r_NextStreamSeq r1;
          r2 = r1\<lparr> r_StreamResults := r_StreamResults r1 @ [chunk],
                   r_NextStreamSeq := wrap32 (seq + 1) \<rparr>;
          r3 = trimStreamWindow r2
      in (r3\<lparr> r_UpdatedAt := now \<rparr>, seq))"

text \<open>\<open>for _, chunk := range chunks { req.AddStreamChunk(chunk) }\<close>\<close>

fun AddStreamChunks :: "time \<Rightarrow> string list \<Rightarrow> request \<Rightarrow> request" where
  "AddStreamChunks now [] r = r"
| "AddStreamChunks now (c # cs) r = AddStreamChunks now cs (fst (AddStreamChunk now c r))"

definition ClearStreamChunks :: "time \<Rightarrow> request \<Rightarrow> request" where
  "ClearStreamChunks now r =
     (let r1 = EnsureStreamSequenceDefaults r
      in r1\<lparr> r_StreamResults := [], r_StreamStartSeq := r_NextStreamSeq r1,
             r_UpdatedAt := now \<rparr>)"

text \<open>The readers normalise the receiver too; they are modelled by their result, and
  \<open>EnsureStreamSequenceDefaults\<close> is the state they leave behind.\<close>

definition StreamChunkWindow :: "request \<Rightarrow> chunk_window" where
  "StreamChunkWindow r =
     (let r1 = EnsureStreamSequenceDefaults r
      in \<lparr> w_StartSeq = r_StreamStartSeq r1, w_NextSeq = r_NextStreamSeq r1,
           w_Chunks = r_StreamResults r1 \<rparr>)"

text \<open>\<open>window.Chunks[startIndex:]\<close> panics when \<open>startIndex\<close> is past the end: \<open>None\<close>.\<close>

definition slice_from :: "int \<Rightarrow> 'a list \<Rightarrow> 'a list option" where
  "slice_from i xs = (if 0 \<le> i \<and> i \<le> int (length xs) then Some (drop (nat i) xs) else None)"

definition StreamChunkWindowAfter :: "int \<Rightarrow> request \<Rightarrow> chunk_window option" where
  "StreamChunkWindowAfter lastSeq0 r =
     (let window = StreamChunkWindow r;
          lastSeq = (if lastSeq0 < 0 then 0 else lastSeq0);
          nextSeq1 = wrap32 (lastSeq + 1);
          nextSeq = (if nextSeq1 < w_StartSeq window then w_StartSeq window else nextSeq1)
      in if nextSeq \<ge> w_NextSeq window
         then Some \<lparr> w_StartSeq = w_NextSeq window, w_NextSeq = w_NextSeq window, w_Chunks = [] \<rparr>
         else map_option
                (\<lambda>cs. \<lparr> w_StartSeq = nextSeq, w_NextSeq = w_NextSeq window, w_Chunks = cs \<rparr>)
                (slice_from (wrap32 (nextSeq - w_StartSeq window)) (w_Chunks window)))"

definition FinalStreamSeq :: "request \<Rightarrow> int" where
  "FinalStreamSeq r = r_NextStreamSeq (EnsureStreamSequenceDefaults r)"

section \<open>Retries and deadlines\<close>

definition ScheduleRetry :: "time \<Rightarrow> request \<Rightarrow> request \<times> time" where
  "ScheduleRetry now r =
     (let backoff = seconds (wrap64 (r_BackoffSeconds r * r_Attempts r));
          nxt = now + backoff
      in (r\<lparr> r_NextAttemptAt := Some nxt, r_VisibleAt := nxt, r_UpdatedAt := now \<rparr>, nxt))"

definition MarkDeadLetter :: "time \<Rightarrow> string \<Rightarrow> request \<Rightarrow> request" where
  "MarkDeadLetter now errMsg r =
     r\<lparr> r_DeadLetter := True, r_Status := Failed, r_LastError := errMsg, r_UpdatedAt := now \<rparr>"

definition HasTimedOut :: "time \<Rightarrow> request \<Rightarrow> bool" where
  "HasTimedOut now r = (case r_LeasedAt r of None \<Rightarrow> False
     | Some t \<Rightarrow> now > t + seconds (r_TimeoutSeconds r))"

definition LeaseExpired :: "time \<Rightarrow> request \<Rightarrow> bool" where
  "LeaseExpired now r = (case r_LeasedAt r of None \<Rightarrow> False
     | Some _ \<Rightarrow> r_VisibleAt r \<noteq> zero_time \<and> \<not> r_VisibleAt r > now)"

section \<open>The trim keeps the longest tail that fits\<close>

definition payload :: "string list \<Rightarrow> nat" where
  "payload cs = sum_list (map length cs)"

definition fits_window :: "string list \<Rightarrow> bool" where
  "fits_window cs \<longleftrightarrow>
     length cs \<le> maxRequestStreamChunks \<and> payload cs \<le> MaxRequestStreamWindowBytes"

lemma payload_simps [simp]:
  "payload [] = 0" "payload (c # cs) = length c + payload cs"
  "payload (xs @ ys) = payload xs + payload ys" "payload (rev xs) = payload xs"
  by (simp_all add: payload_def rev_map [symmetric] sum_list_rev)

lemma payload_take_mono: "m \<le> n \<Longrightarrow> payload (take m xs) \<le> payload (take n xs)"
proof -
  assume "m \<le> n"
  then have "take n xs = take m xs @ take (n - m) (drop m xs)"
    by (metis le_add_diff_inverse take_add)
  then show ?thesis by simp
qed

text \<open>How far the backward pass gets: it stops at the first chunk that breaks a bound.\<close>

lemma trim_keep_spec:
  assumes "t \<le> MaxRequestStreamWindowBytes" "k \<le> maxRequestStreamChunks"
  shows "\<exists>j \<le> length cs. trim_keep t k cs = k + j
     \<and> t + payload (take j cs) \<le> MaxRequestStreamWindowBytes
     \<and> k + j \<le> maxRequestStreamChunks
     \<and> (j < length cs \<longrightarrow> t + payload (take (Suc j) cs) > MaxRequestStreamWindowBytes
                       \<or> k + Suc j > maxRequestStreamChunks)"
  using assms
proof (induction cs arbitrary: t k)
  case (Cons c cs)
  show ?case
  proof (cases "t + length c > MaxRequestStreamWindowBytes \<or> k + 1 > maxRequestStreamChunks")
    case True
    with Cons.prems show ?thesis by (intro exI [of _ 0]) (auto simp: Let_def)
  next
    case False
    then obtain j where "j \<le> length cs" "trim_keep (t + length c) (k + 1) cs = k + 1 + j"
      "t + length c + payload (take j cs) \<le> MaxRequestStreamWindowBytes"
      "k + 1 + j \<le> maxRequestStreamChunks"
      "j < length cs \<longrightarrow> t + length c + payload (take (Suc j) cs) > MaxRequestStreamWindowBytes
                       \<or> k + 1 + Suc j > maxRequestStreamChunks"
      using Cons.IH [of "t + length c" "k + 1"] by auto
    with False show ?thesis by (intro exI [of _ "Suc j"]) (auto simp: Let_def)
  qed
qed simp

definition trimmed :: "string list \<Rightarrow> string list" where
  "trimmed xs = drop (length xs - trim_keep 0 0 (rev xs)) xs"

lemma trimmed_props:
  shows "suffix (trimmed xs) xs" and "fits_window (trimmed xs)"
    and "suffix zs xs \<Longrightarrow> fits_window zs \<Longrightarrow> length zs \<le> length (trimmed xs)"
    and "length (trimmed xs) = trim_keep 0 0 (rev xs)"
proof -
  obtain j where j: "j \<le> length xs" "trim_keep 0 0 (rev xs) = j"
    "payload (take j (rev xs)) \<le> MaxRequestStreamWindowBytes" "j \<le> maxRequestStreamChunks"
    "j < length xs \<longrightarrow> payload (take (Suc j) (rev xs)) > MaxRequestStreamWindowBytes
                       \<or> Suc j > maxRequestStreamChunks"
    using trim_keep_spec [of 0 0 "rev xs"] by auto
  have tl: "m \<le> length xs \<Longrightarrow> drop (length xs - m) xs = rev (take m (rev xs))" for m
    by (simp add: take_rev)
  have eq: "trimmed xs = rev (take j (rev xs))"
    using j tl [of j] by (simp add: trimmed_def)
  show "suffix (trimmed xs) xs" by (simp add: trimmed_def suffix_drop)
  show "fits_window (trimmed xs)" using j by (simp add: eq fits_window_def)
  show "length (trimmed xs) = trim_keep 0 0 (rev xs)" using j by (simp add: eq)
  assume zs: "suffix zs xs" "fits_window zs"
  show "length zs \<le> length (trimmed xs)"
  proof (rule ccontr)
    assume "\<not> length zs \<le> length (trimmed xs)"
    then have gt: "Suc j \<le> length zs" using j by (simp add: eq)
    obtain ys where ys: "xs = ys @ zs" using zs(1) by (auto simp: suffix_def)
    then have "zs = rev (take (length zs) (rev xs))" by simp
    then have "payload zs = payload (take (length zs) (rev xs))"
      by (metis payload_simps(4))
    moreover have "payload (take (Suc j) (rev xs)) \<le> payload (take (length zs) (rev xs))"
      using gt by (rule payload_take_mono)
    moreover have "j < length xs" using gt ys by simp
    ultimately show False using j zs(2) gt by (auto simp: fits_window_def)
  qed
qed

lemma trimStreamWindow_eq:
  "trimStreamWindow r =
     r\<lparr> r_StreamResults := trimmed (r_StreamResults r),
        r_StreamStartSeq :=
          (if length (r_StreamResults r) = length (trimmed (r_StreamResults r)) then r_StreamStartSeq r
           else wrap32 (r_StreamStartSeq r
                + wrap32 (int (length (r_StreamResults r) - length (trimmed (r_StreamResults r)))))) \<rparr>"
proof -
  let ?xs = "r_StreamResults r"
  have "length (trimmed ?xs) \<le> length ?xs" by (simp add: trimmed_def)
  then show ?thesis
    using trimmed_props(4) [of ?xs]
    by (auto simp: trimStreamWindow_def Let_def trimmed_def)
qed

section \<open>The window refines an unbounded log\<close>

text \<open>\<open>log\<close> is every chunk ever appended: chunk \<open>i\<close> (from 0) carries sequence number
  \<open>i + 1\<close>.  The stored window is the tail of it that starts at \<open>r_StreamStartSeq\<close>.\<close>

definition stream_abs :: "string list \<Rightarrow> request \<Rightarrow> bool" where
  "stream_abs log r \<longleftrightarrow>
     1 \<le> r_StreamStartSeq r \<and> r_StreamStartSeq r \<le> r_NextStreamSeq r
     \<and> r_NextStreamSeq r = int (length log) + 1 \<and> r_NextStreamSeq r \<le> max_int32
     \<and> r_StreamResults r = drop (nat (r_StreamStartSeq r - 1)) log"

lemma stream_abs_length:
  "stream_abs log r \<Longrightarrow>
     int (length (r_StreamResults r)) = r_NextStreamSeq r - r_StreamStartSeq r"
  by (auto simp: stream_abs_def)

lemma ensure_id: "stream_abs log r \<Longrightarrow> EnsureStreamSequenceDefaults r = r"
proof -
  assume a: "stream_abs log r"
  have "wrap32 (int (length (r_StreamResults r))) = int (length (r_StreamResults r))"
    using a stream_abs_length [OF a] by (intro wrap32_id) (auto simp: stream_abs_def)
  moreover have "wrap32 (r_NextStreamSeq r) = r_NextStreamSeq r"
    using a by (intro wrap32_id) (auto simp: stream_abs_def)
  ultimately show ?thesis
    using a stream_abs_length [OF a]
    by (simp add: EnsureStreamSequenceDefaults_def Let_def) (simp add: stream_abs_def)
qed

lemma suffix_drop_eq: "suffix ys xs \<Longrightarrow> ys = drop (length xs - length ys) xs"
  by (auto simp: suffix_def)

lemma stream_abs_trim:
  assumes "1 \<le> r_StreamStartSeq r" "r_NextStreamSeq r \<le> max_int32"
    "r_NextStreamSeq r = int (length log) + 1" "r_StreamStartSeq r \<le> r_NextStreamSeq r"
    "r_StreamResults r = drop (nat (r_StreamStartSeq r - 1)) log"
  shows "stream_abs log (trimStreamWindow r)"
proof -
  let ?xs = "r_StreamResults r"
  let ?ys = "trimmed ?xs"
  let ?d = "length ?xs - length ?ys"
  have suf: "suffix ?ys ?xs" by (rule trimmed_props)
  then have le: "length ?ys \<le> length ?xs" by (rule suffix_length_le)
  have ys: "?ys = drop ?d ?xs" using suf by (rule suffix_drop_eq)
  have len: "int (length ?xs) = r_NextStreamSeq r - r_StreamStartSeq r"
    using assms by auto
  have d: "wrap32 (int ?d) = int ?d" using len le assms by (intro wrap32_id) auto
  have st: "wrap32 (r_StreamStartSeq r + int ?d) = r_StreamStartSeq r + int ?d"
    using len le assms by (intro wrap32_id) auto
  have start: "r_StreamStartSeq (trimStreamWindow r) = r_StreamStartSeq r + int ?d"
    using le d st by (simp add: trimStreamWindow_eq)
  have "?ys = drop (nat (r_StreamStartSeq r + int ?d - 1)) log"
    using ys assms by (simp add: nat_add_distrib algebra_simps nat_diff_distrib)
  then show ?thesis
    unfolding stream_abs_def start using assms len le
    by (simp add: trimStreamWindow_eq of_nat_diff)
qed

lemma AddStreamChunk_abs:
  assumes "stream_abs log r" "r_NextStreamSeq r < max_int32"
  shows "stream_abs (log @ [c]) (fst (AddStreamChunk now c r))"
    and "snd (AddStreamChunk now c r) = int (length log) + 1"
proof -
  let ?r2 = "r\<lparr> r_StreamResults := r_StreamResults r @ [c], r_NextStreamSeq := wrap32 (r_NextStreamSeq r + 1) \<rparr>"
  have w: "wrap32 (r_NextStreamSeq r + 1) = r_NextStreamSeq r + 1"
    using assms by (intro wrap32_suc) (auto simp: stream_abs_def)
  have "stream_abs (log @ [c]) (trimStreamWindow ?r2)"
    using assms w by (intro stream_abs_trim) (auto simp: stream_abs_def)
  then show "stream_abs (log @ [c]) (fst (AddStreamChunk now c r))"
    using assms(1) by (simp add: AddStreamChunk_def Let_def ensure_id) (simp add: stream_abs_def)
  show "snd (AddStreamChunk now c r) = int (length log) + 1"
    using assms(1) by (simp add: AddStreamChunk_def Let_def ensure_id) (simp add: stream_abs_def)
qed

lemma AddStreamChunk_next:
  assumes "stream_abs log r" "r_NextStreamSeq r < max_int32"
  shows "r_NextStreamSeq (fst (AddStreamChunk now c r)) = r_NextStreamSeq r + 1"
  using AddStreamChunk_abs(1) [OF assms] assms by (simp add: stream_abs_def)

lemma AddStreamChunks_abs:
  assumes "stream_abs log r" "r_NextStreamSeq r + int (length cs) \<le> max_int32"
  shows "stream_abs (log @ cs) (AddStreamChunks now cs r)"
  using assms
proof (induction cs arbitrary: r log)
  case (Cons c cs)
  then show ?case
    using AddStreamChunk_abs(1) [OF Cons.prems(1), of c now]
      AddStreamChunk_next [OF Cons.prems(1), of now c] Cons.IH [of "log @ [c]"]
    by (simp add: ac_simps)
qed simp

lemma AddStreamChunk_fits: "fits_window (r_StreamResults (fst (AddStreamChunk now c r)))"
  by (simp add: AddStreamChunk_def Let_def trimStreamWindow_eq trimmed_props(2))

text \<open>The readers.\<close>

lemma StreamChunkWindow_abs:
  "stream_abs log r \<Longrightarrow>
     StreamChunkWindow r = \<lparr> w_StartSeq = r_StreamStartSeq r, w_NextSeq = r_NextStreamSeq r,
       w_Chunks = drop (nat (r_StreamStartSeq r - 1)) log \<rparr>"
  by (simp add: StreamChunkWindow_def ensure_id Let_def) (simp add: stream_abs_def)

text \<open>A replay from an acknowledged position inside the window continues the log.\<close>

lemma StreamChunkWindowAfter_abs:
  assumes "stream_abs log r" "0 \<le> k" "r_StreamStartSeq r \<le> k + 1" "k \<le> int (length log)"
  shows "\<exists>w. StreamChunkWindowAfter k r = Some w
     \<and> w_StartSeq w = k + 1 \<and> w_NextSeq w = int (length log) + 1
     \<and> take (nat k) log @ w_Chunks w = log"
proof -
  have len: "int (length log) < max_int32" using assms(1) by (auto simp: stream_abs_def)
  have w: "wrap32 (k + 1) = k + 1" using assms len by (intro wrap32_id) auto
  show ?thesis
  proof (cases "k = int (length log)")
    case True
    then show ?thesis using assms w
      by (auto simp: StreamChunkWindowAfter_def StreamChunkWindow_abs Let_def stream_abs_def)
  next
    case False
    let ?i = "k + 1 - r_StreamStartSeq r"
    have wi: "wrap32 ?i = ?i" using assms len by (intro wrap32_id) (auto simp: stream_abs_def)
    have split: "nat ?i + nat (r_StreamStartSeq r - 1) = nat k"
      using assms by (auto simp: stream_abs_def nat_add_distrib [symmetric])
    have inr: "?i \<le> int (length (drop (nat (r_StreamStartSeq r - 1)) log))"
      using assms False by (auto simp: stream_abs_def)
    show ?thesis using assms False w wi inr split
      by (auto simp: StreamChunkWindowAfter_def StreamChunkWindow_abs Let_def slice_from_def
            stream_abs_def)
  qed
qed

text \<open>A position behind the window gets the retained tail, from its true start.\<close>

lemma StreamChunkWindowAfter_behind:
  assumes "stream_abs log r" "k + 1 < r_StreamStartSeq r" "k < max_int32"
  shows "\<exists>w. StreamChunkWindowAfter k r = Some w
     \<and> w_StartSeq w = r_StreamStartSeq r \<and> w_NextSeq w = r_NextStreamSeq r
     \<and> w_Chunks w = drop (nat (r_StreamStartSeq r - 1)) log"
proof -
  have 1: "wrap32 1 = 1" "wrap32 0 = 0" by (simp_all add: wrap32_id)
  have w: "0 \<le> k \<Longrightarrow> wrap32 (k + 1) = k + 1" using assms by (intro wrap32_id) auto
  show ?thesis using assms 1 w
    by (auto simp: StreamChunkWindowAfter_def StreamChunkWindow_abs Let_def slice_from_def
          stream_abs_def)
qed

lemma NewRequest_abs: "stream_abs [] (NewRequest uuid now s t i)"
  by (simp add: stream_abs_def NewRequest_def)

section \<open>Frame facts\<close>

text \<open>What the window operations leave alone.\<close>

lemma ensure_frame [simp]:
  "r_ID (EnsureStreamSequenceDefaults r) = r_ID r"
  "r_SessionID (EnsureStreamSequenceDefaults r) = r_SessionID r"
  "r_ToolName (EnsureStreamSequenceDefaults r) = r_ToolName r"
  "r_Status (EnsureStreamSequenceDefaults r) = r_Status r"
  "r_LeasedBy (EnsureStreamSequenceDefaults r) = r_LeasedBy r"
  "r_LeasedAt (EnsureStreamSequenceDefaults r) = r_LeasedAt r"
  "r_LeaseEpoch (EnsureStreamSequenceDefaults r) = r_LeaseEpoch r"
  "r_IdempotencyKey (EnsureStreamSequenceDefaults r) = r_IdempotencyKey r"
  "r_Attempts (EnsureStreamSequenceDefaults r) = r_Attempts r"
  "r_MaxAttempts (EnsureStreamSequenceDefaults r) = r_MaxAttempts r"
  "r_ExecutingMachineID (EnsureStreamSequenceDefaults r) = r_ExecutingMachineID r"
  "r_VisibleAt (EnsureStreamSequenceDefaults r) = r_VisibleAt r"
  "r_DeadLetter (EnsureStreamSequenceDefaults r) = r_DeadLetter r"
  "r_Result (EnsureStreamSequenceDefaults r) = r_Result r"
  "r_ResultType (EnsureStreamSequenceDefaults r) = r_ResultType r"
  "r_Error (EnsureStreamSequenceDefaults r) = r_Error r"
  "r_CreatedAt (EnsureStreamSequenceDefaults r) = r_CreatedAt r"
  "r_TimeoutSeconds (EnsureStreamSequenceDefaults r) = r_TimeoutSeconds r"
  "r_BackoffSeconds (EnsureStreamSequenceDefaults r) = r_BackoffSeconds r"
  by (simp_all add: EnsureStreamSequenceDefaults_def Let_def)

lemma trim_frame [simp]:
  "r_ID (trimStreamWindow r) = r_ID r" "r_SessionID (trimStreamWindow r) = r_SessionID r"
  "r_ToolName (trimStreamWindow r) = r_ToolName r"
  "r_Status (trimStreamWindow r) = r_Status r" "r_LeasedBy (trimStreamWindow r) = r_LeasedBy r"
  "r_LeasedAt (trimStreamWindow r) = r_LeasedAt r"
  "r_LeaseEpoch (trimStreamWindow r) = r_LeaseEpoch r"
  "r_IdempotencyKey (trimStreamWindow r) = r_IdempotencyKey r"
  "r_Attempts (trimStreamWindow r) = r_Attempts r"
  "r_MaxAttempts (trimStreamWindow r) = r_MaxAttempts r"
  "r_ExecutingMachineID (trimStreamWindow r) = r_ExecutingMachineID r"
  "r_VisibleAt (trimStreamWindow r) = r_VisibleAt r"
  "r_DeadLetter (trimStreamWindow r) = r_DeadLetter r"
  "r_Result (trimStreamWindow r) = r_Result r"
  "r_ResultType (trimStreamWindow r) = r_ResultType r"
  "r_Error (trimStreamWindow r) = r_Error r"
  "r_CreatedAt (trimStreamWindow r) = r_CreatedAt r"
  "r_TimeoutSeconds (trimStreamWindow r) = r_TimeoutSeconds r"
  "r_BackoffSeconds (trimStreamWindow r) = r_BackoffSeconds r"
  by (simp_all add: trimStreamWindow_eq)

lemma AddStreamChunk_frame [simp]:
  "r_ID (fst (AddStreamChunk now c r)) = r_ID r"
  "r_SessionID (fst (AddStreamChunk now c r)) = r_SessionID r"
  "r_ToolName (fst (AddStreamChunk now c r)) = r_ToolName r"
  "r_Status (fst (AddStreamChunk now c r)) = r_Status r"
  "r_LeasedBy (fst (AddStreamChunk now c r)) = r_LeasedBy r"
  "r_LeasedAt (fst (AddStreamChunk now c r)) = r_LeasedAt r"
  "r_LeaseEpoch (fst (AddStreamChunk now c r)) = r_LeaseEpoch r"
  "r_IdempotencyKey (fst (AddStreamChunk now c r)) = r_IdempotencyKey r"
  "r_Attempts (fst (AddStreamChunk now c r)) = r_Attempts r"
  "r_MaxAttempts (fst (AddStreamChunk now c r)) = r_MaxAttempts r"
  "r_ExecutingMachineID (fst (AddStreamChunk now c r)) = r_ExecutingMachineID r"
  "r_VisibleAt (fst (AddStreamChunk now c r)) = r_VisibleAt r"
  "r_DeadLetter (fst (AddStreamChunk now c r)) = r_DeadLetter r"
  "r_Result (fst (AddStreamChunk now c r)) = r_Result r"
  "r_ResultType (fst (AddStreamChunk now c r)) = r_ResultType r"
  "r_Error (fst (AddStreamChunk now c r)) = r_Error r"
  "r_CreatedAt (fst (AddStreamChunk now c r)) = r_CreatedAt r"
  "r_TimeoutSeconds (fst (AddStreamChunk now c r)) = r_TimeoutSeconds r"
  "r_BackoffSeconds (fst (AddStreamChunk now c r)) = r_BackoffSeconds r"
  by (simp_all add: AddStreamChunk_def Let_def)

lemma AddStreamChunks_frame [simp]:
  "r_ID (AddStreamChunks now cs r) = r_ID r"
  "r_SessionID (AddStreamChunks now cs r) = r_SessionID r"
  "r_ToolName (AddStreamChunks now cs r) = r_ToolName r"
  "r_Status (AddStreamChunks now cs r) = r_Status r"
  "r_LeasedBy (AddStreamChunks now cs r) = r_LeasedBy r"
  "r_LeasedAt (AddStreamChunks now cs r) = r_LeasedAt r"
  "r_LeaseEpoch (AddStreamChunks now cs r) = r_LeaseEpoch r"
  "r_IdempotencyKey (AddStreamChunks now cs r) = r_IdempotencyKey r"
  "r_Attempts (AddStreamChunks now cs r) = r_Attempts r"
  "r_MaxAttempts (AddStreamChunks now cs r) = r_MaxAttempts r"
  "r_ExecutingMachineID (AddStreamChunks now cs r) = r_ExecutingMachineID r"
  "r_VisibleAt (AddStreamChunks now cs r) = r_VisibleAt r"
  "r_DeadLetter (AddStreamChunks now cs r) = r_DeadLetter r"
  "r_Result (AddStreamChunks now cs r) = r_Result r"
  "r_ResultType (AddStreamChunks now cs r) = r_ResultType r"
  "r_Error (AddStreamChunks now cs r) = r_Error r"
  "r_CreatedAt (AddStreamChunks now cs r) = r_CreatedAt r"
  "r_TimeoutSeconds (AddStreamChunks now cs r) = r_TimeoutSeconds r"
  "r_BackoffSeconds (AddStreamChunks now cs r) = r_BackoffSeconds r"
  by (induction cs arbitrary: r) simp_all

lemma AddStreamChunks_fits:
  "fits_window (r_StreamResults r) \<Longrightarrow> fits_window (r_StreamResults (AddStreamChunks now cs r))"
  by (induction cs arbitrary: r) (simp_all add: AddStreamChunk_fits)

end
