(* ===== verification/Entity_Model.thy ===== *)
theory Entity_Model
  imports Request_Model
begin

text \<open>
  The other records of \<open>pkg/model\<close>: machines, tools, sessions and API keys
  (\<open>tool.go\<close>), tasks (\<open>task.go\<close>) and audit events (\<open>audit.go\<close>), with their methods.
  SHA-256 (\<open>HashAPIKeySecret\<close>) is the argument \<open>hash\<close> and a generated UUID is an
  argument of the constructor that draws it.
\<close>

type_synonym hash_fun = "string \<Rightarrow> string"

section \<open>Machines\<close>

record machine =
  m_ID :: string
  m_SessionID :: string
  m_SDKVersion :: string
  m_SDKLanguage :: string
  m_IP :: string
  m_CreatedAt :: time
  m_LastPingAt :: time
  m_TokenHash :: string
  m_Token :: string
  m_Draining :: bool

definition NewMachine ::
  "hash_fun \<Rightarrow> string \<Rightarrow> string \<Rightarrow> time \<Rightarrow> string \<Rightarrow> string \<Rightarrow> string \<Rightarrow> string \<Rightarrow> string \<Rightarrow> machine" where
  "NewMachine hash uuid1 uuid2 now sessionID machineID sdkVersion sdkLanguage ip =
     (let mid = (if machineID = '''' then uuid1 else machineID);
          token = ''toolplane_machine_'' @ uuid2
      in \<lparr> m_ID = mid, m_SessionID = sessionID, m_SDKVersion = sdkVersion,
           m_SDKLanguage = sdkLanguage, m_IP = ip, m_CreatedAt = now, m_LastPingAt = now,
           m_TokenHash = hash token, m_Token = token, m_Draining = False \<rparr>)"

definition MatchesMachineToken :: "hash_fun \<Rightarrow> string \<Rightarrow> machine \<Rightarrow> bool" where
  "MatchesMachineToken hash token m =
     (if m_TokenHash m = '''' \<or> token = '''' then False else hash token = m_TokenHash m)"

definition machine_UpdatePing :: "time \<Rightarrow> machine \<Rightarrow> machine" where
  "machine_UpdatePing now m = m\<lparr> m_LastPingAt := now \<rparr>"

text \<open>A minted machine authenticates with exactly the token it was returned with.\<close>

lemma NewMachine_matches:
  "hash (''toolplane_machine_'' @ u2) \<noteq> '''' \<Longrightarrow>
   MatchesMachineToken hash (m_Token (NewMachine hash u1 u2 now s mid v l ip))
     (NewMachine hash u1 u2 now s mid v l ip)"
  by (simp add: MatchesMachineToken_def NewMachine_def Let_def)

section \<open>Tools\<close>

record tool =
  tl_ID :: string
  tl_MachineID :: string
  tl_SessionID :: string
  tl_Name :: string
  tl_Description :: string
  tl_Schema :: string
  tl_Config :: "go_value gomap"
  tl_Tags :: "string list"
  tl_CreatedAt :: time
  tl_LastPingAt :: time

definition NewTool ::
  "string \<Rightarrow> time \<Rightarrow> string \<Rightarrow> string \<Rightarrow> string \<Rightarrow> string \<Rightarrow> string \<Rightarrow> go_value gomap \<Rightarrow> string list \<Rightarrow> tool" where
  "NewTool uuid now sessionID machineID name description schema config tags =
     \<lparr> tl_ID = uuid, tl_MachineID = machineID, tl_SessionID = sessionID, tl_Name = name,
       tl_Description = description, tl_Schema = schema, tl_Config = config, tl_Tags = tags,
       tl_CreatedAt = now, tl_LastPingAt = now \<rparr>"

definition tool_UpdatePing :: "time \<Rightarrow> tool \<Rightarrow> tool" where
  "tool_UpdatePing now t = t\<lparr> tl_LastPingAt := now \<rparr>"

section \<open>Sessions and API keys\<close>

record session =
  ss_ID :: string
  ss_Name :: string
  ss_Description :: string
  ss_Namespace :: string
  ss_CreatedAt :: time
  ss_CreatedBy :: string

definition NewSession :: "string \<Rightarrow> time \<Rightarrow> string \<Rightarrow> string \<Rightarrow> string \<Rightarrow> string \<Rightarrow> session" where
  "NewSession uuid now name description createdBy namespace =
     \<lparr> ss_ID = uuid, ss_Name = name, ss_Description = description, ss_Namespace = namespace,
       ss_CreatedAt = now, ss_CreatedBy = createdBy \<rparr>"

text \<open>Capabilities are strings in the code; these are the named ones.\<close>

type_synonym capability = string

abbreviation CapRead :: capability where "CapRead \<equiv> ''read''"
abbreviation CapInvoke :: capability where "CapInvoke \<equiv> ''invoke''"
abbreviation CapProvide :: capability where "CapProvide \<equiv> ''provide''"
abbreviation CapAdmin :: capability where "CapAdmin \<equiv> ''admin''"
abbreviation CapExecute :: capability where "CapExecute \<equiv> ''execute''"

definition apiKeyCapabilityOrder :: "capability list" where
  "apiKeyCapabilityOrder = [CapRead, CapInvoke, CapProvide, CapAdmin]"

definition DefaultAPIKeyCapabilities :: "capability list" where
  "DefaultAPIKeyCapabilities = apiKeyCapabilityOrder"

record api_key =
  k_ID :: string
  k_Name :: string
  k_Key :: string
  k_KeyHash :: string
  k_KeyPreview :: string
  k_SessionID :: string
  k_CreatedAt :: time
  k_CreatedBy :: string
  k_Capabilities :: "capability list"
  k_AllowedTools :: "string list"
  k_RevokedAt :: "time option"
  k_PlaintextPersisted :: bool

definition generateApiKey :: "string \<Rightarrow> string" where
  "generateApiKey uuid = ''toolplane_key_'' @ uuid"

definition BuildAPIKeyPreview :: "string \<Rightarrow> string" where
  "BuildAPIKeyPreview secret =
     (if secret = '''' then ''''
      else if length secret \<le> 8 then ''****''
      else ''***'' @ drop (length secret - 8) secret)"

definition NewApiKey ::
  "hash_fun \<Rightarrow> string \<Rightarrow> string \<Rightarrow> time \<Rightarrow> string \<Rightarrow> string \<Rightarrow> string \<Rightarrow> capability list \<Rightarrow> api_key" where
  "NewApiKey hash uuid1 uuid2 now name sessionID createdBy capabilities =
     (let key = generateApiKey uuid1
      in \<lparr> k_ID = uuid2, k_Name = name, k_Key = key, k_KeyHash = hash key,
           k_KeyPreview = BuildAPIKeyPreview key, k_SessionID = sessionID, k_CreatedAt = now,
           k_CreatedBy = createdBy, k_Capabilities = capabilities, k_AllowedTools = [],
           k_RevokedAt = None, k_PlaintextPersisted = False \<rparr>)"

text \<open>The four repairs of \<open>EnsureSecurityMetadata\<close>, one per \<open>if\<close>; each reports whether it
  changed the key.\<close>

definition ensure_caps :: "api_key \<Rightarrow> api_key \<times> bool" where
  "ensure_caps k = (if k_Capabilities k = []
     then (k\<lparr> k_Capabilities := DefaultAPIKeyCapabilities \<rparr>, True) else (k, False))"

definition ensure_hash :: "hash_fun \<Rightarrow> api_key \<Rightarrow> api_key \<times> bool" where
  "ensure_hash hash k = (if k_Key k \<noteq> '''' \<and> k_KeyHash k = ''''
     then (k\<lparr> k_KeyHash := hash (k_Key k) \<rparr>, True) else (k, False))"

definition ensure_preview :: "api_key \<Rightarrow> api_key \<times> bool" where
  "ensure_preview k = (if k_Key k \<noteq> '''' \<and> k_KeyPreview k = ''''
     then (k\<lparr> k_KeyPreview := BuildAPIKeyPreview (k_Key k) \<rparr>, True) else (k, False))"

definition ensure_plaintext :: "api_key \<Rightarrow> api_key \<times> bool" where
  "ensure_plaintext k = (if k_KeyHash k \<noteq> '''' \<and> k_PlaintextPersisted k
     then (k\<lparr> k_PlaintextPersisted := False \<rparr>, True) else (k, False))"

definition EnsureSecurityMetadata :: "hash_fun \<Rightarrow> api_key \<Rightarrow> api_key \<times> bool" where
  "EnsureSecurityMetadata hash k =
     (let (k1, c1) = ensure_caps k;
          (k2, c2) = ensure_hash hash k1;
          (k3, c3) = ensure_preview k2;
          (k4, c4) = ensure_plaintext k3
      in (k4, c1 \<or> c2 \<or> c3 \<or> c4))"

definition key_Matches :: "hash_fun \<Rightarrow> string \<Rightarrow> api_key \<Rightarrow> bool" where
  "key_Matches hash secret k =
     (if secret = '''' then False
      else if k_KeyHash k \<noteq> '''' then hash secret = k_KeyHash k
      else if k_Key k = '''' then False
      else secret = k_Key k)"

definition CloneWithoutSecret :: "api_key \<Rightarrow> api_key" where
  "CloneWithoutSecret k = k\<lparr> k_Key := '''', k_PlaintextPersisted := False \<rparr>"

definition key_HasCapability :: "capability \<Rightarrow> api_key \<Rightarrow> bool" where
  "key_HasCapability required k \<longleftrightarrow> required \<in> set (k_Capabilities k)"

definition IsRevoked :: "api_key \<Rightarrow> bool" where
  "IsRevoked k \<longleftrightarrow> k_RevokedAt k \<noteq> None"

definition Revoke :: "time \<Rightarrow> api_key \<Rightarrow> api_key" where
  "Revoke now k = k\<lparr> k_RevokedAt := Some now \<rparr>"

text \<open>After one pass nothing is left to repair.\<close>

lemma ensure_caps_fields [simp]:
  "k_Capabilities (fst (ensure_caps k)) \<noteq> []" "k_Key (fst (ensure_caps k)) = k_Key k"
  "k_KeyHash (fst (ensure_caps k)) = k_KeyHash k"
  by (simp_all add: ensure_caps_def DefaultAPIKeyCapabilities_def apiKeyCapabilityOrder_def)

lemma ensure_hash_fields [simp]:
  "k_Capabilities (fst (ensure_hash h k)) = k_Capabilities k"
  "k_Key (fst (ensure_hash h k)) = k_Key k"
  "k_KeyHash (fst (ensure_hash h k)) =
     (if k_Key k \<noteq> '''' \<and> k_KeyHash k = '''' then h (k_Key k) else k_KeyHash k)"
  by (simp_all add: ensure_hash_def)

lemma ensure_preview_fields [simp]:
  "k_Capabilities (fst (ensure_preview k)) = k_Capabilities k"
  "k_Key (fst (ensure_preview k)) = k_Key k" "k_KeyHash (fst (ensure_preview k)) = k_KeyHash k"
  "k_Key k \<noteq> '''' \<Longrightarrow> k_KeyPreview (fst (ensure_preview k)) \<noteq> ''''"
  by (simp_all add: ensure_preview_def BuildAPIKeyPreview_def)

lemma ensure_plaintext_fields [simp]:
  "k_Capabilities (fst (ensure_plaintext k)) = k_Capabilities k"
  "k_Key (fst (ensure_plaintext k)) = k_Key k" "k_KeyHash (fst (ensure_plaintext k)) = k_KeyHash k"
  "k_KeyPreview (fst (ensure_plaintext k)) = k_KeyPreview k"
  "k_KeyHash k \<noteq> '''' \<Longrightarrow> \<not> k_PlaintextPersisted (fst (ensure_plaintext k))"
  by (simp_all add: ensure_plaintext_def)

lemma EnsureSecurityMetadata_fst:
  "fst (EnsureSecurityMetadata h k) =
     fst (ensure_plaintext (fst (ensure_preview (fst (ensure_hash h (fst (ensure_caps k)))))))"
  by (simp add: EnsureSecurityMetadata_def Let_def split: prod.split)

lemma EnsureSecurityMetadata_stable:
  assumes "k_Capabilities k \<noteq> []" "k_Key k \<noteq> '''' \<Longrightarrow> k_KeyHash k \<noteq> ''''"
    "k_Key k \<noteq> '''' \<Longrightarrow> k_KeyPreview k \<noteq> ''''" "k_KeyHash k = '''' \<or> \<not> k_PlaintextPersisted k"
  shows "EnsureSecurityMetadata h k = (k, False)"
  using assms by (auto simp: EnsureSecurityMetadata_def ensure_caps_def ensure_hash_def
      ensure_preview_def ensure_plaintext_def)

lemma EnsureSecurityMetadata_idem:
  assumes "k_Key k \<noteq> '''' \<Longrightarrow> h (k_Key k) \<noteq> ''''"
  shows "EnsureSecurityMetadata h (fst (EnsureSecurityMetadata h k))
           = (fst (EnsureSecurityMetadata h k), False)"
  by (rule EnsureSecurityMetadata_stable)
    (use assms in \<open>auto simp: EnsureSecurityMetadata_fst\<close>)

section \<open>Tasks\<close>

datatype task_status = TPending | TRunning | TCompleted | TFailed | TCancelled

record task =
  tk_ID :: string
  tk_SessionID :: string
  tk_ToolName :: string
  tk_Input :: string
  tk_Status :: task_status
  tk_Result :: string
  tk_ResultType :: string
  tk_Error :: string
  tk_CreatedAt :: time
  tk_UpdatedAt :: time
  tk_CompletedAt :: "time option"
  tk_Attempts :: int
  tk_MaxAttempts :: int
  tk_TimeoutSeconds :: int
  tk_BackoffSeconds :: int
  tk_NextAttemptAt :: "time option"
  tk_DeadLetter :: bool
  tk_LastError :: string
  tk_CurrentRequestID :: string
  tk_IdempotencyKey :: string

definition defaultTaskMaxAttempts :: int where "defaultTaskMaxAttempts = 3"
definition defaultTaskTimeoutSeconds :: int where "defaultTaskTimeoutSeconds = 60"
definition defaultTaskBackoffSeconds :: int where "defaultTaskBackoffSeconds = 5"

definition NewTask :: "string \<Rightarrow> time \<Rightarrow> string \<Rightarrow> string \<Rightarrow> string \<Rightarrow> task" where
  "NewTask uuid now sessionID toolName input =
     \<lparr> tk_ID = uuid, tk_SessionID = sessionID, tk_ToolName = toolName, tk_Input = input,
       tk_Status = TPending, tk_Result = '''', tk_ResultType = '''', tk_Error = '''',
       tk_CreatedAt = now, tk_UpdatedAt = now, tk_CompletedAt = None, tk_Attempts = 0,
       tk_MaxAttempts = defaultTaskMaxAttempts, tk_TimeoutSeconds = defaultTaskTimeoutSeconds,
       tk_BackoffSeconds = defaultTaskBackoffSeconds, tk_NextAttemptAt = None,
       tk_DeadLetter = False, tk_LastError = '''', tk_CurrentRequestID = '''',
       tk_IdempotencyKey = '''' \<rparr>"

definition task_ScheduleRetry :: "time \<Rightarrow> task \<Rightarrow> task \<times> time" where
  "task_ScheduleRetry now t =
     (let attempts = wrap64 (tk_Attempts t + 1);
          nxt = now + seconds (wrap64 (tk_BackoffSeconds t * attempts))
      in (t\<lparr> tk_Attempts := attempts, tk_NextAttemptAt := Some nxt, tk_UpdatedAt := now \<rparr>, nxt))"

definition task_MarkDeadLetter :: "time \<Rightarrow> string \<Rightarrow> task \<Rightarrow> task" where
  "task_MarkDeadLetter now errMsg t =
     t\<lparr> tk_Status := TFailed, tk_DeadLetter := True, tk_LastError := errMsg, tk_UpdatedAt := now \<rparr>"

text \<open>The \<open>switch\<close> over completed, failed and cancelled that every task path repeats.\<close>

definition task_terminal :: "task \<Rightarrow> bool" where
  "task_terminal t \<longleftrightarrow> tk_Status t = TCompleted \<or> tk_Status t = TFailed \<or> tk_Status t = TCancelled"

section \<open>Audit events\<close>

record audit_event =
  a_ID :: int
  a_CreatedAt :: time
  a_Event :: string
  a_SessionID :: string
  a_MachineID :: string
  a_RequestID :: string
  a_TaskID :: string
  a_ActorKeyID :: string
  a_Details :: "go_value gomap option"

record audit_filter =
  f_SessionID :: string
  f_ActorKeyID :: string
  f_Event :: string
  f_Limit :: int
  f_Offset :: int

end
