(* ===== verification/Mem_Store.thy ===== *)
theory Mem_Store
  imports Entity_Model
begin

text \<open>
  The request half of the in-memory store (\<open>pkg/storage/memory/memory_store.go\<close>,
  \<open>memory_fenced.go\<close>) and the lease fence it shares with the Postgres store
  (\<open>CheckLeaseFence\<close>, \<open>requests_fenced.go\<close>).  Every method runs under the store mutex, so
  an operation is one function from store to store; \<open>now\<close> is its clock reading.  A
  returned clone is the value of the row.
\<close>

record store =
  st_requests :: "request gomap"
  st_machines :: "machine gomap"
  st_tasks :: "task gomap"
  st_taskOwners :: "string gomap"
  st_tools :: "tool gomap"
  st_sessions :: "session gomap"
  st_apiKeys :: "api_key gomap"
  st_userSess :: "unit gomap gomap"
  st_machineTools :: "unit gomap gomap"
  st_draining :: "unit gomap"
  st_auditLog :: "audit_event list"
  st_auditNextID :: int

definition mem_New :: store where
  "mem_New = \<lparr> st_requests = [], st_machines = [], st_tasks = [], st_taskOwners = [],
     st_tools = [], st_sessions = [], st_apiKeys = [], st_userSess = [], st_machineTools = [],
     st_draining = [], st_auditLog = [], st_auditNextID = 0 \<rparr>"

definition upd_request :: "string \<Rightarrow> request \<Rightarrow> store \<Rightarrow> store" where
  "upd_request rid r s = s\<lparr> st_requests := gm_put rid r (st_requests s) \<rparr>"

definition MaxPendingRequestsPerSession :: int where "MaxPendingRequestsPerSession = 512"

section \<open>Reads and creation\<close>

definition mem_AllRequests :: "store \<Rightarrow> request list" where
  "mem_AllRequests s = gm_vals (st_requests s)"

definition mem_GetRequest :: "string \<Rightarrow> store \<Rightarrow> request option" where
  "mem_GetRequest requestID s = gm_get (st_requests s) requestID"

definition mem_GetRequestByIdempotencyKey :: "string \<Rightarrow> string \<Rightarrow> store \<Rightarrow> request option" where
  "mem_GetRequestByIdempotencyKey sessionID idempotencyKey s =
     (if idempotencyKey = '''' then None
      else List.find (\<lambda>r. r_SessionID r = sessionID \<and> r_IdempotencyKey r = idempotencyKey)
             (gm_vals (st_requests s)))"

text \<open>\<open>ListRequestsBySession\<close> sorts by creation time; among equal times the outcome of
  \<open>sort.Slice\<close> depends on the iteration order, as it does here.\<close>

definition mem_ListRequestsBySession :: "string \<Rightarrow> store \<Rightarrow> request list" where
  "mem_ListRequestsBySession sessionID s =
     sort_key r_CreatedAt (filter (\<lambda>r. r_SessionID r = sessionID) (gm_vals (st_requests s)))"

text \<open>The loop of \<open>GetRequestChunksByRequest\<close> over the retained chunks from index \<open>i\<close>.\<close>

fun chunks_between :: "int \<Rightarrow> int \<Rightarrow> int \<Rightarrow> nat \<Rightarrow> string list \<Rightarrow> string list" where
  "chunks_between fullStart startSeq nextSeq i [] = []"
| "chunks_between fullStart startSeq nextSeq i (c # cs) =
     (let seq = wrap32 (fullStart + wrap32 (int i));
          rest = chunks_between fullStart startSeq nextSeq (Suc i) cs
      in if seq < startSeq \<or> seq \<ge> nextSeq then rest else c # rest)"

definition mem_GetRequestChunksByRequest ::
  "string \<Rightarrow> int \<Rightarrow> int \<Rightarrow> store \<Rightarrow> store \<times> chunk_window" where
  "mem_GetRequestChunksByRequest requestID startSeq0 nextSeq0 s =
     (case gm_get (st_requests s) requestID of
        None \<Rightarrow> (s, \<lparr> w_StartSeq = startSeq0, w_NextSeq = nextSeq0, w_Chunks = [] \<rparr>)
      | Some r0 \<Rightarrow>
          (let r = EnsureStreamSequenceDefaults r0;
               full = StreamChunkWindow r;
               startSeq = (if startSeq0 < w_StartSeq full then w_StartSeq full else startSeq0);
               nextSeq = (if nextSeq0 > w_NextSeq full then w_NextSeq full else nextSeq0)
           in (upd_request requestID r s,
               \<lparr> w_StartSeq = startSeq, w_NextSeq = nextSeq,
                 w_Chunks = chunks_between (w_StartSeq full) startSeq nextSeq 0 (w_Chunks full) \<rparr>)))"

definition mem_SaveRequest :: "request \<Rightarrow> store \<Rightarrow> store" where
  "mem_SaveRequest req s = upd_request (r_ID req) req s"

definition pending_live :: "request \<Rightarrow> bool" where
  "pending_live r \<longleftrightarrow> r_Status r = Pending \<and> \<not> r_DeadLetter r"

definition session_pending :: "string \<Rightarrow> store \<Rightarrow> int" where
  "session_pending sessionID s =
     int (length (filter (\<lambda>r. r_SessionID r = sessionID \<and> pending_live r) (gm_vals (st_requests s))))"

definition mem_InsertRequest :: "request \<Rightarrow> store \<Rightarrow> store \<times> unit st_result" where
  "mem_InsertRequest req s =
     (if gm_get (st_requests s) (r_ID req) \<noteq> None then (s, Inl StErrRequestExists)
      else if r_IdempotencyKey req \<noteq> '''' \<and>
              list_ex (\<lambda>e. r_SessionID e = r_SessionID req \<and> r_IdempotencyKey e = r_IdempotencyKey req)
                (gm_vals (st_requests s))
           then (s, Inl StErrRequestExists)
      else if session_pending (r_SessionID req) s \<ge> MaxPendingRequestsPerSession
           then (s, Inl StErrTooManyPendingRequests)
      else (upd_request (r_ID req) req s, Inr ()))"

definition mem_CountPendingRequests :: "store \<Rightarrow> int" where
  "mem_CountPendingRequests s = int (length (filter pending_live (gm_vals (st_requests s))))"

section \<open>Claiming\<close>

definition machineProvidesToolLocked :: "string \<Rightarrow> string \<Rightarrow> string \<Rightarrow> store \<Rightarrow> bool" where
  "machineProvidesToolLocked sessionID machineID toolName s =
     list_ex (\<lambda>t. tl_SessionID t = sessionID \<and> tl_MachineID t = machineID \<and> tl_Name t = toolName)
       (gm_vals (st_tools s))"

text \<open>The block of assignments both claim paths end with: a fresh lease grant.\<close>

definition grant_lease :: "time \<Rightarrow> duration \<Rightarrow> string \<Rightarrow> request \<Rightarrow> request" where
  "grant_lease now leaseDuration machineID r =
     r\<lparr> r_Status := Claimed, r_ExecutingMachineID := machineID,
        r_Attempts := wrap64 (r_Attempts r + 1), r_LeaseEpoch := wrap64 (r_LeaseEpoch r + 1),
        r_VisibleAt := now + leaseDuration, r_LeasedBy := machineID, r_LeasedAt := Some now,
        r_NextAttemptAt := None, r_LastError := '''', r_UpdatedAt := now \<rparr>"

text \<open>The guards shared by both claim paths: pending, not dead-lettered, backoff elapsed,
  attempts left.\<close>

definition backoff_pending :: "time \<Rightarrow> request \<Rightarrow> bool" where
  "backoff_pending now r \<longleftrightarrow> r_VisibleAt r \<noteq> zero_time \<and> r_VisibleAt r > now"

definition attempts_exhausted :: "request \<Rightarrow> bool" where
  "attempts_exhausted r \<longleftrightarrow> r_MaxAttempts r > 0 \<and> r_Attempts r \<ge> r_MaxAttempts r"

definition owned_tools :: "string \<Rightarrow> string \<Rightarrow> store \<Rightarrow> string list" where
  "owned_tools sessionID machineID s =
     (if machineID = '''' then []
      else map tl_Name (filter (\<lambda>t. tl_SessionID t = sessionID \<and> tl_MachineID t = machineID)
             (gm_vals (st_tools s))))"

definition lease_eligible ::
  "time \<Rightarrow> string \<Rightarrow> string list \<Rightarrow> string list \<Rightarrow> request \<Rightarrow> bool" where
  "lease_eligible now sessionID owned toolNames r \<longleftrightarrow>
     r_SessionID r = sessionID \<and> r_Status r = Pending \<and> \<not> r_DeadLetter r
     \<and> \<not> attempts_exhausted r \<and> \<not> backoff_pending now r
     \<and> r_ToolName r \<in> set owned \<and> (toolNames = [] \<or> r_ToolName r \<in> set toolNames)"

text \<open>The scan for the oldest eligible request.\<close>

fun pick_oldest :: "(request \<Rightarrow> bool) \<Rightarrow> request option \<Rightarrow> request list \<Rightarrow> request option" where
  "pick_oldest P pick [] = pick"
| "pick_oldest P pick (r # rs) =
     (if \<not> P r then pick_oldest P pick rs
      else case pick of
             None \<Rightarrow> pick_oldest P (Some r) rs
           | Some p \<Rightarrow> if r_CreatedAt r < r_CreatedAt p then pick_oldest P (Some r) rs
                       else pick_oldest P pick rs)"

definition mem_LeasePendingRequest ::
  "time \<Rightarrow> string \<Rightarrow> string \<Rightarrow> string list \<Rightarrow> duration \<Rightarrow> store \<Rightarrow> store \<times> request option" where
  "mem_LeasePendingRequest now sessionID machineID toolNames leaseDuration s =
     (let owned = owned_tools sessionID machineID s
      in case pick_oldest (lease_eligible now sessionID owned toolNames) None
                (gm_vals (st_requests s)) of
           None \<Rightarrow> (s, None)
         | Some r \<Rightarrow> (let r' = grant_lease now leaseDuration machineID r
                     in (upd_request (r_ID r) r' s, Some r')))"

text \<open>\<open>ClaimRequest\<close>: \<open>Inr None\<close> is the \<open>(nil, false, nil)\<close> outcome.\<close>

definition mem_ClaimRequest ::
  "time \<Rightarrow> string \<Rightarrow> string \<Rightarrow> string \<Rightarrow> duration \<Rightarrow> store \<Rightarrow> store \<times> request option st_result" where
  "mem_ClaimRequest now sessionID requestID machineID leaseDuration s =
     (case gm_get (st_requests s) requestID of
        None \<Rightarrow> (s, Inr None)
      | Some r \<Rightarrow>
          if r_SessionID r \<noteq> sessionID \<or> r_Status r \<noteq> Pending \<or> r_DeadLetter r then (s, Inr None)
          else if backoff_pending now r then (s, Inr None)
          else if attempts_exhausted r then (s, Inr None)
          else if machineID = '''' \<or> \<not> machineProvidesToolLocked sessionID machineID (r_ToolName r) s
               then (s, Inl StErrMachineNotToolOwner)
          else let r' = grant_lease now leaseDuration machineID r
               in (upd_request requestID r' s, Inr (Some r')))"

section \<open>Expiry\<close>

fun find_expired :: "time \<Rightarrow> int \<Rightarrow> request list \<Rightarrow> request list \<Rightarrow> request list" where
  "find_expired now limit out [] = out"
| "find_expired now limit out (r # rs) =
     (if r_DeadLetter r \<or> r_LeasedAt r = None then find_expired now limit out rs
      else let out' = (if LeaseExpired now r \<or> HasTimedOut now r then out @ [r] else out)
           in if limit > 0 \<and> int (length out') \<ge> limit then out'
              else find_expired now limit out' rs)"

definition mem_FindExpiredRequests :: "time \<Rightarrow> int \<Rightarrow> store \<Rightarrow> request list" where
  "mem_FindExpiredRequests now limit s = find_expired now limit [] (gm_vals (st_requests s))"

definition reclaim_row :: "time \<Rightarrow> int \<Rightarrow> duration \<Rightarrow> request \<Rightarrow> request" where
  "reclaim_row now maxAttempts backoff r =
     (let r1 = r\<lparr> r_ExecutingMachineID := '''', r_LeasedBy := '''', r_LeasedAt := None,
                  r_NextAttemptAt := None, r_UpdatedAt := now \<rparr>
      in if maxAttempts > 0 \<and> r_Attempts r \<ge> maxAttempts
         then r1\<lparr> r_DeadLetter := True, r_Status := Failed,
                  r_LastError := ''request timed out: max attempts reached'',
                  r_Error := ''request timed out: max attempts reached'', r_VisibleAt := now \<rparr>
         else r1\<lparr> r_Status := Pending, r_LastError := ''request lease expired'',
                  r_VisibleAt := now + backoff, r_NextAttemptAt := Some (now + backoff) \<rparr>)"

text \<open>The lease duration is an argument of the method the body never reads.\<close>

definition mem_ReclaimExpiredRequest ::
  "string \<Rightarrow> time \<Rightarrow> duration \<Rightarrow> int \<Rightarrow> duration \<Rightarrow> store \<Rightarrow> store \<times> request option" where
  "mem_ReclaimExpiredRequest requestID now leaseDuration maxAttempts backoff s =
     (case gm_get (st_requests s) requestID of
        None \<Rightarrow> (s, None)
      | Some r \<Rightarrow>
          if r_Status r \<noteq> Claimed \<and> r_Status r \<noteq> Running then (s, None)
          else if \<not> LeaseExpired now r \<and> \<not> HasTimedOut now r then (s, None)
          else let r' = reclaim_row now maxAttempts backoff r
               in (upd_request requestID r' s, Some r'))"

definition mem_MachineInFlightCount :: "string \<Rightarrow> string \<Rightarrow> store \<Rightarrow> int" where
  "mem_MachineInFlightCount sessionID machineID s =
     int (length (filter (\<lambda>r. r_ExecutingMachineID r = machineID \<and> r_SessionID r = sessionID
             \<and> (r_Status r = Claimed \<or> r_Status r = Running)) (gm_vals (st_requests s))))"

text \<open>The retention sweep; rows are keyed by their own id.\<close>

definition sweepable :: "time \<Rightarrow> request \<Rightarrow> bool" where
  "sweepable cutoff r \<longleftrightarrow> (r_Status r = Done \<or> r_Status r = Failed) \<and> r_UpdatedAt r < cutoff"

definition mem_DeleteTerminalRequestsBefore :: "time \<Rightarrow> store \<Rightarrow> store \<times> int" where
  "mem_DeleteTerminalRequestsBefore cutoff s =
     (s\<lparr> st_requests := gm_prune (sweepable cutoff) (st_requests s) \<rparr>,
      int (length (filter (sweepable cutoff) (gm_vals (st_requests s)))))"

section \<open>Fenced writes\<close>

definition CheckLeaseFence :: "request \<Rightarrow> string \<Rightarrow> int \<Rightarrow> storage_error option" where
  "CheckLeaseFence req machineID leaseEpoch =
     (if r_LeaseEpoch req \<noteq> leaseEpoch then Some StErrLeaseConflict
      else if r_Status req = Done \<or> r_Status req = Failed then None
      else if r_LeasedBy req \<noteq> machineID then Some StErrLeaseConflict
      else None)"

definition lookupFenced :: "string \<Rightarrow> string \<Rightarrow> store \<Rightarrow> request st_result" where
  "lookupFenced sessionID requestID s =
     (case gm_get (st_requests s) requestID of
        None \<Rightarrow> Inl StErrNotFound
      | Some r \<Rightarrow> if r_SessionID r \<noteq> sessionID then Inl StErrNotFound else Inr r)"

definition renew_row :: "time \<Rightarrow> duration \<Rightarrow> request \<Rightarrow> request st_result" where
  "renew_row now leaseDuration req =
     (if \<not> r_VisibleAt req > now then Inl StErrLeaseConflict
      else let new0 = now + leaseDuration;
               newVisible = (case r_LeasedAt req of None \<Rightarrow> new0
                  | Some t \<Rightarrow> (let absoluteDeadline = t + seconds (r_TimeoutSeconds req)
                              in if new0 > absoluteDeadline then absoluteDeadline else new0))
           in if \<not> newVisible > now then Inl StErrLeaseConflict
              else Inr (req\<lparr> r_VisibleAt := newVisible, r_UpdatedAt := now \<rparr>))"

definition mem_RenewRequestLease ::
  "time \<Rightarrow> string \<Rightarrow> string \<Rightarrow> string \<Rightarrow> int \<Rightarrow> duration \<Rightarrow> store \<Rightarrow> store \<times> request st_result" where
  "mem_RenewRequestLease now sessionID requestID machineID leaseEpoch leaseDuration s =
     (case lookupFenced sessionID requestID s of
        Inl e \<Rightarrow> (s, Inl e)
      | Inr req \<Rightarrow>
          if r_Status req \<noteq> Claimed \<and> r_Status req \<noteq> Running then (s, Inl StErrLeaseConflict)
          else case CheckLeaseFence req machineID leaseEpoch of
                 Some e \<Rightarrow> (s, Inl e)
               | None \<Rightarrow>
                   (case renew_row now leaseDuration req of
                      Inl e \<Rightarrow> (s, Inl e)
                    | Inr req' \<Rightarrow> (upd_request requestID req' s, Inr req')))"

text \<open>The error text of a rejection: the \<open>"error"\<close> string of a generic JSON object.\<close>

definition rejection_message :: "string \<Rightarrow> go_value \<Rightarrow> string" where
  "rejection_message resultType result =
     (if resultType = ResultTypeRejection
      then (case result of
              VMap m \<Rightarrow> (case map_of m ''error'' of Some (VString msg) \<Rightarrow> msg | _ \<Rightarrow> '''')
            | _ \<Rightarrow> '''')
      else '''')"

definition merge_meta :: "string gomap option \<Rightarrow> request \<Rightarrow> request" where
  "merge_meta meta req =
     (case meta of None \<Rightarrow> req
      | Some kvs \<Rightarrow>
          (let base = (case r_Meta req of None \<Rightarrow> [] | Some m \<Rightarrow> m)
           in req\<lparr> r_Meta := Some (foldl (\<lambda>m (k, v). gm_put k v m) base kvs) \<rparr>))"

definition submit_row ::
  "time \<Rightarrow> go_value \<Rightarrow> string \<Rightarrow> string gomap option \<Rightarrow> request \<Rightarrow> request" where
  "submit_row now result resultType meta req =
     (let errorMsg = rejection_message resultType result;
          req1 = SetResult now result resultType errorMsg (merge_meta meta req)
      in req1\<lparr> r_LastError := (if resultType = ResultTypeRejection then errorMsg else ''''),
               r_DeadLetter := False \<rparr>)"

definition mem_SubmitRequestResultFenced ::
  "time \<Rightarrow> string \<Rightarrow> string \<Rightarrow> string \<Rightarrow> int \<Rightarrow> go_value \<Rightarrow> string \<Rightarrow> string gomap option
     \<Rightarrow> store \<Rightarrow> store \<times> request st_result" where
  "mem_SubmitRequestResultFenced now sessionID requestID machineID leaseEpoch result resultType meta s =
     (case lookupFenced sessionID requestID s of
        Inl e \<Rightarrow> (s, Inl e)
      | Inr req \<Rightarrow>
          (case CheckLeaseFence req machineID leaseEpoch of
             Some e \<Rightarrow> (s, Inl e)
           | None \<Rightarrow>
               if r_Status req = Done \<or> r_Status req = Failed
               then if resultType \<noteq> ResultTypeStreaming then (s, Inl StErrRequestTerminal)
                    else (case result of
                            VString str \<Rightarrow> (let req' = fst (AddStreamChunk now str req)
                                            in (upd_request requestID req' s, Inr req'))
                          | _ \<Rightarrow> (s, Inr req))
               else let req' = submit_row now result resultType meta req
                    in (upd_request requestID req' s, Inr req')))"

definition mem_AppendRequestChunksFenced ::
  "time \<Rightarrow> string \<Rightarrow> string \<Rightarrow> string \<Rightarrow> int \<Rightarrow> string list \<Rightarrow> store \<Rightarrow> store \<times> request st_result" where
  "mem_AppendRequestChunksFenced now sessionID requestID machineID leaseEpoch chunks s =
     (case lookupFenced sessionID requestID s of
        Inl e \<Rightarrow> (s, Inl e)
      | Inr req \<Rightarrow>
          (case CheckLeaseFence req machineID leaseEpoch of
             Some e \<Rightarrow> (s, Inl e)
           | None \<Rightarrow> (let req' = AddStreamChunks now chunks req
                     in (upd_request requestID req' s, Inr req'))))"

text \<open>\<open>status = None\<close> is the empty status string, \<open>VNil\<close> a nil result.\<close>

definition update_row ::
  "time \<Rightarrow> string \<Rightarrow> request_status option \<Rightarrow> go_value \<Rightarrow> string \<Rightarrow> duration \<Rightarrow> request \<Rightarrow> request" where
  "update_row now machineID status result resultType leaseDuration req =
     (let req1 =
        (case status of None \<Rightarrow> req
         | Some st \<Rightarrow>
             if st = r_Status req then req
             else (case st of
                 Running \<Rightarrow> req\<lparr> r_Status := st, r_ExecutingMachineID := machineID,
                    r_LeasedBy := machineID, r_LeasedAt := Some now,
                    r_VisibleAt := now + leaseDuration, r_NextAttemptAt := None,
                    r_Error := '''', r_LastError := '''' \<rparr>
               | Done \<Rightarrow> req\<lparr> r_Status := st, r_LeasedBy := '''', r_LeasedAt := None,
                    r_VisibleAt := now, r_NextAttemptAt := None \<rparr>
               | Failed \<Rightarrow> req\<lparr> r_Status := st,
                    r_LastError := (if r_Error req \<noteq> '''' then r_Error req else r_LastError req),
                    r_LeasedBy := '''', r_LeasedAt := None,
                    r_VisibleAt := now, r_NextAttemptAt := None \<rparr>
               | _ \<Rightarrow> req\<lparr> r_Status := st \<rparr>));
          req2 = (if result = VNil then req1 else req1\<lparr> r_Result := result \<rparr>);
          req3 = (if resultType = '''' then req2 else req2\<lparr> r_ResultType := resultType \<rparr>)
      in req3\<lparr> r_UpdatedAt := now \<rparr>)"

definition mem_UpdateRequestFenced ::
  "time \<Rightarrow> string \<Rightarrow> string \<Rightarrow> string \<Rightarrow> int \<Rightarrow> request_status option \<Rightarrow> go_value \<Rightarrow> string
     \<Rightarrow> duration \<Rightarrow> store \<Rightarrow> store \<times> request st_result" where
  "mem_UpdateRequestFenced now sessionID requestID machineID leaseEpoch status result resultType
     leaseDuration s =
     (case lookupFenced sessionID requestID s of
        Inl e \<Rightarrow> (s, Inl e)
      | Inr req \<Rightarrow>
          (case CheckLeaseFence req machineID leaseEpoch of
             Some e \<Rightarrow> (s, Inl e)
           | None \<Rightarrow>
               if r_Status req = Done \<or> r_Status req = Failed then (s, Inl StErrRequestTerminal)
               else let req' = update_row now machineID status result resultType leaseDuration req
                    in (upd_request requestID req' s, Inr req')))"

definition requeue_row :: "time \<Rightarrow> string \<Rightarrow> duration \<Rightarrow> request \<Rightarrow> request" where
  "requeue_row now reason backoff req =
     req\<lparr> r_Status := Pending, r_ExecutingMachineID := '''', r_LeasedBy := '''',
          r_LeasedAt := None, r_VisibleAt := now + backoff,
          r_NextAttemptAt := Some (now + backoff), r_Error := reason, r_LastError := reason,
          r_UpdatedAt := now \<rparr>"

definition mem_RequeueRequestFenced ::
  "time \<Rightarrow> string \<Rightarrow> string \<Rightarrow> string \<Rightarrow> int \<Rightarrow> string \<Rightarrow> duration \<Rightarrow> store \<Rightarrow> store \<times> request st_result" where
  "mem_RequeueRequestFenced now sessionID requestID machineID leaseEpoch reason backoff s =
     (case lookupFenced sessionID requestID s of
        Inl e \<Rightarrow> (s, Inl e)
      | Inr req \<Rightarrow>
          (case CheckLeaseFence req machineID leaseEpoch of
             Some e \<Rightarrow> (s, Inl e)
           | None \<Rightarrow> (let req' = requeue_row now reason backoff req
                     in (upd_request requestID req' s, Inr req'))))"

definition cancel_row :: "time \<Rightarrow> string \<Rightarrow> request \<Rightarrow> request" where
  "cancel_row now message req =
     (SetResult now (VStringMap [(''message'', ''Request was cancelled'')])
        ResultTypeRejection message req)
     \<lparr> r_Status := Cancelled, r_LastError := message, r_DeadLetter := True \<rparr>"

text \<open>The boolean tells whether this call cancelled the request.\<close>

definition mem_CancelRequestFenced ::
  "time \<Rightarrow> string \<Rightarrow> string \<Rightarrow> string \<Rightarrow> store \<Rightarrow> store \<times> (request \<times> bool) st_result" where
  "mem_CancelRequestFenced now sessionID requestID message s =
     (case lookupFenced sessionID requestID s of
        Inl e \<Rightarrow> (s, Inl e)
      | Inr req \<Rightarrow>
          if r_Status req = Done \<or> r_Status req = Failed \<or> r_Status req = Cancelled
          then (s, Inr (req, False))
          else let req' = cancel_row now message req
               in (upd_request requestID req' s, Inr (req', True)))"

end
