(* ===== verification/Fencing.thy ===== *)
theory Fencing
  imports Mem_Store
begin

text \<open>
  The fenced-write contract of \<open>storage.Storer\<close> as an interface, its discharge by the
  in-memory store, and the row-level facts of the claim, expiry and cancel paths.  The
  interface says what \<open>CheckLeaseFence\<close> is for: a write names the lease it was granted
  (machine and epoch), and a store refuses it, unchanged, when the row has moved on.
\<close>

section \<open>The contract\<close>

locale fenced_writes =
  fixes wr :: "'op \<Rightarrow> string \<Rightarrow> string \<Rightarrow> string \<Rightarrow> int \<Rightarrow> 's \<Rightarrow> 's \<times> ('e + 'r)"
    and row :: "string \<Rightarrow> 's \<Rightarrow> request option"
  assumes missing: "row rid s = None \<Longrightarrow> \<exists>err. wr w sess rid m e s = (s, Inl err)"
    and stale: "row rid s = Some r \<Longrightarrow> r_LeaseEpoch r \<noteq> e \<Longrightarrow>
      \<exists>err. wr w sess rid m e s = (s, Inl err)"
    and foreign: "row rid s = Some r \<Longrightarrow> r_Status r \<noteq> Done \<Longrightarrow> r_Status r \<noteq> Failed \<Longrightarrow>
      r_LeasedBy r \<noteq> m \<Longrightarrow> \<exists>err. wr w sess rid m e s = (s, Inl err)"
    and keeps_epoch: "row rid s = Some r \<Longrightarrow> wr w sess rid m e s = (t, res) \<Longrightarrow>
      \<exists>r'. row rid t = Some r' \<and> r_LeaseEpoch r' = r_LeaseEpoch r"
    and elsewhere: "wr w sess rid m e s = (t, res) \<Longrightarrow> rid' \<noteq> rid \<Longrightarrow> row rid' t = row rid' s"
begin

text \<open>A write that succeeds was made by the lease holder, or under the final lease of a
  finished request.\<close>

lemma success_holder:
  assumes "wr w sess rid m e s = (t, Inr x)"
  shows "\<exists>r. row rid s = Some r \<and> r_LeaseEpoch r = e
     \<and> (r_Status r = Done \<or> r_Status r = Failed \<or> r_LeasedBy r = m)"
proof (cases "row rid s")
  case None
  with assms missing [of rid s w sess m e] show ?thesis by auto
next
  case (Some r)
  with assms stale [OF Some, of e w sess m] foreign [OF Some, of m w sess e]
  show ?thesis by (cases "r_LeaseEpoch r = e") auto
qed

text \<open>Once the epoch of a row has passed \<open>e\<close>, writes under \<open>e\<close> change nothing.\<close>

lemma overtaken:
  assumes "row rid s = None \<or> (\<exists>r. row rid s = Some r \<and> e < r_LeaseEpoch r)"
  shows "\<exists>err. wr w sess rid m e s = (s, Inl err)"
  using assms missing [of rid s w sess m e] stale [of rid s _ e w sess m] by fastforce

end

section \<open>The in-memory store honours it\<close>

datatype fenced_op =
    FRenew time duration
  | FSubmit time go_value string "string gomap option"
  | FAppend time "string list"
  | FUpdate time "request_status option" go_value string duration
  | FRequeue time string duration

fun mem_write :: "fenced_op \<Rightarrow> string \<Rightarrow> string \<Rightarrow> string \<Rightarrow> int \<Rightarrow> store \<Rightarrow> store \<times> request st_result" where
  "mem_write (FRenew now d) sess rid m e s = mem_RenewRequestLease now sess rid m e d s"
| "mem_write (FSubmit now v rt meta) sess rid m e s =
     mem_SubmitRequestResultFenced now sess rid m e v rt meta s"
| "mem_write (FAppend now cs) sess rid m e s = mem_AppendRequestChunksFenced now sess rid m e cs s"
| "mem_write (FUpdate now st v rt d) sess rid m e s =
     mem_UpdateRequestFenced now sess rid m e st v rt d s"
| "mem_write (FRequeue now reason b) sess rid m e s =
     mem_RequeueRequestFenced now sess rid m e reason b s"

lemmas fenced_defs = mem_RenewRequestLease_def mem_SubmitRequestResultFenced_def
  mem_AppendRequestChunksFenced_def mem_UpdateRequestFenced_def mem_RequeueRequestFenced_def

lemma upd_request_get [simp]:
  "gm_get (st_requests (upd_request rid r s)) k = (if k = rid then Some r else gm_get (st_requests s) k)"
  by (simp add: upd_request_def)

lemma upd_request_frame [simp]:
  "st_tools (upd_request rid r s) = st_tools s" "st_machines (upd_request rid r s) = st_machines s"
  "st_tasks (upd_request rid r s) = st_tasks s" "st_draining (upd_request rid r s) = st_draining s"
  by (simp_all add: upd_request_def)

lemma fence_None [fence_simps]:
  "CheckLeaseFence r m e = None \<longleftrightarrow>
     r_LeaseEpoch r = e \<and> (r_Status r = Done \<or> r_Status r = Failed \<or> r_LeasedBy r = m)"
  by (simp add: CheckLeaseFence_def)

lemma fence_Some [fence_simps]:
  "CheckLeaseFence r m e = Some err \<longleftrightarrow> err = StErrLeaseConflict \<and>
     \<not> (r_LeaseEpoch r = e \<and> (r_Status r = Done \<or> r_Status r = Failed \<or> r_LeasedBy r = m))"
  by (auto simp: CheckLeaseFence_def)

lemma lookupFenced_Inr [fence_simps]:
  "lookupFenced sess rid s = Inr r \<longleftrightarrow>
     gm_get (st_requests s) rid = Some r \<and> r_SessionID r = sess"
  by (auto simp: lookupFenced_def split: option.splits)

lemma lookupFenced_Inl [fence_simps]:
  "lookupFenced sess rid s = Inl err \<longleftrightarrow> err = StErrNotFound \<and>
     (case gm_get (st_requests s) rid of None \<Rightarrow> True | Some r \<Rightarrow> r_SessionID r \<noteq> sess)"
  by (auto simp: lookupFenced_def split: option.splits)

text \<open>What a fenced write does to the row when the fence lets it through.\<close>

fun fenced_effect :: "fenced_op \<Rightarrow> string \<Rightarrow> request \<Rightarrow> request st_result" where
  "fenced_effect (FRenew now d) m r =
     (if r_Status r \<noteq> Claimed \<and> r_Status r \<noteq> Running then Inl StErrLeaseConflict
      else renew_row now d r)"
| "fenced_effect (FSubmit now v rt meta) m r =
     (if r_Status r = Done \<or> r_Status r = Failed
      then if rt \<noteq> ResultTypeStreaming then Inl StErrRequestTerminal
           else (case v of VString c \<Rightarrow> Inr (fst (AddStreamChunk now c r)) | _ \<Rightarrow> Inr r)
      else Inr (submit_row now v rt meta r))"
| "fenced_effect (FAppend now cs) m r = Inr (AddStreamChunks now cs r)"
| "fenced_effect (FUpdate now st v rt d) m r =
     (if r_Status r = Done \<or> r_Status r = Failed then Inl StErrRequestTerminal
      else Inr (update_row now m st v rt d r))"
| "fenced_effect (FRequeue now reason b) m r = Inr (requeue_row now reason b r)"

lemma gm_put_id: "gm_get m k = Some v \<Longrightarrow> gm_put k v m = m"
  by (induction m) (auto simp: gm_put_def gm_get_def split: if_splits)

lemma upd_request_id: "gm_get (st_requests s) rid = Some r \<Longrightarrow> upd_request rid r s = s"
  by (simp add: upd_request_def gm_put_id)

text \<open>Every fenced write is: find the row of the session, pass the fence, apply the effect;
  whatever is refused leaves the store as it was.\<close>

lemma mem_write_eq:
  "mem_write w sess rid m e s =
     (case gm_get (st_requests s) rid of
        None \<Rightarrow> (s, Inl StErrNotFound)
      | Some r \<Rightarrow>
          if r_SessionID r \<noteq> sess then (s, Inl StErrNotFound)
          else if \<not> (r_LeaseEpoch r = e \<and> (r_Status r = Done \<or> r_Status r = Failed \<or> r_LeasedBy r = m))
               then (s, Inl StErrLeaseConflict)
          else (case fenced_effect w m r of
                  Inl err \<Rightarrow> (s, Inl err)
                | Inr r' \<Rightarrow> (upd_request rid r' s, Inr r')))"
  by (cases w)
    (auto simp: fenced_defs lookupFenced_def CheckLeaseFence_def Let_def upd_request_id
       split: option.splits sum.splits go_value.splits if_splits)

text \<open>No fenced write touches the epoch, the attempt count or the identity of a row.\<close>

definition same_grant :: "request \<Rightarrow> request \<Rightarrow> bool" where
  "same_grant r r' \<longleftrightarrow> r_ID r' = r_ID r \<and> r_SessionID r' = r_SessionID r
     \<and> r_ToolName r' = r_ToolName r \<and> r_LeaseEpoch r' = r_LeaseEpoch r
     \<and> r_Attempts r' = r_Attempts r \<and> r_MaxAttempts r' = r_MaxAttempts r
     \<and> r_IdempotencyKey r' = r_IdempotencyKey r"

lemma same_grant_refl [simp]: "same_grant r r"
  by (simp add: same_grant_def)

lemma SetResult_grant: "same_grant r (SetResult now v rt msg r)"
  by (simp add: same_grant_def SetResult_def)

lemma submit_row_fields [simp]:
  "r_ID (submit_row now v rt meta r) = r_ID r"
  "r_SessionID (submit_row now v rt meta r) = r_SessionID r"
  "r_ToolName (submit_row now v rt meta r) = r_ToolName r"
  "r_LeaseEpoch (submit_row now v rt meta r) = r_LeaseEpoch r"
  "r_Attempts (submit_row now v rt meta r) = r_Attempts r"
  "r_MaxAttempts (submit_row now v rt meta r) = r_MaxAttempts r"
  "r_IdempotencyKey (submit_row now v rt meta r) = r_IdempotencyKey r"
  "r_LeasedBy (submit_row now v rt meta r) = ''''" "r_LeasedAt (submit_row now v rt meta r) = None"
  "r_Status (submit_row now v rt meta r) = (if rt = ResultTypeRejection then Failed else Done)"
  "r_Result (submit_row now v rt meta r) = v" "r_ResultType (submit_row now v rt meta r) = rt"
  "r_DeadLetter (submit_row now v rt meta r) = False"
  "r_StreamResults (submit_row now v rt meta r) = r_StreamResults r"
  by (simp_all add: submit_row_def Let_def SetResult_def merge_meta_def split: option.split)

lemma renew_row_Inr:
  "renew_row now d r = Inr r' \<Longrightarrow> \<exists>t. r' = r\<lparr> r_VisibleAt := t, r_UpdatedAt := now \<rparr> \<and> t > now"
  by (auto simp: renew_row_def Let_def split: if_splits option.splits)

lemma update_row_grant: "same_grant r (update_row now m st v rt d r)"
  by (simp add: same_grant_def update_row_def Let_def split: option.split request_status.split)

lemma fenced_effect_grant: "fenced_effect w m r = Inr r' \<Longrightarrow> same_grant r r'"
proof (cases w)
  case (FRenew now d)
  then show "fenced_effect w m r = Inr r' \<Longrightarrow> same_grant r r'"
    by (auto simp: same_grant_def dest!: renew_row_Inr split: if_splits)
qed (auto simp: same_grant_def requeue_row_def update_row_grant [unfolded same_grant_def]
       split: if_splits go_value.splits)

interpretation mem: fenced_writes mem_write mem_GetRequest
proof
  fix w sess rid m e t res and s :: store and r rid'
  show "mem_GetRequest rid s = None \<Longrightarrow> \<exists>err. mem_write w sess rid m e s = (s, Inl err)"
    by (simp add: mem_write_eq mem_GetRequest_def)
  show "mem_GetRequest rid s = Some r \<Longrightarrow> r_LeaseEpoch r \<noteq> e \<Longrightarrow>
    \<exists>err. mem_write w sess rid m e s = (s, Inl err)"
    by (simp add: mem_write_eq mem_GetRequest_def)
  show "mem_GetRequest rid s = Some r \<Longrightarrow> r_Status r \<noteq> Done \<Longrightarrow> r_Status r \<noteq> Failed \<Longrightarrow>
    r_LeasedBy r \<noteq> m \<Longrightarrow> \<exists>err. mem_write w sess rid m e s = (s, Inl err)"
    by (simp add: mem_write_eq mem_GetRequest_def)
  show "mem_GetRequest rid s = Some r \<Longrightarrow> mem_write w sess rid m e s = (t, res) \<Longrightarrow>
    \<exists>r'. mem_GetRequest rid t = Some r' \<and> r_LeaseEpoch r' = r_LeaseEpoch r"
    by (auto simp: mem_write_eq mem_GetRequest_def same_grant_def
        dest!: fenced_effect_grant [OF sym] split: if_splits sum.splits)
  show "mem_write w sess rid m e s = (t, res) \<Longrightarrow> rid' \<noteq> rid \<Longrightarrow>
    mem_GetRequest rid' t = mem_GetRequest rid' s"
    by (auto simp: mem_write_eq mem_GetRequest_def split: if_splits sum.splits option.splits)
qed

end
