(* ===== verification/Lease_Protocol.thy ===== *)
theory Lease_Protocol
  imports Fencing
begin

text \<open>
  The lease protocol as a transition system over the in-memory store: the operations the
  servers issue (creation, the two claim paths, expiry, the fenced provider writes, the
  guarded cancel, the retention sweep), any other change that leaves the request table
  alone, and the re-ordering of the map iteration.  Every operation acts on each row by a
  \<open>row_step\<close>; the invariants of rows and the fencing guarantees are proved on row steps
  and lifted to runs of the store.
\<close>

section \<open>Operations\<close>

datatype store_op =
    OInsert request
  | OLease time string string "string list" duration
  | OClaim time string string string duration
  | OReclaim string time duration int duration
  | OFenced fenced_op string string string int
  | OCancel time string string string
  | OReadChunks string int int
  | OSweep time
  | OOther store
  | OReorder "request gomap"

fun apply_op :: "store_op \<Rightarrow> store \<Rightarrow> store" where
  "apply_op (OInsert r) s = fst (mem_InsertRequest r s)"
| "apply_op (OLease now sess m tools d) s = fst (mem_LeasePendingRequest now sess m tools d s)"
| "apply_op (OClaim now sess rid m d) s = fst (mem_ClaimRequest now sess rid m d s)"
| "apply_op (OReclaim rid now d ma b) s = fst (mem_ReclaimExpiredRequest rid now d ma b s)"
| "apply_op (OFenced w sess rid m e) s = fst (mem_write w sess rid m e s)"
| "apply_op (OCancel now sess rid msg) s = fst (mem_CancelRequestFenced now sess rid msg s)"
| "apply_op (OReadChunks rid a b) s = fst (mem_GetRequestChunksByRequest rid a b s)"
| "apply_op (OSweep cutoff) s = fst (mem_DeleteTerminalRequestsBefore cutoff s)"
| "apply_op (OOther s') s = s'\<lparr> st_requests := st_requests s \<rparr>"
| "apply_op (OReorder m) s = (if mset m = mset (st_requests s) then s\<lparr> st_requests := m \<rparr> else s)"

text \<open>What the callers guarantee: created rows are fresh (\<open>NewRequest\<close> with the defaults of
  \<open>CreateRequest\<close>), a fenced write names a machine, and the status of an update comes out of
  \<open>requestStatusFromProto\<close>, which yields neither \<open>stalled\<close> nor \<open>cancelled\<close>.\<close>

definition new_row :: "request \<Rightarrow> bool" where
  "new_row r \<longleftrightarrow> r_Status r = Pending \<and> r_Attempts r = 0 \<and> r_LeaseEpoch r = 0
     \<and> r_LeasedBy r = '''' \<and> r_LeasedAt r = None \<and> r_ExecutingMachineID r = ''''
     \<and> \<not> r_DeadLetter r \<and> 0 < r_MaxAttempts r \<and> r_MaxAttempts r \<le> max_int64"

fun legal_write :: "fenced_op \<Rightarrow> bool" where
  "legal_write (FUpdate now st v rt d) \<longleftrightarrow> st \<noteq> Some Stalled \<and> st \<noteq> Some Cancelled"
| "legal_write _ \<longleftrightarrow> True"

fun legal_op :: "store_op \<Rightarrow> bool" where
  "legal_op (OInsert r) \<longleftrightarrow> new_row r"
| "legal_op (OFenced w sess rid m e) \<longleftrightarrow> m \<noteq> '''' \<and> legal_write w"
| "legal_op _ \<longleftrightarrow> True"

fun run :: "store_op list \<Rightarrow> store \<Rightarrow> store" where
  "run [] s = s"
| "run (op # ops) s = run ops (apply_op op s)"

inductive mem_step :: "store \<Rightarrow> store \<Rightarrow> bool" where
  step: "legal_op op \<Longrightarrow> mem_step s (apply_op op s)"

inductive_cases mem_stepE: "mem_step s t"

section \<open>What an operation does to one row\<close>

inductive row_step :: "request \<Rightarrow> request \<Rightarrow> bool" where
  grant: "m \<noteq> '''' \<Longrightarrow> r_Status r = Pending \<Longrightarrow> \<not> r_DeadLetter r \<Longrightarrow> \<not> attempts_exhausted r
     \<Longrightarrow> \<not> backoff_pending now r \<Longrightarrow> row_step r (grant_lease now d m r)"
| fenced: "m \<noteq> '''' \<Longrightarrow> legal_write w \<Longrightarrow> CheckLeaseFence r m e = None
     \<Longrightarrow> fenced_effect w m r = Inr r' \<Longrightarrow> row_step r r'"
| reclaim: "r_Status r = Claimed \<or> r_Status r = Running \<Longrightarrow> LeaseExpired now r \<or> HasTimedOut now r
     \<Longrightarrow> row_step r (reclaim_row now ma b r)"
| cancel: "\<not> IsTerminalStatus (r_Status r) \<Longrightarrow> row_step r (cancel_row now msg r)"
| defaults: "row_step r (EnsureStreamSequenceDefaults r)"

inductive_cases row_stepE: "row_step r r'"

definition keyed :: "request gomap \<Rightarrow> bool" where
  "keyed m \<longleftrightarrow> gm_wf m \<and> (\<forall>k r. gm_get m k = Some r \<longrightarrow> r_ID r = k)"

lemma pick_oldest_P:
  "pick_oldest P p rs = Some r \<Longrightarrow> (r \<in> set rs \<and> P r) \<or> p = Some r"
  by (induction P p rs rule: pick_oldest.induct) (auto split: if_splits option.splits)

lemma owned_empty: "t \<in> set (owned_tools sess m s) \<Longrightarrow> m \<noteq> ''''"
  by (auto simp: owned_tools_def)

lemma eligible_step:
  "lease_eligible now sess (owned_tools sess m s) tools r \<Longrightarrow> row_step r (grant_lease now d m r)"
  using owned_empty [of "r_ToolName r" sess m s] by (auto simp: lease_eligible_def intro!: row_step.grant)

lemma keyed_vals: "keyed m \<Longrightarrow> r \<in> set (gm_vals m) \<Longrightarrow> gm_get m (r_ID r) = Some r"
  by (auto simp: keyed_def gm_vals_get)

text \<open>The two claim paths, row by row.\<close>

lemma lease_rows:
  assumes "keyed (st_requests s)" and "mem_LeasePendingRequest now sess m tools d s = (t, x)"
  shows "(t = s \<and> x = None) \<or> (\<exists>r. gm_get (st_requests s) (r_ID r) = Some r \<and>
     lease_eligible now sess (owned_tools sess m s) tools r \<and>
     t = upd_request (r_ID r) (grant_lease now d m r) s \<and> x = Some (grant_lease now d m r))"
proof (cases "pick_oldest (lease_eligible now sess (owned_tools sess m s) tools) None
    (gm_vals (st_requests s))")
  case None
  with assms(2) show ?thesis by (simp add: mem_LeasePendingRequest_def Let_def)
next
  case (Some r)
  with pick_oldest_P [OF Some] keyed_vals [OF assms(1), of r] assms(2) show ?thesis
    by (auto simp: mem_LeasePendingRequest_def Let_def)
qed

lemma claim_rows:
  assumes "mem_ClaimRequest now sess rid m d s = (t, x)"
  shows "t = s \<and> (\<nexists>r. x = Inr (Some r)) \<or>
    (\<exists>r. gm_get (st_requests s) rid = Some r \<and> r_SessionID r = sess \<and> r_Status r = Pending
       \<and> \<not> r_DeadLetter r \<and> \<not> backoff_pending now r \<and> \<not> attempts_exhausted r \<and> m \<noteq> ''''
       \<and> machineProvidesToolLocked sess m (r_ToolName r) s
       \<and> t = upd_request rid (grant_lease now d m r) s \<and> x = Inr (Some (grant_lease now d m r)))"
  using assms by (auto simp: mem_ClaimRequest_def Let_def split: option.splits if_splits)

text \<open>Every legal operation leaves a row alone, removes it, creates it, or takes a row step.\<close>

lemma apply_op_rows:
  assumes "keyed (st_requests s)" and "legal_op op"
    and "gm_get (st_requests (apply_op op s)) rid = Some r'"
  shows "(gm_get (st_requests s) rid = None \<and> op = OInsert r' \<and> r_ID r' = rid)
    \<or> (\<exists>r. gm_get (st_requests s) rid = Some r \<and> row_step\<^sup>=\<^sup>= r r')"
proof (cases op)
  case (OInsert r)
  with assms show ?thesis
    by (auto simp: mem_InsertRequest_def split: if_splits)
next
  case (OLease now sess m tools d)
  with assms lease_rows [OF assms(1), of now sess m tools d] show ?thesis
    by (cases "mem_LeasePendingRequest now sess m tools d s")
      (auto dest: eligible_step split: if_splits)
next
  case (OClaim now sess i m d)
  with assms claim_rows [of now sess i m d s] show ?thesis
    by (cases "mem_ClaimRequest now sess i m d s") (auto intro: row_step.grant split: if_splits)
next
  case (OReclaim i now d ma b)
  with assms show ?thesis
    by (auto simp: mem_ReclaimExpiredRequest_def Let_def intro: row_step.reclaim
        split: option.splits if_splits)
next
  case (OFenced w sess i m e)
  with assms show ?thesis
    by (auto simp: mem_write_eq fence_simps intro!: row_step.fenced
        split: option.splits if_splits sum.splits)
next
  case (OCancel now sess i msg)
  with assms show ?thesis
    by (auto simp: mem_CancelRequestFenced_def lookupFenced_def Let_def IsTerminalStatus_def
        intro: row_step.cancel split: option.splits if_splits)
next
  case (OReadChunks i a b)
  with assms show ?thesis
    by (auto simp: mem_GetRequestChunksByRequest_def Let_def intro: row_step.defaults
        split: option.splits if_splits)
next
  case (OSweep c)
  with assms show ?thesis
    by (auto simp: mem_DeleteTerminalRequestsBefore_def gm_get_prune keyed_def
        split: option.splits if_splits)
next
  case (OOther s')
  with assms show ?thesis by simp
next
  case (OReorder m)
  with assms show ?thesis
    by (auto simp: keyed_def gm_get_perm [of "st_requests s" m] split: if_splits)
qed

section \<open>Row and store invariants\<close>

definition row_ok :: "request \<Rightarrow> bool" where
  "row_ok r \<longleftrightarrow> r_Attempts r = r_LeaseEpoch r \<and> 0 \<le> r_Attempts r \<and> r_Attempts r \<le> r_MaxAttempts r
     \<and> 0 < r_MaxAttempts r \<and> r_MaxAttempts r \<le> max_int64
     \<and> (r_LeasedBy r = '''' \<longleftrightarrow> r_LeasedAt r = None)
     \<and> (r_LeasedBy r \<noteq> '''' \<longrightarrow> r_ExecutingMachineID r = r_LeasedBy r \<and> \<not> IsTerminalStatus (r_Status r))
     \<and> (r_Status r = Claimed \<or> r_Status r = Running \<longrightarrow> r_LeasedBy r \<noteq> '''')
     \<and> r_Status r \<noteq> Stalled \<and> (r_Status r = Cancelled \<longrightarrow> r_DeadLetter r)"

definition store_ok :: "store \<Rightarrow> bool" where
  "store_ok s \<longleftrightarrow> keyed (st_requests s) \<and> (\<forall>k r. gm_get (st_requests s) k = Some r \<longrightarrow> row_ok r)"

lemma store_ok_New [simp]: "store_ok mem_New"
  by (simp add: store_ok_def keyed_def mem_New_def)

lemma new_row_ok: "new_row r \<Longrightarrow> row_ok r"
  by (simp add: new_row_def row_ok_def IsTerminalStatus_def)

lemma grant_epoch:
  "row_ok r \<Longrightarrow> \<not> attempts_exhausted r \<Longrightarrow>
     wrap64 (r_LeaseEpoch r + 1) = r_LeaseEpoch r + 1 \<and> wrap64 (r_Attempts r + 1) = r_Attempts r + 1
     \<and> r_Attempts r < r_MaxAttempts r"
  using wrap64_suc [of "r_LeaseEpoch r"] by (auto simp: row_ok_def attempts_exhausted_def)

lemma row_ok_grant:
  "row_ok r \<Longrightarrow> \<not> attempts_exhausted r \<Longrightarrow> m \<noteq> '''' \<Longrightarrow> row_ok (grant_lease now d m r)"
  using grant_epoch [of r] by (auto simp: row_ok_def grant_lease_def IsTerminalStatus_def)

lemma row_ok_update:
  "row_ok r \<Longrightarrow> r_LeasedBy r = m \<Longrightarrow> m \<noteq> '''' \<Longrightarrow> st \<noteq> Some Stalled \<Longrightarrow> st \<noteq> Some Cancelled \<Longrightarrow>
     row_ok (update_row now m st v rt d r)"
  by (cases st; cases "the st")
    (auto simp: row_ok_def update_row_def IsTerminalStatus_def Let_def)

lemma row_ok_submit: "row_ok r \<Longrightarrow> row_ok (submit_row now v rt meta r)"
  by (simp add: row_ok_def IsTerminalStatus_def)

lemma row_ok_renew: "row_ok r \<Longrightarrow> renew_row now d r = Inr r' \<Longrightarrow> row_ok r'"
  by (auto simp: row_ok_def dest!: renew_row_Inr)

lemma row_ok_requeue: "row_ok r \<Longrightarrow> row_ok (requeue_row now reason b r)"
  by (simp add: row_ok_def requeue_row_def IsTerminalStatus_def)

lemma AddStreamChunk_row_ok [simp]: "row_ok (fst (AddStreamChunk now c r)) = row_ok r"
  by (simp add: row_ok_def)

lemma AddStreamChunks_row_ok [simp]: "row_ok (AddStreamChunks now cs r) = row_ok r"
  by (simp add: row_ok_def)

lemma row_ok_fenced:
  assumes "row_ok r" "m \<noteq> ''''" "legal_write w" "CheckLeaseFence r m e = None"
    and "fenced_effect w m r = Inr r'"
  shows "row_ok r'"
proof (cases w)
  case (FRenew now d)
  with assms show ?thesis by (auto intro: row_ok_renew split: if_splits)
next
  case (FSubmit now v rt meta)
  with assms show ?thesis
    by (auto simp: row_ok_submit split: if_splits go_value.splits)
next
  case (FUpdate now st v rt d)
  with assms show ?thesis by (auto simp: fence_simps intro!: row_ok_update split: if_splits)
next
  case (FRequeue now reason b)
  with assms show ?thesis by (auto intro: row_ok_requeue)
qed (use assms in auto)

lemma row_ok_step: "row_step r r' \<Longrightarrow> row_ok r \<Longrightarrow> row_ok r'"
proof (induction rule: row_step.induct)
  case (reclaim r now ma b)
  then show ?case by (auto simp: row_ok_def reclaim_row_def Let_def IsTerminalStatus_def)
next
  case (cancel r now msg)
  then show ?case by (auto simp: row_ok_def cancel_row_def SetResult_def IsTerminalStatus_def)
next
  case (defaults r)
  then show ?case by (auto simp: row_ok_def)
qed (auto intro: row_ok_grant row_ok_fenced)

lemma row_step_id: "row_step r r' \<Longrightarrow> r_ID r' = r_ID r"
proof (induction rule: row_step.induct)
  case (fenced m w r e r')
  then show ?case by (auto simp: same_grant_def dest: fenced_effect_grant)
qed (simp_all add: grant_lease_def reclaim_row_def cancel_row_def SetResult_def Let_def)

lemma upd_request_requests [simp]:
  "st_requests (upd_request rid r s) = gm_put rid r (st_requests s)"
  by (simp add: upd_request_def)

lemma apply_op_wf: "gm_wf (st_requests s) \<Longrightarrow> gm_wf (st_requests (apply_op op s))"
proof (cases op)
  case (OReorder m)
  then show "gm_wf (st_requests s) \<Longrightarrow> gm_wf (st_requests (apply_op op s))"
    using gm_wf_perm [of m "st_requests s"] by simp
next
  case (OFenced w sess rid m e)
  then show "gm_wf (st_requests s) \<Longrightarrow> gm_wf (st_requests (apply_op op s))"
    by (simp add: mem_write_eq split: option.split sum.split)
qed (simp_all add: mem_InsertRequest_def mem_LeasePendingRequest_def mem_ClaimRequest_def
      mem_ReclaimExpiredRequest_def mem_CancelRequestFenced_def lookupFenced_def
      mem_GetRequestChunksByRequest_def mem_DeleteTerminalRequestsBefore_def Let_def
      split: option.split)

lemma keyed_step:
  assumes "keyed (st_requests s)" "legal_op op"
  shows "keyed (st_requests (apply_op op s))"
proof -
  have "r_ID r' = k" if "gm_get (st_requests (apply_op op s)) k = Some r'" for k r'
    using apply_op_rows [OF assms that] assms(1) by (auto simp: keyed_def dest: row_step_id)
  with apply_op_wf assms(1) show ?thesis by (simp add: keyed_def)
qed

lemma store_ok_step:
  assumes "store_ok s" "legal_op op"
  shows "store_ok (apply_op op s)"
proof -
  have k: "keyed (st_requests s)" using assms(1) by (simp add: store_ok_def)
  have "row_ok r'" if "gm_get (st_requests (apply_op op s)) i = Some r'" for i r'
    using apply_op_rows [OF k assms(2) that] assms
    by (auto simp: store_ok_def new_row_ok intro: row_ok_step)
  with keyed_step [OF k assms(2)] show ?thesis by (simp add: store_ok_def)
qed

interpretation protocol: kept_by_steps mem_step store_ok
  by unfold_locales (auto elim!: mem_stepE intro: store_ok_step)

lemma run_steps: "\<forall>op \<in> set ops. legal_op op \<Longrightarrow> mem_step\<^sup>*\<^sup>* s (run ops s)"
  by (induction ops arbitrary: s)
    (auto intro: converse_rtranclp_into_rtranclp mem_step.step)

lemma store_ok_run: "store_ok s \<Longrightarrow> \<forall>op \<in> set ops. legal_op op \<Longrightarrow> store_ok (run ops s)"
  using protocol.kept_run run_steps by blast

section \<open>The abstract lease\<close>

text \<open>What a request row is to the fencing protocol: unleased, leased to one machine, or
  finished, each under the epoch of the last grant.\<close>

datatype lease_state = Idle int | Held string int | Over request_status int

fun epoch_of :: "lease_state \<Rightarrow> int" where
  "epoch_of (Idle e) = e" | "epoch_of (Held m e) = e" | "epoch_of (Over st e) = e"

fun holder_of :: "lease_state \<Rightarrow> string option" where
  "holder_of (Held m e) = Some m" | "holder_of _ = None"

text \<open>A grant raises the epoch by one; nothing else gives a lease to a machine.  The holder
  may put its lease back into the queue without releasing it (an update to \<open>pending\<close>), so a
  grant can also follow a held lease.  \<open>reopen\<close> is the fenced requeue of a finished
  request.\<close>

inductive lease_step :: "lease_state \<Rightarrow> lease_state \<Rightarrow> bool" where
  l_stay: "lease_step x x"
| l_grant: "m \<noteq> '''' \<Longrightarrow> epoch_of x = e \<Longrightarrow> x = Idle e \<or> x = Held m' e \<Longrightarrow> lease_step x (Held m (e + 1))"
| l_release: "lease_step (Held m e) (Idle e)"
| l_finish: "st = Done \<or> st = Failed \<Longrightarrow> lease_step (Held m e) (Over st e)"
| l_cancel: "x = Idle e \<or> x = Held m e \<Longrightarrow> lease_step x (Over Cancelled e)"
| l_reopen: "st = Done \<or> st = Failed \<Longrightarrow> lease_step (Over st e) (Idle e)"

definition lease_of :: "request \<Rightarrow> lease_state" where
  "lease_of r = (if IsTerminalStatus (r_Status r) then Over (r_Status r) (r_LeaseEpoch r)
     else if r_LeasedBy r = '''' then Idle (r_LeaseEpoch r)
     else Held (r_LeasedBy r) (r_LeaseEpoch r))"

lemma epoch_lease_of [simp]: "epoch_of (lease_of r) = r_LeaseEpoch r"
  by (simp add: lease_of_def)

lemma lease_step_epoch: "lease_step x y \<Longrightarrow> epoch_of x \<le> epoch_of y"
  by (induction rule: lease_step.induct) auto

text \<open>Once \<open>m\<close> has held epoch \<open>e\<close>, nobody else ever holds it.\<close>

definition granted :: "string \<Rightarrow> int \<Rightarrow> lease_state \<Rightarrow> bool" where
  "granted m e x \<longleftrightarrow> e < epoch_of x \<or> (epoch_of x = e \<and> (holder_of x = None \<or> holder_of x = Some m))"

lemma lease_step_granted: "lease_step x y \<Longrightarrow> granted m e x \<Longrightarrow> granted m e y"
  by (induction rule: lease_step.induct) (auto simp: granted_def)

section \<open>Refinement\<close>

lemma update_lease:
  assumes "row_ok r" "r_LeasedBy r = m" "m \<noteq> ''''" "st \<noteq> Some Stalled" "st \<noteq> Some Cancelled"
  shows "lease_step (lease_of r) (lease_of (update_row now m st v rt d r))"
proof -
  have "lease_of r = Held m (r_LeaseEpoch r)"
    using assms by (auto simp: lease_of_def row_ok_def)
  moreover have "lease_of (update_row now m st v rt d r) =
    (case st of Some Done \<Rightarrow> (if r_Status r = Done then Held m (r_LeaseEpoch r) else Over Done (r_LeaseEpoch r))
       | Some Failed \<Rightarrow> (if r_Status r = Failed then Held m (r_LeaseEpoch r) else Over Failed (r_LeaseEpoch r))
       | _ \<Rightarrow> Held m (r_LeaseEpoch r))"
    using assms by (auto simp: lease_of_def update_row_def row_ok_def IsTerminalStatus_def Let_def
        split: option.splits request_status.splits)
  ultimately show ?thesis
    by (auto intro: lease_step.intros split: option.split request_status.split)
qed

lemma same_lease:
  "r_Status r' = r_Status r \<Longrightarrow> r_LeasedBy r' = r_LeasedBy r \<Longrightarrow> r_LeaseEpoch r' = r_LeaseEpoch r
    \<Longrightarrow> lease_of r' = lease_of r"
  by (simp add: lease_of_def)

lemma stream_lease [simp]:
  "lease_of (EnsureStreamSequenceDefaults r) = lease_of r"
  "lease_of (fst (AddStreamChunk now c r)) = lease_of r"
  "lease_of (AddStreamChunks now cs r) = lease_of r"
  by (rule same_lease; simp)+

lemma submit_lease:
  assumes "row_ok r" "r_LeasedBy r = m" "m \<noteq> ''''"
  shows "lease_step (lease_of r) (lease_of (submit_row now v rt meta r))"
  using assms by (auto simp: lease_of_def row_ok_def IsTerminalStatus_def intro: lease_step.intros)

lemma requeue_lease:
  assumes "row_ok r" "r_Status r = Done \<or> r_Status r = Failed \<or> r_LeasedBy r = m" "m \<noteq> ''''"
  shows "lease_step (lease_of r) (lease_of (requeue_row now reason b r))"
  using assms
  by (auto simp: lease_of_def row_ok_def requeue_row_def IsTerminalStatus_def intro: lease_step.intros)

lemma fenced_lease:
  assumes "row_ok r" "m \<noteq> ''''" "legal_write w" "CheckLeaseFence r m e = None"
    and "fenced_effect w m r = Inr r'"
  shows "lease_step (lease_of r) (lease_of r')"
proof (cases w)
  case (FRenew now d)
  with assms have "lease_of r' = lease_of r"
    by (auto dest!: renew_row_Inr intro: same_lease split: if_splits)
  then show ?thesis by (simp add: l_stay)
next
  case (FSubmit now v rt meta)
  with assms show ?thesis
    by (auto simp: fence_simps intro: submit_lease l_stay split: if_splits go_value.splits)
next
  case (FAppend now cs)
  with assms show ?thesis by (auto intro: l_stay)
next
  case (FUpdate now st v rt d)
  with assms show ?thesis by (auto simp: fence_simps intro: update_lease split: if_splits)
next
  case (FRequeue now reason b)
  with assms show ?thesis by (auto simp: fence_simps intro: requeue_lease)
qed

lemma row_step_lease: "row_step r r' \<Longrightarrow> row_ok r \<Longrightarrow> lease_step (lease_of r) (lease_of r')"
proof (induction rule: row_step.induct)
  case (grant m r now d)
  then have "lease_of (grant_lease now d m r) = Held m (r_LeaseEpoch r + 1)"
    using grant_epoch [of r] by (simp add: lease_of_def grant_lease_def IsTerminalStatus_def)
  moreover have "lease_of r = Idle (r_LeaseEpoch r) \<or> lease_of r = Held (r_LeasedBy r) (r_LeaseEpoch r)"
    using grant by (simp add: lease_of_def IsTerminalStatus_def)
  ultimately show ?case using grant.hyps(1) l_grant [of m "lease_of r"] by auto
next
  case (reclaim r now ma b)
  then show ?case
    by (auto simp: lease_of_def row_ok_def reclaim_row_def Let_def IsTerminalStatus_def
        intro: lease_step.intros)
next
  case (cancel r now msg)
  then show ?case
    by (auto simp: lease_of_def cancel_row_def SetResult_def IsTerminalStatus_def intro: l_cancel)
next
  case (defaults r)
  then show ?case by (simp add: l_stay)
qed (auto intro: fenced_lease)

end
