(* ===== verification/Lease_Theorems.thy ===== *)
theory Lease_Theorems
  imports Lease_Protocol
begin

text \<open>
  The guarantees of the lease protocol, stated over runs of the store: epochs are fencing
  tokens, one machine holds each epoch, attempts are bounded, a terminal outcome stays, a
  cancelled request stays, keys deduplicate, claims are first-come first-served and a
  renewal never outlives the request's own timeout.
\<close>

section \<open>A row along a run\<close>

fun inserts :: "string \<Rightarrow> store_op \<Rightarrow> bool" where
  "inserts rid (OInsert r) \<longleftrightarrow> r_ID r = rid"
| "inserts rid _ \<longleftrightarrow> False"

definition quiet :: "string \<Rightarrow> store_op list \<Rightarrow> bool" where
  "quiet rid ops \<longleftrightarrow> list_all (\<lambda>op. legal_op op \<and> \<not> inserts rid op) ops"

interpretation row: kept_by_steps row_step row_ok
  by unfold_locales (rule row_ok_step)

interpretation lease_epoch: kept_by_steps lease_step "\<lambda>x. e < epoch_of x" for e
  by unfold_locales (auto dest: lease_step_epoch)

interpretation lease_grant: kept_by_steps lease_step "granted m e" for m e
  by unfold_locales (rule lease_step_granted)

lemma row_run:
  assumes "store_ok s" "quiet rid ops" "mem_GetRequest rid (run ops s) = Some r'"
  shows "\<exists>r. mem_GetRequest rid s = Some r \<and> row_step\<^sup>*\<^sup>* r r'"
  using assms
proof (induction ops arbitrary: s)
  case (Cons op ops)
  then have legal: "legal_op op" "\<not> inserts rid op" and "quiet rid ops" by (auto simp: quiet_def)
  with Cons obtain r1 where r1: "mem_GetRequest rid (apply_op op s) = Some r1" "row_step\<^sup>*\<^sup>* r1 r'"
    using store_ok_step by fastforce
  with legal apply_op_rows [of s op rid r1] Cons.prems(1) obtain r
    where "mem_GetRequest rid s = Some r" "row_step\<^sup>=\<^sup>= r r1"
    by (auto simp: mem_GetRequest_def store_ok_def)
  with r1(2) show ?case by (auto intro: converse_rtranclp_into_rtranclp)
qed auto

lemma lease_run: "row_step\<^sup>*\<^sup>* r r' \<Longrightarrow> row_ok r \<Longrightarrow> lease_step\<^sup>*\<^sup>* (lease_of r) (lease_of r')"
proof (induction rule: rtranclp_induct)
  case (step y z)
  then have "row_ok y" using row.kept_run by blast
  with step row_step_lease show ?case by (meson rtranclp.rtrancl_into_rtrancl)
qed simp

lemma store_lease_run:
  assumes "store_ok s" "quiet rid ops" "mem_GetRequest rid (run ops s) = Some r'"
  shows "\<exists>r. mem_GetRequest rid s = Some r \<and> lease_step\<^sup>*\<^sup>* (lease_of r) (lease_of r')"
  using row_run [OF assms] assms(1) lease_run by (auto simp: store_ok_def mem_GetRequest_def)

section \<open>Fencing\<close>

text \<open>C1: Fencing.  Once the lease epoch of a request has passed \<open>e\<close>, a provider that still
  holds epoch \<open>e\<close> is refused by every fenced write, whatever the store does in between and
  even if the row has been swept; the refused write leaves the store unchanged.\<close>

theorem stale_writer_rejected:
  assumes "store_ok s" and "quiet rid ops"
    and "mem_GetRequest rid s = Some r" and "e < r_LeaseEpoch r"
  shows "\<exists>err. mem_write w sess rid m e (run ops s) = (run ops s, Inl err)"
proof (rule mem.overtaken)
  have "e < r_LeaseEpoch r'" if "mem_GetRequest rid (run ops s) = Some r'" for r'
    using store_lease_run [OF assms(1,2) that] lease_epoch.kept_run [of "lease_of r" "lease_of r'" e] assms
    by auto
  then show "mem_GetRequest rid (run ops s) = None \<or>
      (\<exists>r. mem_GetRequest rid (run ops s) = Some r \<and> e < r_LeaseEpoch r)"
    by (cases "mem_GetRequest rid (run ops s)") auto
qed

text \<open>C2: One holder per epoch.  If machine \<open>m\<close> held the lease of epoch \<open>e\<close> at some moment,
  then at every later moment a fenced write under epoch \<open>e\<close> succeeds only for \<open>m\<close> itself,
  unless the request has finished.\<close>

theorem one_holder_per_epoch:
  assumes "store_ok s" and "quiet rid ops"
    and "mem_GetRequest rid s = Some r" and "lease_of r = Held m e"
    and "m' \<noteq> ''''" and "mem_write w sess rid m' e (run ops s) = (t, Inr x)"
  shows "m' = m \<or> (\<exists>r'. mem_GetRequest rid (run ops s) = Some r' \<and> IsTerminalStatus (r_Status r'))"
proof -
  obtain r' where r': "mem_GetRequest rid (run ops s) = Some r'" "r_LeaseEpoch r' = e"
    and ok: "r_Status r' = Done \<or> r_Status r' = Failed \<or> r_LeasedBy r' = m'"
    using mem.success_holder [OF assms(6)] by auto
  have "granted m e (lease_of r')"
    using store_lease_run [OF assms(1,2) r'(1)] assms(3,4)
      lease_grant.kept_run [of "lease_of r" "lease_of r'" m e] by (auto simp: granted_def)
  with r' ok assms(5) show ?thesis
    by (auto simp: granted_def lease_of_def IsTerminalStatus_def split: if_splits)
qed

text \<open>C3: Refinement.  Every operation of the store acts on each request as a transition of
  the abstract lease: an epoch rises exactly by a grant, a lease is given up or finished
  under its own epoch.\<close>

theorem store_refines_lease:
  assumes "store_ok s" and "legal_op op"
    and "mem_GetRequest rid s = Some r" and "mem_GetRequest rid (apply_op op s) = Some r'"
  shows "lease_step (lease_of r) (lease_of r')"
  using apply_op_rows [of s op rid r'] assms
  by (auto simp: store_ok_def mem_GetRequest_def intro: row_step_lease l_stay)

section \<open>Attempts and leases of a reachable row\<close>

text \<open>C15: In every state the store can reach from empty, a request is stored under its own
  id, has been granted exactly as many leases as it counts attempts and never more than its
  maximum (so the \<open>int64\<close> epoch cannot wrap), is leased by the machine that executes it
  while claimed or running, and carries no lease once it is terminal.\<close>

theorem reachable_rows_ok:
  assumes "list_all legal_op ops" and "mem_GetRequest rid (run ops mem_New) = Some r"
  shows "r_ID r = rid \<and> r_LeaseEpoch r = r_Attempts r \<and> 0 \<le> r_Attempts r
    \<and> r_Attempts r \<le> r_MaxAttempts r
    \<and> (r_Status r \<in> {Claimed, Running} \<longrightarrow>
         r_LeasedBy r \<noteq> '''' \<and> r_ExecutingMachineID r = r_LeasedBy r \<and> r_LeasedAt r \<noteq> None)
    \<and> (IsTerminalStatus (r_Status r) \<longrightarrow> r_LeasedBy r = '''' \<and> r_LeasedAt r = None)"
proof -
  have "store_ok (run ops mem_New)"
    using assms(1) store_ok_run [OF store_ok_New] by (auto simp: list_all_iff)
  then have "row_ok r" and "r_ID r = rid"
    using assms(2) by (auto simp: store_ok_def keyed_def mem_GetRequest_def)
  then show ?thesis by (auto simp: row_ok_def IsTerminalStatus_def)
qed

section \<open>Terminal outcomes\<close>

definition outcome :: "request \<Rightarrow> request_status \<times> go_value \<times> string \<times> bool" where
  "outcome r = (r_Status r, r_Result r, r_Error r, r_DeadLetter r)"

fun requeues :: "string \<Rightarrow> store_op \<Rightarrow> bool" where
  "requeues rid (OFenced (FRequeue now reason b) sess rid' m e) \<longleftrightarrow> rid' = rid"
| "requeues rid _ \<longleftrightarrow> False"

lemma stream_outcome [simp]:
  "outcome (EnsureStreamSequenceDefaults r) = outcome r"
  "outcome (fst (AddStreamChunk now c r)) = outcome r"
  "outcome (AddStreamChunks now cs r) = outcome r"
  by (simp_all add: outcome_def)

lemma fenced_outcome:
  assumes "row_ok r" "IsTerminalStatus (r_Status r)" "m \<noteq> ''''" "CheckLeaseFence r m e = None"
    and "fenced_effect w m r = Inr r'" and "\<nexists>now reason b. w = FRequeue now reason b"
  shows "outcome r' = outcome r"
  using assms
  by (cases w) (auto simp: fence_simps row_ok_def IsTerminalStatus_def split: if_splits go_value.splits)

lemma outcome_step:
  assumes "store_ok s" "legal_op op" "\<not> requeues rid op"
    and "gm_get (st_requests s) rid = Some r" "IsTerminalStatus (r_Status r)"
    and "gm_get (st_requests (apply_op op s)) rid = Some r'"
  shows "outcome r' = outcome r"
proof (cases op)
  case (OLease now sess m tools d)
  then show ?thesis using assms lease_rows [of s now sess m tools d]
    by (cases "mem_LeasePendingRequest now sess m tools d s")
      (auto simp: store_ok_def lease_eligible_def IsTerminalStatus_def split: if_splits)
next
  case (OClaim now sess i m d)
  then show ?thesis using assms claim_rows [of now sess i m d s]
    by (cases "mem_ClaimRequest now sess i m d s") (auto simp: IsTerminalStatus_def split: if_splits)
next
  case (OFenced w sess i m e)
  have "outcome r' = outcome r"
    if "i = rid" "CheckLeaseFence r m e = None" "fenced_effect w m r = Inr r'"
    using fenced_outcome [of r m e w r'] assms OFenced that by (cases w) (auto simp: store_ok_def)
  with OFenced assms show ?thesis
    by (auto simp: mem_write_eq fence_simps split: if_splits option.splits sum.splits)
next
  case (OReclaim i now d ma b)
  then show ?thesis using assms
    by (auto simp: mem_ReclaimExpiredRequest_def Let_def IsTerminalStatus_def
        split: option.splits if_splits)
next
  case (OCancel now sess i msg)
  then show ?thesis using assms
    by (auto simp: mem_CancelRequestFenced_def lookupFenced_def Let_def IsTerminalStatus_def
        split: option.splits if_splits)
next
  case (OReorder m)
  then show ?thesis using assms gm_get_perm [of "st_requests s" m rid]
    by (auto simp: store_ok_def keyed_def split: if_splits)
qed (use assms in \<open>auto simp: mem_InsertRequest_def mem_GetRequestChunksByRequest_def Let_def
      mem_DeleteTerminalRequestsBefore_def gm_get_prune store_ok_def keyed_def
      split: option.splits if_splits\<close>)

lemma outcome_terminal: "outcome r' = outcome r \<Longrightarrow> r_Status r' = r_Status r"
  by (simp add: outcome_def)

text \<open>C16: A terminal outcome stays.  Once a request is done, failed or cancelled, its status,
  result, error and dead-letter flag survive every operation of every server for as long as
  the row exists, provided no fenced requeue names it: late results, cancels, expiry and
  further chunks do not touch them.\<close>

theorem terminal_outcome_stays:
  assumes "store_ok s" and "quiet rid ops" and "list_all (\<lambda>op. \<not> requeues rid op) ops"
    and "mem_GetRequest rid s = Some r" and "IsTerminalStatus (r_Status r)"
    and "mem_GetRequest rid (run ops s) = Some r'"
  shows "outcome r' = outcome r"
  using assms
proof (induction ops arbitrary: s r)
  case (Cons op ops)
  then have legal: "legal_op op" "\<not> requeues rid op" and q: "quiet rid ops" "quiet rid [op]"
    by (auto simp: quiet_def)
  have ok: "store_ok (apply_op op s)" using store_ok_step Cons.prems(1) legal(1) by blast
  obtain r1 where r1: "mem_GetRequest rid (apply_op op s) = Some r1"
    using row_run [OF ok q(1), of r'] Cons.prems(6) by auto
  have o1: "outcome r1 = outcome r"
    using outcome_step [OF Cons.prems(1) legal, of r r1] Cons.prems(4,5) r1
    by (simp add: mem_GetRequest_def)
  with Cons.IH [OF ok q(1) _ r1] Cons.prems outcome_terminal [OF o1] show ?case by simp
qed auto

section \<open>Cancellation\<close>

inductive_cases lease_cancelledE: "lease_step (Over Cancelled e) x"

lemma apply_op_exists:
  assumes "gm_get (st_requests s) rid = Some r" "gm_wf (st_requests s)"
    and "\<And>cutoff. op = OSweep cutoff \<Longrightarrow> \<not> sweepable cutoff r"
  shows "\<exists>r'. gm_get (st_requests (apply_op op s)) rid = Some r'"
proof (cases op)
  case (OReorder m)
  then show ?thesis using assms gm_get_perm [of "st_requests s" m rid] by (auto dest: sym)
next
  case (OFenced w sess i m e)
  then show ?thesis using assms(1) by (auto simp: mem_write_eq split: option.split sum.split)
qed (use assms in \<open>auto simp: mem_InsertRequest_def mem_LeasePendingRequest_def mem_ClaimRequest_def
      mem_ReclaimExpiredRequest_def mem_CancelRequestFenced_def lookupFenced_def
      mem_GetRequestChunksByRequest_def mem_DeleteTerminalRequestsBefore_def gm_get_prune Let_def
      split: option.splits\<close>)

lemma cancelled_step:
  assumes "store_ok s" "legal_op op" "mem_GetRequest rid s = Some r" "r_Status r = Cancelled"
  shows "\<exists>r'. mem_GetRequest rid (apply_op op s) = Some r' \<and> r_Status r' = Cancelled"
proof -
  obtain r' where r': "mem_GetRequest rid (apply_op op s) = Some r'"
    using apply_op_exists [of s rid r op] assms
    by (auto simp: mem_GetRequest_def store_ok_def keyed_def sweepable_def)
  have "lease_step (lease_of r) (lease_of r')"
    using apply_op_rows [of s op rid r'] assms r'
    by (auto simp: store_ok_def mem_GetRequest_def intro: row_step_lease l_stay)
  moreover have "lease_of r = Over Cancelled (r_LeaseEpoch r)"
    using assms(4) by (simp add: lease_of_def IsTerminalStatus_def)
  ultimately have "lease_of r' = Over Cancelled (r_LeaseEpoch r)"
    by (auto elim: lease_cancelledE)
  with r' show ?thesis by (auto simp: lease_of_def split: if_splits)
qed

text \<open>Cancellation is final, and the row never leaves the store.  Whatever operations
  follow, fenced requeues and retention sweeps of any cutoff included, a cancelled request
  is still there and still cancelled.\<close>

theorem cancelled_never_leaves:
  assumes "store_ok s" and "list_all legal_op ops"
    and "mem_GetRequest rid s = Some r" and "r_Status r = Cancelled"
  shows "\<exists>r'. mem_GetRequest rid (run ops s) = Some r' \<and> r_Status r' = Cancelled"
  using assms
proof (induction ops arbitrary: s r)
  case (Cons op ops)
  then obtain r1 where "mem_GetRequest rid (apply_op op s) = Some r1" "r_Status r1 = Cancelled"
    using cancelled_step [of s op rid r] by auto
  with Cons.IH [of "apply_op op s" r1] Cons.prems store_ok_step show ?case by simp
qed auto

text \<open>A cancel takes effect once and only on a live request: it either reports the
  terminal row untouched, or turns the row into a cancelled, dead-lettered one without a
  lease, after which a second cancel reports false and every fenced write by a named
  machine is refused.\<close>

theorem cancel_wins_once:
  assumes "mem_CancelRequestFenced now sess rid msg s = (t, Inr (r', done))"
  shows "(\<not> done \<longrightarrow> t = s \<and> IsTerminalStatus (r_Status r'))
    \<and> (done \<longrightarrow> r_Status r' = Cancelled \<and> r_DeadLetter r' \<and> r_LeasedBy r' = ''''
         \<and> mem_CancelRequestFenced now' sess rid msg' t = (t, Inr (r', False))
         \<and> (m \<noteq> '''' \<longrightarrow> mem_write w sess rid m e t = (t, Inl StErrLeaseConflict)))"
  using assms
  by (auto simp: mem_CancelRequestFenced_def lookupFenced_def Let_def mem_write_eq cancel_row_def
      SetResult_def IsTerminalStatus_def split: option.splits if_splits)

text \<open>The exception to finality.  The fenced requeue does not look at the status, and the
  fence passes a finished request on the epoch alone: whoever knows the final epoch of a
  done or failed request of the session puts it back to pending.\<close>

theorem requeue_reopens_finished:
  assumes "mem_GetRequest rid s = Some r" and "r_Status r = Done \<or> r_Status r = Failed"
  shows "\<exists>r'. mem_RequeueRequestFenced now (r_SessionID r) rid m (r_LeaseEpoch r) reason b s
      = (upd_request rid r' s, Inr r') \<and> r_Status r' = Pending \<and> r_Result r' = r_Result r"
  using assms
  by (auto simp: mem_RequeueRequestFenced_def mem_GetRequest_def lookupFenced_def
      CheckLeaseFence_def requeue_row_def Let_def)

section \<open>Creation\<close>

definition keys_unique :: "store \<Rightarrow> bool" where
  "keys_unique s \<longleftrightarrow> (\<forall>i r j q. gm_get (st_requests s) i = Some r \<and> gm_get (st_requests s) j = Some q
     \<and> r_IdempotencyKey r \<noteq> '''' \<and> r_IdempotencyKey r = r_IdempotencyKey q
     \<and> r_SessionID r = r_SessionID q \<longrightarrow> i = j)"

lemma row_step_key:
  "row_step r r' \<Longrightarrow> r_IdempotencyKey r' = r_IdempotencyKey r \<and> r_SessionID r' = r_SessionID r"
proof (induction rule: row_step.induct)
  case (fenced m w r e r')
  then show ?case by (auto simp: same_grant_def dest: fenced_effect_grant)
qed (simp_all add: grant_lease_def reclaim_row_def cancel_row_def SetResult_def Let_def)

lemma insert_key_fresh:
  assumes "gm_get (st_requests s) (r_ID r) = None"
    and "gm_get (st_requests (fst (mem_InsertRequest r s))) (r_ID r) = Some r'"
    and "gm_get (st_requests s) j = Some q" "r_IdempotencyKey r \<noteq> ''''"
  shows "\<not> (r_SessionID q = r_SessionID r \<and> r_IdempotencyKey q = r_IdempotencyKey r)"
  using assms gm_get_vals [OF assms(3)]
  by (auto simp: mem_InsertRequest_def list_ex_iff split: if_splits)

definition same_key :: "request \<Rightarrow> request \<Rightarrow> bool" where
  "same_key r q \<longleftrightarrow> r_IdempotencyKey r = r_IdempotencyKey q \<and> r_SessionID r = r_SessionID q"

lemma same_key_sym: "same_key r q \<Longrightarrow> same_key q r"
  by (simp add: same_key_def)

lemma same_key_trans: "same_key r q \<Longrightarrow> same_key q p \<Longrightarrow> same_key r p"
  by (simp add: same_key_def)

lemma same_key_ne: "same_key r q \<Longrightarrow> r_IdempotencyKey r \<noteq> '''' \<Longrightarrow> r_IdempotencyKey q \<noteq> ''''"
  by (simp add: same_key_def)

lemma keys_uniqueI:
  assumes "\<And>i r j q. \<lbrakk>gm_get (st_requests s) i = Some r; gm_get (st_requests s) j = Some q;
     r_IdempotencyKey r \<noteq> ''''; same_key r q\<rbrakk> \<Longrightarrow> i = j"
  shows "keys_unique s"
  using assms unfolding keys_unique_def same_key_def by blast

lemma keys_uniqueD:
  "\<lbrakk>keys_unique s; gm_get (st_requests s) i = Some r; gm_get (st_requests s) j = Some q;
     r_IdempotencyKey r \<noteq> ''''; same_key r q\<rbrakk> \<Longrightarrow> i = j"
  unfolding keys_unique_def same_key_def by blast

lemma apply_op_key:
  assumes "store_ok s" "legal_op op" "gm_get (st_requests (apply_op op s)) i = Some r"
  obtains (new) "gm_get (st_requests s) i = None" "op = OInsert r" "r_ID r = i"
    | (old) r0 where "gm_get (st_requests s) i = Some r0" "same_key r0 r"
  using apply_op_rows [of s op i r] assms row_step_key
  by (auto simp: store_ok_def same_key_def)

lemma fresh_key:
  assumes "store_ok s" "legal_op op" "op = OInsert r" "gm_get (st_requests s) (r_ID r) = None"
    and "gm_get (st_requests (apply_op op s)) (r_ID r) = Some r"
    and "gm_get (st_requests (apply_op op s)) j = Some q" "r_IdempotencyKey r \<noteq> ''''" "same_key r q"
  shows "j = r_ID r"
  using assms(1,2,6)
proof (cases rule: apply_op_key)
  case new
  with assms(3) show ?thesis by simp
next
  case (old q0)
  with insert_key_fresh [of s r r j q0] assms show ?thesis by (simp add: same_key_def)
qed

lemma keys_unique_step:
  assumes "store_ok s" "legal_op op" "keys_unique s"
  shows "keys_unique (apply_op op s)"
proof (rule keys_uniqueI)
  fix i r j q
  let ?t = "st_requests (apply_op op s)"
  assume a: "gm_get ?t i = Some r" "gm_get ?t j = Some q" "r_IdempotencyKey r \<noteq> ''''" "same_key r q"
  from assms(1,2) a(1) show "i = j"
  proof (cases rule: apply_op_key)
    case new
    with fresh_key [OF assms(1,2), of r j q] a show ?thesis by simp
  next
    case i: (old r0)
    from assms(1,2) a(2) show ?thesis
    proof (cases rule: apply_op_key)
      case new
      with fresh_key [OF assms(1,2), of q i r] a same_key_ne [OF a(4)] same_key_sym [OF a(4)]
      show ?thesis by simp
    next
      case (old q0)
      have "same_key r0 q0"
        using same_key_trans [OF same_key_trans [OF i(2) a(4)] same_key_sym [OF old(2)]] .
      with keys_uniqueD [OF assms(3) i(1) old(1)] same_key_ne [OF same_key_sym [OF i(2)] a(3)]
      show ?thesis by simp
    qed
  qed
qed

lemma keys_unique_New: "keys_unique mem_New"
  by (rule keys_uniqueI) (simp add: mem_New_def)

lemma keys_unique_run:
  "store_ok s \<Longrightarrow> keys_unique s \<Longrightarrow> list_all legal_op ops \<Longrightarrow> keys_unique (run ops s)"
  by (induction ops arbitrary: s) (auto intro: keys_unique_step store_ok_step)

text \<open>Idempotent creation.  In every reachable state an idempotency key names at most one
  request of a session, so looking the key up finds that request, whatever the order the
  map is searched in.\<close>

theorem idempotency_key_finds_request:
  assumes "list_all legal_op ops" and "mem_GetRequest rid (run ops mem_New) = Some r"
    and "r_IdempotencyKey r \<noteq> ''''"
  shows "mem_GetRequestByIdempotencyKey (r_SessionID r) (r_IdempotencyKey r) (run ops mem_New) = Some r"
proof -
  let ?s = "run ops mem_New"
  have ok: "store_ok ?s" using assms(1) store_ok_run [OF store_ok_New] by (auto simp: list_all_iff)
  have u: "keys_unique ?s"
    by (rule keys_unique_run [OF store_ok_New keys_unique_New assms(1)])
  let ?P = "\<lambda>q. r_SessionID q = r_SessionID r \<and> r_IdempotencyKey q = r_IdempotencyKey r"
  have mem: "r \<in> set (gm_vals (st_requests ?s))"
    using assms(2) by (auto simp: mem_GetRequest_def intro: gm_get_vals)
  have only: "q = r" if "q \<in> set (gm_vals (st_requests ?s))" "?P q" for q
  proof -
    have q: "gm_get (st_requests ?s) (r_ID q) = Some q"
      using keyed_vals that(1) ok by (simp add: store_ok_def)
    have r: "gm_get (st_requests ?s) rid = Some r" using assms(2) by (simp add: mem_GetRequest_def)
    from keys_uniqueD [OF u q r] that(2) assms(3) have "r_ID q = rid" by (simp add: same_key_def)
    with q r show ?thesis by simp
  qed
  have "List.find ?P (gm_vals (st_requests ?s)) = Some r"
    by (rule find_only [OF mem only]) simp_all
  with assms(3) show ?thesis by (simp add: mem_GetRequestByIdempotencyKey_def)
qed

lemma vals_put_new:
  "gm_get m k = None \<Longrightarrow> gm_vals (gm_put k v m) = gm_vals m @ [v]"
  by (induction m) (auto simp: gm_vals_def gm_put_def gm_get_def split: if_splits)

text \<open>The backlog bound.  An insert that succeeds stores exactly that row and leaves the
  session with one more pending request and at most 512 of them; an insert that fails leaves
  the store as it was.\<close>

theorem insert_respects_backlog_cap:
  assumes "mem_InsertRequest r s = (t, res)" and "pending_live r"
  shows "(res = Inr () \<longrightarrow> mem_GetRequest (r_ID r) t = Some r
      \<and> session_pending (r_SessionID r) t = session_pending (r_SessionID r) s + 1
      \<and> session_pending (r_SessionID r) t \<le> MaxPendingRequestsPerSession)
    \<and> (res \<noteq> Inr () \<longrightarrow> t = s)"
  using assms
  by (auto simp: mem_InsertRequest_def mem_GetRequest_def session_pending_def vals_put_new
      split: if_splits)

section \<open>Claiming, renewing, reclaiming\<close>

lemma pick_oldest_min:
  "pick_oldest P p rs = Some r \<Longrightarrow>
     (\<forall>q \<in> set rs. P q \<longrightarrow> r_CreatedAt r \<le> r_CreatedAt q) \<and> (\<forall>q. p = Some q \<longrightarrow> r_CreatedAt r \<le> r_CreatedAt q)"
  by (induction P p rs rule: pick_oldest.induct) (fastforce split: if_splits option.splits)+

lemma pick_oldest_None: "pick_oldest P p rs = None \<longleftrightarrow> p = None \<and> (\<forall>q \<in> set rs. \<not> P q)"
  by (induction P p rs rule: pick_oldest.induct) (auto split: option.splits)

text \<open>C17: Claiming is first-come first-served and complete.  A successful poll grants a fresh
  lease on a stored request the machine may run (pending, not dead-lettered, backoff over,
  attempts left, a tool the machine registered and asked for), and no eligible request is
  older; a poll that returns nothing means no request was eligible, and changes nothing.\<close>

theorem lease_is_oldest_eligible:
  assumes "store_ok s" and "mem_LeasePendingRequest now sess m tools d s = (t, x)"
  shows "case x of
      None \<Rightarrow> t = s \<and> (\<forall>rid q. mem_GetRequest rid s = Some q \<longrightarrow>
         \<not> lease_eligible now sess (owned_tools sess m s) tools q)
    | Some r' \<Rightarrow> (\<exists>r. mem_GetRequest (r_ID r) s = Some r \<and> r' = grant_lease now d m r
         \<and> lease_eligible now sess (owned_tools sess m s) tools r
         \<and> mem_GetRequest (r_ID r) t = Some r' \<and> r_LeasedBy r' = m
         \<and> r_LeaseEpoch r' = r_LeaseEpoch r + 1
         \<and> (\<forall>rid q. mem_GetRequest rid s = Some q \<longrightarrow>
              lease_eligible now sess (owned_tools sess m s) tools q \<longrightarrow> r_CreatedAt r \<le> r_CreatedAt q))"
proof -
  let ?P = "lease_eligible now sess (owned_tools sess m s) tools"
  let ?vs = "gm_vals (st_requests s)"
  have k: "keyed (st_requests s)" using assms(1) by (simp add: store_ok_def)
  show ?thesis
  proof (cases "pick_oldest ?P None ?vs")
    case None
    with assms(2) show ?thesis
      by (auto simp: mem_LeasePendingRequest_def Let_def pick_oldest_None mem_GetRequest_def
          dest: gm_get_vals)
  next
    case (Some r)
    then have r: "gm_get (st_requests s) (r_ID r) = Some r" "?P r"
      using pick_oldest_P [OF Some] keyed_vals [OF k] by auto
    have "row_ok r" using assms(1) r(1) by (auto simp: store_ok_def)
    then have "r_LeaseEpoch (grant_lease now d m r) = r_LeaseEpoch r + 1"
      using grant_epoch [of r] r(2) by (simp add: grant_lease_def lease_eligible_def)
    moreover have "r_LeasedBy (grant_lease now d m r) = m" by (simp add: grant_lease_def)
    moreover have "r_CreatedAt r \<le> r_CreatedAt q" if "gm_get (st_requests s) i = Some q" "?P q" for i q
      using pick_oldest_min [OF Some] gm_get_vals [OF that(1)] that(2) by blast
    ultimately show ?thesis
      using assms(2) Some r
      by (auto simp: mem_LeasePendingRequest_def Let_def mem_GetRequest_def intro!: exI [of _ r])
  qed
qed

text \<open>A renewal keeps the grant and extends the deadline, into the future, by at most the
  lease duration and never past the moment the lease was granted plus the request's own
  timeout; it is refused once the deadline or that timeout has passed.\<close>

theorem renewal_never_outlives_timeout:
  assumes "mem_RenewRequestLease now sess rid m e d s = (t, Inr r')"
  shows "\<exists>r. mem_GetRequest rid s = Some r
    \<and> r' = r\<lparr> r_VisibleAt := r_VisibleAt r', r_UpdatedAt := now \<rparr>
    \<and> now < r_VisibleAt r \<and> now < r_VisibleAt r' \<and> r_VisibleAt r' \<le> now + d
    \<and> (\<forall>granted_at. r_LeasedAt r = Some granted_at \<longrightarrow>
         r_VisibleAt r' \<le> granted_at + seconds (r_TimeoutSeconds r)
         \<and> now < granted_at + seconds (r_TimeoutSeconds r))
    \<and> t = upd_request rid r' s"
  using assms
  by (auto simp: mem_RenewRequestLease_def lookupFenced_def renew_row_def mem_GetRequest_def Let_def
      split: option.splits sum.splits if_splits)

text \<open>Expiry.  Reclaiming succeeds exactly on a claimed or running request whose lease
  deadline or timeout has passed.  The row loses its lease; with its attempts used up it is
  dead-lettered as failed, otherwise it returns to the queue, where neither claim path can
  take it before the backoff has elapsed; and the machine that lost the lease cannot write
  to it under its old epoch.\<close>

theorem reclaim_outcome:
  assumes "mem_GetRequest rid s = Some r"
  shows "mem_ReclaimExpiredRequest rid now d ma b s =
      (if (r_Status r = Claimed \<or> r_Status r = Running) \<and> (LeaseExpired now r \<or> HasTimedOut now r)
       then (upd_request rid (reclaim_row now ma b r) s, Some (reclaim_row now ma b r)) else (s, None))
    \<and> r_LeasedBy (reclaim_row now ma b r) = '''' \<and> r_LeaseEpoch (reclaim_row now ma b r) = r_LeaseEpoch r
    \<and> (if ma > 0 \<and> r_Attempts r \<ge> ma
       then r_Status (reclaim_row now ma b r) = Failed \<and> r_DeadLetter (reclaim_row now ma b r)
       else r_Status (reclaim_row now ma b r) = Pending
         \<and> (m \<noteq> '''' \<longrightarrow> CheckLeaseFence (reclaim_row now ma b r) m e = Some StErrLeaseConflict)
         \<and> (now' < now + b \<longrightarrow> now + b \<noteq> zero_time \<longrightarrow> backoff_pending now' (reclaim_row now ma b r)))"
  using assms
  by (auto simp: mem_ReclaimExpiredRequest_def reclaim_row_def mem_GetRequest_def Let_def
      backoff_pending_def CheckLeaseFence_def)

section \<open>Concrete instances\<close>

text \<open>A store with one session, one machine and one tool, in which a request has been created
  and claimed, and the same store after the request is done, cancelled or expired.\<close>

definition demo_tool :: tool where
  "demo_tool = NewTool ''t1'' 1 ''s1'' ''m1'' ''echo'' '''' '''' [] []"

definition demo_row :: request where
  "demo_row = (NewRequest ''r1'' 1000 ''s1'' ''echo'' ''x'')\<lparr> r_IdempotencyKey := ''k1'' \<rparr>"

definition demo_ops :: "store_op list" where
  "demo_ops = [OOther (mem_New\<lparr> st_tools := [(''t1'', demo_tool)] \<rparr>), OInsert demo_row]"

definition demo_claim :: store_op where
  "demo_claim = OClaim 2000 ''s1'' ''r1'' ''m1'' 60"

definition demo_pending :: store where "demo_pending = run demo_ops mem_New"
definition demo_held :: store where "demo_held = apply_op demo_claim demo_pending"
definition demo_done :: store where
  "demo_done = apply_op (OFenced (FSubmit 2010 (VString ''ok'') ResultTypeResolution None) ''s1'' ''r1'' ''m1'' 1) demo_held"
definition demo_cancelled :: store where
  "demo_cancelled = apply_op (OCancel 2010 ''s1'' ''r1'' ''stop'') demo_held"

lemmas demo_defs = demo_tool_def demo_row_def demo_ops_def demo_claim_def demo_pending_def
  demo_held_def demo_done_def demo_cancelled_def

lemma demo_legal: "list_all legal_op demo_ops"
  by (simp add: demo_ops_def demo_row_def new_row_def NewRequest_def defaultRequestMaxAttempts_def)

lemma demo_ok [simp]:
  "store_ok demo_pending" "store_ok demo_held" "store_ok demo_done" "store_ok demo_cancelled"
proof -
  show p: "store_ok demo_pending"
    using store_ok_run [OF store_ok_New, of demo_ops] demo_legal
    by (simp add: demo_pending_def list_all_iff)
  show h: "store_ok demo_held"
    unfolding demo_held_def by (rule store_ok_step [OF p]) (simp add: demo_claim_def)
  show "store_ok demo_done"
    unfolding demo_done_def by (rule store_ok_step [OF h]) simp
  show "store_ok demo_cancelled"
    unfolding demo_cancelled_def by (rule store_ok_step [OF h]) simp
qed

lemma demo_rows:
  "mem_GetRequest ''r1'' demo_pending = Some demo_row"
  "mem_GetRequest ''r1'' demo_held = Some (grant_lease 2000 60 ''m1'' demo_row)"
  "mem_GetRequest ''r1'' demo_done =
     Some (submit_row 2010 (VString ''ok'') ResultTypeResolution None (grant_lease 2000 60 ''m1'' demo_row))"
  "mem_GetRequest ''r1'' demo_cancelled =
     Some (cancel_row 2010 ''stop'' (grant_lease 2000 60 ''m1'' demo_row))"
  by code_simp+

lemma demo_lease: "lease_of (grant_lease 2000 60 ''m1'' demo_row) = Held ''m1'' 1"
  by code_simp

theorem stale_writer_rejected_witness:
  "\<exists>err. mem_write (FAppend 3000 [''c'']) ''s1'' ''r1'' ''m0'' 0
      (run [OSweep 99, OReclaim ''r1'' 9000 60 3 5] demo_held)
    = (run [OSweep 99, OReclaim ''r1'' 9000 60 3 5] demo_held, Inl err)"
  by (rule stale_writer_rejected [OF demo_ok(2) _ demo_rows(2)])
    (simp_all add: quiet_def grant_lease_def demo_row_def NewRequest_def wrap64_id)

theorem one_holder_per_epoch_witness:
  "let ops = [OSweep 99, OFenced (FUpdate 2005 (Some Running) VNil '''' 60) ''s1'' ''r1'' ''m1'' 1];
       u = mem_write (FRenew 2010 60) ''s1'' ''r1'' ''m1'' 1 (run ops demo_held)
   in (\<exists>x. snd u = Inr x) \<and> (''m1'' = ''m1'' \<or>
      (\<exists>r'. mem_GetRequest ''r1'' (run ops demo_held) = Some r' \<and> IsTerminalStatus (r_Status r')))"
proof -
  let ?ops = "[OSweep 99, OFenced (FUpdate 2005 (Some Running) VNil '''' 60) ''s1'' ''r1'' ''m1'' 1]"
  let ?u = "mem_write (FRenew 2010 60) ''s1'' ''r1'' ''m1'' 1 (run ?ops demo_held)"
  have "\<not> isl (snd ?u)" by code_simp
  then obtain x where x: "?u = (fst ?u, Inr x)"
    by (metis prod.collapse sum.collapse(2))
  have "quiet ''r1'' ?ops" by (simp add: quiet_def)
  from one_holder_per_epoch [OF demo_ok(2) this demo_rows(2) demo_lease _ x]
  have t: "''m1'' = ''m1'' \<or> (\<exists>r'. mem_GetRequest ''r1'' (run ?ops demo_held) = Some r'
      \<and> IsTerminalStatus (r_Status r'))" by simp
  have "snd ?u = Inr x" using x by (metis snd_conv)
  with t show ?thesis unfolding Let_def by blast
qed

theorem store_refines_lease_witness:
  "lease_step (lease_of demo_row) (lease_of (grant_lease 2000 60 ''m1'' demo_row))"
  by (rule store_refines_lease [OF demo_ok(1) _ demo_rows(1) demo_rows(2) [unfolded demo_held_def]])
    (simp add: demo_claim_def)

theorem reachable_rows_ok_witness:
  "r_ID demo_row = ''r1'' \<and> r_LeaseEpoch demo_row = r_Attempts demo_row \<and> 0 \<le> r_Attempts demo_row
    \<and> r_Attempts demo_row \<le> r_MaxAttempts demo_row"
  using reachable_rows_ok [OF demo_legal demo_rows(1) [unfolded demo_pending_def]] by simp

theorem terminal_outcome_stays_witness:
  "\<exists>r r'. mem_GetRequest ''r1'' demo_done = Some r \<and> r_Status r = Done
    \<and> mem_GetRequest ''r1'' (run [OCancel 3000 ''s1'' ''r1'' ''late''] demo_done) = Some r'
    \<and> outcome r' = outcome r"
proof -
  let ?r = "submit_row 2010 (VString ''ok'') ResultTypeResolution None (grant_lease 2000 60 ''m1'' demo_row)"
  let ?ops = "[OCancel 3000 ''s1'' ''r1'' ''late'']"
  have same: "mem_GetRequest ''r1'' (run ?ops demo_done) = Some ?r" by code_simp
  have "outcome ?r = outcome ?r"
    by (rule terminal_outcome_stays [OF demo_ok(3) _ _ demo_rows(3) _ same])
      (simp_all add: quiet_def IsTerminalStatus_def)
  with same demo_rows(3) show ?thesis by simp
qed

theorem cancelled_never_leaves_witness:
  "\<exists>r'. mem_GetRequest ''r1'' (run [OSweep 999999, OSweep 9999999] demo_cancelled) = Some r'
    \<and> r_Status r' = Cancelled"
  by (rule cancelled_never_leaves [OF demo_ok(4) _ demo_rows(4)]) (simp_all add: cancel_row_def)

theorem cancel_wins_once_witness:
  "\<exists>r' t. mem_CancelRequestFenced 2010 ''s1'' ''r1'' ''stop'' demo_held = (t, Inr (r', True))
    \<and> r_Status r' = Cancelled
    \<and> mem_CancelRequestFenced 2020 ''s1'' ''r1'' ''again'' t = (t, Inr (r', False))
    \<and> mem_write (FAppend 2020 [''c'']) ''s1'' ''r1'' ''m1'' 1 t = (t, Inl StErrLeaseConflict)"
proof -
  let ?r = "cancel_row 2010 ''stop'' (grant_lease 2000 60 ''m1'' demo_row)"
  have c: "mem_CancelRequestFenced 2010 ''s1'' ''r1'' ''stop'' demo_held = (demo_cancelled, Inr (?r, True))"
    by code_simp
  from cancel_wins_once [OF c, of 2020 "''again''" "''m1''" "FAppend 2020 [''c'']" 1] c
  show ?thesis by simp
qed

theorem requeue_reopens_finished_witness:
  "\<exists>r'. mem_RequeueRequestFenced 5000 ''s1'' ''r1'' ''m9'' 1 ''machine at capacity'' 5 demo_done
     = (upd_request ''r1'' r' demo_done, Inr r') \<and> r_Status r' = Pending"
  using requeue_reopens_finished [OF demo_rows(3), of 5000 "''m9''" "''machine at capacity''" 5]
  by (auto simp: grant_lease_def demo_row_def NewRequest_def wrap64_id)

theorem idempotency_key_finds_request_witness:
  "mem_GetRequestByIdempotencyKey ''s1'' ''k1'' (run demo_ops mem_New) = Some demo_row"
  using idempotency_key_finds_request [OF demo_legal demo_rows(1) [unfolded demo_pending_def]]
  by (simp add: demo_row_def NewRequest_def)

theorem insert_respects_backlog_cap_witness:
  "session_pending ''s1'' (fst (mem_InsertRequest demo_row mem_New)) \<le> MaxPendingRequestsPerSession"
proof -
  have "mem_InsertRequest demo_row mem_New = (fst (mem_InsertRequest demo_row mem_New), Inr ())"
    by code_simp
  from insert_respects_backlog_cap [OF this] show ?thesis
    by (simp add: demo_row_def NewRequest_def pending_live_def)
qed

theorem lease_is_oldest_eligible_witness:
  "\<exists>r t. mem_LeasePendingRequest 2000 ''s1'' ''m1'' [] 60 demo_pending = (t, Some (grant_lease 2000 60 ''m1'' r))
    \<and> mem_GetRequest (r_ID r) t = Some (grant_lease 2000 60 ''m1'' r)"
proof -
  have "mem_LeasePendingRequest 2000 ''s1'' ''m1'' [] 60 demo_pending
    = (demo_held, Some (grant_lease 2000 60 ''m1'' demo_row))" by code_simp
  from lease_is_oldest_eligible [OF demo_ok(1) this] this show ?thesis by auto
qed

theorem renewal_never_outlives_timeout_witness:
  "\<exists>r'. snd (mem_RenewRequestLease 2050 ''s1'' ''r1'' ''m1'' 1 60 demo_held) = Inr r' \<and> 2050 < r_VisibleAt r'"
proof -
  let ?r = "(grant_lease 2000 60 ''m1'' demo_row)\<lparr> r_VisibleAt := 2110, r_UpdatedAt := 2050 \<rparr>"
  have "mem_RenewRequestLease 2050 ''s1'' ''r1'' ''m1'' 1 60 demo_held = (upd_request ''r1'' ?r demo_held, Inr ?r)"
    by code_simp
  from renewal_never_outlives_timeout [OF this] this show ?thesis by auto
qed

theorem reclaim_outcome_witness:
  "mem_ReclaimExpiredRequest ''r1'' 9000 60 3 5 demo_held =
     (upd_request ''r1'' (reclaim_row 9000 3 5 (grant_lease 2000 60 ''m1'' demo_row)) demo_held,
      Some (reclaim_row 9000 3 5 (grant_lease 2000 60 ''m1'' demo_row)))"
proof -
  let ?g = "grant_lease 2000 60 ''m1'' demo_row"
  have "r_Status ?g = Claimed" "LeaseExpired 9000 ?g" by code_simp+
  with reclaim_outcome [OF demo_rows(2), of 9000 60 3 5] show ?thesis by simp
qed

end
