(* ===== verification/Mem_Registry.thy ===== *)
theory Mem_Registry
  imports Mem_Store
begin

text \<open>
  The rest of the in-memory store (\<open>memory_store.go\<close>): machines and their drain flags, tasks
  and their adoption leases, sessions, API keys, the bounded audit trail, and tools with
  ownership transfer.  The theorems say who may own what: a machine credential is bound
  once, an adopted task has one live owner, a terminal task is final, a tool of a live
  machine is not taken away, tool names are unique in a session.
\<close>

section \<open>Machines\<close>

text \<open>\<open>cloneMachine\<close> drops the return-once token; the readers overlay the drain flag.\<close>

definition cloneMachine :: "machine \<Rightarrow> machine" where
  "cloneMachine m = m\<lparr> m_Token := '''' \<rparr>"

definition machineDrainingLocked :: "string \<Rightarrow> store \<Rightarrow> bool" where
  "machineDrainingLocked machineID s \<longleftrightarrow> gm_get (st_draining s) machineID \<noteq> None"

definition drain_view :: "store \<Rightarrow> machine \<Rightarrow> machine" where
  "drain_view s m = (cloneMachine m)\<lparr> m_Draining := machineDrainingLocked (m_ID m) s \<rparr>"

definition mem_AllMachines :: "store \<Rightarrow> machine list" where
  "mem_AllMachines s = map (drain_view s) (gm_vals (st_machines s))"

definition mem_ListMachinesBySession :: "string \<Rightarrow> store \<Rightarrow> machine list" where
  "mem_ListMachinesBySession sessionID s =
     map (drain_view s) (filter (\<lambda>m. m_SessionID m = sessionID) (gm_vals (st_machines s)))"

definition mem_GetMachine :: "string \<Rightarrow> store \<Rightarrow> machine option" where
  "mem_GetMachine machineID s =
     map_option (\<lambda>m. (cloneMachine m)\<lparr> m_Draining := machineDrainingLocked machineID s \<rparr>)
       (gm_get (st_machines s) machineID)"

definition mem_SaveMachine :: "machine \<Rightarrow> store \<Rightarrow> store" where
  "mem_SaveMachine machine s =
     (case gm_get (st_machines s) (m_ID machine) of
        Some existing \<Rightarrow>
          (let incoming = (cloneMachine machine)\<lparr> m_CreatedAt := m_CreatedAt existing \<rparr>;
               incoming' = (if m_TokenHash existing \<noteq> ''''
                            then incoming\<lparr> m_TokenHash := m_TokenHash existing \<rparr> else incoming)
           in s\<lparr> st_machines := gm_put (m_ID machine) incoming' (st_machines s) \<rparr>)
      | None \<Rightarrow> s\<lparr> st_machines := gm_put (m_ID machine) (cloneMachine machine) (st_machines s) \<rparr>)"

definition mem_TouchMachineLastPing :: "string \<Rightarrow> string \<Rightarrow> time \<Rightarrow> store \<Rightarrow> store" where
  "mem_TouchMachineLastPing sessionID machineID seen s =
     (case gm_get (st_machines s) machineID of
        None \<Rightarrow> s
      | Some m \<Rightarrow> if m_SessionID m \<noteq> sessionID then s
                  else s\<lparr> st_machines := gm_put machineID (m\<lparr> m_LastPingAt := seen \<rparr>) (st_machines s) \<rparr>)"

definition mem_BindMachineToken :: "string \<Rightarrow> string \<Rightarrow> store \<Rightarrow> store \<times> bool" where
  "mem_BindMachineToken machineID tokenHash s =
     (case gm_get (st_machines s) machineID of
        None \<Rightarrow> (s, False)
      | Some m \<Rightarrow>
          if m_TokenHash m \<noteq> '''' then (s, False)
          else (s\<lparr> st_machines := gm_put machineID (m\<lparr> m_TokenHash := tokenHash \<rparr>) (st_machines s) \<rparr>, True))"

definition mem_DeleteMachine :: "string \<Rightarrow> store \<Rightarrow> store" where
  "mem_DeleteMachine machineID s =
     s\<lparr> st_machines := gm_del machineID (st_machines s),
        st_machineTools := gm_del machineID (st_machineTools s),
        st_draining := gm_del machineID (st_draining s) \<rparr>"

text \<open>A loop that stops once \<open>limit\<close> results are collected (\<open>limit \<le> 0\<close>: never).\<close>

fun stale_upto :: "time \<Rightarrow> int \<Rightarrow> machine list \<Rightarrow> machine list \<Rightarrow> machine list" where
  "stale_upto cutoff limit out [] = out"
| "stale_upto cutoff limit out (m # ms) =
     (let out' = (if m_LastPingAt m < cutoff then out @ [cloneMachine m] else out)
      in if limit > 0 \<and> int (length out') \<ge> limit then out' else stale_upto cutoff limit out' ms)"

definition mem_ListStaleMachines :: "time \<Rightarrow> int \<Rightarrow> store \<Rightarrow> machine list" where
  "mem_ListStaleMachines cutoff limit s = stale_upto cutoff limit [] (gm_vals (st_machines s))"

record tool_update =
  tu_ToolID :: string
  tu_SessionID :: string

definition tool_updates :: "(tool \<Rightarrow> bool) \<Rightarrow> store \<Rightarrow> tool_update list" where
  "tool_updates P s =
     map (\<lambda>t. \<lparr> tu_ToolID = tl_ID t, tu_SessionID = tl_SessionID t \<rparr>) (filter P (gm_vals (st_tools s)))"

definition disown :: "string \<Rightarrow> tool \<Rightarrow> tool" where
  "disown machineID t = (if tl_MachineID t = machineID then t\<lparr> tl_MachineID := '''' \<rparr> else t)"

definition mem_ReclaimMachine ::
  "string \<Rightarrow> time \<Rightarrow> store \<Rightarrow> store \<times> (string \<times> tool_update list) option" where
  "mem_ReclaimMachine machineID cutoff s =
     (case gm_get (st_machines s) machineID of
        None \<Rightarrow> (s, None)
      | Some m \<Rightarrow>
          if \<not> m_LastPingAt m < cutoff then (s, None)
          else (s\<lparr> st_tools := map (\<lambda>(k, t). (k, disown machineID t)) (st_tools s),
                   st_machines := gm_del machineID (st_machines s),
                   st_machineTools := gm_del machineID (st_machineTools s) \<rparr>,
                Some (m_SessionID m, tool_updates (\<lambda>t. tl_MachineID t = machineID) s)))"

definition mem_SetMachineDraining :: "string \<Rightarrow> string \<Rightarrow> store \<Rightarrow> store" where
  "mem_SetMachineDraining sessionID machineID s =
     (case gm_get (st_machines s) machineID of
        None \<Rightarrow> s
      | Some m \<Rightarrow> if m_SessionID m = sessionID
                  then s\<lparr> st_draining := gm_put machineID () (st_draining s) \<rparr> else s)"

definition mem_ClearMachineDraining :: "string \<Rightarrow> store \<Rightarrow> store" where
  "mem_ClearMachineDraining machineID s = s\<lparr> st_draining := gm_del machineID (st_draining s) \<rparr>"

definition mem_IsMachineDraining :: "string \<Rightarrow> store \<Rightarrow> bool" where
  "mem_IsMachineDraining machineID s \<longleftrightarrow> gm_get (st_draining s) machineID \<noteq> None"

section \<open>Tasks\<close>

definition mem_AllTasks :: "store \<Rightarrow> task list" where
  "mem_AllTasks s = gm_vals (st_tasks s)"

definition mem_GetTaskByID :: "string \<Rightarrow> store \<Rightarrow> task option" where
  "mem_GetTaskByID taskID s = gm_get (st_tasks s) taskID"

definition mem_ListTasksBySession :: "string \<Rightarrow> store \<Rightarrow> task list" where
  "mem_ListTasksBySession sessionID s = filter (\<lambda>t. tk_SessionID t = sessionID) (gm_vals (st_tasks s))"

definition mem_GetTaskByIdempotencyKey :: "string \<Rightarrow> string \<Rightarrow> store \<Rightarrow> task option" where
  "mem_GetTaskByIdempotencyKey sessionID idempotencyKey s =
     (if idempotencyKey = '''' then None
      else List.find (\<lambda>t. tk_SessionID t = sessionID \<and> tk_IdempotencyKey t = idempotencyKey)
             (gm_vals (st_tasks s)))"

definition put_task :: "string \<Rightarrow> task \<Rightarrow> store \<Rightarrow> store" where
  "put_task taskID t s = s\<lparr> st_tasks := gm_put taskID t (st_tasks s) \<rparr>"

definition mem_SaveTask :: "task \<Rightarrow> store \<Rightarrow> store" where
  "mem_SaveTask task s =
     (case gm_get (st_tasks s) (tk_ID task) of
        Some existing \<Rightarrow> if task_terminal existing then s else put_task (tk_ID task) task s
      | None \<Rightarrow> put_task (tk_ID task) task s)"

definition mem_DeleteTask :: "string \<Rightarrow> store \<Rightarrow> store" where
  "mem_DeleteTask taskID s =
     s\<lparr> st_tasks := gm_del taskID (st_tasks s), st_taskOwners := gm_del taskID (st_taskOwners s) \<rparr>"

definition mem_FindNonTerminalTasks :: "store \<Rightarrow> task list" where
  "mem_FindNonTerminalTasks s =
     filter (\<lambda>t. \<not> tk_DeadLetter t \<and> \<not> task_terminal t) (gm_vals (st_tasks s))"

text \<open>An owner whose last touch is younger than the lease keeps the task.\<close>

definition live_owner :: "time \<Rightarrow> duration \<Rightarrow> string \<Rightarrow> task \<Rightarrow> store \<Rightarrow> bool" where
  "live_owner now leaseTTL taskID t s =
     (case gm_get (st_taskOwners s) taskID of
        None \<Rightarrow> False
      | Some owner \<Rightarrow> owner \<noteq> '''' \<and> tk_UpdatedAt t > now - leaseTTL)"

definition adoptable :: "time \<Rightarrow> duration \<Rightarrow> store \<Rightarrow> task \<Rightarrow> bool" where
  "adoptable now leaseTTL s t \<longleftrightarrow> \<not> tk_DeadLetter t \<and> \<not> task_terminal t
     \<and> \<not> (case tk_NextAttemptAt t of None \<Rightarrow> False | Some na \<Rightarrow> na > now)
     \<and> \<not> live_owner now leaseTTL (tk_ID t) t s"

definition mem_FindAdoptableTasks :: "time \<Rightarrow> duration \<Rightarrow> int \<Rightarrow> store \<Rightarrow> task list" where
  "mem_FindAdoptableTasks now leaseTTL limit0 s =
     (let limit = (if limit0 \<le> 0 then 32 else limit0)
      in take (nat limit) (filter (adoptable now leaseTTL s) (gm_vals (st_tasks s))))"

definition mem_ClaimTaskForAdoption ::
  "time \<Rightarrow> string \<Rightarrow> string \<Rightarrow> duration \<Rightarrow> store \<Rightarrow> store \<times> task option" where
  "mem_ClaimTaskForAdoption now taskID instanceID leaseTTL s =
     (case gm_get (st_tasks s) taskID of
        None \<Rightarrow> (s, None)
      | Some t \<Rightarrow>
          if tk_DeadLetter t \<or> task_terminal t then (s, None)
          else if live_owner now leaseTTL taskID t s then (s, None)
          else let t' = t\<lparr> tk_UpdatedAt := now \<rparr>
               in (s\<lparr> st_taskOwners := gm_put taskID instanceID (st_taskOwners s),
                      st_tasks := gm_put taskID t' (st_tasks s) \<rparr>, Some t'))"

text \<open>Reading an absent key of a Go map of strings gives \<open>""\<close>.\<close>

definition task_owner :: "string \<Rightarrow> store \<Rightarrow> string" where
  "task_owner taskID s = (case gm_get (st_taskOwners s) taskID of None \<Rightarrow> '''' | Some w \<Rightarrow> w)"

definition mem_RenewTaskAdoption :: "time \<Rightarrow> string \<Rightarrow> string \<Rightarrow> store \<Rightarrow> store \<times> bool" where
  "mem_RenewTaskAdoption now taskID instanceID s =
     (case gm_get (st_tasks s) taskID of
        None \<Rightarrow> (s, False)
      | Some t \<Rightarrow> if task_owner taskID s \<noteq> instanceID then (s, False)
                  else (put_task taskID (t\<lparr> tk_UpdatedAt := now \<rparr>) s, True))"

definition mem_ReleaseTaskAdoption :: "time \<Rightarrow> string \<Rightarrow> string \<Rightarrow> store \<Rightarrow> store" where
  "mem_ReleaseTaskAdoption now taskID instanceID s =
     (if task_owner taskID s \<noteq> instanceID then s
      else let s' = s\<lparr> st_taskOwners := gm_del taskID (st_taskOwners s) \<rparr>
           in case gm_get (st_tasks s) taskID of
                None \<Rightarrow> s' | Some t \<Rightarrow> put_task taskID (t\<lparr> tk_UpdatedAt := now \<rparr>) s')"

section \<open>Sessions and API keys\<close>

definition mem_AllSessions :: "store \<Rightarrow> session list" where
  "mem_AllSessions s = gm_vals (st_sessions s)"

definition mem_GetSession :: "string \<Rightarrow> store \<Rightarrow> session option" where
  "mem_GetSession sessionID s = gm_get (st_sessions s) sessionID"

definition mem_InsertSessionIfAbsent :: "session \<Rightarrow> store \<Rightarrow> store \<times> bool" where
  "mem_InsertSessionIfAbsent session s =
     (if gm_get (st_sessions s) (ss_ID session) \<noteq> None then (s, False)
      else (s\<lparr> st_sessions := gm_put (ss_ID session) session (st_sessions s) \<rparr>, True))"

definition mem_SaveSession :: "session \<Rightarrow> store \<Rightarrow> store" where
  "mem_SaveSession session s =
     s\<lparr> st_sessions := gm_put (ss_ID session) session (st_sessions s) \<rparr>"

definition mem_DeleteSession :: "string \<Rightarrow> store \<Rightarrow> store" where
  "mem_DeleteSession sessionID s =
     s\<lparr> st_sessions := gm_del sessionID (st_sessions s),
        st_userSess := map (\<lambda>(u, ids). (u, gm_del sessionID ids)) (st_userSess s),
        st_apiKeys := gm_prune (\<lambda>k. k_SessionID k = sessionID) (st_apiKeys s) \<rparr>"

definition mem_AllUserSessions :: "store \<Rightarrow> string list gomap" where
  "mem_AllUserSessions s = map (\<lambda>(u, ids). (u, map fst ids)) (st_userSess s)"

definition mem_AddUserSession :: "string \<Rightarrow> string \<Rightarrow> store \<Rightarrow> store" where
  "mem_AddUserSession userID sessionID s =
     s\<lparr> st_userSess := gm_put2 userID sessionID () (st_userSess s) \<rparr>"

definition mem_RemoveUserSession :: "string \<Rightarrow> string \<Rightarrow> store \<Rightarrow> store" where
  "mem_RemoveUserSession userID sessionID s =
     (case gm_get (st_userSess s) userID of
        None \<Rightarrow> s
      | Some ids \<Rightarrow> s\<lparr> st_userSess := gm_put userID (gm_del sessionID ids) (st_userSess s) \<rparr>)"

definition mem_AllApiKeys :: "store \<Rightarrow> api_key list" where
  "mem_AllApiKeys s = gm_vals (st_apiKeys s)"

definition mem_GetAPIKeyByHash :: "string \<Rightarrow> store \<Rightarrow> api_key option" where
  "mem_GetAPIKeyByHash keyHash s = List.find (\<lambda>k. k_KeyHash k = keyHash) (gm_vals (st_apiKeys s))"

definition mem_SaveApiKey :: "api_key \<Rightarrow> store \<Rightarrow> store" where
  "mem_SaveApiKey key s = s\<lparr> st_apiKeys := gm_put (k_ID key) key (st_apiKeys s) \<rparr>"

section \<open>The audit trail\<close>

definition memoryAuditCapacity :: nat where "memoryAuditCapacity = 1024"

definition mem_RecordAuditEvent :: "audit_event \<Rightarrow> store \<Rightarrow> store" where
  "mem_RecordAuditEvent event s =
     (let nid = wrap64 (st_auditNextID s + 1);
          log = st_auditLog s @ [event\<lparr> a_ID := nid \<rparr>];
          log' = (if length log > memoryAuditCapacity then drop (length log - memoryAuditCapacity) log
                  else log)
      in s\<lparr> st_auditNextID := nid, st_auditLog := log' \<rparr>)"

definition audit_matches :: "audit_filter \<Rightarrow> audit_event \<Rightarrow> bool" where
  "audit_matches filt e \<longleftrightarrow>
     \<not> (f_SessionID filt \<noteq> '''' \<and> a_SessionID e \<noteq> f_SessionID filt)
     \<and> \<not> (f_ActorKeyID filt \<noteq> '''' \<and> a_ActorKeyID e \<noteq> f_ActorKeyID filt)
     \<and> \<not> (f_Event filt \<noteq> '''' \<and> a_Event e \<noteq> f_Event filt)"

text \<open>The backward walk: \<open>skipped\<close> matching events have been passed over, \<open>out\<close> collected; the
  list is the rest of the log, newest first.\<close>

fun audit_walk ::
  "audit_filter \<Rightarrow> int \<Rightarrow> int \<Rightarrow> int \<Rightarrow> audit_event list \<Rightarrow> audit_event list \<Rightarrow> audit_event list" where
  "audit_walk filt limit offset skipped out [] = out"
| "audit_walk filt limit offset skipped out (e # es) =
     (if \<not> int (length out) < limit then out
      else if \<not> audit_matches filt e then audit_walk filt limit offset skipped out es
      else if skipped < offset then audit_walk filt limit offset (skipped + 1) out es
      else audit_walk filt limit offset skipped (out @ [e]) es)"

definition mem_ListAuditEvents :: "audit_filter \<Rightarrow> store \<Rightarrow> audit_event list \<times> int" where
  "mem_ListAuditEvents filt s =
     (let total = int (length (filter (audit_matches filt) (st_auditLog s)));
          limit = (if f_Limit filt \<le> 0 then 50 else f_Limit filt);
          offset = (if f_Offset filt < 0 then 0 else f_Offset filt)
      in (audit_walk filt limit offset 0 [] (rev (st_auditLog s)), total))"

definition mem_AuditEvents :: "store \<Rightarrow> audit_event list" where
  "mem_AuditEvents s = st_auditLog s"

definition mem_DeleteAuditEventsBefore :: "time \<Rightarrow> store \<Rightarrow> store \<times> int" where
  "mem_DeleteAuditEventsBefore cutoff s =
     (s\<lparr> st_auditLog := filter (\<lambda>e. \<not> a_CreatedAt e < cutoff) (st_auditLog s) \<rparr>,
      int (length (filter (\<lambda>e. a_CreatedAt e < cutoff) (st_auditLog s))))"

section \<open>Tools\<close>

definition mem_AllTools :: "store \<Rightarrow> tool list" where
  "mem_AllTools s = gm_vals (st_tools s)"

definition mem_GetToolByName :: "string \<Rightarrow> string \<Rightarrow> store \<Rightarrow> tool option" where
  "mem_GetToolByName sessionID name s =
     List.find (\<lambda>t. tl_SessionID t = sessionID \<and> tl_Name t = name) (gm_vals (st_tools s))"

definition mem_ListToolsBySession :: "string \<Rightarrow> store \<Rightarrow> tool list" where
  "mem_ListToolsBySession sessionID s = filter (\<lambda>t. tl_SessionID t = sessionID) (gm_vals (st_tools s))"

definition mem_SaveTool :: "tool \<Rightarrow> store \<Rightarrow> store" where
  "mem_SaveTool tool s =
     (let s1 = s\<lparr> st_tools := gm_put (tl_ID tool) tool (st_tools s) \<rparr>
      in if tl_MachineID tool \<noteq> ''''
         then s1\<lparr> st_machineTools := gm_put2 (tl_MachineID tool) (tl_ID tool) () (st_machineTools s) \<rparr>
         else s1)"

definition mem_DeleteTool :: "string \<Rightarrow> store \<Rightarrow> store" where
  "mem_DeleteTool toolID s =
     (let s1 = (case gm_get (st_tools s) toolID of
                  None \<Rightarrow> s
                | Some t \<Rightarrow>
                    (case gm_get (st_machineTools s) (tl_MachineID t) of
                       None \<Rightarrow> s
                     | Some ids \<Rightarrow> s\<lparr> st_machineTools :=
                         gm_put (tl_MachineID t) (gm_del toolID ids) (st_machineTools s) \<rparr>))
      in s1\<lparr> st_tools := gm_del toolID (st_tools s1) \<rparr>)"

text \<open>Tools are keyed by their own id, so \<open>delete(s.tools, t.ID)\<close> removes the visited row.\<close>

definition mem_DeleteToolsByMachine :: "string \<Rightarrow> store \<Rightarrow> store \<times> tool_update list" where
  "mem_DeleteToolsByMachine machineID s =
     (s\<lparr> st_tools := gm_prune (\<lambda>t. tl_MachineID t = machineID) (st_tools s),
         st_machineTools := gm_del machineID (st_machineTools s) \<rparr>,
      tool_updates (\<lambda>t. tl_MachineID t = machineID) s)"

definition refresh_tool :: "tool \<Rightarrow> tool \<Rightarrow> tool" where
  "refresh_tool tool existing =
     existing\<lparr> tl_Description := tl_Description tool, tl_Schema := tl_Schema tool,
               tl_Config := tl_Config tool, tl_Tags := tl_Tags tool,
               tl_LastPingAt := tl_LastPingAt tool \<rparr>"

text \<open>The scan for the tool of that name keeps the key it is stored under.\<close>

definition find_tool :: "string \<Rightarrow> string \<Rightarrow> store \<Rightarrow> (string \<times> tool) option" where
  "find_tool sessionID name s =
     List.find (\<lambda>(k, t). tl_SessionID t = sessionID \<and> tl_Name t = name) (st_tools s)"

definition owner_stale :: "time \<Rightarrow> tool \<Rightarrow> store \<Rightarrow> bool" where
  "owner_stale staleCutoff existing s =
     (case gm_get (st_machines s) (tl_MachineID existing) of
        None \<Rightarrow> True | Some m \<Rightarrow> m_LastPingAt m < staleCutoff)"

text \<open>Result: the stored tool, the owner it replaces, and whether the claim conflicts.\<close>

definition mem_ClaimToolOwnership ::
  "tool \<Rightarrow> time \<Rightarrow> store \<Rightarrow> store \<times> tool \<times> string \<times> storage_error option" where
  "mem_ClaimToolOwnership tool staleCutoff s =
     (case find_tool (tl_SessionID tool) (tl_Name tool) s of
        Some (k, existing) \<Rightarrow>
          if tl_MachineID existing = tl_MachineID tool
          then (let t = refresh_tool tool existing
                in (s\<lparr> st_tools := gm_put k t (st_tools s) \<rparr>, t, '''', None))
          else if owner_stale staleCutoff existing s
          then (let t = (refresh_tool tool existing)\<lparr> tl_MachineID := tl_MachineID tool \<rparr>
                in (s\<lparr> st_tools := gm_put k t (st_tools s) \<rparr>, t, tl_MachineID existing, None))
          else (s, existing, '''', Some StErrToolOwnershipConflict)
      | None \<Rightarrow> (mem_SaveTool tool s, tool, '''', None))"

end
