(* ===== verification/Registry_Theorems.thy ===== *)
theory Registry_Theorems
  imports Mem_Registry
begin

text \<open>
  What the registry half of the in-memory store guarantees: bounded and ordered audit
  trail with exact paging, exclusive task adoption, final task outcomes, credentials bound
  once, tool ownership that a live owner keeps, and complete session deletion.
\<close>

section \<open>The audit trail\<close>

text \<open>The walk of \<open>ListAuditEvents\<close> is the page of the filtered log.\<close>

lemma audit_walk_page:
  assumes "skipped \<le> offset" "int (length out) \<le> limit"
  shows "audit_walk filt limit offset skipped out es =
    out @ take (nat (limit - int (length out))) (drop (nat (offset - skipped)) (filter (audit_matches filt) es))"
  using assms
proof (induction filt limit offset skipped out es rule: audit_walk.induct)
  case (2 filt limit offset skipped out e es)
  show ?case
  proof (cases "int (length out) < limit")
    case True
    have more: "nat (limit - int (length out)) = Suc (nat (limit - int (length out) - 1))"
      using True by simp
    consider "\<not> audit_matches filt e" | "audit_matches filt e" "skipped < offset"
      | "audit_matches filt e" "skipped = offset" using 2(4) by fastforce
    then show ?thesis
    proof cases
      case 2
      have "nat (offset - skipped) = Suc (nat (offset - (skipped + 1)))" using 2 by simp
      with 2 True "2.IH" "2.prems" show ?thesis by simp
    next
      case 3
      then show ?thesis using True "2.IH" "2.prems" more by (simp add: algebra_simps)
    qed (use True "2.IH" "2.prems" in simp)
  qed (use 2(5) in simp)
qed simp

lemma record_audit_log:
  "st_auditLog (mem_RecordAuditEvent e s) =
     (let log = st_auditLog s @ [e\<lparr> a_ID := wrap64 (st_auditNextID s + 1) \<rparr>]
      in drop (length log - memoryAuditCapacity) log)"
  by (auto simp: mem_RecordAuditEvent_def Let_def)

fun record_all :: "audit_event list \<Rightarrow> store \<Rightarrow> store" where
  "record_all [] s = s"
| "record_all (e # es) s = record_all es (mem_RecordAuditEvent e s)"

fun number_from :: "int \<Rightarrow> audit_event list \<Rightarrow> audit_event list" where
  "number_from n [] = []"
| "number_from n (e # es) = e\<lparr> a_ID := n \<rparr> # number_from (n + 1) es"

lemma length_number_from [simp]: "length (number_from n es) = length es"
  by (induction n es rule: number_from.induct) auto

text \<open>The last \<open>n\<close> of a list.\<close>

definition lastn :: "nat \<Rightarrow> 'a list \<Rightarrow> 'a list" where
  "lastn n xs = drop (length xs - n) xs"

lemma lastn_lastn_append: "lastn n (lastn n xs @ ys) = lastn n (xs @ ys)"
proof (cases "length xs \<le> n")
  case False
  then have "lastn n xs @ ys = drop (length xs - n) (xs @ ys)" by (simp add: lastn_def)
  with False show ?thesis by (simp add: lastn_def add.commute)
qed (simp add: lastn_def)

lemma record_all_log:
  assumes "0 \<le> st_auditNextID s" "st_auditNextID s + int (length es) \<le> max_int64"
    and "length (st_auditLog s) \<le> memoryAuditCapacity"
  shows "st_auditLog (record_all es s) =
      lastn memoryAuditCapacity (st_auditLog s @ number_from (st_auditNextID s + 1) es)
    \<and> st_auditNextID (record_all es s) = st_auditNextID s + int (length es)"
  using assms
proof (induction es arbitrary: s)
  case (Cons e es)
  let ?t = "mem_RecordAuditEvent e s"
  have nid: "st_auditNextID ?t = st_auditNextID s + 1"
    using Cons.prems wrap64_suc [of "st_auditNextID s"] by (simp add: mem_RecordAuditEvent_def Let_def)
  have log: "st_auditLog ?t = lastn memoryAuditCapacity (st_auditLog s @ [e\<lparr> a_ID := st_auditNextID s + 1 \<rparr>])"
    using Cons.prems wrap64_suc [of "st_auditNextID s"] by (simp add: record_audit_log lastn_def Let_def)
  have "length (st_auditLog ?t) \<le> memoryAuditCapacity" by (simp add: log lastn_def)
  with Cons.IH [of ?t] Cons.prems nid show ?case
    by (simp add: log lastn_lastn_append algebra_simps)
qed (simp add: lastn_def)

text \<open>The in-memory audit trail keeps exactly the newest 1024 events, in the order they
  were recorded, numbered consecutively from 1 even after older ones were dropped.\<close>

theorem audit_trail_keeps_newest:
  assumes "int (length es) \<le> max_int64"
  shows "st_auditLog (record_all es mem_New) = lastn memoryAuditCapacity (number_from 1 es)"
  using record_all_log [of mem_New es] assms by (simp add: mem_New_def)

definition login_event :: "string \<Rightarrow> audit_event" where
  "login_event sess = \<lparr> a_ID = 0, a_CreatedAt = 5, a_Event = ''login'', a_SessionID = sess, a_MachineID = '''',
     a_RequestID = '''', a_TaskID = '''', a_ActorKeyID = ''key1'', a_Details = None \<rparr>"

theorem audit_trail_keeps_newest_witness:
  "st_auditLog (record_all [login_event ''s1'', login_event ''s2''] mem_New) =
     [login_event ''s1''\<lparr> a_ID := 1 \<rparr>, login_event ''s2''\<lparr> a_ID := 2 \<rparr>]"
  using audit_trail_keeps_newest [of "[login_event ''s1'', login_event ''s2'']"]
  by (simp add: lastn_def memoryAuditCapacity_def)

text \<open>Listing audit events returns exactly one page: the matching events newest first,
  the first \<open>offset\<close> skipped, at most \<open>limit\<close> (50 by default) returned, together with the
  number of all matches.\<close>

lemma audit_listing_is_page:
  "mem_ListAuditEvents filt s =
     (take (nat (if f_Limit filt \<le> 0 then 50 else f_Limit filt))
        (drop (nat (f_Offset filt)) (rev (filter (audit_matches filt) (st_auditLog s)))),
      int (length (filter (audit_matches filt) (st_auditLog s))))"
  by (simp add: mem_ListAuditEvents_def Let_def audit_walk_page rev_filter)

section \<open>Task adoption\<close>

text \<open>A claim protocol: an instance acquires a key unless somebody holds it at that moment.\<close>

locale exclusive_claim =
  fixes claim :: "time \<Rightarrow> string \<Rightarrow> string \<Rightarrow> 's \<Rightarrow> 's \<times> bool"
    and holds :: "time \<Rightarrow> string \<Rightarrow> string \<Rightarrow> 's \<Rightarrow> bool"
  assumes acquired: "claim now k w s = (t, True) \<Longrightarrow> w \<noteq> '''' \<Longrightarrow> holds now k w t"
    and no_steal: "holds now k w s \<Longrightarrow> claim now k w' s = (s, False)"
    and one_holder: "holds now k w s \<Longrightarrow> holds now k w' s \<Longrightarrow> w' = w"
begin

text \<open>While a holder is live, any number of rival claims changes nothing.\<close>

lemma rivals_fail: "holds now k w s \<Longrightarrow> foldl (\<lambda>s w'. fst (claim now k w' s)) s rivals = s"
  by (induction rivals) (simp_all add: no_steal)

lemma claim_then_rivals:
  "claim now k w s = (t, True) \<Longrightarrow> w \<noteq> '''' \<Longrightarrow> foldl (\<lambda>s w'. fst (claim now k w' s)) t rivals = t"
  by (rule rivals_fail) (rule acquired)

end

definition adopt :: "duration \<Rightarrow> time \<Rightarrow> string \<Rightarrow> string \<Rightarrow> store \<Rightarrow> store \<times> bool" where
  "adopt ttl now k w s =
     (case mem_ClaimTaskForAdoption now k w ttl s of (t, r) \<Rightarrow> (t, r \<noteq> None))"

definition adopted :: "duration \<Rightarrow> time \<Rightarrow> string \<Rightarrow> string \<Rightarrow> store \<Rightarrow> bool" where
  "adopted ttl now k w s \<longleftrightarrow> w \<noteq> '''' \<and> gm_get (st_taskOwners s) k = Some w
     \<and> (\<exists>t. gm_get (st_tasks s) k = Some t \<and> tk_UpdatedAt t > now - ttl)"

lemma adoption_exclusive_claim:
  assumes "0 < ttl"
  shows "exclusive_claim (adopt ttl) (adopted ttl)"
proof
  fix now k w w' and s t :: store
  show "adopt ttl now k w s = (t, True) \<Longrightarrow> w \<noteq> '''' \<Longrightarrow> adopted ttl now k w t"
    using assms
    by (auto simp: adopt_def adopted_def mem_ClaimTaskForAdoption_def Let_def
        split: option.splits if_splits)
  show "adopted ttl now k w s \<Longrightarrow> adopt ttl now k w' s = (s, False)"
    by (auto simp: adopt_def adopted_def mem_ClaimTaskForAdoption_def live_owner_def)
  show "adopted ttl now k w s \<Longrightarrow> adopted ttl now k w' s \<Longrightarrow> w' = w"
    by (simp add: adopted_def)
qed

definition taskAdoptionLeaseTTL :: duration where "taskAdoptionLeaseTTL = 30 * Second"

interpretation adoption: exclusive_claim "adopt taskAdoptionLeaseTTL" "adopted taskAdoptionLeaseTTL"
  by (rule adoption_exclusive_claim) (simp add: taskAdoptionLeaseTTL_def Second_def)

lemma claim_adopted:
  assumes "mem_ClaimTaskForAdoption now k w ttl s = (t, Some task)" "w \<noteq> ''''"
    and "now' < now + ttl"
  shows "adopted ttl now' k w t"
  using assms
  by (auto simp: adopted_def mem_ClaimTaskForAdoption_def Let_def split: option.splits if_splits)

text \<open>Task adoption is exclusive.  From the moment an instance adopts a task until its
  lease of 30 seconds runs out, no claim by any sequence of instances takes the task or
  changes the store, and only the adopting instance can renew it.\<close>

theorem adoption_is_exclusive:
  assumes "mem_ClaimTaskForAdoption now k w taskAdoptionLeaseTTL s = (t, Some task)"
    and "w \<noteq> ''''" and "now' < now + taskAdoptionLeaseTTL"
  shows "foldl (\<lambda>u w'. fst (mem_ClaimTaskForAdoption now' k w' taskAdoptionLeaseTTL u)) t rivals = t
    \<and> (mem_RenewTaskAdoption now' k w' t = (t', True) \<longrightarrow> w' = w)"
proof -
  have h: "adopted taskAdoptionLeaseTTL now' k w t" by (rule claim_adopted [OF assms])
  have "(\<lambda>u w'. fst (adopt taskAdoptionLeaseTTL now' k w' u)) =
      (\<lambda>u w'. fst (mem_ClaimTaskForAdoption now' k w' taskAdoptionLeaseTTL u))"
    by (intro ext) (simp add: adopt_def split: prod.split)
  with adoption.rivals_fail [OF h, of rivals] h show ?thesis
    by (auto simp: adopted_def mem_RenewTaskAdoption_def task_owner_def split: if_splits)
qed

text \<open>Operations of the task table.\<close>

datatype task_op =
    TSave task | TClaim time string string duration | TRenew time string string
  | TRelease time string string

fun apply_task_op :: "task_op \<Rightarrow> store \<Rightarrow> store" where
  "apply_task_op (TSave t) s = mem_SaveTask t s"
| "apply_task_op (TClaim now k w ttl) s = fst (mem_ClaimTaskForAdoption now k w ttl s)"
| "apply_task_op (TRenew now k w) s = fst (mem_RenewTaskAdoption now k w s)"
| "apply_task_op (TRelease now k w) s = mem_ReleaseTaskAdoption now k w s"

definition task_outcome :: "task \<Rightarrow> task_status \<times> string \<times> string \<times> bool" where
  "task_outcome t = (tk_Status t, tk_Result t, tk_Error t, tk_DeadLetter t)"

definition finished :: "string \<Rightarrow> task_status \<times> string \<times> string \<times> bool \<Rightarrow> store \<Rightarrow> bool" where
  "finished k oc s \<longleftrightarrow> (\<exists>t. gm_get (st_tasks s) k = Some t \<and> task_terminal t \<and> task_outcome t = oc)"

lemma finished_step: "finished k oc s \<Longrightarrow> finished k oc (apply_task_op op s)"
  by (cases op)
    (auto simp: finished_def mem_SaveTask_def put_task_def mem_ClaimTaskForAdoption_def Let_def
      mem_RenewTaskAdoption_def mem_ReleaseTaskAdoption_def task_terminal_def task_outcome_def
      split: option.splits)

interpretation tasks: kept_by_steps "\<lambda>s t. \<exists>op. t = apply_task_op op s" "finished k oc" for k oc
  by unfold_locales (auto intro: finished_step)

lemma task_run: "(\<lambda>s t. \<exists>op. t = apply_task_op op s)\<^sup>*\<^sup>* s (fold apply_task_op ops s)"
  by (induction ops arbitrary: s) (auto intro: converse_rtranclp_into_rtranclp)

text \<open>A finished task is final.  Saving stale snapshots, adopting, renewing and releasing,
  in any order and from any instance, never change the status, result, error or dead-letter
  flag of a task that completed, failed or was cancelled.\<close>

theorem finished_task_is_final:
  assumes "gm_get (st_tasks s) k = Some t" and "task_terminal t"
  shows "\<exists>t'. gm_get (st_tasks (fold apply_task_op ops s)) k = Some t' \<and> task_outcome t' = task_outcome t"
proof -
  have "finished k (task_outcome t) s" using assms by (simp add: finished_def)
  from tasks.kept_run [OF task_run this] show ?thesis by (auto simp: finished_def)
qed

section \<open>Machine credentials\<close>

datatype machine_op =
    MSave machine | MTouch string string time | MBind string string
  | MDrain string string | MUndrain string

fun apply_machine_op :: "machine_op \<Rightarrow> store \<Rightarrow> store" where
  "apply_machine_op (MSave m) s = mem_SaveMachine m s"
| "apply_machine_op (MTouch sess k seen) s = mem_TouchMachineLastPing sess k seen s"
| "apply_machine_op (MBind k h) s = fst (mem_BindMachineToken k h s)"
| "apply_machine_op (MDrain sess k) s = mem_SetMachineDraining sess k s"
| "apply_machine_op (MUndrain k) s = mem_ClearMachineDraining k s"

definition bound :: "string \<Rightarrow> string \<Rightarrow> time \<Rightarrow> store \<Rightarrow> bool" where
  "bound k h born s \<longleftrightarrow> h \<noteq> '''' \<and>
     (\<exists>m. gm_get (st_machines s) k = Some m \<and> m_TokenHash m = h \<and> m_CreatedAt m = born)"

lemma bound_step: "bound k h born s \<Longrightarrow> bound k h born (apply_machine_op op s)"
  by (cases op)
    (auto simp: bound_def mem_SaveMachine_def mem_TouchMachineLastPing_def mem_BindMachineToken_def
      mem_SetMachineDraining_def mem_ClearMachineDraining_def Let_def split: option.splits)

interpretation credentials: kept_by_steps "\<lambda>s t. \<exists>op. t = apply_machine_op op s" "bound k h born"
  for k h born
  by unfold_locales (auto intro: bound_step)

lemma machine_run: "(\<lambda>s t. \<exists>op. t = apply_machine_op op s)\<^sup>*\<^sup>* s (fold apply_machine_op ops s)"
  by (induction ops arbitrary: s) (auto intro: converse_rtranclp_into_rtranclp)

text \<open>A machine credential is bound once.  Once a machine row carries a token hash, no
  re-registration, bind attempt, heartbeat or drain change replaces it or the machine's
  registration time, a later bind reports failure, and what readers see never includes the
  plaintext token.\<close>

theorem credential_bound_once:
  assumes "gm_get (st_machines s) k = Some m" and "m_TokenHash m \<noteq> ''''"
  shows "\<exists>m'. mem_GetMachine k (fold apply_machine_op ops s) = Some m'
      \<and> m_TokenHash m' = m_TokenHash m \<and> m_CreatedAt m' = m_CreatedAt m \<and> m_Token m' = ''''
    \<and> mem_BindMachineToken k h (fold apply_machine_op ops s) = (fold apply_machine_op ops s, False)"
proof -
  have "bound k (m_TokenHash m) (m_CreatedAt m) s" using assms by (simp add: bound_def)
  from credentials.kept_run [OF machine_run this, of ops] show ?thesis
    by (auto simp: bound_def mem_GetMachine_def cloneMachine_def mem_BindMachineToken_def)
qed

section \<open>Tool ownership\<close>

definition tool_key :: "tool \<Rightarrow> string \<times> string" where
  "tool_key t = (tl_SessionID t, tl_Name t)"

definition tools_ok :: "store \<Rightarrow> bool" where
  "tools_ok s \<longleftrightarrow> gm_wf (st_tools s) \<and> (\<forall>k t. gm_get (st_tools s) k = Some t \<longrightarrow> tl_ID t = k)
     \<and> (\<forall>i t j u. gm_get (st_tools s) i = Some t \<and> gm_get (st_tools s) j = Some u
          \<and> tool_key t = tool_key u \<longrightarrow> i = j)"

datatype tool_op = OClaimTool tool time | ODeleteTool string | ODeleteByMachine string
  | OReclaimMachine string time

fun apply_tool_op :: "tool_op \<Rightarrow> store \<Rightarrow> store" where
  "apply_tool_op (OClaimTool t cutoff) s = fst (mem_ClaimToolOwnership t cutoff s)"
| "apply_tool_op (ODeleteTool k) s = mem_DeleteTool k s"
| "apply_tool_op (ODeleteByMachine k) s = fst (mem_DeleteToolsByMachine k s)"
| "apply_tool_op (OReclaimMachine k cutoff) s = fst (mem_ReclaimMachine k cutoff s)"

lemma find_tool_Some:
  "gm_wf (st_tools s) \<Longrightarrow> find_tool sess name s = Some (k, t) \<Longrightarrow>
     gm_get (st_tools s) k = Some t \<and> tool_key t = (sess, name)"
  by (auto simp: find_tool_def find_Some_iff gm_get_in tool_key_def) (metis nth_mem)

lemma find_tool_None:
  "find_tool sess name s = None \<Longrightarrow> gm_get (st_tools s) k = Some t \<Longrightarrow> tool_key t \<noteq> (sess, name)"
  by (auto simp: find_tool_def find_None_iff tool_key_def dest!: gm_get_SomeD)

lemma tools_okD:
  assumes "tools_ok s"
  shows "gm_wf (st_tools s)" "gm_get (st_tools s) k = Some t \<Longrightarrow> tl_ID t = k"
    "gm_get (st_tools s) i = Some t \<Longrightarrow> gm_get (st_tools s) j = Some u \<Longrightarrow> tool_key t = tool_key u \<Longrightarrow> i = j"
  using assms unfolding tools_ok_def by blast+

text \<open>A table whose rows all stem from rows of the same identity stays well formed, and so
  does one that gains a row whose name is not taken.\<close>

lemma tools_ok_stem:
  assumes "tools_ok s" "gm_wf (st_tools u)"
    and stem: "\<And>k t. gm_get (st_tools u) k = Some t \<Longrightarrow>
      \<exists>t0. gm_get (st_tools s) k = Some t0 \<and> tl_ID t = tl_ID t0 \<and> tool_key t = tool_key t0"
  shows "tools_ok u"
  unfolding tools_ok_def
proof (intro conjI allI impI)
  note ok = tools_okD [OF assms(1)]
  show "gm_wf (st_tools u)" by fact
  fix i t j x
  show "gm_get (st_tools u) i = Some t \<Longrightarrow> tl_ID t = i"
    using stem [of i t] ok(2) [of i] by auto
  assume a: "gm_get (st_tools u) i = Some t \<and> gm_get (st_tools u) j = Some x \<and> tool_key t = tool_key x"
  obtain t0 where t0: "gm_get (st_tools s) i = Some t0" "tool_key t = tool_key t0" using stem a by blast
  obtain x0 where x0: "gm_get (st_tools s) j = Some x0" "tool_key x = tool_key x0" using stem a by blast
  from ok(3) [OF t0(1) x0(1)] t0(2) x0(2) a show "i = j" by simp
qed

lemma tools_ok_add:
  assumes "tools_ok s" "find_tool (tl_SessionID t) (tl_Name t) s = None"
    "st_tools u = gm_put (tl_ID t) t (st_tools s)"
  shows "tools_ok u"
  unfolding tools_ok_def assms(3)
proof (intro conjI allI impI)
  note ok = tools_okD [OF assms(1)]
  have new: "gm_get (st_tools s) i = Some x \<Longrightarrow> tool_key x \<noteq> tool_key t" for i x
    using find_tool_None [OF assms(2)] by (simp add: tool_key_def)
  let ?m = "gm_put (tl_ID t) t (st_tools s)"
  show "gm_wf ?m" using ok(1) by simp
  fix i x j y
  show "gm_get ?m i = Some x \<Longrightarrow> tl_ID x = i" using ok(2) [of i x] by (auto split: if_splits)
  assume a: "gm_get ?m i = Some x \<and> gm_get ?m j = Some y \<and> tool_key x = tool_key y"
  show "i = j"
  proof (cases "i = tl_ID t \<or> j = tl_ID t")
    case True
    with a new [of i x] new [of j y] show ?thesis by (auto split: if_splits)
  next
    case False
    with a ok(3) [of i x j y] show ?thesis by (simp split: if_splits)
  qed
qed

lemma map_snd_get: "gm_get (map (\<lambda>(k, t). (k, f t)) m) k = map_option f (gm_get m k)"
  by (induction m) (auto simp: gm_get_def)

lemma map_snd_wf: "(fst \<circ> (\<lambda>(k, t). (k, f t))) = fst"
  by auto

lemma tool_key_simps [simp]:
  "tl_ID (disown m t) = tl_ID t" "tool_key (disown m t) = tool_key t"
  "tl_ID (refresh_tool n t) = tl_ID t" "tool_key (refresh_tool n t) = tool_key t"
  "tool_key (t\<lparr> tl_MachineID := m \<rparr>) = tool_key t"
  by (simp_all add: disown_def tool_key_def refresh_tool_def)

lemma tools_ok_step:
  assumes "tools_ok s"
  shows "tools_ok (apply_tool_op op s)"
proof (cases op)
  case (OClaimTool t cutoff)
  show ?thesis
  proof (cases "find_tool (tl_SessionID t) (tl_Name t) s")
    case None
    with OClaimTool show ?thesis
      using tools_ok_add [OF assms None]
      by (simp add: mem_ClaimToolOwnership_def mem_SaveTool_def Let_def)
  next
    case (Some e)
    obtain k x where e: "e = (k, x)" by force
    have x: "gm_get (st_tools s) k = Some x"
      using find_tool_Some [OF tools_okD(1) [OF assms]] Some e by blast
    have put: "tools_ok u" if "st_tools u = gm_put k t' (st_tools s)" "tl_ID t' = tl_ID x" "tool_key t' = tool_key x"
      for u :: store and t'
      using that x tools_okD(1) [OF assms] by (intro tools_ok_stem [OF assms]) (auto split: if_splits)
    show ?thesis using OClaimTool Some e assms
      by (auto simp: mem_ClaimToolOwnership_def Let_def intro!: put)
  qed
next
  case (ODeleteTool k)
  then show ?thesis
    by (intro tools_ok_stem [OF assms])
      (auto simp: mem_DeleteTool_def Let_def tools_okD(1) [OF assms] split: option.splits if_splits)
next
  case (ODeleteByMachine k)
  then show ?thesis using tools_okD(1) [OF assms]
    by (intro tools_ok_stem [OF assms])
      (auto simp: mem_DeleteToolsByMachine_def gm_get_prune split: option.splits if_splits)
next
  case (OReclaimMachine k cutoff)
  then show ?thesis
    using tools_okD(1) [OF assms]
    by (intro tools_ok_stem [OF assms])
      (auto simp: mem_ReclaimMachine_def map_snd_wf map_snd_get split: option.splits if_splits)
qed

lemma tools_ok_run: "tools_ok s \<Longrightarrow> tools_ok (fold apply_tool_op ops s)"
  by (induction ops arbitrary: s) (auto intro: tools_ok_step)

lemma tools_ok_New: "tools_ok mem_New"
  by (simp add: tools_ok_def mem_New_def)

lemma get_tool_by_name:
  assumes "tools_ok s" "gm_get (st_tools s) k = Some t" "tl_SessionID t = sess" "tl_Name t = name"
  shows "mem_GetToolByName sess name s = Some t"
  unfolding mem_GetToolByName_def
proof (rule find_only)
  show "t \<in> set (gm_vals (st_tools s))" using assms(2) by (rule gm_get_vals)
  show "u = t" if u: "u \<in> set (gm_vals (st_tools s))" and same: "tl_SessionID u = sess \<and> tl_Name u = name" for u
  proof -
    obtain j where j: "gm_get (st_tools s) j = Some u"
      using u gm_vals_get [OF tools_okD(1) [OF assms(1)]] by blast
    with tools_okD(3) [OF assms(1) assms(2) j] same assms(3,4) have "k = j" by (simp add: tool_key_def)
    with j assms(2) show ?thesis by simp
  qed
qed (use assms in simp)

text \<open>Tool names stay unique.  Starting from the empty store, whatever machines claim,
  delete and lose tools, a name resolves to one tool of its session: every stored tool is
  the one its name finds.\<close>

theorem tool_names_unique:
  assumes "gm_get (st_tools (fold apply_tool_op ops mem_New)) k = Some t"
  shows "mem_GetToolByName (tl_SessionID t) (tl_Name t) (fold apply_tool_op ops mem_New) = Some t"
  by (rule get_tool_by_name [OF tools_ok_run [OF tools_ok_New] assms]) simp_all

lemma claim_put:
  assumes "tools_ok s" "find_tool sess name s = Some (k, x)" "tool_key t = tool_key x" "tl_ID t = tl_ID x"
    and "st_tools u = gm_put k t (st_tools s)"
  shows "mem_GetToolByName sess name u = Some t"
proof -
  have x: "gm_get (st_tools s) k = Some x" "tool_key x = (sess, name)"
    using find_tool_Some [OF tools_okD(1) [OF assms(1)] assms(2)] by auto
  have "tools_ok u"
    using assms x tools_okD(1) [OF assms(1)] by (intro tools_ok_stem [OF assms(1)]) (auto split: if_splits)
  then show ?thesis
    using assms(3,5) x by (intro get_tool_by_name [of u k t]) (simp_all add: tool_key_def)
qed

text \<open>Tool ownership.  A claim is refused exactly when the name belongs to another machine
  that is registered and not stale, and then nothing changes; otherwise the name afterwards
  resolves to a tool owned by the claiming machine with the claimed definition.\<close>

theorem tool_claim_outcome:
  assumes "tools_ok s" and "mem_ClaimToolOwnership tool cutoff s = (u, res, replaced, err)"
  shows "(err \<noteq> None \<longleftrightarrow> (\<exists>k x m. find_tool (tl_SessionID tool) (tl_Name tool) s = Some (k, x)
        \<and> tl_MachineID x \<noteq> tl_MachineID tool \<and> gm_get (st_machines s) (tl_MachineID x) = Some m
        \<and> \<not> m_LastPingAt m < cutoff))
    \<and> (err \<noteq> None \<longrightarrow> u = s)
    \<and> (err = None \<longrightarrow> mem_GetToolByName (tl_SessionID tool) (tl_Name tool) u = Some res
        \<and> tl_MachineID res = tl_MachineID tool \<and> tl_Schema res = tl_Schema tool)"
proof (cases "find_tool (tl_SessionID tool) (tl_Name tool) s")
  case None
  have st: "st_tools (mem_SaveTool tool s) = gm_put (tl_ID tool) tool (st_tools s)"
    by (simp add: mem_SaveTool_def Let_def)
  have "mem_GetToolByName (tl_SessionID tool) (tl_Name tool) (mem_SaveTool tool s) = Some tool"
    by (rule get_tool_by_name [OF tools_ok_add [OF assms(1) None st], of "tl_ID tool"]) (simp_all add: st)
  with None assms(2) show ?thesis by (auto simp: mem_ClaimToolOwnership_def)
next
  case (Some e)
  obtain k x where e: "e = (k, x)" by force
  let ?t = "refresh_tool tool x" and ?v = "\<lambda>t. s\<lparr> st_tools := gm_put k t (st_tools s) \<rparr>"
  have g: "mem_GetToolByName (tl_SessionID tool) (tl_Name tool) (?v ?t) = Some ?t"
    "mem_GetToolByName (tl_SessionID tool) (tl_Name tool) (?v (?t\<lparr> tl_MachineID := n \<rparr>)) =
       Some (?t\<lparr> tl_MachineID := n \<rparr>)" for n
    by (rule claim_put [OF assms(1) Some [unfolded e]]; simp)+
  have f: "tl_Schema ?t = tl_Schema tool" "tl_MachineID ?t = tl_MachineID x" by (simp_all add: refresh_tool_def)
  show ?thesis using assms(2) Some e g f
    by (auto simp: mem_ClaimToolOwnership_def Let_def owner_stale_def split: if_splits option.splits)
qed

section \<open>Session deletion\<close>

lemma set_gm_del: "set (gm_del k m) = {e \<in> set m. fst e \<noteq> k}"
  by (auto simp: gm_del_def)

text \<open>Deleting a session removes it, every API key bound to it and its entry in every
  user's session list, and nothing of any other session.\<close>

theorem session_deletion_is_complete:
  assumes "gm_wf (st_apiKeys s)"
  shows "mem_GetSession sid (mem_DeleteSession sid s) = None
    \<and> (\<forall>k \<in> set (mem_AllApiKeys (mem_DeleteSession sid s)). k_SessionID k \<noteq> sid)
    \<and> (\<forall>(u, ids) \<in> set (mem_AllUserSessions (mem_DeleteSession sid s)). sid \<notin> set ids)
    \<and> (sid' \<noteq> sid \<longrightarrow> mem_GetSession sid' (mem_DeleteSession sid s) = mem_GetSession sid' s)
    \<and> (\<forall>i k. gm_get (st_apiKeys s) i = Some k \<longrightarrow> k_SessionID k \<noteq> sid \<longrightarrow>
         gm_get (st_apiKeys (mem_DeleteSession sid s)) i = Some k)"
  using assms
  by (auto simp: mem_GetSession_def mem_DeleteSession_def mem_AllApiKeys_def mem_AllUserSessions_def
      gm_vals_def gm_prune_def gm_get_filter set_gm_del)

section \<open>Concrete instances\<close>

definition reg_machine :: machine where
  "reg_machine = NewMachine (\<lambda>x. ''h'' @ x) ''u1'' ''u2'' 100 ''s1'' ''m1'' ''1.0'' ''go'' ''ip''"

definition reg_task :: task where
  "reg_task = NewTask ''k1'' 100 ''s1'' ''echo'' ''x''"

definition reg_store :: store where
  "reg_store = mem_SetMachineDraining ''s1'' ''m1'' (mem_SaveMachine reg_machine (mem_SaveTask reg_task mem_New))"

definition reg_tool :: "string \<Rightarrow> string \<Rightarrow> tool" where
  "reg_tool u m = NewTool u 100 ''s1'' m ''echo'' '''' '''' [] []"

theorem adoption_is_exclusive_witness:
  "\<exists>t task. mem_ClaimTaskForAdoption 500 ''k1'' ''i1'' taskAdoptionLeaseTTL reg_store = (t, Some task)
    \<and> foldl (\<lambda>u w'. fst (mem_ClaimTaskForAdoption 600 ''k1'' w' taskAdoptionLeaseTTL u)) t [''i2'', ''i3''] = t"
proof -
  obtain t where t: "mem_ClaimTaskForAdoption 500 ''k1'' ''i1'' taskAdoptionLeaseTTL reg_store
      = (t, Some (reg_task\<lparr> tk_UpdatedAt := 500 \<rparr>))"
    by (rule that) code_simp
  from adoption_is_exclusive [OF t, of 600 "[''i2'', ''i3'']"] t show ?thesis
    by (auto simp: taskAdoptionLeaseTTL_def Second_def)
qed

theorem finished_task_is_final_witness:
  "\<exists>t'. gm_get (st_tasks (fold apply_task_op [TSave reg_task, TRenew 900 ''k1'' ''i1'']
      (put_task ''k1'' (reg_task\<lparr> tk_Status := TCompleted \<rparr>) mem_New))) ''k1'' = Some t'
    \<and> task_outcome t' = task_outcome (reg_task\<lparr> tk_Status := TCompleted \<rparr>)"
  by (rule finished_task_is_final) (simp_all add: put_task_def task_terminal_def)

theorem credential_bound_once_witness:
  "\<exists>m'. mem_GetMachine ''m1'' (fold apply_machine_op [MBind ''m1'' ''other''] reg_store) = Some m'
    \<and> m_TokenHash m' = ''htoolplane_machine_u2''"
proof -
  have "gm_get (st_machines reg_store) ''m1'' = Some (cloneMachine reg_machine)" by code_simp
  moreover have "m_TokenHash (cloneMachine reg_machine) = ''htoolplane_machine_u2''" by code_simp
  ultimately show ?thesis
    using credential_bound_once [of reg_store "''m1''" "cloneMachine reg_machine" "[MBind ''m1'' ''other'']"]
    by auto
qed

theorem tool_names_unique_witness:
  "mem_GetToolByName ''s1'' ''echo'' (fold apply_tool_op [OClaimTool (reg_tool ''t1'' ''m1'') 0] mem_New)
    = Some (reg_tool ''t1'' ''m1'')"
proof -
  have "gm_get (st_tools (fold apply_tool_op [OClaimTool (reg_tool ''t1'' ''m1'') 0] mem_New)) ''t1''
    = Some (reg_tool ''t1'' ''m1'')" by code_simp
  from tool_names_unique [OF this] show ?thesis by (simp add: reg_tool_def NewTool_def)
qed

theorem tool_claim_outcome_witness:
  "\<exists>u res replaced. mem_ClaimToolOwnership (reg_tool ''t1'' ''m1'') 0 mem_New = (u, res, replaced, None)
    \<and> mem_GetToolByName ''s1'' ''echo'' u = Some res \<and> tl_MachineID res = ''m1''"
proof -
  let ?t = "reg_tool ''t1'' ''m1''"
  have c: "mem_ClaimToolOwnership ?t 0 mem_New = (mem_SaveTool ?t mem_New, ?t, '''', None)" by code_simp
  from tool_claim_outcome [OF tools_ok_New c] c show ?thesis by (auto simp: reg_tool_def NewTool_def)
qed

definition two_sessions :: store where
  "two_sessions = mem_AddUserSession ''alice'' ''s1'' (mem_AddUserSession ''alice'' ''s2''
     (mem_SaveApiKey (NewApiKey (\<lambda>x. ''h'' @ x) ''u1'' ''k1'' 5 ''ci'' ''s1'' ''alice'' [])
     (mem_SaveSession (NewSession ''s1'' 5 ''one'' '''' ''alice'' '''')
     (mem_SaveSession (NewSession ''s2'' 5 ''two'' '''' ''alice'' '''') mem_New))))"

theorem session_deletion_is_complete_witness:
  "mem_AllApiKeys two_sessions \<noteq> [] \<and> list_all (\<lambda>k. k_SessionID k \<noteq> ''s1'') (mem_AllApiKeys (mem_DeleteSession ''s1'' two_sessions))
    \<and> mem_GetSession ''s1'' (mem_DeleteSession ''s1'' two_sessions) = None
    \<and> mem_GetSession ''s2'' (mem_DeleteSession ''s1'' two_sessions) \<noteq> None"
proof -
  have "gm_wf (st_apiKeys two_sessions)" "mem_AllApiKeys two_sessions \<noteq> []" "mem_GetSession ''s2'' two_sessions \<noteq> None"
    by code_simp+
  with session_deletion_is_complete [of two_sessions "''s1''" "''s2''"] show ?thesis by (simp add: list_all_iff)
qed

end
