(* ===== verification/Service_Errors.thy ===== *)
theory Service_Errors
  imports Prelude
begin

text \<open>
  The domain errors of \<open>pkg/service/errors.go\<close> and their translation to gRPC statuses.  An
  error value is the sentinel at the end of its wrap chain, which is what \<open>errors.Is\<close>
  looks at; message texts are not modelled.
\<close>

datatype domain_error =
    ErrNotFound | ErrAlreadyExists | ErrInvalidArgument | ErrMachineDraining
  | ErrRequestNotClaimable | ErrMachineNotToolOwner | ErrRequestNotCancellable
  | ErrRequestCancelled | ErrTaskNotCancellable | ErrMachineAtCapacity | ErrNoProviderAvailable
  | ErrNoPendingRequests | ErrTooManyPendingRequests | ErrRequestTimeoutOutOfRange
  | ErrMachineCredentialRejected | ErrClientDisconnected | ErrStreamSendFailed
  | ErrPrincipalRequired | ErrStorage storage_error
  | ErrUnsupportedAPIKeyCapability | ErrAPIKeyCapabilitiesRequired | ErrAPIKeyAllowedToolsBlank
  | CtxDeadlineExceeded | CtxCanceled
  | RequestStreamExpiredError string int int int
  | ErrOther

type_synonym 'a svc_result = "domain_error + 'a"

datatype grpc_code =
    CodeNotFound | CodeAlreadyExists | CodeInvalidArgument | CodePermissionDenied
  | CodeFailedPrecondition | CodeCanceled | CodeResourceExhausted | CodeUnavailable
  | CodeOutOfRange | CodeDeadlineExceeded | CodeInternal

text \<open>Code, machine-readable reason, suggested retry delay.\<close>

type_synonym grpc_status = "grpc_code \<times> string option \<times> duration option"

definition errorInfoStatus :: "grpc_code \<Rightarrow> string \<Rightarrow> grpc_status" where
  "errorInfoStatus c reason = (c, Some reason, None)"

definition retryableStatus :: "string \<Rightarrow> duration \<Rightarrow> grpc_status" where
  "retryableStatus reason retryAfter = (CodeResourceExhausted, Some reason, Some retryAfter)"

text \<open>The switch of \<open>statusFromDomainError\<close>, case by case; \<open>None\<close> is the nil error.\<close>

fun statusFromDomainError :: "domain_error option \<Rightarrow> grpc_status option" where
  "statusFromDomainError None = None"
| "statusFromDomainError (Some e) = Some
     (if e \<in> {ErrNotFound, ErrStorage StErrNotFound} then (CodeNotFound, None, None)
      else if e = ErrAlreadyExists then (CodeAlreadyExists, None, None)
      else if e \<in> {ErrInvalidArgument, ErrUnsupportedAPIKeyCapability, ErrAPIKeyCapabilitiesRequired,
                   ErrAPIKeyAllowedToolsBlank} then (CodeInvalidArgument, None, None)
      else if e \<in> {ErrMachineCredentialRejected, ErrMachineNotToolOwner,
                   ErrStorage StErrMachineNotToolOwner, ErrPrincipalRequired}
      then (CodePermissionDenied, None, None)
      else if e \<in> {ErrMachineDraining, ErrStorage StErrToolOwnershipConflict, ErrRequestNotClaimable,
                   ErrRequestNotCancellable, ErrTaskNotCancellable, ErrNoProviderAvailable,
                   ErrStorage StErrLeaseConflict, ErrStorage StErrRequestTerminal}
      then (CodeFailedPrecondition, None, None)
      else if e \<in> {ErrRequestCancelled, ErrClientDisconnected} then (CodeCanceled, None, None)
      else if e = ErrMachineAtCapacity then retryableStatus ''CAPACITY_EXHAUSTED'' (2 * Second)
      else if e = ErrStorage StErrSerializationConflict then (CodeUnavailable, None, None)
      else if e \<in> {ErrTooManyPendingRequests, ErrStorage StErrTooManyPendingRequests}
      then retryableStatus ''SESSION_BACKLOG_FULL'' (5 * Second)
      else if e = ErrRequestTimeoutOutOfRange then errorInfoStatus CodeOutOfRange ''TIMEOUT_ABOVE_MAX''
      else if e = CtxDeadlineExceeded then (CodeDeadlineExceeded, None, None)
      else if e = CtxCanceled then (CodeCanceled, None, None)
      else if e = ErrStreamSendFailed then (CodeInternal, None, None)
      else (case e of RequestStreamExpiredError _ _ _ _ \<Rightarrow> errorInfoStatus CodeOutOfRange ''REPLAY_WINDOW_EXPIRED''
            | _ \<Rightarrow> (CodeInternal, None, None)))"

text \<open>Retry advice on the wire.  Every error has a status; it carries a retry delay, and is
  \<open>RESOURCE_EXHAUSTED\<close>, exactly for a capacity or backlog rejection; it is \<open>NOT_FOUND\<close>
  exactly for a missing entity; and a lost lease, a terminal request, a draining machine and
  the other state conflicts are exactly the ones that surface as \<open>FAILED_PRECONDITION\<close>.\<close>

theorem status_taxonomy:
  "case statusFromDomainError (Some e) of
     None \<Rightarrow> False
   | Some (c, reason, delay) \<Rightarrow>
       (delay \<noteq> None \<longleftrightarrow> e \<in> {ErrMachineAtCapacity, ErrTooManyPendingRequests, ErrStorage StErrTooManyPendingRequests})
     \<and> (c = CodeResourceExhausted \<longleftrightarrow> delay \<noteq> None)
     \<and> (c = CodeNotFound \<longleftrightarrow> e \<in> {ErrNotFound, ErrStorage StErrNotFound})
     \<and> (c = CodeFailedPrecondition \<longleftrightarrow>
          e \<in> {ErrMachineDraining, ErrStorage StErrToolOwnershipConflict, ErrRequestNotClaimable,
               ErrRequestNotCancellable, ErrTaskNotCancellable, ErrNoProviderAvailable,
               ErrStorage StErrLeaseConflict, ErrStorage StErrRequestTerminal})"
  by (auto simp: retryableStatus_def errorInfoStatus_def split: domain_error.splits if_splits)

end
