(* ===== verification/Service_Machines.thy ===== *)
theory Service_Machines
  imports Mem_Registry Service_Errors
begin

text \<open>
  \<open>pkg/service/machine.go\<close> and \<open>pkg/service/tool.go\<close> on a store-backed replica: the server's
  state (the store plus this replica's caches), the in-flight counters, drain handling,
  machine registration and credentials, the tool registry.  The in-memory store never
  fails, so the branches that log a store error are not reached.  Trace events are not
  modelled.
\<close>

section \<open>State\<close>

record server =
  sv_store :: store
  sv_requests :: "request gomap gomap"
  sv_machines :: "machine gomap gomap"
  sv_capacity :: "int gomap gomap"
  sv_inflight :: "int gomap gomap"
  sv_drains :: "unit gomap gomap"
  sv_tools :: "tool gomap gomap"
  sv_active :: "unit gomap gomap"

definition machineHeartbeatTTL :: duration where "machineHeartbeatTTL = 300 * Second"
definition maxMachineConcurrentRequests :: int where "maxMachineConcurrentRequests = 4"

section \<open>In-flight slots\<close>

definition ensureCapacityLocked :: "string \<Rightarrow> string \<Rightarrow> server \<Rightarrow> server" where
  "ensureCapacityLocked sessionID machineID sv =
     (let caps = gm_ensure sessionID [] (sv_capacity sv);
          loads = gm_ensure sessionID [] (sv_inflight sv)
      in sv\<lparr> sv_capacity := (if gm_get2 caps sessionID machineID = None
                             then gm_put2 sessionID machineID maxMachineConcurrentRequests caps else caps),
             sv_inflight := (if gm_get2 loads sessionID machineID = None
                             then gm_put2 sessionID machineID 0 loads else loads) \<rparr>)"

definition setMachineCapacity :: "string \<Rightarrow> string \<Rightarrow> int \<Rightarrow> server \<Rightarrow> server" where
  "setMachineCapacity sessionID machineID capacity0 sv =
     (if sessionID = '''' \<or> machineID = '''' then sv
      else let capacity = (if capacity0 \<le> 0 then maxMachineConcurrentRequests else capacity0);
               sv1 = ensureCapacityLocked sessionID machineID sv
           in sv1\<lparr> sv_capacity := gm_put2 sessionID machineID capacity (sv_capacity sv1) \<rparr>)"

definition clearMachineCapacity :: "string \<Rightarrow> string \<Rightarrow> server \<Rightarrow> server" where
  "clearMachineCapacity sessionID machineID sv =
     sv\<lparr> sv_capacity := gm_del2 sessionID machineID (sv_capacity sv),
         sv_inflight := gm_del2 sessionID machineID (sv_inflight sv) \<rparr>"

definition ReleaseMachineSlot :: "string \<Rightarrow> string \<Rightarrow> server \<Rightarrow> server" where
  "ReleaseMachineSlot sessionID machineID sv =
     (case gm_get (sv_inflight sv) sessionID of
        None \<Rightarrow> sv
      | Some loads \<Rightarrow>
          (let loads' = (case gm_get loads machineID of
                           None \<Rightarrow> loads
                         | Some current \<Rightarrow> if current > 0 then gm_put machineID (current - 1) loads else loads)
           in sv\<lparr> sv_inflight := (if loads' = [] then gm_del sessionID (sv_inflight sv)
                                  else gm_put sessionID loads' (sv_inflight sv)) \<rparr>))"

text \<open>The value a Go map of ints reads as: 0 when absent.\<close>

definition cap_of :: "string \<Rightarrow> string \<Rightarrow> server \<Rightarrow> int" where
  "cap_of sessionID machineID sv =
     (case gm_get2 (sv_capacity sv) sessionID machineID of None \<Rightarrow> 0 | Some c \<Rightarrow> c)"

definition load_of :: "string \<Rightarrow> string \<Rightarrow> server \<Rightarrow> int" where
  "load_of sessionID machineID sv =
     (case gm_get2 (sv_inflight sv) sessionID machineID of None \<Rightarrow> 0 | Some c \<Rightarrow> c)"

definition ReserveMachineSlot :: "string \<Rightarrow> string \<Rightarrow> server \<Rightarrow> server \<times> bool" where
  "ReserveMachineSlot sessionID machineID sv =
     (if gm_get2 (sv_machines sv) sessionID machineID = None then (sv, False)
      else
        let sv1 = ensureCapacityLocked sessionID machineID sv;
            cap0 = cap_of sessionID machineID sv1;
            cap = (if cap0 \<le> 0 then maxMachineConcurrentRequests else cap0);
            sv2 = (if cap0 \<le> 0
                   then sv1\<lparr> sv_capacity := gm_put2 sessionID machineID cap (sv_capacity sv1) \<rparr> else sv1);
            current = load_of sessionID machineID sv2
        in if current \<ge> cap then (sv2, False)
           else let sv3 = sv2\<lparr> sv_inflight := gm_put2 sessionID machineID (current + 1) (sv_inflight sv2) \<rparr>
                in if mem_MachineInFlightCount sessionID machineID (sv_store sv) > cap
                   then (ReleaseMachineSlot sessionID machineID sv3, False)
                   else (sv3, True))"

definition MachineLoadInfo :: "string \<Rightarrow> string \<Rightarrow> server \<Rightarrow> int \<times> int" where
  "MachineLoadInfo sessionID machineID sv =
     (mem_MachineInFlightCount sessionID machineID (sv_store sv),
      (if cap_of sessionID machineID sv > 0 then cap_of sessionID machineID sv
       else maxMachineConcurrentRequests))"

text \<open>\<open>OrderMachinesByLoad\<close>: load ratios compared by cross multiplication, ties by age.  The
  loop leaves capacities behind; \<open>sort.Slice\<close> is taken at the stable outcome.\<close>

type_synonym load_metric = "machine \<times> int \<times> int"

fun load_less :: "load_metric \<Rightarrow> load_metric \<Rightarrow> bool" where
  "load_less (m, load1, cap1) (n, load2, cap2) =
     (if load1 * cap2 = load2 * cap1 then m_CreatedAt m < m_CreatedAt n
      else load1 * cap2 < load2 * cap1)"

fun load_metrics :: "string \<Rightarrow> machine list \<Rightarrow> server \<Rightarrow> server \<times> load_metric list" where
  "load_metrics sessionID [] sv = (sv, [])"
| "load_metrics sessionID (m # ms) sv =
     (let sv1 = ensureCapacityLocked sessionID (m_ID m) sv;
          load = load_of sessionID (m_ID m) sv1;
          cap0 = cap_of sessionID (m_ID m) sv1;
          cap = (if cap0 \<le> 0 then maxMachineConcurrentRequests else cap0);
          sv2 = (if cap0 \<le> 0
                 then sv1\<lparr> sv_capacity := gm_put2 sessionID (m_ID m) cap (sv_capacity sv1) \<rparr> else sv1);
          (sv3, rest) = load_metrics sessionID ms sv2
      in (sv3, (m, load, cap) # rest))"

fun insert_by :: "('a \<Rightarrow> 'a \<Rightarrow> bool) \<Rightarrow> 'a \<Rightarrow> 'a list \<Rightarrow> 'a list" where
  "insert_by lt x [] = [x]"
| "insert_by lt x (y # ys) = (if lt y x then y # insert_by lt x ys else x # y # ys)"

definition sort_slice :: "('a \<Rightarrow> 'a \<Rightarrow> bool) \<Rightarrow> 'a list \<Rightarrow> 'a list" where
  "sort_slice lt xs = foldr (insert_by lt) xs []"

definition OrderMachinesByLoad :: "string \<Rightarrow> machine list \<Rightarrow> server \<Rightarrow> server \<times> machine list" where
  "OrderMachinesByLoad sessionID machines sv =
     (if length machines \<le> 1 then (sv, machines)
      else case load_metrics sessionID machines sv of
             (sv', metrics) \<Rightarrow> (sv', map fst (sort_slice load_less metrics)))"

definition MachineMetricsSnapshot :: "server \<Rightarrow> int \<times> int \<times> int" where
  "MachineMetricsSnapshot sv =
     (sum_list (map (\<lambda>ms. int (length ms)) (gm_vals (sv_machines sv))),
      sum_list (map (\<lambda>ds. int (length ds)) (gm_vals (sv_drains sv))),
      sum_list (map (\<lambda>ls. sum_list (gm_vals ls)) (gm_vals (sv_inflight sv))))"

section \<open>The tool registry\<close>

definition cacheTool :: "string \<Rightarrow> tool \<Rightarrow> server \<Rightarrow> server" where
  "cacheTool sessionID tool sv = sv\<lparr> sv_tools := gm_put2 sessionID (tl_ID tool) tool (sv_tools sv) \<rparr>"

definition findToolByName :: "string \<Rightarrow> string \<Rightarrow> server \<Rightarrow> tool option" where
  "findToolByName sessionID name sv =
     List.find (\<lambda>t. tl_Name t = name) (gm_vals (gm_inner (sv_tools sv) sessionID))"

text \<open>Deleting entries of an inner map in place, without dropping the map.\<close>

definition prune_inner :: "string \<Rightarrow> ('v \<Rightarrow> bool) \<Rightarrow> 'v gomap gomap \<Rightarrow> 'v gomap gomap" where
  "prune_inner k P m =
     (case gm_get m k of None \<Rightarrow> m | Some inner \<Rightarrow> gm_put k (gm_prune P inner) m)"

definition drop_empty :: "string \<Rightarrow> 'v gomap gomap \<Rightarrow> 'v gomap gomap" where
  "drop_empty k m = (if gm_get m k = Some [] then gm_del k m else m)"

definition GetToolByName :: "string \<Rightarrow> string \<Rightarrow> server \<Rightarrow> server \<times> tool svc_result" where
  "GetToolByName sessionID name sv =
     (let sv1 = sv\<lparr> sv_tools := prune_inner sessionID (\<lambda>t. tl_Name t = name) (sv_tools sv) \<rparr>
      in case mem_GetToolByName sessionID name (sv_store sv) of
           None \<Rightarrow> (sv1, Inl ErrNotFound)
         | Some tool \<Rightarrow> (cacheTool sessionID tool sv1, Inr tool))"

text \<open>\<open>validateToolSchema\<close>: \<open>json_object\<close> says whether \<open>json.Unmarshal\<close> accepts the text and
  its root is an object.\<close>

definition is_space :: "char \<Rightarrow> bool" where
  "is_space c \<longleftrightarrow> c \<in> {CHR '' '', CHR 0x09, CHR 0x0A, CHR 0x0B, CHR 0x0C, CHR 0x0D}"

definition TrimSpace :: "string \<Rightarrow> string" where
  "TrimSpace s = rev (dropWhile is_space (rev (dropWhile is_space s)))"

definition validateToolSchema :: "(string \<Rightarrow> bool) \<Rightarrow> string \<Rightarrow> domain_error option" where
  "validateToolSchema json_object schema =
     (let trimmed_schema = TrimSpace schema
      in if trimmed_schema = '''' then None
         else if json_object trimmed_schema then None else Some ErrInvalidArgument)"

definition RegisterTool ::
  "(string \<Rightarrow> bool) \<Rightarrow> string \<Rightarrow> time \<Rightarrow> string \<Rightarrow> string \<Rightarrow> string \<Rightarrow> string \<Rightarrow> string
     \<Rightarrow> go_value gomap \<Rightarrow> string list \<Rightarrow> server \<Rightarrow> server \<times> tool svc_result" where
  "RegisterTool json_object uuid now sessionID machineID name description schema config tags sv =
     (case validateToolSchema json_object schema of
        Some e \<Rightarrow> (sv, Inl e)
      | None \<Rightarrow>
          (let sv1 = sv\<lparr> sv_tools := gm_ensure sessionID [] (sv_tools sv) \<rparr>;
               candidate = NewTool uuid now sessionID machineID name description schema config tags
           in case mem_ClaimToolOwnership candidate (now - machineHeartbeatTTL) (sv_store sv1) of
                (st, updated, replaced, Some e) \<Rightarrow> (sv1\<lparr> sv_store := st \<rparr>, Inl (ErrStorage e))
              | (st, updated, replaced, None) \<Rightarrow>
                  (let sv2 = cacheTool sessionID updated (sv1\<lparr> sv_store := st \<rparr>)
                   in (sv2\<lparr> sv_tools := prune_inner sessionID
                         (\<lambda>t. tl_ID t \<noteq> tl_ID updated \<and> tl_Name t = tl_Name updated) (sv_tools sv2) \<rparr>,
                       Inr updated))))"

text \<open>Dropping the tools a store operation reports, and the replica's own entries.\<close>

definition drop_update :: "tool_update \<Rightarrow> server \<Rightarrow> server" where
  "drop_update u sv =
     (if tu_SessionID u = '''' \<or> tu_ToolID u = '''' then sv
      else sv\<lparr> sv_tools := gm_del2 (tu_SessionID u) (tu_ToolID u) (sv_tools sv) \<rparr>)"

definition DeleteToolsByMachine :: "string \<Rightarrow> string \<Rightarrow> server \<Rightarrow> server" where
  "DeleteToolsByMachine sessionID machineID sv =
     (if machineID = '''' then sv
      else case mem_DeleteToolsByMachine machineID (sv_store sv) of
             (st, deleted) \<Rightarrow>
               (let sv1 = fold drop_update deleted (sv\<lparr> sv_store := st \<rparr>)
                in if sessionID = '''' then sv1
                   else sv1\<lparr> sv_tools := drop_empty sessionID
                          (prune_inner sessionID (\<lambda>t. tl_MachineID t = machineID) (sv_tools sv1)) \<rparr>))"

definition detach_update :: "time \<Rightarrow> string \<Rightarrow> tool_update \<Rightarrow> server \<Rightarrow> server" where
  "detach_update now machineID u sv =
     (if tu_SessionID u = '''' \<or> tu_ToolID u = '''' then sv
      else case gm_get2 (sv_tools sv) (tu_SessionID u) (tu_ToolID u) of
             None \<Rightarrow> sv
           | Some t \<Rightarrow>
               if machineID = '''' \<or> tl_MachineID t = machineID
               then sv\<lparr> sv_tools := gm_put2 (tu_SessionID u) (tu_ToolID u)
                          (tool_UpdatePing now (t\<lparr> tl_MachineID := '''' \<rparr>)) (sv_tools sv) \<rparr>
               else sv)"

definition DetachToolsForMachine :: "time \<Rightarrow> tool_update list \<Rightarrow> string \<Rightarrow> server \<Rightarrow> server" where
  "DetachToolsForMachine now updates machineID sv = fold (detach_update now machineID) updates sv"

definition TrackMachine :: "string \<Rightarrow> string \<Rightarrow> server \<Rightarrow> server" where
  "TrackMachine sessionID machineID sv =
     (if sessionID = '''' \<or> machineID = '''' then sv
      else sv\<lparr> sv_active := gm_put2 sessionID machineID () (sv_active sv) \<rparr>)"

definition UntrackMachine :: "string \<Rightarrow> string \<Rightarrow> server \<Rightarrow> server" where
  "UntrackMachine sessionID machineID sv =
     (if sessionID = '''' \<or> machineID = '''' then sv
      else sv\<lparr> sv_active := gm_del2 sessionID machineID (sv_active sv) \<rparr>)"

definition GetToolByID :: "string \<Rightarrow> string \<Rightarrow> server \<Rightarrow> tool svc_result" where
  "GetToolByID sessionID toolID sv =
     (case gm_get (sv_tools sv) sessionID of
        None \<Rightarrow> Inl ErrNotFound
      | Some tools \<Rightarrow> (case gm_get tools toolID of None \<Rightarrow> Inl ErrNotFound | Some t \<Rightarrow> Inr t))"

definition ToolNamesForMachine :: "string \<Rightarrow> string \<Rightarrow> server \<Rightarrow> string list" where
  "ToolNamesForMachine sessionID machineID sv =
     (if machineID = '''' then []
      else map tl_Name (filter (\<lambda>t. tl_MachineID t = machineID) (gm_vals (gm_inner (sv_tools sv) sessionID))))"

definition MachineProvidesTool :: "string \<Rightarrow> string \<Rightarrow> string \<Rightarrow> server \<Rightarrow> bool" where
  "MachineProvidesTool sessionID machineID toolName sv =
     (if machineID = '''' then False
      else case findToolByName sessionID toolName sv of None \<Rightarrow> False | Some t \<Rightarrow> tl_MachineID t = machineID)"

definition ToolsByMachine :: "string \<Rightarrow> string \<Rightarrow> server \<Rightarrow> server \<times> string gomap" where
  "ToolsByMachine sessionID machineID sv =
     (if machineID = '''' then (sv, [])
      else let own = filter (\<lambda>t. tl_MachineID t = machineID) (mem_ListToolsBySession sessionID (sv_store sv))
           in (fold (cacheTool sessionID) own sv, fold (\<lambda>t out. gm_put (tl_Name t) (tl_ID t) out) own []))"

definition ListTools :: "string \<Rightarrow> server \<Rightarrow> server \<times> tool list" where
  "ListTools sessionID sv =
     (let tools = mem_ListToolsBySession sessionID (sv_store sv);
          sv1 = sv\<lparr> sv_tools := gm_ensure sessionID [] (sv_tools sv) \<rparr>
      in (fold (cacheTool sessionID) tools sv1, tools))"

definition UpdateToolPing :: "time \<Rightarrow> string \<Rightarrow> string \<Rightarrow> server \<Rightarrow> server \<times> tool svc_result" where
  "UpdateToolPing now sessionID toolID sv =
     (case gm_get (sv_tools sv) sessionID of
        None \<Rightarrow> (sv, Inl ErrNotFound)
      | Some tools \<Rightarrow>
          (case gm_get tools toolID of
             None \<Rightarrow> (sv, Inl ErrNotFound)
           | Some tool \<Rightarrow>
               (let t = tool_UpdatePing now tool
                in (sv\<lparr> sv_tools := gm_put2 sessionID toolID t (sv_tools sv),
                        sv_store := mem_SaveTool t (sv_store sv) \<rparr>, Inr t))))"

definition DeleteTool :: "string \<Rightarrow> string \<Rightarrow> server \<Rightarrow> server \<times> unit svc_result" where
  "DeleteTool sessionID toolID sv =
     (case gm_get (sv_tools sv) sessionID of
        None \<Rightarrow> (sv, Inl ErrNotFound)
      | Some tools \<Rightarrow>
          (case gm_get tools toolID of
             None \<Rightarrow> (sv, Inl ErrNotFound)
           | Some tool \<Rightarrow> (sv\<lparr> sv_tools := gm_put sessionID (gm_del toolID tools) (sv_tools sv),
                                sv_store := mem_DeleteTool toolID (sv_store sv) \<rparr>, Inr ())))"

definition GetAllTools :: "server \<Rightarrow> tool list" where
  "GetAllTools sv = concat (map gm_vals (gm_vals (sv_tools sv)))"

section \<open>Machines\<close>

definition machineExists :: "string \<Rightarrow> string \<Rightarrow> server \<Rightarrow> bool" where
  "machineExists sessionID machineID sv \<longleftrightarrow> gm_get2 (sv_machines sv) sessionID machineID \<noteq> None"

definition IsMachineDraining :: "string \<Rightarrow> string \<Rightarrow> server \<Rightarrow> bool" where
  "IsMachineDraining sessionID machineID sv =
     (if gm_get2 (sv_drains sv) sessionID machineID \<noteq> None then True
      else mem_IsMachineDraining machineID (sv_store sv))"

definition mirror_machine :: "string \<Rightarrow> machine \<Rightarrow> server \<Rightarrow> server" where
  "mirror_machine sessionID m sv = sv\<lparr> sv_machines := gm_put2 sessionID (m_ID m) m (sv_machines sv) \<rparr>"

definition AuthorizeMachineToken ::
  "hash_fun \<Rightarrow> string \<Rightarrow> string \<Rightarrow> string \<Rightarrow> server \<Rightarrow> server \<times> unit svc_result" where
  "AuthorizeMachineToken hash sessionID machineID token sv =
     (if machineID = '''' then (sv, Inr ())
      else
        let (sv1, found) =
          (case gm_get2 (sv_machines sv) sessionID machineID of
             Some m \<Rightarrow> (sv, Some m)
           | None \<Rightarrow>
               (case mem_GetMachine machineID (sv_store sv) of
                  None \<Rightarrow> (sv, None)
                | Some stored \<Rightarrow>
                    if m_SessionID stored = sessionID
                    then (sv\<lparr> sv_machines := gm_put2 sessionID machineID stored (sv_machines sv) \<rparr>, Some stored)
                    else (sv, None)))
        in case found of
             None \<Rightarrow> (sv1, Inr ())
           | Some machine \<Rightarrow>
               if m_TokenHash machine = ''''
               then if token = '''' then (sv1, Inr ())
                    else let presented = hash token in
                      (case mem_BindMachineToken machineID presented (sv_store sv1) of
                         (st, True) \<Rightarrow>
                           (sv1\<lparr> sv_store := st, sv_machines := gm_put2 sessionID machineID
                              (machine\<lparr> m_TokenHash := presented \<rparr>) (sv_machines sv1) \<rparr>, Inr ())
                       | (st, False) \<Rightarrow>
                           (case mem_GetMachine machineID st of
                              None \<Rightarrow> (sv1\<lparr> sv_store := st \<rparr>, Inl ErrMachineCredentialRejected)
                            | Some stored \<Rightarrow>
                                if \<not> MatchesMachineToken hash token stored
                                then (sv1\<lparr> sv_store := st \<rparr>, Inl ErrMachineCredentialRejected)
                                else (sv1\<lparr> sv_store := st, sv_machines := gm_put2 sessionID machineID
                                        (machine\<lparr> m_TokenHash := m_TokenHash stored \<rparr>) (sv_machines sv1) \<rparr>,
                                      Inr ())))
               else if \<not> MatchesMachineToken hash token machine then (sv1, Inl ErrMachineCredentialRejected)
               else (sv1, Inr ()))"

definition GetMachineByID :: "string \<Rightarrow> string \<Rightarrow> server \<Rightarrow> server \<times> machine svc_result" where
  "GetMachineByID sessionID machineID sv =
     (let sv1 = sv\<lparr> sv_machines := (case gm_get (sv_machines sv) sessionID of
                      None \<Rightarrow> sv_machines sv
                    | Some ms \<Rightarrow> gm_put sessionID (gm_del machineID ms) (sv_machines sv)) \<rparr>
      in case mem_GetMachine machineID (sv_store sv) of
           None \<Rightarrow> (sv1, Inl ErrNotFound)
         | Some stored \<Rightarrow>
             if m_SessionID stored \<noteq> sessionID then (sv1, Inl ErrNotFound)
             else (sv1\<lparr> sv_machines := gm_put2 sessionID machineID stored (sv_machines sv1) \<rparr>, Inr stored))"

definition ListMachines :: "string \<Rightarrow> server \<Rightarrow> server \<times> machine list" where
  "ListMachines sessionID sv =
     (let machines = mem_ListMachinesBySession sessionID (sv_store sv);
          sv1 = sv\<lparr> sv_machines := gm_ensure sessionID [] (sv_machines sv) \<rparr>
      in (fold (mirror_machine sessionID) machines sv1, machines))"

definition UpdateMachinePing :: "time \<Rightarrow> string \<Rightarrow> string \<Rightarrow> server \<Rightarrow> server \<times> machine svc_result" where
  "UpdateMachinePing now sessionID machineID sv =
     (case gm_get2 (sv_machines sv) sessionID machineID of
        None \<Rightarrow> (sv, Inl ErrNotFound)
      | Some machine \<Rightarrow>
          (let m = machine_UpdatePing now machine
           in (sv\<lparr> sv_machines := gm_put2 sessionID machineID m (sv_machines sv),
                   sv_store := mem_TouchMachineLastPing sessionID machineID (m_LastPingAt m) (sv_store sv) \<rparr>,
               Inr m)))"

definition finishMachineDrain :: "string \<Rightarrow> string \<Rightarrow> server \<Rightarrow> server" where
  "finishMachineDrain sessionID machineID sv =
     sv\<lparr> sv_drains := gm_del2 sessionID machineID (sv_drains sv) \<rparr>"

definition UnregisterMachine :: "string \<Rightarrow> string \<Rightarrow> server \<Rightarrow> server" where
  "UnregisterMachine sessionID machineID sv =
     (case gm_get2 (sv_machines sv) sessionID machineID of
        None \<Rightarrow> finishMachineDrain sessionID machineID sv
      | Some machine \<Rightarrow>
          (let sv1 = DeleteToolsByMachine sessionID machineID sv;
               sv2 = sv1\<lparr> sv_machines := gm_del2 sessionID machineID (sv_machines sv1) \<rparr>;
               sv3 = clearMachineCapacity sessionID machineID sv2;
               sv4 = UntrackMachine sessionID machineID sv3;
               sv5 = sv4\<lparr> sv_store := mem_DeleteMachine machineID (sv_store sv4) \<rparr>
           in finishMachineDrain sessionID machineID sv5))"

definition FindMachinesWithTool :: "string \<Rightarrow> string \<Rightarrow> server \<Rightarrow> server \<times> machine list svc_result" where
  "FindMachinesWithTool sessionID toolName sv =
     (case GetToolByName sessionID toolName sv of
        (sv1, Inl e) \<Rightarrow> (sv1, Inl ErrNotFound)
      | (sv1, Inr tool) \<Rightarrow>
          if tl_MachineID tool = '''' then (sv1, Inl ErrNoProviderAvailable)
          else case gm_get2 (sv_machines sv1) sessionID (tl_MachineID tool) of
                 Some machine \<Rightarrow> (sv1, Inr [machine])
               | None \<Rightarrow>
                   (case mem_GetMachine (tl_MachineID tool) (sv_store sv1) of
                      None \<Rightarrow> (sv1, Inl ErrNoProviderAvailable)
                    | Some stored \<Rightarrow>
                        if m_SessionID stored = sessionID
                        then (mirror_machine sessionID stored sv1, Inr [stored])
                        else (sv1, Inl ErrNoProviderAvailable)))"

section \<open>Registration\<close>

fun delete_dropped :: "string \<Rightarrow> string list \<Rightarrow> string gomap \<Rightarrow> server \<Rightarrow> server" where
  "delete_dropped sessionID desired [] sv = sv"
| "delete_dropped sessionID desired ((name, toolID) # rest) sv =
     delete_dropped sessionID desired rest
       (if name \<in> set desired then sv else fst (DeleteTool sessionID toolID sv))"

text \<open>Each tool to register comes with the id \<open>NewTool\<close> would draw.\<close>

fun register_tools ::
  "(string \<Rightarrow> bool) \<Rightarrow> time \<Rightarrow> string \<Rightarrow> string \<Rightarrow> (string \<times> tool) list \<Rightarrow> server \<Rightarrow> server" where
  "register_tools json_object now sessionID machineID [] sv = sv"
| "register_tools json_object now sessionID machineID ((uuid, t) # rest) sv =
     register_tools json_object now sessionID machineID rest
       (fst (RegisterTool json_object uuid now sessionID machineID (tl_Name t) (tl_Description t)
               (tl_Schema t) (tl_Config t) (tl_Tags t) sv))"

definition reconcileMachineTools ::
  "(string \<Rightarrow> bool) \<Rightarrow> time \<Rightarrow> string \<Rightarrow> string \<Rightarrow> (string \<times> tool) list \<Rightarrow> server \<Rightarrow> server" where
  "reconcileMachineTools json_object now sessionID machineID tools sv =
     (case ToolsByMachine sessionID machineID sv of
        (sv1, current) \<Rightarrow>
          register_tools json_object now sessionID machineID tools
            (delete_dropped sessionID (map (\<lambda>(u, t). tl_Name t) tools) current sv1))"

text \<open>Identity resolution: a fresh machine, or the existing one whose credential was
  presented.\<close>

definition resolve_machine ::
  "hash_fun \<Rightarrow> string \<Rightarrow> string \<Rightarrow> time \<Rightarrow> string \<Rightarrow> string \<Rightarrow> string \<Rightarrow> string \<Rightarrow> string \<Rightarrow> string
     \<Rightarrow> server \<Rightarrow> server \<times> machine svc_result" where
  "resolve_machine hash uuid1 uuid2 now sessionID machineID sdkVersion sdkLanguage ip presentedToken sv =
     (if machineID = ''''
      then (sv, Inr (NewMachine hash uuid1 uuid2 now sessionID '''' sdkVersion sdkLanguage ip))
      else
        let existing =
          (case gm_get2 (sv_machines sv) sessionID machineID of
             Some m \<Rightarrow> Some m
           | None \<Rightarrow> (case mem_GetMachine machineID (sv_store sv) of
                        Some stored \<Rightarrow> if m_SessionID stored = sessionID then Some stored else None
                      | None \<Rightarrow> None));
            refreshed = (\<lambda>m. machine_UpdatePing now
              (m\<lparr> m_SDKVersion := sdkVersion, m_SDKLanguage := sdkLanguage, m_IP := ip \<rparr>))
        in case existing of
             None \<Rightarrow> (sv, Inr (NewMachine hash uuid1 uuid2 now sessionID machineID sdkVersion sdkLanguage ip))
           | Some m \<Rightarrow>
               if m_TokenHash m = ''''
               then if presentedToken = '''' then (sv, Inl ErrMachineCredentialRejected)
                    else (case mem_BindMachineToken machineID (hash presentedToken) (sv_store sv) of
                            (st, False) \<Rightarrow> (sv\<lparr> sv_store := st \<rparr>, Inl ErrMachineCredentialRejected)
                          | (st, True) \<Rightarrow> (sv\<lparr> sv_store := st \<rparr>,
                              Inr (refreshed (m\<lparr> m_TokenHash := hash presentedToken \<rparr>))))
               else if \<not> MatchesMachineToken hash presentedToken m
               then (sv, Inl ErrMachineCredentialRejected)
               else (sv, Inr (refreshed m)))"

definition RegisterMachine ::
  "hash_fun \<Rightarrow> (string \<Rightarrow> bool) \<Rightarrow> string \<Rightarrow> string \<Rightarrow> time \<Rightarrow> string \<Rightarrow> string \<Rightarrow> string \<Rightarrow> string
     \<Rightarrow> string \<Rightarrow> (string \<times> tool) list \<Rightarrow> string \<Rightarrow> server \<Rightarrow> server \<times> machine svc_result" where
  "RegisterMachine hash json_object uuid1 uuid2 now sessionID machineID sdkVersion sdkLanguage ip
     tools presentedToken sv =
     (if machineID \<noteq> '''' \<and> IsMachineDraining sessionID machineID sv then (sv, Inl ErrMachineDraining)
      else if list_ex (\<lambda>(u, t). validateToolSchema json_object (tl_Schema t) \<noteq> None) tools
      then (sv, Inl ErrInvalidArgument)
      else
        let sv0 = sv\<lparr> sv_machines := gm_ensure sessionID [] (sv_machines sv) \<rparr>
        in case resolve_machine hash uuid1 uuid2 now sessionID machineID sdkVersion sdkLanguage ip
                  presentedToken sv0 of
             (sv1, Inl e) \<Rightarrow> (sv1, Inl e)
           | (sv1, Inr machine) \<Rightarrow>
               (let mid = m_ID machine;
                    sv2 = sv1\<lparr> sv_machines := gm_put2 sessionID mid (machine\<lparr> m_Token := '''' \<rparr>) (sv_machines sv1) \<rparr>;
                    sv3 = setMachineCapacity sessionID mid maxMachineConcurrentRequests sv2;
                    sv4 = sv3\<lparr> sv_store := mem_SaveMachine machine (sv_store sv3) \<rparr>;
                    sv5 = TrackMachine sessionID mid sv4;
                    sv6 = (if tools = [] then sv5
                           else reconcileMachineTools json_object now sessionID mid tools sv5)
                in (sv6, Inr machine)))"

section \<open>Drain and cleanup\<close>

definition ActiveRequestsForMachine :: "string \<Rightarrow> string \<Rightarrow> server \<Rightarrow> int" where
  "ActiveRequestsForMachine sessionID machineID sv =
     int (length (filter (\<lambda>r. r_ExecutingMachineID r = machineID
             \<and> (r_Status r = Claimed \<or> r_Status r = Running))
           (gm_vals (gm_inner (sv_requests sv) sessionID))))"

text \<open>\<open>getOrCreateDrainState\<close>: whether this call started the drain and whether the machine
  exists.\<close>

definition getOrCreateDrainState :: "string \<Rightarrow> string \<Rightarrow> server \<Rightarrow> server \<times> bool \<times> bool" where
  "getOrCreateDrainState sessionID machineID sv =
     (if \<not> machineExists sessionID machineID sv then (sv, False, False)
      else if gm_get2 (sv_drains sv) sessionID machineID \<noteq> None then (sv, False, True)
      else (sv\<lparr> sv_drains := gm_put2 sessionID machineID () (sv_drains sv) \<rparr>, True, True))"

text \<open>\<open>DrainMachine\<close> up to the point where it starts waiting, and one round of the waiting
  loop: \<open>True\<close> once the drain is over.\<close>

definition DrainMachine :: "string \<Rightarrow> string \<Rightarrow> server \<Rightarrow> server" where
  "DrainMachine sessionID machineID sv =
     (case getOrCreateDrainState sessionID machineID sv of
        (sv1, started, found) \<Rightarrow>
          if \<not> found \<or> \<not> started then sv1
          else let sv2 = sv1\<lparr> sv_store := mem_SetMachineDraining sessionID machineID (sv_store sv1) \<rparr>;
                   sv3 = DeleteToolsByMachine sessionID machineID sv2
               in UntrackMachine sessionID machineID sv3)"

definition waitForDrainAndUnregister :: "string \<Rightarrow> string \<Rightarrow> server \<Rightarrow> server \<times> bool" where
  "waitForDrainAndUnregister sessionID machineID sv =
     (if \<not> machineExists sessionID machineID sv then (finishMachineDrain sessionID machineID sv, True)
      else if \<not> ActiveRequestsForMachine sessionID machineID sv > 0
      then (UnregisterMachine sessionID machineID sv, True)
      else (sv, False))"

definition reclaimMachine :: "time \<Rightarrow> string \<Rightarrow> string \<Rightarrow> time \<Rightarrow> server \<Rightarrow> server \<times> bool \<times> int" where
  "reclaimMachine now sessionID0 machineID cutoff sv =
     (let cached_session =
        (if sessionID0 \<noteq> '''' \<and> gm_get2 (sv_machines sv) sessionID0 machineID \<noteq> None then sessionID0
         else case List.find (\<lambda>(sess, ms). gm_get ms machineID \<noteq> None) (sv_machines sv) of
                None \<Rightarrow> sessionID0 | Some (sess, _) \<Rightarrow> sess)
      in case mem_ReclaimMachine machineID cutoff (sv_store sv) of
           (st, None) \<Rightarrow> (sv\<lparr> sv_store := st \<rparr>, False, 0)
         | (st, Some (persistedSessionID, updates)) \<Rightarrow>
             (let sessionID = (if persistedSessionID \<noteq> '''' then persistedSessionID else cached_session);
                  sv1 = DetachToolsForMachine now updates machineID (sv\<lparr> sv_store := st \<rparr>);
                  sv2 = (if sessionID = '''' then sv1
                         else sv1\<lparr> sv_machines := gm_del2 sessionID machineID (sv_machines sv1) \<rparr>);
                  sv3 = clearMachineCapacity sessionID machineID sv2;
                  sv4 = UntrackMachine sessionID machineID sv3
              in (finishMachineDrain sessionID machineID sv4, True, int (length updates))))"

text \<open>The candidates are a Go map from machine to session: cached stale machines first, then
  those of the store.\<close>

definition stale_candidates :: "time \<Rightarrow> server \<Rightarrow> string gomap" where
  "stale_candidates cutoff sv =
     (let cached = concat (map (\<lambda>(sess, ms). map (\<lambda>(mid, m). (mid, sess))
                      (filter (\<lambda>(mid, m). m_LastPingAt m < cutoff) ms)) (sv_machines sv));
          stored = map (\<lambda>m. (m_ID m, m_SessionID m)) (mem_ListStaleMachines cutoff 256 (sv_store sv))
      in fold (\<lambda>(k, v) out. gm_put k v out) (cached @ stored) [])"

definition cleanupMachines :: "time \<Rightarrow> server \<Rightarrow> server" where
  "cleanupMachines now sv =
     (let cutoff = now - machineHeartbeatTTL
      in fold (\<lambda>(mid, sess) u. fst (reclaimMachine now sess mid cutoff u)) (stale_candidates cutoff sv) sv)"

end
