(* ===== verification/Service_Requests.thy ===== *)
theory Service_Requests
  imports Service_Machines Lease_Protocol
begin

text \<open>
  \<open>pkg/service/requests.go\<close> on a store-backed replica.  Every method is a function of the
  server state: the store (shared by all replicas) and this replica's request cache, machine
  registry and in-flight counters.  One method is one step; what other replicas do in
  between is any sequence of store operations.  Trace events and wake-up signals are not
  modelled.
\<close>

definition requestLeaseDuration :: duration where "requestLeaseDuration = 30 * Second"
definition requestTimeout :: duration where "requestTimeout = 45 * Second"
definition maxRequestTimeout :: duration where "maxRequestTimeout = 3600 * Second"
definition requestBackoff :: duration where "requestBackoff = 5 * Second"
definition requestRetentionAge :: duration where "requestRetentionAge = 7 * 24 * 3600 * Second"
definition auditRetentionAge :: duration where "auditRetentionAge = 30 * 24 * 3600 * Second"

text \<open>\<open>int(d.Seconds())\<close> for a non-negative duration.\<close>

definition whole_seconds :: "duration \<Rightarrow> int" where
  "whole_seconds d = d div Second"

definition ensureRequestDefaults :: "time \<Rightarrow> request \<Rightarrow> request" where
  "ensureRequestDefaults now req =
     (let r1 = (case r_Meta req of None \<Rightarrow> req\<lparr> r_Meta := Some [] \<rparr> | Some _ \<Rightarrow> req);
          r2 = EnsureStreamSequenceDefaults r1;
          r3 = (if r_TimeoutSeconds r2 \<le> 0 then r2\<lparr> r_TimeoutSeconds := whole_seconds requestTimeout \<rparr> else r2);
          r4 = (if r_BackoffSeconds r3 \<le> 0 then r3\<lparr> r_BackoffSeconds := whole_seconds requestBackoff \<rparr> else r3)
      in if r_VisibleAt r4 = zero_time then r4\<lparr> r_VisibleAt := now \<rparr> else r4)"

section \<open>The cache\<close>

definition cache_put :: "string \<Rightarrow> string \<Rightarrow> request \<Rightarrow> server \<Rightarrow> server" where
  "cache_put sessionID requestID r sv =
     sv\<lparr> sv_requests := gm_put2 sessionID requestID r (sv_requests sv) \<rparr>"

definition cached :: "string \<Rightarrow> string \<Rightarrow> server \<Rightarrow> request option" where
  "cached sessionID requestID sv = gm_get2 (sv_requests sv) sessionID requestID"

text \<open>\<open>mirrorRequestLocked\<close>: the newer of the cached and the stored copy wins.\<close>

definition mirrorRequestLocked :: "request \<Rightarrow> server \<Rightarrow> server" where
  "mirrorRequestLocked request sv =
     (case cached (r_SessionID request) (r_ID request) sv of
        Some existing \<Rightarrow>
          if r_UpdatedAt existing > r_UpdatedAt request then sv
          else cache_put (r_SessionID request) (r_ID request) request sv
      | None \<Rightarrow> cache_put (r_SessionID request) (r_ID request) request sv)"

text \<open>Hydration at start-up: terminal rows the retention sweep would remove are skipped.\<close>

definition hydrate :: "time \<Rightarrow> request list \<Rightarrow> server \<Rightarrow> server" where
  "hydrate now rs sv =
     fold (\<lambda>r s. if IsTerminalStatus (r_Status r) \<and> r_UpdatedAt r < now - requestRetentionAge then s
                 else cache_put (r_SessionID r) (r_ID r) (ensureRequestDefaults now r) s) rs sv"

definition cloneRequestLocked :: "string \<Rightarrow> string \<Rightarrow> server \<Rightarrow> request svc_result" where
  "cloneRequestLocked sessionID requestID sv =
     (case cached sessionID requestID sv of None \<Rightarrow> Inl ErrNotFound | Some r \<Rightarrow> Inr r)"

definition cloneRequestAnySessionLocked :: "string \<Rightarrow> server \<Rightarrow> request svc_result" where
  "cloneRequestAnySessionLocked requestID sv =
     (case List.find (\<lambda>rs. gm_get rs requestID \<noteq> None) (gm_vals (sv_requests sv)) of
        None \<Rightarrow> Inl ErrNotFound
      | Some rs \<Rightarrow> (case gm_get rs requestID of None \<Rightarrow> Inl ErrNotFound | Some r \<Rightarrow> Inr r))"

section \<open>Reads\<close>

definition GetRequestByID :: "time \<Rightarrow> string \<Rightarrow> string \<Rightarrow> server \<Rightarrow> server \<times> request svc_result" where
  "GetRequestByID now sessionID requestID sv =
     (case mem_GetRequest requestID (sv_store sv) of
        Some found0 \<Rightarrow>
          if r_SessionID found0 \<noteq> sessionID then (sv, Inl ErrNotFound)
          else (let found = ensureRequestDefaults now found0;
                    sv1 = sv\<lparr> sv_requests := gm_ensure sessionID [] (sv_requests sv) \<rparr>
                in case cached sessionID requestID sv1 of
                     Some existing \<Rightarrow>
                       if r_UpdatedAt existing > r_UpdatedAt found
                       then (sv1, Inr (ensureRequestDefaults now existing))
                       else (cache_put sessionID requestID found sv1, Inr found)
                   | None \<Rightarrow> (cache_put sessionID requestID found sv1, Inr found))
      | None \<Rightarrow>
          (case cloneRequestLocked sessionID requestID sv of
             Inr r \<Rightarrow> (sv, Inr (ensureRequestDefaults now r))
           | Inl e \<Rightarrow> (sv, Inl ErrNotFound)))"

definition GetRequestByIDAnySession :: "time \<Rightarrow> string \<Rightarrow> server \<Rightarrow> server \<times> request svc_result" where
  "GetRequestByIDAnySession now requestID sv =
     (case mem_GetRequest requestID (sv_store sv) of
        Some found0 \<Rightarrow>
          (let found = ensureRequestDefaults now found0
           in (cache_put (r_SessionID found) requestID found sv, Inr found))
      | None \<Rightarrow>
          (case cloneRequestAnySessionLocked requestID sv of
             Inr r \<Rightarrow> (sv, Inr (ensureRequestDefaults now r))
           | Inl e \<Rightarrow> (sv, Inl ErrNotFound)))"

definition findRequestByIdempotencyKey :: "string \<Rightarrow> string \<Rightarrow> server \<Rightarrow> server \<times> request option" where
  "findRequestByIdempotencyKey sessionID idempotencyKey sv =
     (case List.find (\<lambda>r. r_IdempotencyKey r = idempotencyKey)
             (gm_vals (gm_inner (sv_requests sv) sessionID)) of
        Some r \<Rightarrow> (sv, Some r)
      | None \<Rightarrow>
          (case mem_GetRequestByIdempotencyKey sessionID idempotencyKey (sv_store sv) of
             None \<Rightarrow> (sv, None)
           | Some found \<Rightarrow>
               (let sv1 = sv\<lparr> sv_requests := gm_ensure sessionID [] (sv_requests sv) \<rparr>
                in (if cached sessionID (r_ID found) sv1 = None
                    then cache_put sessionID (r_ID found) found sv1 else sv1, Some found))))"

text \<open>Listing: mirror the session's rows, filter, order by creation time and id, cut out the
  page.  Strings compare bytewise.\<close>

fun str_less :: "string \<Rightarrow> string \<Rightarrow> bool" where
  "str_less xs [] = False"
| "str_less [] (y # ys) = True"
| "str_less (x # xs) (y # ys) =
     (if (of_char x :: nat) = of_char y then str_less xs ys else (of_char x :: nat) < of_char y)"

definition list_less :: "request \<Rightarrow> request \<Rightarrow> bool" where
  "list_less a b = (if r_CreatedAt a = r_CreatedAt b then str_less (r_ID a) (r_ID b)
                    else r_CreatedAt a < r_CreatedAt b)"

definition page_of :: "int \<Rightarrow> int \<Rightarrow> 'a list \<Rightarrow> 'a list" where
  "page_of limit0 offset0 xs =
     (let limit = (if limit0 \<le> 0 then 10 else limit0);
          offset = (if offset0 < 0 then 0 else offset0);
          stop = (if offset + limit > int (length xs) then int (length xs) else offset + limit)
      in if offset \<ge> int (length xs) then [] else take (nat (stop - offset)) (drop (nat offset) xs))"

definition ListRequests ::
  "string \<Rightarrow> request_status option \<Rightarrow> string \<Rightarrow> int \<Rightarrow> int \<Rightarrow> server \<Rightarrow> server \<times> request list \<times> int" where
  "ListRequests sessionID status toolName limit offset sv =
     (let stored = mem_ListRequestsBySession sessionID (sv_store sv);
          sv1 = fold (\<lambda>r. cache_put sessionID (r_ID r) r) stored
                  (sv\<lparr> sv_requests := gm_ensure sessionID [] (sv_requests sv) \<rparr>);
          filtered = sort_slice list_less
            (filter (\<lambda>r. (status = None \<or> status = Some (r_Status r)) \<and> (toolName = '''' \<or> r_ToolName r = toolName))
              (gm_vals (gm_inner (sv_requests sv1) sessionID)))
      in (sv1, page_of limit offset filtered, int (length filtered)))"

section \<open>Creation\<close>

definition cache_pending :: "string \<Rightarrow> server \<Rightarrow> int" where
  "cache_pending sessionID sv =
     int (length (filter pending_live (gm_vals (gm_inner (sv_requests sv) sessionID))))"

definition new_request :: "string \<Rightarrow> time \<Rightarrow> string \<Rightarrow> string \<Rightarrow> string \<Rightarrow> duration \<Rightarrow> string \<Rightarrow> request" where
  "new_request uuid now sessionID toolName input timeout idempotencyKey =
     (ensureRequestDefaults now (NewRequest uuid now sessionID toolName input))
       \<lparr> r_TimeoutSeconds := whole_seconds timeout, r_BackoffSeconds := whole_seconds requestBackoff,
         r_IdempotencyKey := idempotencyKey, r_VisibleAt := now \<rparr>"

definition resolve_timeout :: "int \<Rightarrow> duration svc_result" where
  "resolve_timeout timeoutSeconds =
     (if timeoutSeconds > 0
      then let t = seconds timeoutSeconds
           in if t > maxRequestTimeout then Inl ErrRequestTimeoutOutOfRange else Inr t
      else Inr requestTimeout)"

text \<open>The part after validation: optimistic cap check on the cache, authoritative insert,
  mirror, and the lookup of the winner on a key collision.\<close>

definition insert_request :: "request \<Rightarrow> server \<Rightarrow> server \<times> request svc_result" where
  "insert_request request sv =
     (if cache_pending (r_SessionID request) sv \<ge> MaxPendingRequestsPerSession
      then (sv, Inl ErrTooManyPendingRequests)
      else case mem_InsertRequest request (sv_store sv) of
             (st, Inr _) \<Rightarrow>
               (cache_put (r_SessionID request) (r_ID request) request (sv\<lparr> sv_store := st \<rparr>), Inr request)
           | (st, Inl StErrTooManyPendingRequests) \<Rightarrow> (sv\<lparr> sv_store := st \<rparr>, Inl ErrTooManyPendingRequests)
           | (st, Inl e) \<Rightarrow>
               if r_IdempotencyKey request \<noteq> '''' \<and> e = StErrRequestExists
               then (case findRequestByIdempotencyKey (r_SessionID request) (r_IdempotencyKey request)
                            (sv\<lparr> sv_store := st \<rparr>) of
                       (sv1, Some existing) \<Rightarrow> (sv1, Inr existing)
                     | (sv1, None) \<Rightarrow> (sv1, Inl (ErrStorage e)))
               else (sv\<lparr> sv_store := st \<rparr>, Inl (ErrStorage e)))"

definition CreateRequest ::
  "string \<Rightarrow> time \<Rightarrow> string \<Rightarrow> string \<Rightarrow> string \<Rightarrow> int \<Rightarrow> string \<Rightarrow> server \<Rightarrow> server \<times> request svc_result" where
  "CreateRequest uuid now sessionID toolName input timeoutSeconds idempotencyKey sv =
     (let (sv1, existing) = (if idempotencyKey = '''' then (sv, None)
                             else findRequestByIdempotencyKey sessionID idempotencyKey sv)
      in case existing of
           Some r \<Rightarrow> (sv1, Inr r)
         | None \<Rightarrow>
             (case GetToolByName sessionID toolName sv1 of
                (sv2, Inl e) \<Rightarrow> (sv2, Inl e)
              | (sv2, Inr _) \<Rightarrow>
                  (case FindMachinesWithTool sessionID toolName sv2 of
                     (sv3, Inl e) \<Rightarrow> (sv3, Inl e)
                   | (sv3, Inr machines) \<Rightarrow>
                       if machines = [] then (sv3, Inl ErrNoProviderAvailable)
                       else case resolve_timeout timeoutSeconds of
                              Inl e \<Rightarrow> (sv3, Inl e)
                            | Inr timeout \<Rightarrow>
                                insert_request
                                  (new_request uuid now sessionID toolName input timeout idempotencyKey) sv3)))"

section \<open>Provider writes\<close>

text \<open>\<open>updateRequestViaStore\<close>.  \<open>status = None\<close> is the empty status.\<close>

definition slot_after_update ::
  "string \<Rightarrow> request_status option \<Rightarrow> request_status option \<Rightarrow> bool \<Rightarrow> request \<Rightarrow> server \<Rightarrow> server" where
  "slot_after_update sessionID status prevStatus reservedSlot updated sv =
     (case status of
        None \<Rightarrow> sv
      | Some st \<Rightarrow>
          if IsTerminalStatus st \<and> r_ExecutingMachineID updated \<noteq> ''''
          then ReleaseMachineSlot sessionID (r_ExecutingMachineID updated) sv
          else if st = Running \<and> \<not> reservedSlot \<and> prevStatus = Some Running \<and> r_ExecutingMachineID updated \<noteq> ''''
          then fst (ReserveMachineSlot sessionID (r_ExecutingMachineID updated) sv)
          else sv)"

definition apply_update ::
  "time \<Rightarrow> string \<Rightarrow> string \<Rightarrow> string \<Rightarrow> int \<Rightarrow> request_status option \<Rightarrow> go_value \<Rightarrow> string
     \<Rightarrow> request_status option \<Rightarrow> bool \<Rightarrow> server \<Rightarrow> server \<times> request svc_result" where
  "apply_update now sessionID requestID machineID leaseEpoch status result resultType prevStatus reservedSlot sv =
     (case mem_UpdateRequestFenced now sessionID requestID machineID leaseEpoch status result resultType
             requestLeaseDuration (sv_store sv) of
        (st, Inl e) \<Rightarrow>
          (let sv1 = sv\<lparr> sv_store := st \<rparr>
           in (if reservedSlot then ReleaseMachineSlot sessionID machineID sv1 else sv1, Inl (ErrStorage e)))
      | (st, Inr updated) \<Rightarrow>
          (slot_after_update sessionID status prevStatus reservedSlot updated
             (mirrorRequestLocked updated (sv\<lparr> sv_store := st \<rparr>)), Inr updated))"

definition updateRequestViaStore ::
  "time \<Rightarrow> string \<Rightarrow> string \<Rightarrow> string \<Rightarrow> int \<Rightarrow> request_status option \<Rightarrow> go_value \<Rightarrow> string
     \<Rightarrow> server \<Rightarrow> server \<times> request svc_result" where
  "updateRequestViaStore now sessionID requestID machineID leaseEpoch status result resultType sv =
     (let prevStatus = map_option r_Status (cached sessionID requestID sv)
      in if status = Some Running \<and> machineID \<noteq> '''' \<and> prevStatus \<noteq> Some Running
         then (case ReserveMachineSlot sessionID machineID sv of
                 (sv1, False) \<Rightarrow>
                   (case mem_RequeueRequestFenced now sessionID requestID machineID leaseEpoch
                           ''machine at capacity'' requestBackoff (sv_store sv1) of
                      (st, Inl e) \<Rightarrow> (sv1\<lparr> sv_store := st \<rparr>, Inl (ErrStorage e))
                    | (st, Inr requeued) \<Rightarrow>
                        (mirrorRequestLocked requeued (sv1\<lparr> sv_store := st \<rparr>), Inl ErrMachineAtCapacity))
               | (sv1, True) \<Rightarrow>
                   apply_update now sessionID requestID machineID leaseEpoch status result resultType
                     prevStatus True sv1)
         else apply_update now sessionID requestID machineID leaseEpoch status result resultType
                prevStatus False sv)"

definition ClaimRequest :: "time \<Rightarrow> string \<Rightarrow> string \<Rightarrow> string \<Rightarrow> server \<Rightarrow> server \<times> request svc_result" where
  "ClaimRequest now sessionID requestID machineID sv =
     (if IsMachineDraining sessionID machineID sv then (sv, Inl ErrMachineDraining)
      else case mem_ClaimRequest now sessionID requestID machineID requestLeaseDuration (sv_store sv) of
             (st, Inl e) \<Rightarrow>
               (sv\<lparr> sv_store := st \<rparr>,
                Inl (if e = StErrMachineNotToolOwner then ErrMachineNotToolOwner else ErrStorage e))
           | (st, Inr None) \<Rightarrow>
               (case GetRequestByID now sessionID requestID (sv\<lparr> sv_store := st \<rparr>) of
                  (sv1, Inl e) \<Rightarrow> (sv1, Inl e)
                | (sv1, Inr _) \<Rightarrow> (sv1, Inl ErrRequestNotClaimable))
           | (st, Inr (Some claimed)) \<Rightarrow>
               (cache_put sessionID (r_ID claimed) claimed (sv\<lparr> sv_store := st \<rparr>), Inr claimed))"

definition ClaimPendingRequest ::
  "time \<Rightarrow> string \<Rightarrow> string \<Rightarrow> string list \<Rightarrow> server \<Rightarrow> server \<times> request svc_result" where
  "ClaimPendingRequest now sessionID machineID toolNames sv =
     (if IsMachineDraining sessionID machineID sv then (sv, Inl ErrMachineDraining)
      else if machineID \<noteq> '''' \<and> fst (MachineLoadInfo sessionID machineID sv) \<ge> snd (MachineLoadInfo sessionID machineID sv)
      then (sv, Inl ErrMachineAtCapacity)
      else case mem_LeasePendingRequest now sessionID machineID toolNames requestLeaseDuration (sv_store sv) of
             (st, None) \<Rightarrow> (sv\<lparr> sv_store := st \<rparr>, Inl ErrNoPendingRequests)
           | (st, Some req0) \<Rightarrow>
               (let req = ensureRequestDefaults now req0
                in (cache_put (r_SessionID req) (r_ID req) req (sv\<lparr> sv_store := st \<rparr>), Inr req)))"

definition recordSubmitEvents :: "request \<Rightarrow> server \<Rightarrow> server" where
  "recordSubmitEvents request sv =
     (if r_ExecutingMachineID request \<noteq> ''''
      then ReleaseMachineSlot (r_SessionID request) (r_ExecutingMachineID request) sv else sv)"

definition SubmitRequestResult ::
  "time \<Rightarrow> string \<Rightarrow> string \<Rightarrow> string \<Rightarrow> int \<Rightarrow> go_value \<Rightarrow> string \<Rightarrow> string gomap option
     \<Rightarrow> server \<Rightarrow> server \<times> unit svc_result" where
  "SubmitRequestResult now sessionID requestID machineID leaseEpoch result resultType meta sv =
     (case mem_SubmitRequestResultFenced now sessionID requestID machineID leaseEpoch result resultType meta
             (sv_store sv) of
        (st, Inl e) \<Rightarrow> (sv\<lparr> sv_store := st \<rparr>, Inl (ErrStorage e))
      | (st, Inr submitted) \<Rightarrow>
          (recordSubmitEvents submitted (mirrorRequestLocked submitted (sv\<lparr> sv_store := st \<rparr>)), Inr ()))"

definition CancelRequest :: "time \<Rightarrow> string \<Rightarrow> string \<Rightarrow> server \<Rightarrow> server \<times> unit svc_result" where
  "CancelRequest now sessionID requestID sv =
     (case mem_CancelRequestFenced now sessionID requestID ''Request was cancelled'' (sv_store sv) of
        (st, Inl e) \<Rightarrow>
          (sv\<lparr> sv_store := st \<rparr>, Inl (if e = StErrNotFound then ErrNotFound else ErrStorage e))
      | (st, Inr (stored, False)) \<Rightarrow>
          (cache_put sessionID requestID stored (sv\<lparr> sv_store := st \<rparr>), Inl ErrRequestNotCancellable)
      | (st, Inr (stored, True)) \<Rightarrow>
          (let sv1 = cache_put sessionID requestID stored (sv\<lparr> sv_store := st \<rparr>)
           in (if r_ExecutingMachineID stored \<noteq> ''''
               then ReleaseMachineSlot sessionID (r_ExecutingMachineID stored) sv1 else sv1, Inr ())))"

definition AppendRequestChunks ::
  "time \<Rightarrow> string \<Rightarrow> string \<Rightarrow> string \<Rightarrow> int \<Rightarrow> string list \<Rightarrow> server \<Rightarrow> server \<times> unit svc_result" where
  "AppendRequestChunks now sessionID requestID machineID leaseEpoch chunks sv =
     (if list_ex (\<lambda>c. length c > MaxRequestChunkBytes) chunks then (sv, Inl ErrInvalidArgument)
      else if sum_list (map length chunks) > MaxChunkBatchPayloadBytes then (sv, Inl ErrInvalidArgument)
      else case mem_AppendRequestChunksFenced now sessionID requestID machineID leaseEpoch chunks (sv_store sv) of
             (st, Inl e) \<Rightarrow> (sv\<lparr> sv_store := st \<rparr>, Inl (ErrStorage e))
           | (st, Inr updated) \<Rightarrow> (mirrorRequestLocked updated (sv\<lparr> sv_store := st \<rparr>), Inr ()))"

definition RenewRequestLease ::
  "time \<Rightarrow> string \<Rightarrow> string \<Rightarrow> string \<Rightarrow> int \<Rightarrow> server \<Rightarrow> server \<times> request svc_result" where
  "RenewRequestLease now sessionID requestID machineID leaseEpoch sv =
     (case mem_RenewRequestLease now sessionID requestID machineID leaseEpoch requestLeaseDuration (sv_store sv) of
        (st, Inl e) \<Rightarrow> (sv\<lparr> sv_store := st \<rparr>, Inl (ErrStorage e))
      | (st, Inr renewed) \<Rightarrow> (mirrorRequestLocked renewed (sv\<lparr> sv_store := st \<rparr>), Inr renewed))"

section \<open>Streams\<close>

record stream_snapshot =
  sn_RequestID :: string
  sn_SessionID :: string
  sn_Status :: request_status
  sn_Result :: go_value
  sn_Error :: string
  sn_Window :: chunk_window

definition snapshotRequestStreamLocked :: "request \<Rightarrow> stream_snapshot" where
  "snapshotRequestStreamLocked request =
     \<lparr> sn_RequestID = r_ID request, sn_SessionID = r_SessionID request, sn_Status = r_Status request,
       sn_Result = r_Result request, sn_Error = r_Error request, sn_Window = StreamChunkWindow request \<rparr>"

definition lookupRequestForStream :: "time \<Rightarrow> string \<Rightarrow> string \<Rightarrow> server \<Rightarrow> server \<times> request svc_result" where
  "lookupRequestForStream now sessionID requestID sv =
     (if sessionID \<noteq> '''' then GetRequestByID now sessionID requestID sv
      else GetRequestByIDAnySession now requestID sv)"

text \<open>The replay slice: \<open>None\<close> is the slice expression out of range, which panics.\<close>

definition replay_window :: "string \<Rightarrow> int \<Rightarrow> chunk_window \<Rightarrow> chunk_window svc_result option" where
  "replay_window requestID lastSeq window =
     (let nextSeq0 = wrap32 (lastSeq + 1)
      in if nextSeq0 < w_StartSeq window \<and> nextSeq0 < w_NextSeq window
         then Some (Inl (RequestStreamExpiredError requestID lastSeq (w_StartSeq window) (w_NextSeq window)))
         else let nextSeq = (if nextSeq0 < w_StartSeq window then w_StartSeq window else nextSeq0)
              in if nextSeq \<ge> w_NextSeq window
                 then Some (Inr \<lparr> w_StartSeq = w_NextSeq window, w_NextSeq = w_NextSeq window, w_Chunks = [] \<rparr>)
                 else map_option
                        (\<lambda>cs. Inr \<lparr> w_StartSeq = nextSeq, w_NextSeq = w_NextSeq window, w_Chunks = cs \<rparr>)
                        (slice_from (wrap32 (nextSeq - w_StartSeq window)) (w_Chunks window)))"

definition requestStreamSnapshot ::
  "time \<Rightarrow> string \<Rightarrow> string \<Rightarrow> int \<Rightarrow> server \<Rightarrow> server \<times> stream_snapshot svc_result option" where
  "requestStreamSnapshot now sessionID requestID lastSeq sv =
     (case lookupRequestForStream now sessionID requestID sv of
        (sv1, Inl e) \<Rightarrow> (sv1, Some (Inl e))
      | (sv1, Inr request0) \<Rightarrow>
          (let request = EnsureStreamSequenceDefaults request0;
               snapshot = snapshotRequestStreamLocked request
           in case mem_GetRequestChunksByRequest (r_ID request) (r_StreamStartSeq request)
                     (r_NextStreamSeq request) (sv_store sv1) of
                (st, window) \<Rightarrow>
                  (let sv2 = sv1\<lparr> sv_store := st \<rparr>
                   in if lastSeq \<ge> 0
                      then (sv2, map_option
                              (\<lambda>res. case res of Inl e \<Rightarrow> Inl e | Inr w \<Rightarrow> Inr (snapshot\<lparr> sn_Window := w \<rparr>))
                              (replay_window (r_ID request) lastSeq window))
                      else (sv2, Some (Inr (snapshot\<lparr> sn_Window := window \<rparr>))))))"

section \<open>Background work and observability\<close>

definition reclaimExpired :: "time \<Rightarrow> request \<Rightarrow> server \<Rightarrow> server \<times> request option" where
  "reclaimExpired now req0 sv =
     (let req = ensureRequestDefaults now req0;
          sv1 = (if r_ExecutingMachineID req \<noteq> ''''
                 then ReleaseMachineSlot (r_SessionID req) (r_ExecutingMachineID req) sv else sv)
      in case mem_ReclaimExpiredRequest (r_ID req) now requestLeaseDuration (r_MaxAttempts req) requestBackoff
                (sv_store sv1) of
           (st, res) \<Rightarrow> (sv1\<lparr> sv_store := st \<rparr>, res))"

definition markStalledRequests :: "time \<Rightarrow> server \<Rightarrow> server" where
  "markStalledRequests now sv =
     fold (\<lambda>req s. case reclaimExpired now req s of
             (s1, None) \<Rightarrow> s1
           | (s1, Some reclaimed) \<Rightarrow> cache_put (r_SessionID reclaimed) (r_ID reclaimed) reclaimed s1)
       (mem_FindExpiredRequests now 256 (sv_store sv)) sv"

definition cache_sweep :: "time \<Rightarrow> request gomap gomap \<Rightarrow> request gomap gomap" where
  "cache_sweep cutoff m =
     map (\<lambda>(sess, rs). (sess, gm_prune (\<lambda>r. IsTerminalStatus (r_Status r) \<and> r_UpdatedAt r < cutoff) rs)) m"

definition cleanupTerminalRequests :: "time \<Rightarrow> server \<Rightarrow> server" where
  "cleanupTerminalRequests now sv =
     (let cutoff = now - requestRetentionAge;
          st1 = fst (mem_DeleteTerminalRequestsBefore cutoff (sv_store sv));
          sv1 = sv\<lparr> sv_store := st1, sv_requests := cache_sweep cutoff (sv_requests sv) \<rparr>
      in sv1\<lparr> sv_store := fst (mem_DeleteAuditEventsBefore (now - auditRetentionAge) (sv_store sv1)) \<rparr>)"

definition refreshQueueDepth :: "server \<Rightarrow> int" where
  "refreshQueueDepth sv = mem_CountPendingRequests (sv_store sv)"

definition count_status :: "request_status \<Rightarrow> server \<Rightarrow> int" where
  "count_status st sv =
     int (length (filter (\<lambda>r. r_Status r = st) (concat (map gm_vals (gm_vals (sv_requests sv))))))"

definition RequestMetricsSnapshot :: "server \<Rightarrow> int \<times> int \<times> int \<times> int \<times> int \<times> int \<times> int" where
  "RequestMetricsSnapshot sv =
     (count_status Pending sv, count_status Claimed sv, count_status Running sv, count_status Done sv,
      count_status Failed sv, count_status Stalled sv,
      int (length (filter r_DeadLetter (concat (map gm_vals (gm_vals (sv_requests sv)))))))"

section \<open>Waiting for a result\<close>

definition waitForRequestState :: "time \<Rightarrow> string \<Rightarrow> string \<Rightarrow> server \<Rightarrow> server \<times> request svc_result" where
  "waitForRequestState now sessionID requestID sv =
     (case mem_GetRequest requestID (sv_store sv) of
        Some stored \<Rightarrow> (cache_put sessionID (r_ID stored) stored sv, Inr stored)
      | None \<Rightarrow> GetRequestByID now sessionID requestID sv)"

text \<open>One round of \<open>WaitForRequestTerminal\<close>: \<open>None\<close> keeps waiting; a done request yields its
  id, result and result type (before JSON rendering).\<close>

definition wait_round ::
  "time \<Rightarrow> string \<Rightarrow> string \<Rightarrow> server \<Rightarrow> server \<times> (string \<times> go_value \<times> string) svc_result option" where
  "wait_round now sessionID requestID sv =
     (case waitForRequestState now sessionID requestID sv of
        (sv1, Inl e) \<Rightarrow> (sv1, Some (Inl e))
      | (sv1, Inr req) \<Rightarrow>
          if IsTerminalStatus (r_Status req)
          then (sv1, Some (case r_Status req of
                 Done \<Rightarrow> Inr (r_ID req, r_Result req, r_ResultType req)
               | Cancelled \<Rightarrow> Inl ErrRequestCancelled
               | _ \<Rightarrow> Inl ErrOther))
          else if r_Status req = Stalled then (sv1, Some (Inl ErrOther))
          else (sv1, None))"

text \<open>When the caller's context ends, the waiter cancels the request.\<close>

definition wait_abandoned :: "time \<Rightarrow> string \<Rightarrow> string \<Rightarrow> server \<Rightarrow> server" where
  "wait_abandoned now sessionID requestID sv = fst (CancelRequest now sessionID requestID sv)"

end
