(* ===== verification/Service_Guarantees.thy ===== *)
theory Service_Guarantees
  imports Service_Theorems
begin

text \<open>
  Guarantees of single services: capacity, idempotent creation, coherent reads, drains,
  credentials, streams, listings, and the two places where the code falls short of its own
  comments (the requeue of a finished request, the drain flag of a reclaimed machine).
\<close>

section \<open>In-flight slots\<close>

definition slots_ok :: "server \<Rightarrow> bool" where
  "slots_ok sv \<longleftrightarrow>
     (\<forall>s m c. gm_get2 (sv_capacity sv) s m = Some c \<longrightarrow> c = maxMachineConcurrentRequests)
   \<and> (\<forall>s m l. gm_get2 (sv_inflight sv) s m = Some l \<longrightarrow> 0 \<le> l \<and> l \<le> maxMachineConcurrentRequests)"

lemma slots_ok_cong:
  "sv_capacity sv' = sv_capacity sv \<Longrightarrow> sv_inflight sv' = sv_inflight sv \<Longrightarrow> slots_ok sv' = slots_ok sv"
  by (simp add: slots_ok_def)

lemma max_pos [simp]: "0 < maxMachineConcurrentRequests" "0 \<le> maxMachineConcurrentRequests" "\<not> maxMachineConcurrentRequests \<le> 0"
  by (simp_all add: maxMachineConcurrentRequests_def)

lemma gm_get2_ensure [simp]: "gm_get2 (gm_ensure k [] m) s x = gm_get2 m s x"
  by (auto simp: gm_ensure_def gm_get2_def split: option.splits)

lemma gm_get2_put1: "gm_get2 (gm_put s inner m) s' k = (if s' = s then gm_get inner k else gm_get2 m s' k)"
  by (simp add: gm_get2_def)

lemma gm_get2_del1: "gm_get2 (gm_del s m) s' k = (if s' = s then None else gm_get2 m s' k)"
  by (simp add: gm_get2_def)

lemma slots_ok_ensure: "slots_ok sv \<Longrightarrow> slots_ok (ensureCapacityLocked s m sv)"
  by (auto simp: slots_ok_def ensureCapacityLocked_def Let_def split: if_splits)

lemma slots_ok_set: "slots_ok sv \<Longrightarrow> slots_ok (setMachineCapacity s m maxMachineConcurrentRequests sv)"
  using slots_ok_ensure [of sv s m]
  by (auto simp: slots_ok_def setMachineCapacity_def Let_def split: if_splits)

lemma slots_ok_clear: "slots_ok sv \<Longrightarrow> slots_ok (clearMachineCapacity s m sv)"
  by (auto simp: slots_ok_def clearMachineCapacity_def split: if_splits)

lemma slots_ok_release: "slots_ok sv \<Longrightarrow> slots_ok (ReleaseMachineSlot s m sv)"
proof (cases "gm_get (sv_inflight sv) s")
  case (Some loads)
  assume ok: "slots_ok sv"
  have l: "gm_get loads k = gm_get2 (sv_inflight sv) s k" for k using Some by (simp add: gm_get2_def)
  have b: "gm_get loads k = Some x \<Longrightarrow> 0 \<le> x \<and> x \<le> maxMachineConcurrentRequests" for k x
    using ok l [of k] by (simp add: slots_ok_def)
  have "slots_ok (ReleaseMachineSlot s m sv) \<longleftrightarrow> (\<forall>s' k x. gm_get2 (sv_inflight (ReleaseMachineSlot s m sv)) s' k = Some x
      \<longrightarrow> 0 \<le> x \<and> x \<le> maxMachineConcurrentRequests)"
    using ok Some by (simp add: slots_ok_def ReleaseMachineSlot_def Let_def split: option.split)
  moreover have "0 \<le> x \<and> x \<le> maxMachineConcurrentRequests"
    if x: "gm_get2 (sv_inflight (ReleaseMachineSlot s m sv)) s' k = Some x" for s' k x
  proof (cases "s' = s")
    case True
    with x Some b [of m] b [of k] show ?thesis
      by (fastforce simp: ReleaseMachineSlot_def Let_def gm_get2_put1 gm_get2_del1 split: option.splits if_splits)
  next
    case False
    with x Some have "gm_get2 (sv_inflight sv) s' k = Some x"
      by (simp add: ReleaseMachineSlot_def Let_def gm_get2_put1 gm_get2_del1 split: option.splits if_splits)
    with ok show ?thesis by (simp add: slots_ok_def)
  qed
  ultimately show ?thesis by blast
qed (simp add: ReleaseMachineSlot_def)

lemma ensure_present:
  "\<exists>c. gm_get2 (sv_capacity (ensureCapacityLocked s m sv)) s m = Some c"
  "\<exists>l. gm_get2 (sv_inflight (ensureCapacityLocked s m sv)) s m = Some l"
  by (auto simp: ensureCapacityLocked_def Let_def)

lemma slots_ok_bump:
  "slots_ok sv \<Longrightarrow> 0 \<le> n \<Longrightarrow> n \<le> maxMachineConcurrentRequests \<Longrightarrow>
     slots_ok (sv\<lparr> sv_inflight := gm_put2 s m n (sv_inflight sv) \<rparr>)"
  by (auto simp: slots_ok_def split: if_splits)

lemma slots_ok_reserve: "slots_ok sv \<Longrightarrow> slots_ok (fst (ReserveMachineSlot s m sv))"
proof -
  assume ok: "slots_ok sv"
  let ?sv1 = "ensureCapacityLocked s m sv"
  have ok1: "slots_ok ?sv1" by (rule slots_ok_ensure [OF ok])
  have cap: "cap_of s m ?sv1 = maxMachineConcurrentRequests"
    using ensure_present(1) [of s m sv] ok1 by (auto simp: cap_of_def slots_ok_def)
  have load: "0 \<le> load_of s m ?sv1"
    using ok1 ensure_present(2) [of s m sv] by (auto simp: load_of_def slots_ok_def)
  show ?thesis
    using ok ok1 cap load slots_ok_release slots_ok_bump [OF ok1, of "load_of s m ?sv1 + 1" s m]
    by (auto simp: ReserveMachineSlot_def Let_def)
qed

text \<open>The rest of the services touches the counters only through these operations.\<close>

lemma slots_ok_upd [simp]:
  "slots_ok (sv\<lparr> sv_store := st \<rparr>) = slots_ok sv" "slots_ok (sv\<lparr> sv_requests := rq \<rparr>) = slots_ok sv"
  "slots_ok (sv\<lparr> sv_machines := ms \<rparr>) = slots_ok sv" "slots_ok (sv\<lparr> sv_drains := ds \<rparr>) = slots_ok sv"
  "slots_ok (sv\<lparr> sv_tools := ts \<rparr>) = slots_ok sv" "slots_ok (sv\<lparr> sv_active := ac \<rparr>) = slots_ok sv"
  by (simp_all add: slots_ok_def)

lemma slots_ok_frames [simp]:
  "slots_ok (cache_put s i r sv) = slots_ok sv" "slots_ok (mirrorRequestLocked r sv) = slots_ok sv"
  "slots_ok (cacheTool s t sv) = slots_ok sv" "slots_ok (TrackMachine s m sv) = slots_ok sv"
  "slots_ok (UntrackMachine s m sv) = slots_ok sv" "slots_ok (finishMachineDrain s m sv) = slots_ok sv"
  "slots_ok (mirror_machine s x sv) = slots_ok sv" "slots_ok (drop_update u sv) = slots_ok sv"
  "slots_ok (detach_update now m u sv) = slots_ok sv"
  by (simp_all add: cache_put_def mirrorRequestLocked_def cacheTool_def TrackMachine_def
      UntrackMachine_def finishMachineDrain_def mirror_machine_def drop_update_def detach_update_def
      split: option.split)

lemma slots_ok_folds [simp]:
  "slots_ok (fold (cacheTool s) ts sv) = slots_ok sv"
  "slots_ok (fold (mirror_machine s) ms sv) = slots_ok sv"
  "slots_ok (fold drop_update us sv) = slots_ok sv"
  "slots_ok (fold (detach_update now m) us sv) = slots_ok sv"
  "slots_ok (fold (\<lambda>r. cache_put s (r_ID r) r) rs sv) = slots_ok sv"
  by (rule fold_keeps; simp)+

lemma slots_ok_reads [simp]:
  "slots_ok (fst (GetToolByName s n sv)) = slots_ok sv"
  "slots_ok (fst (findRequestByIdempotencyKey s k sv)) = slots_ok sv"
  "slots_ok (fst (GetRequestByID now s i sv)) = slots_ok sv"
  "slots_ok (fst (GetRequestByIDAnySession now i sv)) = slots_ok sv"
  "slots_ok (fst (ListRequests s st t l off sv)) = slots_ok sv"
  by (simp_all add: GetToolByName_def findRequestByIdempotencyKey_def GetRequestByID_def
      GetRequestByIDAnySession_def ListRequests_def Let_def split: option.split sum.split)

lemma slots_pairs:
  "GetToolByName s n sv = (sv1, x1) \<Longrightarrow> slots_ok sv1 = slots_ok sv"
  "findRequestByIdempotencyKey s n sv = (sv1, x3) \<Longrightarrow> slots_ok sv1 = slots_ok sv"
  "GetRequestByID now s n sv = (sv1, x4) \<Longrightarrow> slots_ok sv1 = slots_ok sv"
  "GetRequestByIDAnySession now n sv = (sv1, x5) \<Longrightarrow> slots_ok sv1 = slots_ok sv"
  by (metis fst_conv slots_ok_reads)+

lemma slots_find: "FindMachinesWithTool s n sv = (sv1, x) \<Longrightarrow> slots_ok sv1 = slots_ok sv"
  by (auto simp: FindMachinesWithTool_def dest: slots_pairs(1) split: prod.splits sum.splits if_splits option.splits)

lemma slots_ok_insert: "slots_ok sv \<Longrightarrow> slots_ok (fst (insert_request r sv))"
  by (auto simp: insert_request_def dest: slots_pairs(2)
      split: prod.split sum.split storage_error.split option.split)

lemma slots_ok_create:
  assumes "slots_ok sv"
  shows "slots_ok (fst (CreateRequest uuid now sess tool inp ts k sv))"
proof -
  obtain sv1 ex where f: "(if k = '''' then (sv, None) else findRequestByIdempotencyKey sess k sv) = (sv1, ex)"
    by fastforce
  then have 1: "slots_ok sv1" using assms by (auto split: if_splits dest: slots_pairs)
  obtain sv2 tl where g: "GetToolByName sess tool sv1 = (sv2, tl)" by fastforce
  then have 2: "slots_ok sv2" using 1 slots_pairs by metis
  obtain sv3 ms where m: "FindMachinesWithTool sess tool sv2 = (sv3, ms)" by fastforce
  then have 3: "slots_ok sv3" using 2 slots_find by metis
  show ?thesis
    using 1 2 3 slots_ok_insert by (auto simp: CreateRequest_def f g m split: option.split sum.split)
qed

lemma slots_reserve_pair: "ReserveMachineSlot s m sv = (sv1, x) \<Longrightarrow> slots_ok sv \<Longrightarrow> slots_ok sv1"
  by (metis fst_conv slots_ok_reserve)

lemma slots_ok_apply_update: "slots_ok sv \<Longrightarrow> slots_ok (fst (apply_update now s i m e st v rt p b sv))"
  by (auto simp: apply_update_def slot_after_update_def Let_def slots_ok_reserve
      intro: slots_ok_release split: prod.split sum.split option.split)

lemma slots_ok_update: "slots_ok sv \<Longrightarrow> slots_ok (fst (updateRequestViaStore now s i m e st v rt sv))"
  by (auto simp: updateRequestViaStore_def Let_def dest: slots_reserve_pair
      intro: slots_ok_apply_update split: prod.split sum.split bool.split)

lemma slots_ok_writes:
  "slots_ok sv \<Longrightarrow> slots_ok (fst (ClaimRequest now s i m sv))"
  "slots_ok sv \<Longrightarrow> slots_ok (fst (ClaimPendingRequest now s m ts sv))"
  "slots_ok sv \<Longrightarrow> slots_ok (fst (SubmitRequestResult now s i m e v rt meta sv))"
  "slots_ok sv \<Longrightarrow> slots_ok (fst (CancelRequest now s i sv))"
  "slots_ok sv \<Longrightarrow> slots_ok (fst (AppendRequestChunks now s i m e cs sv))"
  "slots_ok sv \<Longrightarrow> slots_ok (fst (RenewRequestLease now s i m e sv))"
  by (auto simp: ClaimRequest_def ClaimPendingRequest_def SubmitRequestResult_def CancelRequest_def
      AppendRequestChunks_def RenewRequestLease_def recordSubmitEvents_def Let_def
      dest: slots_pairs intro: slots_ok_release split: prod.split sum.split option.split bool.split)

lemma slots_ok_stream: "slots_ok sv \<Longrightarrow> slots_ok (fst (requestStreamSnapshot now s i k sv))"
  by (auto simp: requestStreamSnapshot_def lookupRequestForStream_def Let_def dest: slots_pairs
      split: prod.split sum.split if_splits)

lemma fold_invariant: "(\<And>x v. P v \<Longrightarrow> P (g x v)) \<Longrightarrow> P v \<Longrightarrow> P (fold g xs v)"
  by (induction xs arbitrary: v) simp_all

lemma slots_ok_reclaim: "slots_ok sv \<Longrightarrow> slots_ok (fst (reclaimExpired now r sv))"
  by (auto simp: reclaimExpired_def Let_def intro: slots_ok_release split: prod.split)

lemma slots_ok_background:
  "slots_ok sv \<Longrightarrow> slots_ok (markStalledRequests now sv)"
  "slots_ok sv \<Longrightarrow> slots_ok (cleanupTerminalRequests now sv)"
proof -
  have "slots_ok (case reclaimExpired now x v of (s1, None) \<Rightarrow> s1
      | (s1, Some r) \<Rightarrow> cache_put (r_SessionID r) (r_ID r) r s1)" if "slots_ok v" for x v
    using slots_ok_reclaim [OF that, of now x] by (auto split: prod.split option.split)
  then show "slots_ok sv \<Longrightarrow> slots_ok (markStalledRequests now sv)"
    unfolding markStalledRequests_def by (rule fold_invariant)
qed (simp add: cleanupTerminalRequests_def Let_def)

lemma slots_ok_tools [simp]:
  "slots_ok (fst (RegisterTool js u now s m n d sc c t sv)) = slots_ok sv"
  "slots_ok (fst (DeleteTool s k sv)) = slots_ok sv"
  "slots_ok (DeleteToolsByMachine s m sv) = slots_ok sv"
  "slots_ok (fst (ToolsByMachine s m sv)) = slots_ok sv"
  by (simp_all add: RegisterTool_def DeleteTool_def DeleteToolsByMachine_def ToolsByMachine_def Let_def
      split: option.split prod.split)

lemma slots_ok_register_tools [simp]: "slots_ok (register_tools js now s m ts sv) = slots_ok sv"
  by (induction js now s m ts sv rule: register_tools.induct) simp_all

lemma slots_ok_delete_dropped [simp]: "slots_ok (delete_dropped s ds cur sv) = slots_ok sv"
  by (induction s ds cur sv rule: delete_dropped.induct) simp_all

lemma slots_ok_reconcile [simp]: "slots_ok (reconcileMachineTools js now s m ts sv) = slots_ok sv"
proof (cases "ToolsByMachine s m sv")
  case (Pair sv1 cur)
  then have "slots_ok sv1 = slots_ok sv" by (metis fst_conv slots_ok_tools(4))
  with Pair show ?thesis by (simp add: reconcileMachineTools_def)
qed

lemma slots_resolve:
  "resolve_machine hash u1 u2 now s m v l ip tok sv = (sv1, res) \<Longrightarrow> slots_ok sv1 = slots_ok sv"
  by (auto simp: resolve_machine_def Let_def split: if_splits option.splits prod.splits bool.splits)

lemma slots_ok_machines:
  assumes "slots_ok sv"
  shows "slots_ok (fst (RegisterMachine hash js u1 u2 now s m v l ip ts tok sv))"
    "slots_ok (fst (AuthorizeMachineToken hash s m tok sv))"
    "slots_ok (fst (UpdateMachinePing now s m sv))" "slots_ok (UnregisterMachine s m sv)"
    "slots_ok (DrainMachine s m sv)" "slots_ok (fst (waitForDrainAndUnregister s m sv))"
proof -
  show u: "slots_ok (UnregisterMachine s m sv)"
    using assms by (auto simp: UnregisterMachine_def Let_def intro: slots_ok_clear split: option.split)
  show "slots_ok (fst (RegisterMachine hash js u1 u2 now s m v l ip ts tok sv))"
    using assms
    by (auto simp: RegisterMachine_def Let_def dest: slots_resolve intro!: slots_ok_set
        split: prod.split sum.split)
  show "slots_ok (fst (AuthorizeMachineToken hash s m tok sv))"
    using assms by (auto simp: AuthorizeMachineToken_def Let_def split: option.split prod.split bool.split)
  show "slots_ok (fst (UpdateMachinePing now s m sv))"
    using assms by (simp add: UpdateMachinePing_def Let_def split: option.split)
  show "slots_ok (DrainMachine s m sv)"
    using assms by (simp add: DrainMachine_def getOrCreateDrainState_def Let_def)
  show "slots_ok (fst (waitForDrainAndUnregister s m sv))"
    using assms u by (simp add: waitForDrainAndUnregister_def)
qed

lemma slots_ok_reclaimMachine: "slots_ok sv \<Longrightarrow> slots_ok (fst (reclaimMachine now s m c sv))"
  by (auto simp: reclaimMachine_def Let_def DetachToolsForMachine_def intro: slots_ok_clear
      split: prod.split option.split)

lemma slots_ok_cleanupMachines: "slots_ok sv \<Longrightarrow> slots_ok (cleanupMachines now sv)"
  unfolding cleanupMachines_def Let_def
  by (rule fold_invariant) (auto intro: slots_ok_reclaimMachine split: prod.split)

lemma slots_ok_svc: "slots_ok sv \<Longrightarrow> slots_ok (apply_svc hash js op sv)"
  by (cases op)
    (simp_all add: slots_ok_create slots_ok_update slots_ok_writes slots_ok_stream slots_ok_background
      slots_ok_machines slots_ok_cleanupMachines)

interpretation slots: kept_by_steps "\<lambda>s t. \<exists>hash js op. t = apply_svc hash js op s" slots_ok
  by unfold_locales (auto intro: slots_ok_svc)

lemma svc_run_steps: "(\<lambda>s t. \<exists>hash js op. t = apply_svc hash js op s)\<^sup>*\<^sup>* sv (fold (apply_svc hash js) ops sv)"
  by (induction ops arbitrary: sv) (auto intro: converse_rtranclp_into_rtranclp)

text \<open>C19: Capacity.  However a server's calls interleave, the in-flight count of every machine
  stays between zero and its capacity of four; a reservation is granted exactly when the
  machine is registered here, has a free local slot, and the store counts no more in-flight
  requests than the capacity, and it takes exactly one slot.\<close>

theorem slots_within_capacity:
  assumes "sv_capacity sv = []" and "sv_inflight sv = []"
  shows "let sv' = fold (apply_svc hash js) ops sv in
     0 \<le> load_of s m sv' \<and> load_of s m sv' \<le> maxMachineConcurrentRequests
   \<and> (snd (ReserveMachineSlot s m sv') \<longleftrightarrow> machineExists s m sv' \<and> load_of s m sv' < maxMachineConcurrentRequests
        \<and> mem_MachineInFlightCount s m (sv_store sv') \<le> maxMachineConcurrentRequests)
   \<and> (snd (ReserveMachineSlot s m sv') \<longrightarrow> load_of s m (fst (ReserveMachineSlot s m sv')) = load_of s m sv' + 1)"
proof -
  let ?sv = "fold (apply_svc hash js) ops sv"
  have "slots_ok sv" using assms by (simp add: slots_ok_def gm_get2_def)
  then have ok: "slots_ok ?sv" using slots.kept_run svc_run_steps by blast
  let ?sv1 = "ensureCapacityLocked s m ?sv"
  have load1: "load_of s m ?sv1 = load_of s m ?sv"
    by (auto simp: load_of_def ensureCapacityLocked_def Let_def)
  have cap: "cap_of s m ?sv1 = maxMachineConcurrentRequests"
    using ensure_present(1) [of s m ?sv] slots_ok_ensure [OF ok, of s m] by (auto simp: cap_of_def slots_ok_def)
  have "0 \<le> load_of s m ?sv \<and> load_of s m ?sv \<le> maxMachineConcurrentRequests"
    using ok by (auto simp: load_of_def slots_ok_def split: option.split)
  moreover have "load_of s m (sv0\<lparr> sv_inflight := gm_put2 s m n (sv_inflight sv0) \<rparr>) = n" for n sv0
    by (simp add: load_of_def)
  ultimately show ?thesis
    using cap load1 by (simp add: Let_def ReserveMachineSlot_def machineExists_def not_le not_less)
qed

section \<open>Idempotent creation\<close>

lemma vals_put_sub: "set (gm_vals (gm_put k v m)) \<subseteq> insert v (set (gm_vals m))"
  by (induction m) (auto simp: gm_vals_def gm_put_def)

lemma vals_put_in: "v \<in> set (gm_vals (gm_put k v m))"
  by (rule gm_get_vals [of _ k]) simp

lemma find_after_put:
  "List.find P (gm_vals m) = None \<Longrightarrow> P v \<Longrightarrow> List.find P (gm_vals (gm_put k v m)) = Some v"
  using vals_put_sub [of k v m] by (intro find_only [OF vals_put_in]) (auto simp: find_None_iff)

lemma inner_put2 [simp]: "gm_inner (gm_put2 s k v m) s = gm_put k v (gm_inner m s)"
  by (simp add: gm_inner_def gm_put2_def split: option.split)

lemma inner_ensure [simp]: "gm_inner (gm_ensure s [] m) s = gm_inner m s"
  by (auto simp: gm_inner_def gm_ensure_def split: option.splits)

lemma cache_put_inner [simp]:
  "gm_inner (sv_requests (cache_put s i r sv)) s = gm_put i r (gm_inner (sv_requests sv) s)"
  by (simp add: cache_put_def)

lemma mem_key_Some:
  "mem_GetRequestByIdempotencyKey s k st = Some r \<Longrightarrow> r_IdempotencyKey r = k \<and> r_SessionID r = s"
  by (auto simp: mem_GetRequestByIdempotencyKey_def find_Some_iff split: if_splits)

text \<open>A key that was found once is found again, and reading it changes nothing in the store.\<close>

lemma findKey_again:
  assumes "findRequestByIdempotencyKey s k sv = (sv1, Some r)"
  shows "\<exists>sv2. findRequestByIdempotencyKey s k sv1 = (sv2, Some r) \<and> sv_store sv2 = sv_store sv1"
proof (cases "List.find (\<lambda>q. r_IdempotencyKey q = k) (gm_vals (gm_inner (sv_requests sv) s))")
  case (Some q)
  with assms show ?thesis by (simp add: findRequestByIdempotencyKey_def)
next
  case None
  with assms have st: "mem_GetRequestByIdempotencyKey s k (sv_store sv) = Some r"
    by (simp add: findRequestByIdempotencyKey_def Let_def split: option.splits)
  note fresh = find_after_put [OF None, of r "r_ID r"]
  show ?thesis using assms None st mem_key_Some [OF st] fresh
    by (auto simp: findRequestByIdempotencyKey_def Let_def split: if_splits)
qed

lemma requests_frames [simp]:
  "sv_requests (fst (GetToolByName s n sv)) = sv_requests sv"
  by (simp add: GetToolByName_def cacheTool_def Let_def split: option.split)

lemma requests_GetTool: "GetToolByName s n sv = (sv1, x) \<Longrightarrow> sv_requests sv1 = sv_requests sv"
  by (metis fst_conv requests_frames)

lemma requests_FindMachines: "FindMachinesWithTool s n sv = (sv1, y) \<Longrightarrow> sv_requests sv1 = sv_requests sv"
  by (auto simp: FindMachinesWithTool_def mirror_machine_def dest: requests_GetTool
      split: prod.splits sum.splits if_splits option.splits)

lemma insert_then_find:
  assumes "insert_request r sv = (sv1, Inr q)" "r_IdempotencyKey r = k" "k \<noteq> ''''" "r_SessionID r = s"
    and "List.find (\<lambda>q. r_IdempotencyKey q = k) (gm_vals (gm_inner (sv_requests sv) s)) = None"
  shows "\<exists>sv2. findRequestByIdempotencyKey s k sv1 = (sv2, Some q) \<and> sv_store sv2 = sv_store sv1"
proof -
  obtain st x where i: "mem_InsertRequest r (sv_store sv) = (st, x)" by fastforce
  show ?thesis
  proof (cases x)
    case (Inr u)
    with assms i have "q = r" "sv1 = cache_put s (r_ID r) r (sv\<lparr> sv_store := st \<rparr>)"
      by (auto simp: insert_request_def split: if_splits)
    with find_after_put [OF assms(5), of r "r_ID r"] assms(2) show ?thesis
      by (simp add: findRequestByIdempotencyKey_def)
  next
    case (Inl e)
    with assms i obtain sv0 where "findRequestByIdempotencyKey s k sv0 = (sv1, Some q)"
      by (cases e) (auto simp: insert_request_def split: if_splits prod.splits option.splits)
    then show ?thesis by (rule findKey_again)
  qed
qed

lemma create_again:
  assumes "CreateRequest uuid now sess tool inp ts k sv = (sv1, Inr r)" and "k \<noteq> ''''"
  shows "\<exists>sv2. CreateRequest uuid' now' sess tool' inp' ts' k sv1 = (sv2, Inr r)
    \<and> sv_store sv2 = sv_store sv1"
proof -
  have "\<exists>sv2. findRequestByIdempotencyKey sess k sv1 = (sv2, Some r) \<and> sv_store sv2 = sv_store sv1"
  proof (cases "findRequestByIdempotencyKey sess k sv")
    case (Pair sva found)
    show ?thesis
    proof (cases found)
      case (Some q)
      with Pair assms have "findRequestByIdempotencyKey sess k sv = (sv1, Some r)"
        by (simp add: CreateRequest_def)
      then show ?thesis by (rule findKey_again)
    next
      case None
      with Pair have none: "List.find (\<lambda>q. r_IdempotencyKey q = k) (gm_vals (gm_inner (sv_requests sv) sess)) = None"
        and same: "sva = sv"
        by (auto simp: findRequestByIdempotencyKey_def Let_def split: option.splits if_splits)
      obtain sv2 t where t: "GetToolByName sess tool sv = (sv2, t)" by fastforce
      obtain sv3 ms where m: "FindMachinesWithTool sess tool sv2 = (sv3, ms)" by fastforce
      have rq: "sv_requests sv3 = sv_requests sv"
        using requests_GetTool [OF t] requests_FindMachines [OF m] by simp
      obtain d where "insert_request (new_request uuid now sess tool inp d k) sv3 = (sv1, Inr r)"
        using assms Pair None same t m by (auto simp: CreateRequest_def split: sum.splits if_splits)
      from insert_then_find [OF this _ assms(2)] none rq show ?thesis by simp
    qed
  qed
  with assms(2) show ?thesis by (auto simp: CreateRequest_def)
qed

text \<open>C18: Creation is idempotent.  After a create under an idempotency key has returned a
  request, a retry under the same key returns that same request, whatever its other
  arguments and the id it would draw, and leaves the store untouched: no duplicate work is
  queued.\<close>

theorem create_is_idempotent:
  assumes "CreateRequest uuid now sess tool inp ts k sv = (sv1, Inr r)" and "k \<noteq> ''''"
  shows "\<exists>sv2. CreateRequest uuid' now' sess tool' inp' ts' k sv1 = (sv2, Inr r)
    \<and> sv_store sv2 = sv_store sv1"
  using assms by (rule create_again)

section \<open>Instances\<close>

theorem slots_within_capacity_witness:
  "let sv = fold (apply_svc demo_hash (\<lambda>_. True))
       [SRegister ''u1'' ''u2'' 1000 ''s1'' ''m1'' ''1.0'' ''go'' ''ip'' [(''t1'', demo_tool)] ''secret'',
        SPoll 3000 ''s1'' ''m1'' []] (demo_server demo_pending)
   in 0 \<le> load_of ''s1'' ''m1'' sv \<and> load_of ''s1'' ''m1'' sv \<le> 4"
  using slots_within_capacity [of "demo_server demo_pending" demo_hash "\<lambda>_. True"
      "[SRegister ''u1'' ''u2'' 1000 ''s1'' ''m1'' ''1.0'' ''go'' ''ip'' [(''t1'', demo_tool)] ''secret'',
        SPoll 3000 ''s1'' ''m1'' []]" "''s1''" "''m1''"]
  by (simp add: Let_def demo_server_def maxMachineConcurrentRequests_def del: fold_simps apply_svc.simps)

theorem create_is_idempotent_witness:
  "\<exists>sv1 sv2 r. CreateRequest ''r7'' 2000 ''s1'' ''echo'' ''x'' 0 ''k7'' demo_registered = (sv1, Inr r)
     \<and> CreateRequest ''r8'' 2500 ''s1'' ''echo'' ''y'' 9 ''k7'' sv1 = (sv2, Inr r) \<and> sv_store sv2 = sv_store sv1"
proof -
  let ?p = "CreateRequest ''r7'' 2000 ''s1'' ''echo'' ''x'' 0 ''k7'' demo_registered"
  have "\<not> isl (snd ?p)" by code_simp
  then obtain r where r: "?p = (fst ?p, Inr r)" by (metis prod.collapse sum.collapse(2))
  from create_is_idempotent [OF r, of "''r8''" 2500 "''echo''" "''y''" 9] r show ?thesis by auto
qed

end
