(* ===== verification/Service_Lifecycle.thy ===== *)
theory Service_Lifecycle
  imports Service_Guarantees
begin

text \<open>
  Reads, streams, drains and machine registration: what a caller of one server sees.
\<close>

section \<open>Coherent reads\<close>

text \<open>A read returns the authoritative row.  When the stored row belongs to the session and
  this replica's mirror is not newer, reading a request returns exactly the stored row (with
  defaults filled in) and refreshes the mirror; a row of another session is reported as not
  found and leaves the server unchanged.\<close>

theorem read_returns_stored_row:
  assumes "mem_GetRequest rid (sv_store sv) = Some r"
    and "\<And>c. cached sess rid sv = Some c \<Longrightarrow> r_UpdatedAt c \<le> r_UpdatedAt r"
  shows "if r_SessionID r = sess
    then \<exists>sv'. GetRequestByID now sess rid sv = (sv', Inr (ensureRequestDefaults now r))
       \<and> sv_store sv' = sv_store sv \<and> cached sess rid sv' = Some (ensureRequestDefaults now r)
    else GetRequestByID now sess rid sv = (sv, Inl ErrNotFound)"
proof -
  have u: "r_UpdatedAt (ensureRequestDefaults now r) = r_UpdatedAt r"
    by (simp add: ensureRequestDefaults_def EnsureStreamSequenceDefaults_def Let_def split: option.split)
  have c: "cached s i (sv\<lparr> sv_requests := gm_ensure s [] (sv_requests sv) \<rparr>) = cached s i sv" for s i
    by (simp add: cached_def)
  show ?thesis
    using assms u
    by (cases "cached sess rid sv")
      (auto simp: GetRequestByID_def Let_def c cache_put_def cached_def not_less)
qed

section \<open>Stream replay\<close>

lemma defaults_fields [simp]:
  "r_ID (ensureRequestDefaults now r) = r_ID r" "r_SessionID (ensureRequestDefaults now r) = r_SessionID r"
  "r_Status (ensureRequestDefaults now r) = r_Status r" "r_Result (ensureRequestDefaults now r) = r_Result r"
  "r_StreamResults (ensureRequestDefaults now r) = r_StreamResults r"
  by (simp_all add: ensureRequestDefaults_def EnsureStreamSequenceDefaults_def Let_def split: option.split)

lemma stream_abs_defaults:
  assumes a: "stream_abs log r"
  shows "stream_abs log (ensureRequestDefaults now r)"
    "r_StreamStartSeq (ensureRequestDefaults now r) = r_StreamStartSeq r"
    "r_NextStreamSeq (ensureRequestDefaults now r) = r_NextStreamSeq r"
proof -
  from a have b: "stream_abs log (r\<lparr> r_Meta := m \<rparr>)" for m by (simp add: stream_abs_def)
  have e: "EnsureStreamSequenceDefaults r = r"
    "EnsureStreamSequenceDefaults (r\<lparr> r_Meta := m \<rparr>) = r\<lparr> r_Meta := m \<rparr>" for m
    using ensure_id [OF a] ensure_id [OF b] by simp_all
  show q: "r_StreamStartSeq (ensureRequestDefaults now r) = r_StreamStartSeq r"
    "r_NextStreamSeq (ensureRequestDefaults now r) = r_NextStreamSeq r"
    by (simp_all add: ensureRequestDefaults_def e Let_def split: option.split)
  show "stream_abs log (ensureRequestDefaults now r)" using a by (simp add: stream_abs_def q)
qed

lemma chunks_between_all:
  assumes "0 \<le> start" "start + int (i + length cs) \<le> max_int32" "next = start + int (i + length cs)"
  shows "chunks_between start start next i cs = cs"
  using assms
proof (induction cs arbitrary: i)
  case (Cons c cs)
  have "wrap32 (int i) = int i" "wrap32 (start + int i) = start + int i"
    using Cons.prems by (auto intro!: wrap32_id)
  with Cons.IH [of "Suc i"] Cons.prems show ?case by (simp add: Let_def)
qed simp

text \<open>The window the store hands out is the retained tail of the log.\<close>

lemma stored_window:
  assumes "gm_get (st_requests s) rid = Some r" "stream_abs log r"
  shows "mem_GetRequestChunksByRequest rid (r_StreamStartSeq r) (r_NextStreamSeq r) s =
    (upd_request rid r s, \<lparr> w_StartSeq = r_StreamStartSeq r, w_NextSeq = r_NextStreamSeq r,
       w_Chunks = r_StreamResults r \<rparr>)"
proof -
  have len: "int (length (r_StreamResults r)) = r_NextStreamSeq r - r_StreamStartSeq r"
    by (rule stream_abs_length [OF assms(2)])
  have "chunks_between (r_StreamStartSeq r) (r_StreamStartSeq r) (r_NextStreamSeq r) 0 (r_StreamResults r)
      = r_StreamResults r"
    using assms(2) len by (intro chunks_between_all) (auto simp: stream_abs_def)
  then show ?thesis
    using assms by (simp add: mem_GetRequestChunksByRequest_def ensure_id Let_def StreamChunkWindow_def)
qed

lemma replay_window_abs:
  assumes "stream_abs log r" "0 \<le> k" "k < max_int32"
    and w: "w = \<lparr> w_StartSeq = r_StreamStartSeq r, w_NextSeq = r_NextStreamSeq r, w_Chunks = r_StreamResults r \<rparr>"
  shows "if k + 1 < r_StreamStartSeq r
    then replay_window i k w = Some (Inl (RequestStreamExpiredError i k (r_StreamStartSeq r) (r_NextStreamSeq r)))
    else \<exists>v. replay_window i k w = Some (Inr v) \<and> (k \<le> int (length log) \<longrightarrow>
      w_StartSeq v = k + 1 \<and> w_NextSeq v = int (length log) + 1 \<and> take (nat k) log @ w_Chunks v = log)"
proof -
  have wr: "wrap32 (k + 1) = k + 1" using assms by (intro wrap32_id) auto
  have a: "1 \<le> r_StreamStartSeq r" "r_StreamStartSeq r \<le> r_NextStreamSeq r"
    "r_NextStreamSeq r = int (length log) + 1" "r_NextStreamSeq r \<le> max_int32"
    "r_StreamResults r = drop (nat (r_StreamStartSeq r - 1)) log"
    using assms(1) by (auto simp: stream_abs_def)
  show ?thesis
  proof (cases "k + 1 < r_StreamStartSeq r")
    case True
    with a wr show ?thesis by (simp add: replay_window_def w Let_def)
  next
    case False
    let ?i = "k + 1 - r_StreamStartSeq r"
    have wi: "k + 1 < r_NextStreamSeq r \<Longrightarrow> wrap32 ?i = ?i" using a assms False by (intro wrap32_id) auto
    have split: "nat ?i + nat (r_StreamStartSeq r - 1) = nat k"
      using a False by (auto simp: nat_add_distrib [symmetric])
    have inr: "k + 1 < r_NextStreamSeq r \<Longrightarrow> ?i \<le> int (length (r_StreamResults r))" using a by auto
    show ?thesis using a False wr wi inr split
      by (cases "k + 1 < r_NextStreamSeq r")
        (auto simp: replay_window_def w Let_def slice_from_def)
  qed
qed

text \<open>Stream replay is gapless.  Let the stored request have received the chunks \<open>log\<close>, of
  which it retains a tail.  A reader that has acknowledged \<open>k\<close> of them gets exactly the rest
  (never a panic, a gap or a repetition) while chunk \<open>k + 1\<close> is retained, and otherwise the
  expired-window error naming the window it can resume from.\<close>

theorem replay_is_gapless:
  assumes "mem_GetRequest rid (sv_store sv) = Some r" and "r_ID r = rid" and "stream_abs log r"
    and "r_SessionID r = sess" and "sess \<noteq> ''''" and "cached sess rid sv = None"
    and "0 \<le> k" and "k \<le> int (length log)"
  shows "\<exists>sv' res. requestStreamSnapshot now sess rid k sv = (sv', Some res)
    \<and> (if k + 1 < r_StreamStartSeq r
       then res = Inl (RequestStreamExpiredError rid k (r_StreamStartSeq r) (r_NextStreamSeq r))
       else \<exists>sn. res = Inr sn \<and> take (nat k) log @ w_Chunks (sn_Window sn) = log
          \<and> w_StartSeq (sn_Window sn) = k + 1 \<and> w_NextSeq (sn_Window sn) = int (length log) + 1)"
proof -
  let ?r = "ensureRequestDefaults now r"
  have abs: "stream_abs log ?r" by (rule stream_abs_defaults(1) [OF assms(3)])
  have f: "r_ID ?r = rid" "r_StreamStartSeq ?r = r_StreamStartSeq r" "r_NextStreamSeq ?r = r_NextStreamSeq r"
    "r_SessionID ?r = sess"
    using assms(2,4) stream_abs_defaults [OF assms(3)] by simp_all
  have u: "cached sess rid (sv\<lparr> sv_requests := gm_ensure sess [] (sv_requests sv) \<rparr>) = None"
    using assms(6) by (simp add: cached_def)
  obtain sv1 where l: "lookupRequestForStream now sess rid sv = (sv1, Inr ?r)" and st: "sv_store sv1 = sv_store sv"
    using assms u by (auto simp: lookupRequestForStream_def GetRequestByID_def Let_def)
  have kb: "k < max_int32" using assms(3,8) by (auto simp: stream_abs_def)
  have win: "mem_GetRequestChunksByRequest rid (r_StreamStartSeq r) (r_NextStreamSeq r) (sv_store sv) =
      (upd_request rid r (sv_store sv),
       \<lparr> w_StartSeq = r_StreamStartSeq r, w_NextSeq = r_NextStreamSeq r, w_Chunks = r_StreamResults r \<rparr>)"
    using assms(1) by (intro stored_window [OF _ assms(3)]) (simp add: mem_GetRequest_def)
  show ?thesis
    using replay_window_abs [OF assms(3,7) kb refl, of rid] assms(7,8) l st win f
    by (auto simp: requestStreamSnapshot_def ensure_id [OF abs] Let_def split: if_splits)
qed

section \<open>Updates\<close>


section \<open>Draining\<close>

lemma drains_frames [simp]:
  "sv_drains (UntrackMachine s m sv) = sv_drains sv"
  "sv_drains (fold drop_update us sv) = sv_drains sv"
  "sv_drains (DeleteToolsByMachine s m sv) = sv_drains sv"
proof -
  show f: "sv_drains (fold drop_update us sv) = sv_drains sv" for us sv
    by (rule fold_keeps) (simp add: drop_update_def)
  show "sv_drains (UntrackMachine s m sv) = sv_drains sv" by (simp add: UntrackMachine_def)
  show "sv_drains (DeleteToolsByMachine s m sv) = sv_drains sv"
    by (simp add: DeleteToolsByMachine_def Let_def f split: prod.split)
qed

lemma drain_state_set: "machineExists s m sv \<Longrightarrow> gm_get2 (sv_drains (DrainMachine s m sv)) s m \<noteq> None"
  by (simp add: DrainMachine_def getOrCreateDrainState_def Let_def)

lemma no_tools_after_delete:
  "m \<noteq> '''' \<Longrightarrow> \<not> machineProvidesToolLocked s m t (sv_store (DeleteToolsByMachine s' m sv))"
  by (auto simp: DeleteToolsByMachine_def mem_DeleteToolsByMachine_def machineProvidesToolLocked_def
      list_ex_iff gm_vals_def gm_prune_def Let_def)

text \<open>A drain stops new work.  Once a drain of a registered machine has begun, this server
  refuses it both claim paths and any re-registration; and if this call began the drain, the
  machine provides no tool in the shared store any more, so no replica can lease it work.\<close>

theorem drain_stops_new_work:
  assumes "machineExists s m sv" and "m \<noteq> ''''"
  shows "let sv' = DrainMachine s m sv in
     ClaimRequest now s rid m sv' = (sv', Inl ErrMachineDraining)
   \<and> ClaimPendingRequest now s m tools sv' = (sv', Inl ErrMachineDraining)
   \<and> RegisterMachine hash js u1 u2 now s m v l ip ts tok sv' = (sv', Inl ErrMachineDraining)
   \<and> (gm_get2 (sv_drains sv) s m = None \<longrightarrow> \<not> machineProvidesToolLocked s m t (sv_store sv'))"
proof -
  have d: "IsMachineDraining s m (DrainMachine s m sv)"
    using drain_state_set [OF assms(1)] by (auto simp: IsMachineDraining_def)
  have "gm_get2 (sv_drains sv) s m = None \<Longrightarrow> \<not> machineProvidesToolLocked s m t (sv_store (DrainMachine s m sv))"
    using assms no_tools_after_delete [OF assms(2), of s t s]
    by (simp add: DrainMachine_def getOrCreateDrainState_def Let_def)
  with d assms(2) show ?thesis
    by (simp add: ClaimRequest_def ClaimPendingRequest_def RegisterMachine_def Let_def)
qed

text \<open>C28: A drain finishes.  Once no claimed or running request of the machine is left, the next
  round of the drain loop ends it: the machine is unregistered here and in the store, owns no
  tools, and is no longer reported as draining, so its id can register again.\<close>

theorem drain_finishes:
  assumes "machineExists s m sv" and "m \<noteq> ''''" and "ActiveRequestsForMachine s m sv = 0"
  shows "\<exists>sv'. waitForDrainAndUnregister s m sv = (sv', True) \<and> \<not> machineExists s m sv'
    \<and> mem_GetMachine m (sv_store sv') = None \<and> \<not> IsMachineDraining s m sv'
    \<and> \<not> machineProvidesToolLocked s m t (sv_store sv')"
proof -
  obtain mc where mc: "gm_get2 (sv_machines sv) s m = Some mc" using assms(1) by (auto simp: machineExists_def)
  have tools: "\<not> machineProvidesToolLocked s m t (mem_DeleteMachine m (sv_store (DeleteToolsByMachine s m sv)))"
    using no_tools_after_delete [OF assms(2), of s t s sv]
    by (simp add: machineProvidesToolLocked_def mem_DeleteMachine_def)
  show ?thesis
    using mc assms tools
    by (auto simp: waitForDrainAndUnregister_def UnregisterMachine_def Let_def machineExists_def
        finishMachineDrain_def UntrackMachine_def clearMachineCapacity_def mem_GetMachine_def
        IsMachineDraining_def mem_IsMachineDraining_def mem_DeleteMachine_def)
qed

text \<open>A drained machine that goes silent is locked out.  If a machine marked as draining in
  the in-memory store stops sending heartbeats, the cleanup reclaims it, but its drain flag
  remains: from then on registering that id is refused as draining, although no drain is in
  progress.\<close>

theorem reclaimed_machine_locked_out:
  assumes "gm_get (st_machines (sv_store sv)) m = Some mc" and "m_LastPingAt mc < cutoff"
    and "mem_IsMachineDraining m (sv_store sv)" and "m \<noteq> ''''"
  shows "\<exists>sv' n. reclaimMachine now s m cutoff sv = (sv', True, n)
    \<and> mem_GetMachine m (sv_store sv') = None
    \<and> RegisterMachine hash js u1 u2 now' s' m v l ip ts tok sv' = (sv', Inl ErrMachineDraining)"
proof -
  obtain st ups where r: "mem_ReclaimMachine m cutoff (sv_store sv) = (st, Some (m_SessionID mc, ups))"
    using assms(1,2) by (auto simp: mem_ReclaimMachine_def)
  have st: "mem_GetMachine m st = None" "mem_IsMachineDraining m st"
    using r assms(1,2,3) by (auto simp: mem_ReclaimMachine_def mem_GetMachine_def mem_IsMachineDraining_def)
  have keep: "sv_store (fst (reclaimMachine now s m cutoff sv)) = st"
    by (simp add: reclaimMachine_def r Let_def DetachToolsForMachine_def)
  obtain sv' n where p: "reclaimMachine now s m cutoff sv = (sv', True, n)"
    by (simp add: reclaimMachine_def r Let_def)
  with keep st assms(4) show ?thesis
    by (auto simp: RegisterMachine_def IsMachineDraining_def)
qed

section \<open>Machine credentials\<close>

text \<open>Re-registration needs the credential.  A caller that names the id of a machine with a
  bound credential, known to this replica or only to the store, and presents another one is
  rejected, and the shared store is unchanged.\<close>

theorem reregistration_needs_credential:
  assumes "mem_GetMachine m (sv_store sv) = Some mc" and "m_SessionID mc = s" and "m_TokenHash mc \<noteq> ''''"
    and "\<And>c. gm_get2 (sv_machines sv) s m = Some c \<Longrightarrow> m_TokenHash c = m_TokenHash mc"
    and "hash tok \<noteq> m_TokenHash mc" and "m \<noteq> ''''"
  shows "\<exists>sv' e. RegisterMachine hash js u1 u2 now s m v l ip ts tok sv = (sv', Inl e)
    \<and> sv_store sv' = sv_store sv
    \<and> (\<not> IsMachineDraining s m sv \<longrightarrow> ts = [] \<longrightarrow> e = ErrMachineCredentialRejected)
    \<and> snd (AuthorizeMachineToken hash s m tok sv) = Inl ErrMachineCredentialRejected"
proof -
  let ?sv0 = "sv\<lparr> sv_machines := gm_ensure s [] (sv_machines sv) \<rparr>"
  have "resolve_machine hash u1 u2 now s m v l ip tok ?sv0 = (?sv0, Inl ErrMachineCredentialRejected)"
    using assms
    by (cases "gm_get2 (sv_machines sv) s m") (auto simp: resolve_machine_def Let_def MatchesMachineToken_def)
  moreover have "snd (AuthorizeMachineToken hash s m tok sv) = Inl ErrMachineCredentialRejected"
    using assms
    by (cases "gm_get2 (sv_machines sv) s m") (auto simp: AuthorizeMachineToken_def Let_def MatchesMachineToken_def)
  ultimately show ?thesis
    using assms(6) by (auto simp: RegisterMachine_def Let_def)
qed

section \<open>Instances\<close>

theorem read_returns_stored_row_witness:
  "\<exists>sv'. GetRequestByID 3000 ''s1'' ''r1'' (demo_server demo_pending) = (sv', Inr (ensureRequestDefaults 3000 demo_row))"
proof -
  have "mem_GetRequest ''r1'' (sv_store (demo_server demo_pending)) = Some demo_row"
    by (simp add: demo_server_def demo_rows)
  from read_returns_stored_row [OF this, of "''s1''" 3000] show ?thesis
    by (auto simp: demo_server_def cached_def gm_get2_def demo_row_def NewRequest_def)
qed

theorem replay_is_gapless_witness:
  "\<exists>sv' sn. requestStreamSnapshot 3000 ''s1'' ''r1'' 0 (demo_server demo_pending) = (sv', Some (Inr sn))
     \<and> w_Chunks (sn_Window sn) = []"
proof -
  have g: "mem_GetRequest ''r1'' (sv_store (demo_server demo_pending)) = Some demo_row"
    by (simp add: demo_server_def demo_rows)
  have a: "stream_abs [] demo_row" by (simp add: stream_abs_def demo_row_def NewRequest_def)
  have c: "cached ''s1'' ''r1'' (demo_server demo_pending) = None"
    by (simp add: demo_server_def cached_def gm_get2_def)
  have f: "r_ID demo_row = ''r1''" "r_SessionID demo_row = ''s1''" "r_StreamStartSeq demo_row = 1"
    by (simp_all add: demo_row_def NewRequest_def)
  from replay_is_gapless [OF g f(1) a f(2) _ c, of 0 3000] f(3) show ?thesis by auto
qed


theorem drain_stops_new_work_witness:
  "snd (ClaimRequest 3000 ''s1'' ''r1'' ''m1'' (DrainMachine ''s1'' ''m1'' demo_registered)) = Inl ErrMachineDraining
   \<and> snd (ClaimPendingRequest 3000 ''s1'' ''m1'' [] (DrainMachine ''s1'' ''m1'' demo_registered)) = Inl ErrMachineDraining"
proof -
  have "machineExists ''s1'' ''m1'' demo_registered" by code_simp
  from drain_stops_new_work [OF this, of 3000 "''r1''" "[]"] show ?thesis by (simp add: Let_def)
qed

theorem drain_finishes_witness:
  "\<exists>sv'. waitForDrainAndUnregister ''s1'' ''m1'' (DrainMachine ''s1'' ''m1'' demo_registered) = (sv', True)
     \<and> \<not> IsMachineDraining ''s1'' ''m1'' sv'"
proof -
  have "machineExists ''s1'' ''m1'' (DrainMachine ''s1'' ''m1'' demo_registered)"
    and "ActiveRequestsForMachine ''s1'' ''m1'' (DrainMachine ''s1'' ''m1'' demo_registered) = 0" by code_simp+
  from drain_finishes [OF this(1) _ this(2)] show ?thesis by auto
qed

theorem reclaimed_machine_locked_out_witness:
  "\<exists>sv' n. reclaimMachine 9000 ''s1'' ''m1'' 5000 (demo_server reg_store) = (sv', True, n)
     \<and> RegisterMachine demo_hash (\<lambda>_. True) ''u1'' ''u2'' 9500 ''s1'' ''m1'' ''1.0'' ''go'' ''ip'' [] ''t'' sv'
       = (sv', Inl ErrMachineDraining)"
proof -
  let ?m = "the (gm_get (st_machines (sv_store (demo_server reg_store))) ''m1'')"
  have g: "gm_get (st_machines (sv_store (demo_server reg_store))) ''m1'' = Some ?m"
    and d: "mem_IsMachineDraining ''m1'' (sv_store (demo_server reg_store))" and p: "m_LastPingAt ?m < 5000"
    by code_simp+
  from reclaimed_machine_locked_out [OF g p d, of 9000 "''s1''" demo_hash "\<lambda>_. True" "''u1''" "''u2''" 9500 "''s1''"
      "''1.0''" "''go''" "''ip''" "[]" "''t''"] show ?thesis by auto
qed

theorem reregistration_needs_credential_witness:
  "\<exists>sv'. RegisterMachine demo_hash (\<lambda>_. True) ''u1'' ''u2'' 9500 ''s1'' ''m1'' ''1.0'' ''go'' ''ip'' [] ''wrong'' demo_registered
     = (sv', Inl ErrMachineCredentialRejected) \<and> sv_store sv' = sv_store demo_registered"
proof -
  let ?m = "the (mem_GetMachine ''m1'' (sv_store demo_registered))"
  have g: "mem_GetMachine ''m1'' (sv_store demo_registered) = Some ?m"
    and s: "m_SessionID ?m = ''s1''" and h: "m_TokenHash ?m \<noteq> ''''" "demo_hash ''wrong'' \<noteq> m_TokenHash ?m"
    and c: "map_option m_TokenHash (gm_get2 (sv_machines demo_registered) ''s1'' ''m1'') = Some (m_TokenHash ?m)"
    and d: "\<not> IsMachineDraining ''s1'' ''m1'' demo_registered"
    by code_simp+
  have c': "\<And>x. gm_get2 (sv_machines demo_registered) ''s1'' ''m1'' = Some x \<Longrightarrow> m_TokenHash x = m_TokenHash ?m"
    using c by auto
  from reregistration_needs_credential [OF g s h(1) c', of demo_hash "''wrong''" "\<lambda>_. True" "''u1''" "''u2''" 9500
      "''1.0''" "''go''" "''ip''" "[]"] h(2) d
  show ?thesis by auto
qed

end
