(* ===== verification/Service_Listing.thy ===== *)
theory Service_Listing
  imports Service_Requests
begin

text \<open>
  Sorted views: the request listing and the ordering of machines by load.  Both sort with a
  comparison function; the interface says what such a function must satisfy for the result
  to be ordered, and the two comparisons discharge it.
\<close>

locale comparison =
  fixes lt :: "'a \<Rightarrow> 'a \<Rightarrow> bool" and carrier :: "'a set"
  assumes lt_asym: "x \<in> carrier \<Longrightarrow> y \<in> carrier \<Longrightarrow> lt x y \<Longrightarrow> \<not> lt y x"
    and lt_negtrans: "x \<in> carrier \<Longrightarrow> y \<in> carrier \<Longrightarrow> z \<in> carrier \<Longrightarrow> \<not> lt y x \<Longrightarrow> \<not> lt z y \<Longrightarrow> \<not> lt z x"
begin

lemma mset_insert_by: "mset (insert_by lt x ys) = add_mset x (mset ys)"
  by (induction ys) auto

lemma set_insert_by: "set (insert_by lt x ys) = insert x (set ys)"
  by (metis mset_insert_by set_mset_add_mset_insert set_mset_mset)

lemma sorted_insert_by:
  "x \<in> carrier \<Longrightarrow> set ys \<subseteq> carrier \<Longrightarrow> sorted_wrt (\<lambda>a b. \<not> lt b a) ys \<Longrightarrow>
     sorted_wrt (\<lambda>a b. \<not> lt b a) (insert_by lt x ys)"
proof (induction ys)
  case (Cons y ys)
  show ?case
  proof (cases "lt y x")
    case True
    with Cons lt_asym [of y x] show ?thesis by (auto simp: set_insert_by)
  next
    case False
    have "\<not> lt z x" if "z \<in> set ys" for z
      using lt_negtrans [of x y z] False Cons.prems that by auto
    with False Cons.prems show ?thesis by auto
  qed
qed simp

lemma sort_slice_perm: "mset (sort_slice lt xs) = mset xs"
  by (induction xs) (simp_all add: sort_slice_def mset_insert_by)

lemma sort_slice_sorted: "set xs \<subseteq> carrier \<Longrightarrow> sorted_wrt (\<lambda>a b. \<not> lt b a) (sort_slice lt xs)"
proof (induction xs)
  case (Cons x xs)
  have "set (sort_slice lt xs) = set xs" by (metis sort_slice_perm set_mset_mset)
  with Cons show ?case by (simp add: sort_slice_def sorted_insert_by)
qed (simp add: sort_slice_def)

end

section \<open>Requests by age\<close>

lemma str_less_irrefl: "\<not> str_less s s"
  by (induction s) auto

lemma str_less_asym: "str_less s t \<Longrightarrow> \<not> str_less t s"
  by (induction s t rule: str_less.induct) (auto split: if_splits)

lemma str_less_negtrans: "\<not> str_less t s \<Longrightarrow> \<not> str_less u t \<Longrightarrow> \<not> str_less u s"
proof (induction s t arbitrary: u rule: str_less.induct)
  case (1 xs)
  then show ?case by (cases u; cases xs) auto
next
  case (2 y ys)
  then show ?case by (cases u) auto
next
  case (3 x xs y ys)
  then show ?case by (cases u) (auto split: if_splits)
qed

interpretation requests_by_age: comparison list_less UNIV
proof
  fix x y z :: request
  show "list_less x y \<Longrightarrow> \<not> list_less y x"
    by (auto simp: list_less_def dest: str_less_asym split: if_splits)
  show "\<not> list_less y x \<Longrightarrow> \<not> list_less z y \<Longrightarrow> \<not> list_less z x"
    by (auto simp: list_less_def dest: str_less_negtrans split: if_splits)
qed

lemma clip_page: "0 \<le> l \<Longrightarrow> 0 \<le> k \<Longrightarrow> take (nat (min (k + l) (int (length xs)) - k)) (drop (nat k) xs) = take (nat l) (drop (nat k) xs)"
  by (cases "k + l \<le> int (length xs)") (simp_all add: min_def take_all_iff nat_le_iff)

lemma page_of_eq:
  "page_of limit offset xs = take (nat (if limit \<le> 0 then 10 else limit)) (drop (nat offset) xs)"
proof -
  define l where "l = (if limit \<le> 0 then 10 else limit)"
  define k where "k = (if offset < 0 then 0 else offset)"
  have p: "0 \<le> l" "0 \<le> k" and k: "nat k = nat offset" by (auto simp: l_def k_def)
  have "page_of limit offset xs = (if k \<ge> int (length xs) then []
          else take (nat (min (k + l) (int (length xs)) - k)) (drop (nat k) xs))"
    by (simp add: page_of_def Let_def min_def flip: l_def k_def)
  also have "\<dots> = take (nat l) (drop (nat k) xs)"
    by (simp add: clip_page [OF p] le_nat_iff nat_le_iff flip: of_nat_le_iff)
  finally show ?thesis by (simp add: k l_def)
qed

text \<open>Listing requests.  A listing returns the requested page (ten rows by default) of one
  fixed sequence: every mirrored request of the session that matches the filters, once,
  ordered by creation time and then id; the total is the length of that sequence, so
  consecutive pages neither skip nor repeat a request while the session does not change.\<close>

theorem listing_is_ordered_page:
  "case ListRequests sess status toolName limit offset sv of
     (sv', page, tot) \<Rightarrow> \<exists>xs.
       mset xs = mset (filter (\<lambda>r. (status = None \<or> status = Some (r_Status r)) \<and> (toolName = '''' \<or> r_ToolName r = toolName))
                    (gm_vals (gm_inner (sv_requests sv') sess)))
     \<and> sorted_wrt (\<lambda>a b. \<not> list_less b a) xs
     \<and> page = take (nat (if limit \<le> 0 then 10 else limit)) (drop (nat offset) xs)
     \<and> tot = int (length xs)"
  unfolding ListRequests_def Let_def prod.case page_of_eq
  using requests_by_age.sort_slice_perm requests_by_age.sort_slice_sorted by blast

section \<open>Machines by load\<close>

lemma ratio_trans:
  fixes a b c x y z :: int
  assumes "0 < x" "0 < y" "0 < z" "a * y \<le> b * x" "b * z \<le> c * y"
  shows "a * z \<le> c * x"
proof -
  have "a * z * y \<le> b * x * z" using mult_right_mono [OF assms(4), of z] assms(3) by (simp add: ac_simps)
  also have "\<dots> \<le> c * y * x" using mult_right_mono [OF assms(5), of x] assms(1) by (simp add: ac_simps)
  finally have "(a * z) * y \<le> (c * x) * y" by (simp add: ac_simps)
  with assms(2) show ?thesis by (simp add: mult_le_cancel_right)
qed

interpretation machines_by_load: comparison load_less "{x. 0 < snd (snd x)}"
proof
  fix x y z :: load_metric
  obtain m a p n b q l c r where e: "x = (m, a, p)" "y = (n, b, q)" "z = (l, c, r)" by (metis prod.exhaust)
  show "x \<in> {x. 0 < snd (snd x)} \<Longrightarrow> y \<in> {x. 0 < snd (snd x)} \<Longrightarrow> load_less x y \<Longrightarrow> \<not> load_less y x"
    by (auto simp: e split: if_splits)
  assume p: "x \<in> {x. 0 < snd (snd x)}" "y \<in> {x. 0 < snd (snd x)}" "z \<in> {x. 0 < snd (snd x)}"
    "\<not> load_less y x" "\<not> load_less z y"
  then have le: "a * q \<le> b * p" "b * r \<le> c * q" and pos: "0 < p" "0 < q" "0 < r"
    by (auto simp: e split: if_splits)
  have ac: "a * r \<le> c * p" by (rule ratio_trans [OF pos le])
  have "m_CreatedAt m \<le> m_CreatedAt l" if "c * p = a * r"
  proof -
    have "b * p \<le> a * q" using ratio_trans [of q r p b c a] pos le that by simp
    moreover have "c * q \<le> b * r" using ratio_trans [of r p q c a b] pos le that by simp
    ultimately show ?thesis using le p by (simp add: e)
  qed
  with ac show "\<not> load_less z x" by (auto simp: e)
qed

lemma load_metrics_machines: "map fst (snd (load_metrics s ms sv)) = ms"
  by (induction ms arbitrary: sv) (simp_all add: Let_def split_beta)

lemma load_metrics_caps: "x \<in> set (snd (load_metrics s ms sv)) \<Longrightarrow> 0 < snd (snd x)"
  by (induction ms arbitrary: sv)
    (auto simp: Let_def split_beta maxMachineConcurrentRequests_def split: if_splits)

text \<open>Scheduling order.  Ordering machines by load permutes them and never puts a machine
  before one with a smaller ratio of in-flight requests to capacity, or before an older one
  with the same ratio.\<close>

theorem machines_ordered_by_load:
  "\<exists>ms. mset ms = mset (snd (load_metrics sess machines sv))
     \<and> map fst (snd (load_metrics sess machines sv)) = machines
     \<and> sorted_wrt (\<lambda>a b. \<not> load_less b a) ms
     \<and> mset (snd (OrderMachinesByLoad sess machines sv)) = mset machines
     \<and> snd (OrderMachinesByLoad sess machines sv) = map fst ms"
proof -
  let ?xs = "snd (load_metrics sess machines sv)"
  let ?ms = "sort_slice load_less ?xs"
  have perm: "mset ?ms = mset ?xs" by (rule machines_by_load.sort_slice_perm)
  have srt: "sorted_wrt (\<lambda>a b. \<not> load_less b a) ?ms"
    by (rule machines_by_load.sort_slice_sorted) (auto dest: load_metrics_caps)
  have fst: "map fst ?xs = machines" by (rule load_metrics_machines)
  have mm: "mset (map fst ?ms) = mset machines" using perm fst by (metis mset_map)
  have eq: "snd (OrderMachinesByLoad sess machines sv) = map fst ?ms"
  proof (cases "length machines \<le> 1")
    case True
    have "length ?xs = length machines" using fst by (metis length_map)
    with True have "?ms = ?xs" by (cases ?xs; cases "tl ?xs") (auto simp: sort_slice_def)
    with True fst show ?thesis by (simp add: OrderMachinesByLoad_def)
  next
    case False
    then show ?thesis by (simp add: OrderMachinesByLoad_def split: prod.split)
  qed
  with perm srt fst mm show ?thesis by auto
qed

end
