(* ===== verification/Auth_Model.thy ===== *)
theory Auth_Model
  imports Service_Machines
begin

text \<open>
  \<open>pkg/model/auth.go\<close>: capabilities, tool allowlists and the authenticated principal.  Strings
  are byte strings; lower-casing and trimming are modelled on ASCII letters and white space.
\<close>

definition lower_char :: "char \<Rightarrow> char" where
  "lower_char c = (if 65 \<le> (of_char c :: nat) \<and> (of_char c :: nat) \<le> 90
                   then char_of ((of_char c :: nat) + 32) else c)"

definition ToLower :: "string \<Rightarrow> string" where
  "ToLower s = map lower_char s"

datatype auth_mode = AuthModeFixed | AuthModeSessionKey

record auth_principal =
  p_Mode :: auth_mode
  p_SessionID :: string
  p_UserID :: string
  p_KeyID :: string
  p_Capabilities :: "capability list"
  p_AllowedTools :: "string list"
  p_TokenPreview :: string

section \<open>Capabilities\<close>

text \<open>The table of accepted names; \<open>execute\<close> is the legacy name of \<open>invoke\<close> and \<open>provide\<close>.\<close>

definition allowed_names :: "capability list gomap" where
  "allowed_names =
     [(CapRead, [CapRead]), (CapInvoke, [CapInvoke]), (CapProvide, [CapProvide]), (CapAdmin, [CapAdmin]),
      (CapExecute, [CapInvoke, CapProvide])]"

definition normalized :: "string \<Rightarrow> string" where
  "normalized value = TrimSpace (ToLower value)"

fun collect_capabilities :: "string list \<Rightarrow> capability list \<Rightarrow> capability list svc_result" where
  "collect_capabilities [] seen = Inr seen"
| "collect_capabilities (v # vs) seen =
     (if normalized v = '''' then collect_capabilities vs seen
      else case gm_get allowed_names (normalized v) of
             None \<Rightarrow> Inl ErrUnsupportedAPIKeyCapability
           | Some expanded \<Rightarrow> collect_capabilities vs (seen @ filter (\<lambda>c. c \<notin> set seen) expanded))"

definition NormalizeAPIKeyCapabilities :: "string list \<Rightarrow> capability list svc_result" where
  "NormalizeAPIKeyCapabilities values =
     (if values = [] then Inr DefaultAPIKeyCapabilities
      else case collect_capabilities values [] of
             Inl e \<Rightarrow> Inl e
           | Inr seen \<Rightarrow>
               if seen = [] then Inr DefaultAPIKeyCapabilities
               else Inr (filter (\<lambda>c. c \<in> set seen) apiKeyCapabilityOrder))"

definition ParseAPIKeyCapabilitiesStrict :: "string list \<Rightarrow> capability list svc_result" where
  "ParseAPIKeyCapabilitiesStrict values =
     (if values = [] then Inl ErrAPIKeyCapabilitiesRequired
      else if \<not> list_ex (\<lambda>v. TrimSpace v \<noteq> '''') values then Inl ErrAPIKeyCapabilitiesRequired
      else NormalizeAPIKeyCapabilities values)"

definition CapabilityStrings :: "capability list \<Rightarrow> string list" where
  "CapabilityStrings capabilities = filter (\<lambda>c. c \<noteq> '''') capabilities"

section \<open>Tool allowlists\<close>

fun collect_tools :: "string list \<Rightarrow> string list \<Rightarrow> string list" where
  "collect_tools [] allowed = allowed"
| "collect_tools (v # vs) allowed =
     (if TrimSpace v = '''' \<or> TrimSpace v \<in> set allowed then collect_tools vs allowed
      else collect_tools vs (allowed @ [TrimSpace v]))"

definition NormalizeAllowedTools :: "string list \<Rightarrow> string list svc_result" where
  "NormalizeAllowedTools values =
     (if values = [] then Inr []
      else let allowed = collect_tools values []
           in if allowed = [] then Inl ErrAPIKeyAllowedToolsBlank else Inr allowed)"

definition AllowsTool :: "string \<Rightarrow> auth_principal \<Rightarrow> bool" where
  "AllowsTool toolName p \<longleftrightarrow> (p_AllowedTools p = [] \<or> list_ex (\<lambda>a. a = toolName) (p_AllowedTools p))"

text \<open>A nil principal has no capability.\<close>

definition HasCapability :: "capability \<Rightarrow> auth_principal option \<Rightarrow> bool" where
  "HasCapability required caller =
     (if required = '''' then True
      else case caller of
             None \<Rightarrow> False
           | Some p \<Rightarrow> p_Mode p = AuthModeFixed \<or> list_ex (\<lambda>c. c = required) (p_Capabilities p))"

section \<open>What the parsers accept\<close>

lemma trim_ends: "TrimSpace s = '''' \<longleftrightarrow> (\<forall>c \<in> set s. is_space c)"
proof -
  have "dropWhile is_space (rev (dropWhile is_space s)) = [] \<longleftrightarrow> (\<forall>c \<in> set (dropWhile is_space s). is_space c)"
    by (simp add: dropWhile_eq_Nil_conv)
  also have "\<dots> \<longleftrightarrow> (\<forall>c \<in> set s. is_space c)"
    by (induction s) auto
  finally show ?thesis by (simp add: TrimSpace_def)
qed

lemma is_space_code: "is_space c \<longleftrightarrow> (of_char c :: nat) \<in> {32, 9, 10, 11, 12, 13}"
proof -
  have "c = d \<longleftrightarrow> (of_char c :: nat) = of_char d" for d :: char by simp
  from this [of "CHR '' ''"] this [of "CHR 0x09"] this [of "CHR 0x0A"] this [of "CHR 0x0B"]
    this [of "CHR 0x0C"] this [of "CHR 0x0D"]
  show ?thesis by (simp add: is_space_def)
qed

lemma lower_code:
  "(of_char (lower_char c) :: nat) =
     (if 65 \<le> (of_char c :: nat) \<and> (of_char c :: nat) \<le> 90 then of_char c + 32 else of_char c)"
  by (simp add: lower_char_def)

lemma lower_space [simp]: "is_space (lower_char c) = is_space c"
  by (auto simp: is_space_code lower_code)

lemma normalized_blank: "normalized v = '''' \<longleftrightarrow> TrimSpace v = ''''"
  by (simp add: normalized_def trim_ends ToLower_def)

lemma expanded_known:
  "gm_get allowed_names n = Some ex \<Longrightarrow> ex \<noteq> [] \<and> set ex \<subseteq> set apiKeyCapabilityOrder"
  by (auto simp: allowed_names_def gm_get_def apiKeyCapabilityOrder_def split: if_splits)

lemma collect_set:
  "collect_capabilities vs seen = Inr cs \<Longrightarrow>
     set cs = set seen \<union> {c. \<exists>v \<in> set vs. \<exists>ex. normalized v \<noteq> '''' \<and> gm_get allowed_names (normalized v) = Some ex \<and> c \<in> set ex}"
  by (induction vs seen rule: collect_capabilities.induct) (auto split: if_splits option.splits)

lemma collect_nonempty:
  "collect_capabilities vs seen = Inr cs \<Longrightarrow> list_ex (\<lambda>v. TrimSpace v \<noteq> '''') vs \<Longrightarrow> cs \<noteq> []"
  using expanded_known
  by (induction vs seen rule: collect_capabilities.induct)
    (fastforce simp: normalized_blank dest: collect_set split: if_splits option.splits)+

lemma names_known: "gm_get allowed_names n \<noteq> None \<longleftrightarrow> n \<in> set (CapExecute # apiKeyCapabilityOrder)"
  by (auto simp: allowed_names_def gm_get_def apiKeyCapabilityOrder_def)

lemma collect_ok:
  "(\<exists>cs. collect_capabilities vs seen = Inr cs) \<longleftrightarrow>
     list_all (\<lambda>v. TrimSpace v = '''' \<or> normalized v \<in> set (CapExecute # apiKeyCapabilityOrder)) vs"
proof (induction vs seen rule: collect_capabilities.induct)
  case (2 v vs seen)
  then show ?case
    using names_known [of "normalized v"]
    by (cases "gm_get allowed_names (normalized v)") (auto simp: normalized_blank)
qed simp

lemma normalized_known: "c \<in> set apiKeyCapabilityOrder \<Longrightarrow> normalized c = c"
proof -
  have "list_all (\<lambda>c. normalized c = c) apiKeyCapabilityOrder" by code_simp
  then show "c \<in> set apiKeyCapabilityOrder \<Longrightarrow> normalized c = c" by (simp add: list_all_iff)
qed

lemma expanded_iff:
  "(\<exists>ex. gm_get allowed_names n = Some ex \<and> c \<in> set ex) \<longleftrightarrow>
     n = c \<and> c \<in> set apiKeyCapabilityOrder \<or> n = CapExecute \<and> (c = CapInvoke \<or> c = CapProvide)"
proof (cases "n \<in> set (CapExecute # apiKeyCapabilityOrder)")
  case True
  then have n: "n = CapRead \<or> n = CapInvoke \<or> n = CapProvide \<or> n = CapAdmin \<or> n = CapExecute"
    by (simp add: apiKeyCapabilityOrder_def) blast
  show ?thesis
  proof (cases "n = CapExecute")
    case True
    then show ?thesis by (auto simp: allowed_names_def gm_get_def apiKeyCapabilityOrder_def)
  next
    case False
    with n have "gm_get allowed_names n = Some [n]" by (elim disjE) (simp_all add: allowed_names_def gm_get_def)
    with False n show ?thesis by (simp add: apiKeyCapabilityOrder_def) blast
  qed
next
  case False
  then show ?thesis using names_known [of n] by auto
qed

lemma strict_set:
  assumes "ParseAPIKeyCapabilitiesStrict vs = Inr cs"
  shows "set cs = {c. \<exists>v \<in> set vs. normalized v = c \<and> c \<in> set apiKeyCapabilityOrder
                      \<or> normalized v = CapExecute \<and> (c = CapInvoke \<or> c = CapProvide)}"
    and "cs \<noteq> []" and "distinct cs" and "set cs \<subseteq> set apiKeyCapabilityOrder"
    and "\<exists>P. cs = filter P apiKeyCapabilityOrder"
proof -
  have ne: "list_ex (\<lambda>v. TrimSpace v \<noteq> '''') vs"
    using assms by (auto simp: ParseAPIKeyCapabilitiesStrict_def split: if_splits)
  obtain seen where c: "collect_capabilities vs [] = Inr seen"
    and cs: "cs = filter (\<lambda>c. c \<in> set seen) apiKeyCapabilityOrder" and s: "seen \<noteq> []"
    using assms ne collect_nonempty [OF _ ne]
    by (auto simp: ParseAPIKeyCapabilitiesStrict_def NormalizeAPIKeyCapabilities_def split: if_splits sum.splits)
  have nb: "normalized v \<noteq> ''''" if "gm_get allowed_names (normalized v) = Some ex" for v ex
    using that by (auto simp: allowed_names_def gm_get_def split: if_splits)
  have seen: "set seen = {c. \<exists>v \<in> set vs. \<exists>ex. gm_get allowed_names (normalized v) = Some ex \<and> c \<in> set ex}"
    unfolding collect_set [OF c] by (auto dest: nb)
  have "set seen \<subseteq> set apiKeyCapabilityOrder" using seen expanded_known by blast
  then have "set cs = set seen" using cs by auto
  then show "set cs = {c. \<exists>v \<in> set vs. normalized v = c \<and> c \<in> set apiKeyCapabilityOrder
                      \<or> normalized v = CapExecute \<and> (c = CapInvoke \<or> c = CapProvide)}"
    unfolding seen expanded_iff by simp
  show "cs \<noteq> []" using \<open>set cs = set seen\<close> s by auto
  show "distinct cs" unfolding cs by (simp add: apiKeyCapabilityOrder_def)
  show "set cs \<subseteq> set apiKeyCapabilityOrder" using cs by auto
  show "\<exists>P. cs = filter P apiKeyCapabilityOrder" using cs by blast
qed

lemma strict_again:
  assumes "cs = filter P apiKeyCapabilityOrder" and "cs \<noteq> []"
  shows "ParseAPIKeyCapabilitiesStrict cs = Inr cs"
proof -
  have known: "set cs \<subseteq> set apiKeyCapabilityOrder" using assms by auto
  have nb: "TrimSpace c \<noteq> ''''" if "c \<in> set cs" for c
    using known that normalized_known [of c] normalized_blank [of c] by (auto simp: apiKeyCapabilityOrder_def)
  have "list_all (\<lambda>v. TrimSpace v = '''' \<or> normalized v \<in> set (CapExecute # apiKeyCapabilityOrder)) cs"
    using known normalized_known by (auto simp: list_all_iff)
  then obtain ds where "collect_capabilities cs [] = Inr ds" using collect_ok by blast
  moreover have "list_ex (\<lambda>v. TrimSpace v \<noteq> '''') cs"
    using nb [OF hd_in_set [OF assms(2)]] hd_in_set [OF assms(2)] by (auto simp: list_ex_iff)
  ultimately obtain es where e: "ParseAPIKeyCapabilitiesStrict cs = Inr es"
    using assms(2) by (cases "ds = []") (auto simp: ParseAPIKeyCapabilitiesStrict_def NormalizeAPIKeyCapabilities_def)
  have "set es = set cs"
  proof -
    have "CapExecute \<notin> set apiKeyCapabilityOrder" by code_simp
    then have "normalized v = v \<and> v \<in> set apiKeyCapabilityOrder \<and> v \<noteq> CapExecute" if "v \<in> set cs" for v
      using known that normalized_known [of v] by auto
    then show ?thesis unfolding strict_set(1) [OF e] by auto
  qed
  moreover obtain Q where "es = filter Q apiKeyCapabilityOrder" using strict_set(5) [OF e] by blast
  ultimately have "es = cs" using assms(1) by (auto intro!: filter_cong)
  with e show ?thesis by simp
qed

text \<open>Minting states its rights.  The strict parser accepts a list exactly when it names at
  least one capability and only known ones; the key then gets exactly the named ones
  (ignoring case and surrounding space, with the legacy \<open>execute\<close> standing for \<open>invoke\<close> and
  \<open>provide\<close>), once each; and parsing the printed capabilities gives them back.\<close>

theorem minted_capabilities_exact:
  "(\<exists>cs. ParseAPIKeyCapabilitiesStrict vs = Inr cs) =
     (list_ex (\<lambda>v. TrimSpace v \<noteq> '''') vs
      \<and> list_all (\<lambda>v. TrimSpace v = '''' \<or> normalized v \<in> set (CapExecute # apiKeyCapabilityOrder)) vs)
   \<and> (ParseAPIKeyCapabilitiesStrict vs = Inr cs \<longrightarrow>
        distinct cs \<and> ParseAPIKeyCapabilitiesStrict (CapabilityStrings cs) = Inr cs
      \<and> set cs = {c. \<exists>v. v \<in> set vs \<and> (normalized v = c \<and> c \<in> set apiKeyCapabilityOrder
                      \<or> normalized v = CapExecute \<and> (c = CapInvoke \<or> c = CapProvide))})"
proof (intro conjI impI)
  have "list_ex P vs \<Longrightarrow> vs \<noteq> []" for P by auto
  then show "(\<exists>cs. ParseAPIKeyCapabilitiesStrict vs = Inr cs) =
     (list_ex (\<lambda>v. TrimSpace v \<noteq> '''') vs
      \<and> list_all (\<lambda>v. TrimSpace v = '''' \<or> normalized v \<in> set (CapExecute # apiKeyCapabilityOrder)) vs)"
    unfolding collect_ok [of vs "[]", symmetric]
    by (auto simp: ParseAPIKeyCapabilitiesStrict_def NormalizeAPIKeyCapabilities_def split: sum.splits)
next
  assume p: "ParseAPIKeyCapabilitiesStrict vs = Inr cs"
  show "distinct cs" by (rule strict_set(3) [OF p])
  obtain P where P: "cs = filter P apiKeyCapabilityOrder" using strict_set(5) [OF p] by blast
  have "CapabilityStrings cs = cs"
    using strict_set(4) [OF p] by (auto simp: CapabilityStrings_def filter_id_conv apiKeyCapabilityOrder_def)
  with strict_again [OF P strict_set(2) [OF p]]
  show "ParseAPIKeyCapabilitiesStrict (CapabilityStrings cs) = Inr cs" by simp
  show "set cs = {c. \<exists>v. v \<in> set vs \<and> (normalized v = c \<and> c \<in> set apiKeyCapabilityOrder
                      \<or> normalized v = CapExecute \<and> (c = CapInvoke \<or> c = CapProvide))}"
    using strict_set(1) [OF p] by auto
qed

theorem minted_capabilities_exact_witness:
  "ParseAPIKeyCapabilitiesStrict (CapabilityStrings [CapInvoke, CapProvide, CapAdmin]) = Inr [CapInvoke, CapProvide, CapAdmin]"
proof -
  have "ParseAPIKeyCapabilitiesStrict ['' Execute'', ''ADMIN''] = Inr [CapInvoke, CapProvide, CapAdmin]" by code_simp
  with minted_capabilities_exact [of "['' Execute'', ''ADMIN'']" "[CapInvoke, CapProvide, CapAdmin]"] show ?thesis by blast
qed

end
