(* ===== verification/Session_Service.thy ===== *)
theory Session_Service
  imports Auth_Model Service_Requests
begin

text \<open>
  \<open>pkg/service/session.go\<close> on a store-backed replica: sessions, their API keys, and the
  authentication of API keys against a hash index that is revalidated against the shared
  store.  The state of the service is the shared store together with the replica's caches.
  A key object shared by the per-session map and the hash index is a value here: the code
  changes a key only by revoking it, and drops its index entry in the same critical section.
  Trace events and the per-user locks are not modelled.
\<close>

record sessions_state =
  sx_store :: store
  sx_sessions :: "session gomap"
  sx_apiKeys :: "api_key gomap gomap"
  sx_keyIndex :: "api_key gomap"
  sx_keyVerifiedAt :: "time gomap"
  sx_userSessions :: "string list gomap"

section \<open>Start-up\<close>

definition load_key :: "hash_fun \<Rightarrow> time \<Rightarrow> api_key \<Rightarrow> sessions_state \<Rightarrow> sessions_state" where
  "load_key hash now key0 sx =
     (let (key, changed) = EnsureSecurityMetadata hash key0;
          sx1 = (if changed then sx\<lparr> sx_store := mem_SaveApiKey key (sx_store sx) \<rparr> else sx);
          sx2 = sx1\<lparr> sx_apiKeys := gm_put2 (k_SessionID key) (k_ID key) key (sx_apiKeys sx1) \<rparr>
      in if IsRevoked key then sx2
         else sx2\<lparr> sx_keyIndex := gm_put (k_KeyHash key) key (sx_keyIndex sx2),
                   sx_keyVerifiedAt := gm_put (k_KeyHash key) now (sx_keyVerifiedAt sx2) \<rparr>)"

definition link_creator :: "session \<Rightarrow> sessions_state \<Rightarrow> sessions_state" where
  "link_creator session sx =
     (case gm_get (sx_userSessions sx) (ss_CreatedBy session) of
        None \<Rightarrow> sx\<lparr> sx_userSessions := gm_put (ss_CreatedBy session) [ss_ID session] (sx_userSessions sx) \<rparr>
      | Some ids \<Rightarrow>
          if ss_ID session \<in> set ids then sx
          else sx\<lparr> sx_userSessions := gm_put (ss_CreatedBy session) (ids @ [ss_ID session]) (sx_userSessions sx) \<rparr>)"

definition NewSessionsService :: "hash_fun \<Rightarrow> time \<Rightarrow> store \<Rightarrow> sessions_state" where
  "NewSessionsService hash now st =
     (let sx0 = \<lparr> sx_store = st,
                  sx_sessions = fold (\<lambda>s. gm_put (ss_ID s) s) (mem_AllSessions st) [],
                  sx_apiKeys = [], sx_keyIndex = [], sx_keyVerifiedAt = [], sx_userSessions = [] \<rparr>;
          sx1 = fold (load_key hash now) (mem_AllApiKeys st) sx0;
          sx2 = sx1\<lparr> sx_userSessions := fold (\<lambda>(u, ids). gm_put u ids) (mem_AllUserSessions st) [] \<rparr>
      in fold link_creator (gm_vals (sx_sessions sx2)) sx2)"

section \<open>Sessions\<close>

definition CreateSession ::
  "string \<Rightarrow> time \<Rightarrow> string \<Rightarrow> string \<Rightarrow> string \<Rightarrow> string \<Rightarrow> string \<Rightarrow> sessions_state
     \<Rightarrow> sessions_state \<times> session svc_result" where
  "CreateSession uuid now userID name description requestedID namespace sx =
     (if requestedID \<noteq> '''' \<and> gm_get (sx_sessions sx) requestedID \<noteq> None then (sx, Inl ErrAlreadyExists)
      else
        let s0 = NewSession uuid now name description userID namespace;
            s = (if requestedID \<noteq> '''' then s0\<lparr> ss_ID := requestedID \<rparr> else s0);
            sx1 = sx\<lparr> sx_sessions := gm_put (ss_ID s) s (sx_sessions sx) \<rparr>
        in case mem_InsertSessionIfAbsent s (sx_store sx1) of
             (st, False) \<Rightarrow>
               (sx1\<lparr> sx_store := st, sx_sessions := gm_del (ss_ID s) (sx_sessions sx1) \<rparr>, Inl ErrAlreadyExists)
           | (st, True) \<Rightarrow>
               (let ids = (case gm_get (sx_userSessions sx1) userID of None \<Rightarrow> [] | Some ids \<Rightarrow> ids)
                in (sx1\<lparr> sx_store := mem_AddUserSession userID (ss_ID s) st,
                         sx_userSessions := gm_put userID (ids @ [ss_ID s]) (sx_userSessions sx1) \<rparr>, Inr s)))"

definition GetSessionByID :: "string \<Rightarrow> sessions_state \<Rightarrow> sessions_state \<times> session svc_result" where
  "GetSessionByID sessionID sx =
     (case gm_get (sx_sessions sx) sessionID of
        Some s \<Rightarrow> (sx, Inr s)
      | None \<Rightarrow>
          (case mem_GetSession sessionID (sx_store sx) of
             None \<Rightarrow> (sx, Inl ErrNotFound)
           | Some found \<Rightarrow> (sx\<lparr> sx_sessions := gm_put sessionID found (sx_sessions sx) \<rparr>, Inr found)))"

definition user_ids :: "string \<Rightarrow> sessions_state \<Rightarrow> string list" where
  "user_ids userID sx = (case gm_get (sx_userSessions sx) userID of None \<Rightarrow> [] | Some ids \<Rightarrow> ids)"

definition ListSessions :: "string \<Rightarrow> sessions_state \<Rightarrow> session list" where
  "ListSessions userID sx = List.map_filter (gm_get (sx_sessions sx)) (user_ids userID sx)"

definition UpdateSession ::
  "string \<Rightarrow> string \<Rightarrow> string \<Rightarrow> string \<Rightarrow> sessions_state \<Rightarrow> sessions_state \<times> session svc_result" where
  "UpdateSession sessionID name description namespace sx =
     (case gm_get (sx_sessions sx) sessionID of
        None \<Rightarrow> (sx, Inl ErrNotFound)
      | Some s0 \<Rightarrow>
          (let s1 = (if name \<noteq> '''' then s0\<lparr> ss_Name := name \<rparr> else s0);
               s2 = (if description \<noteq> '''' then s1\<lparr> ss_Description := description \<rparr> else s1);
               s = (if namespace \<noteq> '''' then s2\<lparr> ss_Namespace := namespace \<rparr> else s2)
           in (sx\<lparr> sx_sessions := gm_put sessionID s (sx_sessions sx),
                   sx_store := mem_SaveSession s (sx_store sx) \<rparr>, Inr s)))"

definition unindex :: "api_key list \<Rightarrow> sessions_state \<Rightarrow> sessions_state" where
  "unindex keys sx =
     sx\<lparr> sx_keyIndex := fold (\<lambda>k. gm_del (k_KeyHash k)) keys (sx_keyIndex sx),
         sx_keyVerifiedAt := fold (\<lambda>k. gm_del (k_KeyHash k)) keys (sx_keyVerifiedAt sx) \<rparr>"

definition forget_user_session :: "string \<Rightarrow> string \<Rightarrow> string list gomap \<Rightarrow> string list gomap" where
  "forget_user_session userID sessionID m =
     (case gm_get m userID of
        None \<Rightarrow> m
      | Some ids \<Rightarrow>
          (let filtered = filter (\<lambda>i. i \<noteq> sessionID) ids
           in if filtered = [] then gm_del userID m else gm_put userID filtered m))"

definition DeleteSession :: "string \<Rightarrow> sessions_state \<Rightarrow> sessions_state \<times> unit svc_result" where
  "DeleteSession sessionID sx =
     (case gm_get (sx_sessions sx) sessionID of
        None \<Rightarrow> (sx, Inl ErrNotFound)
      | Some s \<Rightarrow>
          (let sx1 = sx\<lparr> sx_sessions := gm_del sessionID (sx_sessions sx),
                         sx_userSessions := forget_user_session (ss_CreatedBy s) sessionID (sx_userSessions sx) \<rparr>;
               sx2 = unindex (gm_vals (gm_inner (sx_apiKeys sx1) sessionID)) sx1;
               sx3 = sx2\<lparr> sx_apiKeys := gm_del sessionID (sx_apiKeys sx2) \<rparr>
           in (sx3\<lparr> sx_store := mem_DeleteSession sessionID
                      (mem_RemoveUserSession (ss_CreatedBy s) sessionID (sx_store sx3)) \<rparr>, Inr ())))"

section \<open>API keys\<close>

definition CreateApiKey ::
  "hash_fun \<Rightarrow> string \<Rightarrow> string \<Rightarrow> time \<Rightarrow> string \<Rightarrow> string \<Rightarrow> string \<Rightarrow> string list \<Rightarrow> string list
     \<Rightarrow> sessions_state \<Rightarrow> sessions_state \<times> api_key svc_result" where
  "CreateApiKey hash u1 u2 now sessionID name createdBy capabilityValues allowedTools sx =
     (if gm_get (sx_sessions sx) sessionID = None then (sx, Inl ErrNotFound)
      else case ParseAPIKeyCapabilitiesStrict capabilityValues of
             Inl e \<Rightarrow> (sx, Inl e)
           | Inr capabilities \<Rightarrow>
               (case NormalizeAllowedTools allowedTools of
                  Inl e \<Rightarrow> (sx, Inl e)
                | Inr allowed \<Rightarrow>
                    (let key = (NewApiKey hash u1 u2 now name sessionID createdBy capabilities)
                                 \<lparr> k_AllowedTools := allowed \<rparr>
                     in (sx\<lparr> sx_apiKeys := gm_put2 sessionID (k_ID key) key (sx_apiKeys sx),
                             sx_keyIndex := gm_put (k_KeyHash key) key (sx_keyIndex sx),
                             sx_keyVerifiedAt := gm_put (k_KeyHash key) now (sx_keyVerifiedAt sx),
                             sx_store := mem_SaveApiKey key (sx_store sx) \<rparr>, Inr key))))"

definition ListApiKeys :: "string \<Rightarrow> sessions_state \<Rightarrow> api_key list" where
  "ListApiKeys sessionID sx =
     map CloneWithoutSecret (filter (\<lambda>k. \<not> IsRevoked k) (gm_vals (gm_inner (sx_apiKeys sx) sessionID)))"

definition ListAuditEvents :: "audit_filter \<Rightarrow> sessions_state \<Rightarrow> audit_event list \<times> int" where
  "ListAuditEvents filt sx = mem_ListAuditEvents filt (sx_store sx)"

definition RevokeApiKey :: "time \<Rightarrow> string \<Rightarrow> string \<Rightarrow> sessions_state \<Rightarrow> sessions_state \<times> unit svc_result" where
  "RevokeApiKey now sessionID keyID sx =
     (case gm_get2 (sx_apiKeys sx) sessionID keyID of
        None \<Rightarrow> (sx, Inl ErrNotFound)
      | Some key0 \<Rightarrow>
          (let key = Revoke now key0;
               sx1 = unindex [key] (sx\<lparr> sx_apiKeys := gm_put2 sessionID keyID key (sx_apiKeys sx) \<rparr>)
           in (sx1\<lparr> sx_store := mem_SaveApiKey key (sx_store sx1) \<rparr>, Inr ())))"

definition apiKeyRevalidationInterval :: duration where "apiKeyRevalidationInterval = 5 * Second"

definition normalize_key :: "string \<Rightarrow> string" where
  "normalize_key key =
     (let trimmed_key = TrimSpace key
      in if take 7 (ToLower trimmed_key) = ''bearer '' then TrimSpace (drop 7 trimmed_key) else trimmed_key)"

definition revalidateAPIKeyLocked :: "time \<Rightarrow> string \<Rightarrow> sessions_state \<Rightarrow> sessions_state \<times> api_key option" where
  "revalidateAPIKeyLocked now keyHash sx =
     (case mem_GetAPIKeyByHash keyHash (sx_store sx) of
        None \<Rightarrow> (sx\<lparr> sx_keyIndex := gm_del keyHash (sx_keyIndex sx),
                    sx_keyVerifiedAt := gm_del keyHash (sx_keyVerifiedAt sx) \<rparr>, None)
      | Some fresh \<Rightarrow>
          if IsRevoked fresh
          then (sx\<lparr> sx_keyIndex := gm_del keyHash (sx_keyIndex sx),
                    sx_keyVerifiedAt := gm_del keyHash (sx_keyVerifiedAt sx) \<rparr>, None)
          else (sx\<lparr> sx_keyIndex := gm_put keyHash fresh (sx_keyIndex sx),
                    sx_keyVerifiedAt := gm_put keyHash now (sx_keyVerifiedAt sx) \<rparr>, Some fresh))"

definition key_principal :: "api_key \<Rightarrow> sessions_state \<Rightarrow> auth_principal" where
  "key_principal key sx =
     \<lparr> p_Mode = AuthModeSessionKey, p_SessionID = k_SessionID key,
       p_UserID = (case gm_get (sx_sessions sx) (k_SessionID key) of None \<Rightarrow> '''' | Some s \<Rightarrow> ss_CreatedBy s),
       p_KeyID = k_ID key, p_Capabilities = k_Capabilities key, p_AllowedTools = k_AllowedTools key,
       p_TokenPreview = k_KeyPreview key \<rparr>"

definition AuthenticateAPIKey ::
  "hash_fun \<Rightarrow> time \<Rightarrow> string \<Rightarrow> sessions_state \<Rightarrow> sessions_state \<times> auth_principal svc_result" where
  "AuthenticateAPIKey hash now key sx =
     (if normalize_key key = '''' then (sx, Inl ErrOther)
      else
        let keyHash = hash (normalize_key key);
            verifiedAt = (case gm_get (sx_keyVerifiedAt sx) keyHash of None \<Rightarrow> zero_time | Some t \<Rightarrow> t)
        in case gm_get (sx_keyIndex sx) keyHash of
             None \<Rightarrow> (sx, Inl ErrOther)
           | Some matched \<Rightarrow>
               if IsRevoked matched then (sx, Inl ErrOther)
               else if now - verifiedAt > apiKeyRevalidationInterval
               then (case revalidateAPIKeyLocked now keyHash sx of
                       (sx1, None) \<Rightarrow> (sx1, Inl ErrOther)
                     | (sx1, Some fresh) \<Rightarrow>
                         if IsRevoked fresh then (sx1, Inl ErrOther) else (sx1, Inr (key_principal fresh sx1)))
               else (sx, Inr (key_principal matched sx)))"

definition ValidateApiKey :: "hash_fun \<Rightarrow> time \<Rightarrow> string \<Rightarrow> sessions_state \<Rightarrow> sessions_state \<times> string svc_result" where
  "ValidateApiKey hash now key sx =
     (case AuthenticateAPIKey hash now key sx of
        (sx1, Inl e) \<Rightarrow> (sx1, Inl e) | (sx1, Inr p) \<Rightarrow> (sx1, Inr (p_SessionID p)))"

text \<open>The kill switch: revoke every live key of the session that this replica knows.\<close>

definition InvalidateSession :: "time \<Rightarrow> string \<Rightarrow> sessions_state \<Rightarrow> sessions_state \<times> int" where
  "InvalidateSession now sessionID sx =
     (let live = filter (\<lambda>(i, k). \<not> IsRevoked k) (gm_inner (sx_apiKeys sx) sessionID);
          keys = map (\<lambda>(i, k). Revoke now k) live;
          sx1 = unindex keys
                  (sx\<lparr> sx_apiKeys := fold (\<lambda>(i, k). gm_put2 sessionID i (Revoke now k)) live (sx_apiKeys sx) \<rparr>)
      in (sx1\<lparr> sx_store := fold mem_SaveApiKey keys (sx_store sx1) \<rparr>, int (length keys)))"

section \<open>Listings and bulk operations\<close>

definition sessionHasActiveAPIKeys :: "string \<Rightarrow> sessions_state \<Rightarrow> bool" where
  "sessionHasActiveAPIKeys sessionID sx \<longleftrightarrow>
     list_ex (\<lambda>k. \<not> IsRevoked k) (gm_vals (gm_inner (sx_apiKeys sx) sessionID))"

definition filter_matches :: "string \<Rightarrow> string \<Rightarrow> sessions_state \<Rightarrow> bool" where
  "filter_matches filt sessionID sx \<longleftrightarrow>
     (filt = ''active'' \<and> sessionHasActiveAPIKeys sessionID sx)
   \<or> (filt = ''inactive'' \<and> \<not> sessionHasActiveAPIKeys sessionID sx)"

definition newest_first :: "session \<Rightarrow> session \<Rightarrow> bool" where
  "newest_first a b = (if ss_CreatedAt a = ss_CreatedAt b then str_less (ss_ID b) (ss_ID a)
                       else ss_CreatedAt a > ss_CreatedAt b)"

definition ListUserSessions ::
  "string \<Rightarrow> int \<Rightarrow> int \<Rightarrow> string \<Rightarrow> sessions_state \<Rightarrow> session list \<times> int" where
  "ListUserSessions userID pageSize pageToken filt sx =
     (let filtered = sort_slice newest_first
            (List.map_filter
              (\<lambda>i. case gm_get (sx_sessions sx) i of
                     None \<Rightarrow> None
                   | Some s \<Rightarrow> if filt = '''' \<or> filter_matches filt i sx then Some s else None)
              (user_ids userID sx))
      in (page_of pageSize pageToken filtered, int (length filtered)))"

definition bulk_targets :: "string \<Rightarrow> string list \<Rightarrow> string \<Rightarrow> sessions_state \<Rightarrow> string list" where
  "bulk_targets userID sessionIDs filt sx =
     (if filt \<noteq> ''''
      then filter (\<lambda>i. gm_get (sx_sessions sx) i \<noteq> None \<and> filter_matches filt i sx) (user_ids userID sx)
      else filter (\<lambda>i. i \<in> set (user_ids userID sx)) sessionIDs)"

fun delete_each :: "string list \<Rightarrow> sessions_state \<Rightarrow> sessions_state \<times> int \<times> string list" where
  "delete_each [] sx = (sx, 0, [])"
| "delete_each (i # is) sx =
     (case DeleteSession i sx of
        (sx1, Inl e) \<Rightarrow> (case delete_each is sx1 of (sx2, n, failed) \<Rightarrow> (sx2, n, i # failed))
      | (sx1, Inr _) \<Rightarrow> (case delete_each is sx1 of (sx2, n, failed) \<Rightarrow> (sx2, n + 1, failed)))"

definition BulkDeleteSessions ::
  "string \<Rightarrow> string list \<Rightarrow> string \<Rightarrow> sessions_state \<Rightarrow> sessions_state \<times> int \<times> string list" where
  "BulkDeleteSessions userID sessionIDs filt sx = delete_each (bulk_targets userID sessionIDs filt sx) sx"

definition GetSessionStats :: "string \<Rightarrow> sessions_state \<Rightarrow> int \<times> int \<times> int" where
  "GetSessionStats userID sx =
     (let known = filter (\<lambda>i. gm_get (sx_sessions sx) i \<noteq> None) (user_ids userID sx)
      in (int (length (user_ids userID sx)),
          int (length (filter (\<lambda>i. sessionHasActiveAPIKeys i sx) known)),
          int (length (filter (\<lambda>i. \<not> sessionHasActiveAPIKeys i sx) known))))"

end
