(* ===== verification/Session_Theorems.thy ===== *)
theory Session_Theorems
  imports Session_Service
begin

text \<open>
  Sessions and API keys across replicas.  A replica's caches evolve by its own calls; the
  shared store also by the calls of other replicas, whose caches may be anything.
\<close>

datatype sess_call =
    XStart time
  | XCreate string time string string string string string
  | XGet string
  | XUpdate string string string string
  | XDelete string
  | XMint string string time string string string "string list" "string list"
  | XRevoke time string string
  | XAuth time string
  | XInvalidate time string
  | XBulk string "string list" string

fun apply_call :: "hash_fun \<Rightarrow> sess_call \<Rightarrow> sessions_state \<Rightarrow> sessions_state" where
  "apply_call hash (XStart now) sx = NewSessionsService hash now (sx_store sx)"
| "apply_call hash (XCreate uuid now u n d i ns) sx = fst (CreateSession uuid now u n d i ns sx)"
| "apply_call hash (XGet i) sx = fst (GetSessionByID i sx)"
| "apply_call hash (XUpdate i n d ns) sx = fst (UpdateSession i n d ns sx)"
| "apply_call hash (XDelete i) sx = fst (DeleteSession i sx)"
| "apply_call hash (XMint u1 u2 now i n cr cs ts) sx = fst (CreateApiKey hash u1 u2 now i n cr cs ts sx)"
| "apply_call hash (XRevoke now i k) sx = fst (RevokeApiKey now i k sx)"
| "apply_call hash (XAuth now key) sx = fst (AuthenticateAPIKey hash now key sx)"
| "apply_call hash (XInvalidate now i) sx = fst (InvalidateSession now i sx)"
| "apply_call hash (XBulk u is f) sx = fst (BulkDeleteSessions u is f sx)"

text \<open>A call of this replica, or of another one with some caches.\<close>

datatype sess_op = Here sess_call | Elsewhere sessions_state sess_call

fun apply_sess :: "hash_fun \<Rightarrow> sess_op \<Rightarrow> sessions_state \<Rightarrow> sessions_state" where
  "apply_sess hash (Here c) sx = apply_call hash c sx"
| "apply_sess hash (Elsewhere other c) sx =
     sx\<lparr> sx_store := sx_store (apply_call hash c (other\<lparr> sx_store := sx_store sx \<rparr>)) \<rparr>"

text \<open>The hash under which a stored key can be found, now or after the start-up repair.\<close>

definition eff_hash :: "hash_fun \<Rightarrow> api_key \<Rightarrow> string" where
  "eff_hash hash k = (if k_Key k \<noteq> '''' \<and> k_KeyHash k = '''' then hash (k_Key k) else k_KeyHash k)"

definition dead :: "hash_fun \<Rightarrow> string \<Rightarrow> store \<Rightarrow> bool" where
  "dead hash h st \<longleftrightarrow> (\<forall>k \<in> set (mem_AllApiKeys st). eff_hash hash k = h \<longrightarrow> IsRevoked k)"



section \<open>Dead keys stay dead\<close>



lemma repaired_hash [simp]: "k_KeyHash (fst (EnsureSecurityMetadata hash k)) = eff_hash hash k"
  by (simp add: EnsureSecurityMetadata_fst eff_hash_def)

lemma repaired_eff [simp]: "eff_hash hash (fst (EnsureSecurityMetadata hash k)) = eff_hash hash k"
  unfolding eff_hash_def [of hash "fst (EnsureSecurityMetadata hash k)"] repaired_hash
  by (simp add: EnsureSecurityMetadata_fst eff_hash_def)

lemma repaired_revoked [simp]: "IsRevoked (fst (EnsureSecurityMetadata hash k)) = IsRevoked k"
proof -
  have "k_RevokedAt (fst (ensure_caps k)) = k_RevokedAt k" "k_RevokedAt (fst (ensure_hash hash k)) = k_RevokedAt k"
    "k_RevokedAt (fst (ensure_preview k)) = k_RevokedAt k" "k_RevokedAt (fst (ensure_plaintext k)) = k_RevokedAt k" for k
    by (simp_all add: ensure_caps_def ensure_hash_def ensure_preview_def ensure_plaintext_def)
  then show ?thesis by (simp add: EnsureSecurityMetadata_fst IsRevoked_def)
qed


lemma dead_same_keys: "st_apiKeys st' = st_apiKeys st \<Longrightarrow> dead hash h st' = dead hash h st"
  by (simp add: dead_def mem_AllApiKeys_def)

lemma dead_session_ops [simp]:
  "dead hash h (mem_AddUserSession u i st) = dead hash h st"
  "dead hash h (mem_RemoveUserSession u i st) = dead hash h st"
  "dead hash h (mem_SaveSession s st) = dead hash h st"
  "dead hash h (fst (mem_InsertSessionIfAbsent s st)) = dead hash h st"
  by (auto intro!: dead_same_keys simp: mem_AddUserSession_def mem_RemoveUserSession_def mem_SaveSession_def
      mem_InsertSessionIfAbsent_def split: option.split)


lemma revoked_now [simp]: "IsRevoked (Revoke now k)"
  by (simp add: IsRevoked_def Revoke_def)


lemma store_unindex [simp]: "sx_store (unindex ks sx) = sx_store sx"
  by (simp add: unindex_def)



lemma store_link [simp]:
  "sx_store (fold link_creator ss sx) = sx_store sx"
  "sx_keyVerifiedAt (fold link_creator ss sx) = sx_keyVerifiedAt sx"
  "sx_keyIndex (fold link_creator ss sx) = sx_keyIndex sx"
  by (induction ss arbitrary: sx) (auto simp: link_creator_def split: option.split)






lemma store_Authenticate [simp]: "sx_store (fst (AuthenticateAPIKey hash now key sx)) = sx_store sx"
  by (auto simp: AuthenticateAPIKey_def revalidateAPIKeyLocked_def Let_def split: option.split)


section \<open>Verification times\<close>

definition verified_before :: "string \<Rightarrow> time \<Rightarrow> sessions_state \<Rightarrow> bool" where
  "verified_before h T sx \<longleftrightarrow> (\<forall>t. gm_get (sx_keyVerifiedAt sx) h = Some t \<longrightarrow> t \<le> T)"

lemma get_fold_del: "gm_get (fold (\<lambda>k. gm_del (f k)) ks m) h = (if h \<in> f ` set ks then None else gm_get m h)"
  by (induction ks arbitrary: m) auto

lemma verified_unindex: "verified_before h T sx \<Longrightarrow> verified_before h T (unindex ks sx)"
  by (simp add: verified_before_def unindex_def get_fold_del)






section \<open>Revocation\<close>




text \<open>Revoking is immediate here and final.  When a revocation succeeds, the replica that
  performed it refuses every token with the key's hash from then on, and if the key's hash is
  its own, every stored key with that hash is revoked.\<close>

theorem revocation_is_immediate:
  assumes "RevokeApiKey at sess kid sx = (sx', Inr ())" and "gm_get2 (sx_apiKeys sx) sess kid = Some k"
    and "hash (normalize_key token) = k_KeyHash k"
  shows "(\<exists>e. AuthenticateAPIKey hash now token sx' = (sx', Inl e))
    \<and> (gm_wf (st_apiKeys (sx_store sx)) \<longrightarrow>
       (\<forall>i q. gm_get (st_apiKeys (sx_store sx)) i = Some q \<longrightarrow> eff_hash hash q = k_KeyHash k \<longrightarrow> i = k_ID k) \<longrightarrow>
       dead hash (k_KeyHash k) (sx_store sx'))"
proof (intro conjI impI)
  have sx': "sx' = (unindex [Revoke at k] (sx\<lparr> sx_apiKeys := gm_put2 sess kid (Revoke at k) (sx_apiKeys sx) \<rparr>))
      \<lparr> sx_store := mem_SaveApiKey (Revoke at k) (sx_store sx) \<rparr>"
    using assms(1,2) by (simp add: RevokeApiKey_def Let_def)
  then have "gm_get (sx_keyIndex sx') (k_KeyHash k) = None" by (simp add: unindex_def Revoke_def)
  with assms(3) show "\<exists>e. AuthenticateAPIKey hash now token sx' = (sx', Inl e)"
    by (simp add: AuthenticateAPIKey_def Let_def)
  assume wf: "gm_wf (st_apiKeys (sx_store sx))"
    and own: "\<forall>i q. gm_get (st_apiKeys (sx_store sx)) i = Some q \<longrightarrow> eff_hash hash q = k_KeyHash k \<longrightarrow> i = k_ID k"
  show "dead hash (k_KeyHash k) (sx_store sx')"
    unfolding dead_def mem_AllApiKeys_def
  proof (intro ballI impI)
    fix q assume q: "q \<in> set (gm_vals (st_apiKeys (sx_store sx')))" "eff_hash hash q = k_KeyHash k"
    then obtain i where "gm_get (st_apiKeys (sx_store sx')) i = Some q"
      using wf by (auto simp: sx' mem_SaveApiKey_def gm_vals_get)
    then have "if i = k_ID k then q = Revoke at k else gm_get (st_apiKeys (sx_store sx)) i = Some q"
      by (simp add: sx' mem_SaveApiKey_def Revoke_def split: if_splits)
    with own q(2) show "IsRevoked q" by (auto split: if_splits)
  qed
qed

lemma hash_lookup:
  assumes "gm_wf (st_apiKeys u)" and "gm_get (st_apiKeys u) kid = Some k"
    and "\<And>i q. gm_get (st_apiKeys u) i = Some q \<Longrightarrow> k_KeyHash q = k_KeyHash k \<Longrightarrow> i = kid"
  shows "mem_GetAPIKeyByHash (k_KeyHash k) u = Some k"
  unfolding mem_GetAPIKeyByHash_def
proof (rule find_only)
  show "k \<in> set (gm_vals (st_apiKeys u))" by (rule gm_get_vals [OF assms(2)])
  fix q assume q: "q \<in> set (gm_vals (st_apiKeys u))" "k_KeyHash q = k_KeyHash k"
  then obtain i where i: "gm_get (st_apiKeys u) i = Some q" using gm_vals_get [OF assms(1)] by blast
  with assms(3) [OF i q(2)] assms(2) show "q = k" by simp
qed simp

text \<open>C33: The session kill switch misses keys of other replicas.  Invalidating a session revokes
  only the keys in this replica's cache: a key that another replica minted, which this one
  has not loaded, stays live in the store, and the replica that minted it goes on accepting
  it, at any later time.\<close>

theorem invalidation_misses_remote_key:
  assumes "gm_wf (st_apiKeys (sx_store sx))" and "gm_get (st_apiKeys (sx_store sx)) kid = Some k" and "\<not> IsRevoked k"
    and "\<And>i q. gm_get (st_apiKeys (sx_store sx)) i = Some q \<Longrightarrow> k_KeyHash q = k_KeyHash k \<Longrightarrow> i = kid"
    and "gm_wf (gm_inner (sx_apiKeys sx) sess)"
    and "\<And>i q. gm_get2 (sx_apiKeys sx) sess i = Some q \<Longrightarrow> k_ID q \<noteq> kid \<and> k_KeyHash q \<noteq> k_KeyHash k"
    and "gm_get (sx_keyIndex other) (k_KeyHash k) = Some k"
    and "hash (normalize_key token) = k_KeyHash k" and "normalize_key token \<noteq> ''''"
  shows "\<exists>sx'. AuthenticateAPIKey hash now token (other\<lparr> sx_store := sx_store (fst (InvalidateSession at sess sx)) \<rparr>)
      = (sx', Inr (key_principal k other))"
proof -
  let ?ks = "map (\<lambda>(i, k). Revoke at k) (filter (\<lambda>(i, k). \<not> IsRevoked k) (gm_inner (sx_apiKeys sx) sess))"
  let ?st = "sx_store (fst (InvalidateSession at sess sx))"
  have st: "?st = fold mem_SaveApiKey ?ks (sx_store sx)" by (simp add: InvalidateSession_def Let_def)
  have ks: "list_all (\<lambda>q. k_ID q \<noteq> kid \<and> k_KeyHash q \<noteq> k_KeyHash k) ?ks"
    using assms(6) gm_get_in [OF assms(5)] by (fastforce simp: list_all_iff Revoke_def)
  define own where "own u \<longleftrightarrow> (\<forall>i q. gm_get (st_apiKeys u) i = Some q \<longrightarrow> k_KeyHash q = k_KeyHash k \<longrightarrow> i = kid)" for u :: store
  have keep: "gm_wf (st_apiKeys u) \<Longrightarrow> list_all (\<lambda>q. k_ID q \<noteq> kid \<and> k_KeyHash q \<noteq> k_KeyHash k) ks \<Longrightarrow>
      gm_get (st_apiKeys u) kid = Some k \<Longrightarrow> own u \<Longrightarrow>
      mem_GetAPIKeyByHash (k_KeyHash k) (fold mem_SaveApiKey ks u) = Some k" for ks u
  proof (induction ks arbitrary: u)
    case Nil
    then show ?case unfolding fold_simps own_def by (blast intro: hash_lookup)
  next
    case (Cons q ks)
    have "gm_wf (st_apiKeys (mem_SaveApiKey q u))" "gm_get (st_apiKeys (mem_SaveApiKey q u)) kid = Some k"
      using Cons.prems by (auto simp: mem_SaveApiKey_def)
    moreover have "own (mem_SaveApiKey q u)"
      using Cons.prems(2,4) unfolding own_def by (simp add: mem_SaveApiKey_def)
    ultimately show ?case using Cons.IH [of "mem_SaveApiKey q u"] Cons.prems(2) by simp
  qed
  have look: "mem_GetAPIKeyByHash (k_KeyHash k) ?st = Some k"
    unfolding st by (rule keep [OF assms(1) ks assms(2)]) (use assms(4) in \<open>auto simp only: own_def\<close>)
  have "key_principal k (other\<lparr> sx_store := s, sx_keyIndex := i, sx_keyVerifiedAt := v \<rparr>) = key_principal k other"
    "key_principal k (other\<lparr> sx_store := s \<rparr>) = key_principal k other" for s i v
    by (simp_all add: key_principal_def)
  with look assms(3,7,8,9) show ?thesis
    by (simp add: AuthenticateAPIKey_def revalidateAPIKeyLocked_def Let_def)
qed

section \<open>What a token grants\<close>

text \<open>The index holds live keys under their own hash.\<close>

definition index_ok :: "sessions_state \<Rightarrow> bool" where
  "index_ok sx \<longleftrightarrow> (\<forall>h k. gm_get (sx_keyIndex sx) h = Some k \<longrightarrow> k_KeyHash k = h \<and> \<not> IsRevoked k)"

lemma index_ok_unindex: "index_ok sx \<Longrightarrow> index_ok (unindex ks sx)"
  by (simp add: index_ok_def unindex_def get_fold_del)

lemma index_ok_DeleteSession: "index_ok sx \<Longrightarrow> index_ok (fst (DeleteSession i sx))"
  by (auto simp: DeleteSession_def Let_def index_ok_def unindex_def get_fold_del split: option.split)

lemma index_ok_delete_each: "index_ok sx \<Longrightarrow> index_ok (fst (delete_each is sx))"
proof (induction "is" arbitrary: sx)
  case (Cons i "is")
  then have "index_ok (fst (DeleteSession i sx))" by (intro index_ok_DeleteSession)
  with Cons.IH [of "fst (DeleteSession i sx)"] show ?case by (auto split: prod.split sum.split)
qed simp

lemma index_ok_load: "index_ok sx \<Longrightarrow> index_ok (fold (load_key hash now) ks sx)"
proof (induction ks arbitrary: sx)
  case (Cons k ks)
  obtain key ch where e: "EnsureSecurityMetadata hash k = (key, ch)" by fastforce
  have "sx_keyIndex (load_key hash now k sx) =
      (if IsRevoked key then sx_keyIndex sx else gm_put (k_KeyHash key) key (sx_keyIndex sx))"
    by (simp add: load_key_def e Let_def)
  then have "index_ok (load_key hash now k sx)" using Cons.prems by (simp add: index_ok_def)
  with Cons.IH show ?case by simp
qed simp

lemma index_ok_cong: "sx_keyIndex sx = sx_keyIndex sy \<Longrightarrow> index_ok sx = index_ok sy"
  by (simp add: index_ok_def)

lemma index_ok_start: "index_ok (NewSessionsService hash now st)"
proof -
  let ?sx = "\<lparr> sx_store = st, sx_sessions = fold (\<lambda>s. gm_put (ss_ID s) s) (mem_AllSessions st) [],
      sx_apiKeys = [], sx_keyIndex = [], sx_keyVerifiedAt = [], sx_userSessions = [] \<rparr>"
  have "index_ok (fold (load_key hash now) (mem_AllApiKeys st) ?sx)"
    by (rule index_ok_load) (simp add: index_ok_def)
  then show ?thesis
    by (rule index_ok_cong [THEN iffD1, rotated]) (simp add: NewSessionsService_def Let_def)
qed

lemma index_ok_call: 
  assumes "index_ok sx"
  shows "index_ok (apply_call hash c sx)"
proof (cases c)
  case (XAuth now key)
  with assms show ?thesis
    by (auto simp: AuthenticateAPIKey_def revalidateAPIKeyLocked_def Let_def index_ok_def
        mem_GetAPIKeyByHash_def find_Some_iff split: option.split)
next
  case (XCreate uuid now u n d i ns)
  then have "sx_keyIndex (apply_call hash c sx) = sx_keyIndex sx"
    by (simp add: CreateSession_def Let_def split: prod.split bool.split)
  with assms show ?thesis by (simp add: index_ok_def)
next
  case (XMint u1 u2 now i n cr cs ts)
  with assms show ?thesis
    by (auto simp: CreateApiKey_def Let_def index_ok_def NewApiKey_def IsRevoked_def split: sum.split)
next
  case (XInvalidate now i)
  with assms show ?thesis by (simp add: InvalidateSession_def Let_def index_ok_def unindex_def get_fold_del)
next
  case (XRevoke now i k)
  with assms show ?thesis
    by (simp add: RevokeApiKey_def Let_def index_ok_def unindex_def split: option.split)
next
  case (XGet i)
  with assms show ?thesis by (simp add: GetSessionByID_def index_ok_def split: option.split)
next
  case (XUpdate i n d ns)
  with assms show ?thesis by (simp add: UpdateSession_def Let_def index_ok_def split: option.split)
qed (simp_all add: assms index_ok_start index_ok_DeleteSession index_ok_delete_each BulkDeleteSessions_def)

interpretation index: kept_by_steps "\<lambda>s t. \<exists>op. t = apply_sess hash op s" index_ok for hash
proof
  fix s t
  assume "\<exists>op. t = apply_sess hash op s" and ok: "index_ok s"
  then obtain op where "t = apply_sess hash op s" by blast
  with ok show "index_ok t" by (cases op) (simp_all add: index_ok_call, simp add: index_ok_def)
qed

lemma any_run: "(\<lambda>s t. \<exists>op. t = apply_sess hash op s)\<^sup>*\<^sup>* sx (fold (apply_sess hash) ops sx)"
  by (induction ops arbitrary: sx) (auto intro: converse_rtranclp_into_rtranclp)

lemma principal_caches:
  "sx_sessions sx' = sx_sessions sx \<Longrightarrow> key_principal k sx' = key_principal k sx"
  by (simp add: key_principal_def)

lemma authenticated_key:
  assumes "AuthenticateAPIKey hash now token sx = (sx', Inr p)" and "index_ok sx"
  shows "\<exists>k. k_KeyHash k = hash (normalize_key token) \<and> \<not> IsRevoked k \<and> p = key_principal k sx
      \<and> (gm_get (sx_keyIndex sx) (hash (normalize_key token)) = Some k
       \<or> mem_GetAPIKeyByHash (hash (normalize_key token)) (sx_store sx) = Some k)"
proof -
  have found: "mem_GetAPIKeyByHash h st = Some k \<Longrightarrow> k_KeyHash k = h" for h st k
    by (auto simp: mem_GetAPIKeyByHash_def find_Some_iff)
  let ?h = "hash (normalize_key token)"
  obtain m where m: "gm_get (sx_keyIndex sx) ?h = Some m"
    using assms(1) by (auto simp: AuthenticateAPIKey_def Let_def split: if_splits option.splits)
  with assms(2) have ok: "k_KeyHash m = ?h" "\<not> IsRevoked m" by (auto simp: index_ok_def)
  show ?thesis
  proof (cases "now - (case gm_get (sx_keyVerifiedAt sx) ?h of None \<Rightarrow> zero_time | Some t \<Rightarrow> t) > apiKeyRevalidationInterval")
    case False
    with assms(1) m ok show ?thesis by (auto simp: AuthenticateAPIKey_def Let_def split: if_splits)
  next
    case True
    then obtain f where "mem_GetAPIKeyByHash ?h (sx_store sx) = Some f" "\<not> IsRevoked f" "p = key_principal f sx"
      using assms(1) m ok
      by (auto simp: AuthenticateAPIKey_def revalidateAPIKeyLocked_def Let_def key_principal_def
          split: if_splits option.splits)
    with found show ?thesis by blast
  qed
qed

text \<open>A token grants the rights of its key and no more.  Whatever happened since the replica
  started, an accepted token has the hash of a live key, known to the replica or stored, and
  the principal carries exactly that key's session, id, capabilities and tool allowlist.\<close>

theorem token_grants_key_rights:
  assumes "AuthenticateAPIKey hash now token (fold (apply_sess hash) ops (NewSessionsService hash at st)) = (sx', Inr p)"
  shows "\<exists>k. k_KeyHash k = hash (normalize_key token) \<and> \<not> IsRevoked k
    \<and> p_Mode p = AuthModeSessionKey \<and> p_SessionID p = k_SessionID k \<and> p_KeyID p = k_ID k
    \<and> p_Capabilities p = k_Capabilities k \<and> p_AllowedTools p = k_AllowedTools k
    \<and> (let sx = fold (apply_sess hash) ops (NewSessionsService hash at st) in
         gm_get (sx_keyIndex sx) (k_KeyHash k) = Some k \<or> mem_GetAPIKeyByHash (k_KeyHash k) (sx_store sx) = Some k)"
proof -
  have "index_ok (fold (apply_sess hash) ops (NewSessionsService hash at st))"
    by (rule index.kept_run [OF any_run index_ok_start])
  from authenticated_key [OF assms this] show ?thesis by (auto simp: key_principal_def Let_def)
qed

section \<open>Session ids\<close>

text \<open>A session id has one creator.  Creating a session under an id (the requested one, or a
  fresh one) either reports that the id is taken and leaves the shared store as it was, which
  happens only when this replica or the store knows the id, or inserts the session, makes it
  the stored one, links it to its creator and leaves every other session alone.\<close>

theorem session_id_has_one_creator:
  "case CreateSession uuid now user name descr wanted ns sx of
     (sx', Inl e) \<Rightarrow> e = ErrAlreadyExists \<and> sx_store sx' = sx_store sx
       \<and> (gm_get (sx_sessions sx) wanted \<noteq> None
         \<or> mem_GetSession (if wanted = '''' then uuid else wanted) (sx_store sx) \<noteq> None)
   | (sx', Inr s) \<Rightarrow> ss_ID s = (if wanted = '''' then uuid else wanted) \<and> ss_CreatedBy s = user
       \<and> mem_GetSession (ss_ID s) (sx_store sx) = None \<and> mem_GetSession (ss_ID s) (sx_store sx') = Some s
       \<and> gm_get (sx_sessions sx') (ss_ID s) = Some s \<and> s \<in> set (ListSessions user sx')
       \<and> (j \<noteq> ss_ID s \<longrightarrow> mem_GetSession j (sx_store sx') = mem_GetSession j (sx_store sx))"
proof -
  have listed: "i \<in> set is \<Longrightarrow> f i = Some s \<Longrightarrow> s \<in> set (List.map_filter f is)"
    for f :: "string \<Rightarrow> session option" and i s "is"
    by (force simp: List.map_filter_def)
  define s where "s = (if wanted \<noteq> '''' then (NewSession uuid now name descr user ns)\<lparr> ss_ID := wanted \<rparr>
      else NewSession uuid now name descr user ns)"
  have id: "ss_ID s = (if wanted = '''' then uuid else wanted)" "ss_CreatedBy s = user"
    by (simp_all add: s_def NewSession_def)
  show ?thesis
  proof (cases "wanted \<noteq> '''' \<and> gm_get (sx_sessions sx) wanted \<noteq> None")
    case True
    then show ?thesis by (simp add: CreateSession_def)
  next
    case new: False
    show ?thesis
    proof (cases "gm_get (st_sessions (sx_store sx)) (ss_ID s)")
      case (Some old)
      then have "CreateSession uuid now user name descr wanted ns sx =
          (sx\<lparr> sx_store := sx_store sx, sx_sessions := gm_del (ss_ID s) (gm_put (ss_ID s) s (sx_sessions sx)) \<rparr>,
           Inl ErrAlreadyExists)"
        using new by (auto simp add: CreateSession_def Let_def mem_InsertSessionIfAbsent_def simp flip: s_def)
      with Some id(1) show ?thesis by (simp add: mem_GetSession_def)
    next
      case None
      let ?ids = "(case gm_get (sx_userSessions sx) user of None \<Rightarrow> [] | Some ids \<Rightarrow> ids) @ [ss_ID s]"
      let ?sx = "sx\<lparr> sx_sessions := gm_put (ss_ID s) s (sx_sessions sx),
          sx_store := mem_AddUserSession user (ss_ID s)
            ((sx_store sx)\<lparr> st_sessions := gm_put (ss_ID s) s (st_sessions (sx_store sx)) \<rparr>),
          sx_userSessions := gm_put user ?ids (sx_userSessions sx) \<rparr>"
      have c: "CreateSession uuid now user name descr wanted ns sx = (?sx, Inr s)"
        using new None by (auto simp add: CreateSession_def Let_def mem_InsertSessionIfAbsent_def simp flip: s_def)
      have "s \<in> set (ListSessions user ?sx)"
        unfolding ListSessions_def by (rule listed [of "ss_ID s"]) (simp_all add: user_ids_def)
      with c id None show ?thesis by (simp add: mem_GetSession_def mem_AddUserSession_def)
    qed
  qed
qed

section \<open>Instances\<close>

definition demo_sessions :: sessions_state where
  "demo_sessions = fst (CreateApiKey (\<lambda>x. ''h'' @ x) ''u1'' ''k1'' 1000 ''s1'' ''ci'' ''alice'' [''invoke''] []
     (fst (CreateSession ''u0'' 900 ''alice'' ''one'' '''' ''s1'' '''' (NewSessionsService (\<lambda>x. ''h'' @ x) 800 mem_New))))"

abbreviation demo_token :: string where "demo_token \<equiv> ''Bearer toolplane_key_u1''"

definition demo_revoked :: sessions_state where
  "demo_revoked = fst (RevokeApiKey 2000 ''s1'' ''k1'' demo_sessions)"


theorem revocation_is_immediate_witness:
  "\<exists>e. AuthenticateAPIKey (\<lambda>x. ''h'' @ x) 2001 demo_token demo_revoked = (demo_revoked, Inl e)"
proof -
  let ?k = "the (gm_get2 (sx_apiKeys demo_sessions) ''s1'' ''k1'')"
  have k: "gm_get2 (sx_apiKeys demo_sessions) ''s1'' ''k1'' = Some ?k"
    and n: "(\<lambda>x. ''h'' @ x) (normalize_key demo_token) = k_KeyHash ?k" by code_simp+
  have "snd (RevokeApiKey 2000 ''s1'' ''k1'' demo_sessions) = Inr ()" by code_simp
  then have r: "RevokeApiKey 2000 ''s1'' ''k1'' demo_sessions = (demo_revoked, Inr ())"
    unfolding demo_revoked_def by (metis prod.collapse)
  from revocation_is_immediate [where hash = "\<lambda>x. ''h'' @ x" and token = demo_token, OF r k n] show ?thesis by blast
qed

theorem invalidation_misses_remote_key_witness:
  "\<exists>sx' p. AuthenticateAPIKey (\<lambda>x. ''h'' @ x) 9000000000 demo_token
      (demo_sessions\<lparr> sx_store := sx_store (fst (InvalidateSession 2000 ''s1''
         (demo_sessions\<lparr> sx_apiKeys := [], sx_keyIndex := [], sx_keyVerifiedAt := [] \<rparr>))) \<rparr>) = (sx', Inr p)"
proof -
  let ?k = "the (gm_get (st_apiKeys (sx_store demo_sessions)) ''k1'')"
  let ?sx = "demo_sessions\<lparr> sx_apiKeys := [], sx_keyIndex := [], sx_keyVerifiedAt := [] \<rparr>"
  have wf: "gm_wf (st_apiKeys (sx_store ?sx))" and row: "gm_get (st_apiKeys (sx_store ?sx)) ''k1'' = Some ?k"
    and live: "\<not> IsRevoked ?k" and ix: "gm_get (sx_keyIndex demo_sessions) (k_KeyHash ?k) = Some ?k"
    and n: "(\<lambda>x. ''h'' @ x) (normalize_key demo_token) = k_KeyHash ?k" "normalize_key demo_token \<noteq> ''''"
    and one: "map fst (st_apiKeys (sx_store ?sx)) = [''k1'']"
    by code_simp+
  have own: "i = ''k1''" if "gm_get (st_apiKeys (sx_store ?sx)) i = Some q" for i q
    using gm_get_SomeD [OF that] one by (metis fst_conv image_eqI list.set(1,2) set_map singletonD)
  have "\<exists>sx'. AuthenticateAPIKey (\<lambda>x. ''h'' @ x) 9000000000 demo_token
      (demo_sessions\<lparr> sx_store := sx_store (fst (InvalidateSession 2000 ''s1'' ?sx)) \<rparr>) = (sx', Inr (key_principal ?k demo_sessions))"
    by (rule invalidation_misses_remote_key [where hash = "\<lambda>x. ''h'' @ x" and token = demo_token, OF wf row live own _ _ ix n])
      (simp_all add: gm_inner_def gm_get2_def)
  then show ?thesis by blast
qed

theorem token_grants_key_rights_witness:
  "\<exists>sx' p k. AuthenticateAPIKey (\<lambda>x. ''h'' @ x) 9000000000 demo_token
      (fold (apply_sess (\<lambda>x. ''h'' @ x)) [Here (XGet ''s1'')] (NewSessionsService (\<lambda>x. ''h'' @ x) 5 (sx_store demo_sessions)))
      = (sx', Inr p) \<and> p_SessionID p = ''s1'' \<and> \<not> IsRevoked k \<and> p_Capabilities p = k_Capabilities k"
proof -
  let ?a = "AuthenticateAPIKey (\<lambda>x. ''h'' @ x) 9000000000 demo_token
      (fold (apply_sess (\<lambda>x. ''h'' @ x)) [Here (XGet ''s1'')] (NewSessionsService (\<lambda>x. ''h'' @ x) 5 (sx_store demo_sessions)))"
  have "\<not> isl (snd ?a)" and s: "map_sum id p_SessionID (snd ?a) = Inr ''s1''" by code_simp+
  then obtain p where p: "?a = (fst ?a, Inr p)" by (metis prod.collapse sum.collapse(2))
  with s have "p_SessionID p = ''s1''" by (metis map_sum.simps(2) old.sum.inject(2) snd_conv)
  with token_grants_key_rights [OF p] p show ?thesis by blast
qed

theorem session_id_has_one_creator_witness:
  "mem_GetSession ''s1'' (sx_store (fst (CreateSession ''u9'' 5 ''bob'' ''two'' '''' ''s2'' '''' demo_sessions)))
     = mem_GetSession ''s1'' (sx_store demo_sessions)"
proof -
  let ?c = "CreateSession ''u9'' 5 ''bob'' ''two'' '''' ''s2'' '''' demo_sessions"
  have "\<not> isl (snd ?c)" by code_simp
  then obtain s where s: "?c = (fst ?c, Inr s)" by (metis prod.collapse sum.collapse(2))
  from session_id_has_one_creator [where uuid = "''u9''" and now = 5 and user = "''bob''" and name = "''two''"
      and descr = "''''" and wanted = "''s2''" and ns = "''''" and sx = demo_sessions and j = "''s1''"]
  show ?thesis by (subst (asm) s) simp
qed

end
