(* ===== verification/Authorizer.thy ===== *)
theory Authorizer
  imports Session_Theorems
begin

text \<open>
  \<open>internal/auth\<close>: the policy table, the interceptors that authenticate and authorize every
  call, and the checks the streaming handlers make themselves.  A request message is
  represented by what the interceptors can read of it: the values of the getters it has.
  Trace events are not modelled; an error is its gRPC code.
\<close>

record method_policy =
  mp_Capability :: capability
  mp_BindSession :: bool
  mp_BindUser :: bool
  mp_Public :: bool

record rpc_message =
  q_SessionId :: "string option"
  q_UserId :: "string option"
  q_MachineId :: "string option"
  q_ToolName :: "string option"

datatype auth_error = Unauthenticated | PermissionDenied

definition policy :: "capability \<Rightarrow> bool \<Rightarrow> bool \<Rightarrow> bool \<Rightarrow> method_policy" where
  "policy c s u p = \<lparr> mp_Capability = c, mp_BindSession = s, mp_BindUser = u, mp_Public = p \<rparr>"

definition methodPolicies :: "method_policy gomap" where
  "methodPolicies =
     [(''/grpc.health.v1.Health/Check'', policy '''' False False True),
      (''/grpc.health.v1.Health/Watch'', policy '''' False False True),
      (''/api.v1.ToolService/RegisterTool'', policy CapProvide True False False),
      (''/api.v1.ToolService/ListTools'', policy CapRead True False False),
      (''/api.v1.ToolService/GetTool'', policy CapRead True False False),
      (''/api.v1.ToolService/GetToolById'', policy CapRead True False False),
      (''/api.v1.ToolService/GetToolByName'', policy CapRead True False False),
      (''/api.v1.ToolService/DeleteTool'', policy CapProvide True False False),
      (''/api.v1.ToolService/UpdateToolPing'', policy CapProvide True False False),
      (''/api.v1.ToolService/InvokeTool'', policy CapInvoke True False False),
      (''/api.v1.ToolService/ExecuteTool'', policy CapInvoke True False False),
      (''/api.v1.ToolService/StreamExecuteTool'', policy CapInvoke False False False),
      (''/api.v1.ToolService/ResumeStream'', policy CapInvoke False False False),
      (''/api.v1.ToolService/HealthCheck'', policy CapRead False False False),
      (''/api.v1.SessionsService/CreateSession'', policy CapAdmin False True False),
      (''/api.v1.SessionsService/GetSession'', policy CapRead True False False),
      (''/api.v1.SessionsService/ListSessions'', policy CapAdmin False True False),
      (''/api.v1.SessionsService/UpdateSession'', policy CapAdmin True False False),
      (''/api.v1.SessionsService/DeleteSession'', policy CapAdmin True False False),
      (''/api.v1.SessionsService/ListUserSessions'', policy CapAdmin False True False),
      (''/api.v1.SessionsService/BulkDeleteSessions'', policy CapAdmin False True False),
      (''/api.v1.SessionsService/GetSessionStats'', policy CapAdmin False True False),
      (''/api.v1.SessionsService/InvalidateSession'', policy CapAdmin True False False),
      (''/api.v1.SessionsService/CreateApiKey'', policy CapAdmin True False False),
      (''/api.v1.SessionsService/ListApiKeys'', policy CapAdmin True False False),
      (''/api.v1.SessionsService/RevokeApiKey'', policy CapAdmin True False False),
      (''/api.v1.SessionsService/ListAuditEvents'', policy CapAdmin False False False),
      (''/api.v1.MachinesService/RegisterMachine'', policy CapProvide True False False),
      (''/api.v1.MachinesService/ListMachines'', policy CapRead True False False),
      (''/api.v1.MachinesService/GetMachine'', policy CapRead True False False),
      (''/api.v1.MachinesService/UpdateMachinePing'', policy CapProvide True False False),
      (''/api.v1.MachinesService/UnregisterMachine'', policy CapProvide True False False),
      (''/api.v1.MachinesService/DrainMachine'', policy CapProvide True False False),
      (''/api.v1.RequestsService/CreateRequest'', policy CapInvoke True False False),
      (''/api.v1.RequestsService/GetRequest'', policy CapRead True False False),
      (''/api.v1.RequestsService/ListRequests'', policy CapRead True False False),
      (''/api.v1.RequestsService/UpdateRequest'', policy CapProvide True False False),
      (''/api.v1.RequestsService/ClaimRequest'', policy CapProvide True False False),
      (''/api.v1.RequestsService/ClaimNextRequest'', policy CapProvide True False False),
      (''/api.v1.RequestsService/CancelRequest'', policy CapInvoke True False False),
      (''/api.v1.RequestsService/SubmitRequestResult'', policy CapProvide True False False),
      (''/api.v1.RequestsService/AppendRequestChunks'', policy CapProvide True False False),
      (''/api.v1.RequestsService/GetRequestChunks'', policy CapRead True False False),
      (''/api.v1.RequestsService/RenewRequestLease'', policy CapProvide True False False),
      (''/api.v1.TasksService/CreateTask'', policy CapInvoke True False False),
      (''/api.v1.TasksService/GetTask'', policy CapRead True False False),
      (''/api.v1.TasksService/ListTasks'', policy CapRead True False False),
      (''/api.v1.TasksService/CancelTask'', policy CapInvoke True False False)]"

definition methodPolicyFor :: "string \<Rightarrow> method_policy option" where
  "methodPolicyFor fullMethod = gm_get methodPolicies fullMethod"

section \<open>Authentication\<close>

text \<open>Metadata maps lower-case keys to lists of values; \<open>None\<close> is a missing metadata map.\<close>

type_synonym metadata = "string list gomap"

definition md_values :: "string \<Rightarrow> metadata \<Rightarrow> string list" where
  "md_values key md = (case gm_get md key of None \<Rightarrow> [] | Some vs \<Rightarrow> vs)"

definition tokenFromMetadata :: "metadata \<Rightarrow> string option" where
  "tokenFromMetadata md =
     (case md_values ''authorization'' md of
        h # hs \<Rightarrow> if TrimSpace h \<noteq> '''' then Some h
                  else (case md_values ''api_key'' md of
                          k # ks \<Rightarrow> if TrimSpace k \<noteq> '''' then Some k else None | [] \<Rightarrow> None)
      | [] \<Rightarrow> (case md_values ''api_key'' md of
                k # ks \<Rightarrow> if TrimSpace k \<noteq> '''' then Some k else None | [] \<Rightarrow> None))"

definition normalizeToken :: "string \<Rightarrow> string" where
  "normalizeToken token =
     (let trimmed_token = TrimSpace token
      in if take 7 (ToLower trimmed_token) = ''bearer '' then TrimSpace (drop 7 trimmed_token) else trimmed_token)"

definition redactToken :: "string \<Rightarrow> string" where
  "redactToken token =
     (if token = '''' then ''<empty>''
      else if length token \<le> 8 then ''<redacted>''
      else take 4 token @ ''...'' @ drop (length token - 4) token)"

definition MachineTokenFromContext :: "metadata option \<Rightarrow> string" where
  "MachineTokenFromContext md =
     (case md of None \<Rightarrow> ''''
      | Some m \<Rightarrow> (case md_values ''x-toolplane-machine-token'' m of [] \<Rightarrow> '''' | v # vs \<Rightarrow> v))"

text \<open>The authenticator and the machine-credential check are fields of the authorizer.\<close>

type_synonym 's authenticator = "string \<Rightarrow> 's \<Rightarrow> 's \<times> auth_principal svc_result"
type_synonym 's machine_auth = "string \<Rightarrow> string \<Rightarrow> string \<Rightarrow> 's \<Rightarrow> 's \<times> unit svc_result"

definition authenticateRequest ::
  "'s authenticator \<Rightarrow> metadata option \<Rightarrow> 's \<Rightarrow> 's \<times> (auth_error + auth_principal)" where
  "authenticateRequest authenticate md s =
     (case md of
        None \<Rightarrow> (s, Inl Unauthenticated)
      | Some m \<Rightarrow>
          (case tokenFromMetadata m of
             None \<Rightarrow> (s, Inl Unauthenticated)
           | Some token \<Rightarrow>
               (case authenticate token s of
                  (s1, Inl e) \<Rightarrow> (s1, Inl Unauthenticated)
                | (s1, Inr p) \<Rightarrow> (s1, Inr p))))"

definition anonymousPrincipal :: auth_principal where
  "anonymousPrincipal =
     \<lparr> p_Mode = AuthModeFixed, p_SessionID = '''', p_UserID = '''', p_KeyID = '''',
       p_Capabilities = DefaultAPIKeyCapabilities, p_AllowedTools = [], p_TokenPreview = ''<auth-disabled>'' \<rparr>"

section \<open>Authorization\<close>

definition check_session :: "method_policy \<Rightarrow> auth_principal \<Rightarrow> rpc_message \<Rightarrow> bool" where
  "check_session pol p req \<longleftrightarrow> (mp_BindSession pol \<longrightarrow>
     (case q_SessionId req of None \<Rightarrow> False | Some target \<Rightarrow> target = '''' \<or> target = p_SessionID p))"

definition check_tool :: "auth_principal \<Rightarrow> rpc_message \<Rightarrow> bool" where
  "check_tool p req \<longleftrightarrow> (p_AllowedTools p \<noteq> [] \<longrightarrow>
     (case q_ToolName req of None \<Rightarrow> True | Some t \<Rightarrow> AllowsTool t p))"

definition check_user :: "method_policy \<Rightarrow> auth_principal \<Rightarrow> rpc_message \<Rightarrow> bool" where
  "check_user pol p req \<longleftrightarrow> (mp_BindUser pol \<longrightarrow>
     (case q_UserId req of None \<Rightarrow> False
      | Some target \<Rightarrow> target = '''' \<or> (p_UserID p \<noteq> '''' \<and> target = p_UserID p)))"

definition authorizeUnary :: "auth_principal \<Rightarrow> string \<Rightarrow> rpc_message \<Rightarrow> auth_error option" where
  "authorizeUnary p fullMethod req =
     (case methodPolicyFor fullMethod of
        None \<Rightarrow> Some PermissionDenied
      | Some pol \<Rightarrow>
          if p_Mode p = AuthModeFixed then None
          else if mp_Capability pol \<noteq> '''' \<and> \<not> HasCapability (mp_Capability pol) (Some p) then Some PermissionDenied
          else if \<not> check_session pol p req then Some PermissionDenied
          else if \<not> check_tool p req then Some PermissionDenied
          else if \<not> check_user pol p req then Some PermissionDenied
          else None)"

definition authorizeMachineToken ::
  "'s machine_auth option \<Rightarrow> metadata option \<Rightarrow> auth_principal \<Rightarrow> rpc_message \<Rightarrow> method_policy
     \<Rightarrow> 's \<Rightarrow> 's \<times> auth_error option" where
  "authorizeMachineToken machineTokenAuth md p req pol s =
     (case machineTokenAuth of
        None \<Rightarrow> (s, None)
      | Some check \<Rightarrow>
          if mp_Capability pol \<noteq> CapProvide then (s, None)
          else if p_Mode p \<noteq> AuthModeSessionKey then (s, None)
          else (case (q_SessionId req, q_MachineId req) of
                  (Some sessionID, Some machineID) \<Rightarrow>
                    if machineID = '''' then (s, Some PermissionDenied)
                    else (case check sessionID machineID (MachineTokenFromContext md) s of
                            (s1, Inl e) \<Rightarrow> (s1, Some PermissionDenied)
                          | (s1, Inr _) \<Rightarrow> (s1, None))
                | _ \<Rightarrow> (s, Some PermissionDenied)))"

text \<open>The unary interceptor; an admitted call runs its handler with the resulting principal.\<close>

definition UnaryInterceptor ::
  "'s authenticator \<Rightarrow> 's machine_auth option \<Rightarrow> string \<Rightarrow> metadata option \<Rightarrow> rpc_message \<Rightarrow> 's
     \<Rightarrow> 's \<times> (auth_error + auth_principal)" where
  "UnaryInterceptor authenticate machineTokenAuth fullMethod md req s =
     (case methodPolicyFor fullMethod of
        Some pol \<Rightarrow>
          if mp_Public pol then (s, Inr anonymousPrincipal)
          else (case authenticateRequest authenticate md s of
                  (s1, Inl e) \<Rightarrow> (s1, Inl e)
                | (s1, Inr p) \<Rightarrow>
                    (case authorizeUnary p fullMethod req of
                       Some e \<Rightarrow> (s1, Inl e)
                     | None \<Rightarrow>
                         (case authorizeMachineToken machineTokenAuth md p req pol s1 of
                            (s2, Some e) \<Rightarrow> (s2, Inl e)
                          | (s2, None) \<Rightarrow> (s2, Inr p))))
      | None \<Rightarrow>
          (case authenticateRequest authenticate md s of
             (s1, Inl e) \<Rightarrow> (s1, Inl e)
           | (s1, Inr p) \<Rightarrow>
               (case authorizeUnary p fullMethod req of
                  Some e \<Rightarrow> (s1, Inl e) | None \<Rightarrow> (s1, Inr p))))"

text \<open>The stream interceptor admits the stream; the tool allowlist is checked on each message.\<close>

definition StreamInterceptor ::
  "'s authenticator \<Rightarrow> string \<Rightarrow> metadata option \<Rightarrow> 's \<Rightarrow> 's \<times> (auth_error + auth_principal)" where
  "StreamInterceptor authenticate fullMethod md s =
     (if (case methodPolicyFor fullMethod of None \<Rightarrow> False | Some pol \<Rightarrow> mp_Public pol)
      then (s, Inr anonymousPrincipal)
      else case authenticateRequest authenticate md s of
             (s1, Inl e) \<Rightarrow> (s1, Inl e)
           | (s1, Inr p) \<Rightarrow>
               (case methodPolicyFor fullMethod of
                  None \<Rightarrow> (s1, Inl PermissionDenied)
                | Some pol \<Rightarrow>
                    if mp_Capability pol \<noteq> '''' \<and> \<not> HasCapability (mp_Capability pol) (Some p)
                    then (s1, Inl PermissionDenied) else (s1, Inr p)))"

text \<open>\<open>RecvMsg\<close> of the wrapped stream: the flag remembers a denial.  The wrapper is used only when
  the principal has an allowlist.\<close>

definition RecvMsg :: "auth_principal \<Rightarrow> bool \<Rightarrow> rpc_message \<Rightarrow> bool \<times> (auth_error + rpc_message)" where
  "RecvMsg p denied m =
     (if denied then (True, Inl PermissionDenied)
      else case q_ToolName m of
             None \<Rightarrow> (False, Inr m)
           | Some t \<Rightarrow> if AllowsTool t p then (False, Inr m) else (True, Inl PermissionDenied))"

fun receive_all :: "auth_principal \<Rightarrow> bool \<Rightarrow> rpc_message list \<Rightarrow> rpc_message list" where
  "receive_all p denied [] = []"
| "receive_all p denied (m # ms) =
     (case RecvMsg p denied m of
        (denied', Inl e) \<Rightarrow> receive_all p denied' ms
      | (denied', Inr m') \<Rightarrow> m' # receive_all p denied' ms)"

definition RequireSessionCapability :: "auth_principal option \<Rightarrow> string \<Rightarrow> capability \<Rightarrow> auth_error option" where
  "RequireSessionCapability caller sessionID cap =
     (case caller of
        None \<Rightarrow> Some PermissionDenied
      | Some p \<Rightarrow>
          if p_Mode p = AuthModeFixed then None
          else if cap \<noteq> '''' \<and> \<not> HasCapability cap caller then Some PermissionDenied
          else if sessionID \<noteq> '''' \<and> p_SessionID p \<noteq> sessionID then Some PermissionDenied
          else None)"

definition RequireUserCapability :: "auth_principal option \<Rightarrow> string \<Rightarrow> capability \<Rightarrow> auth_error option" where
  "RequireUserCapability caller userID cap =
     (case caller of
        None \<Rightarrow> Some PermissionDenied
      | Some p \<Rightarrow>
          if p_Mode p = AuthModeFixed then None
          else if cap \<noteq> '''' \<and> \<not> HasCapability cap caller then Some PermissionDenied
          else if userID \<noteq> '''' \<and> (p_UserID p = '''' \<or> p_UserID p \<noteq> userID) then Some PermissionDenied
          else None)"

section \<open>The policy table\<close>

text \<open>The policy table.  Every method appears once; the only methods open to callers without
  a credential are the two health probes; every other method demands a capability, and every
  provider method is bound to the session of the key.  A method missing from the table is
  denied to every caller, on both interceptors.\<close>

theorem policy_table_sound:
  "distinct (map fst methodPolicies)
   \<and> list_all (\<lambda>(m, pol). mp_Public pol = (m \<in> {''/grpc.health.v1.Health/Check'', ''/grpc.health.v1.Health/Watch''})
        \<and> mp_Public pol = (mp_Capability pol \<notin> set apiKeyCapabilityOrder)
        \<and> (mp_Capability pol = CapProvide \<longrightarrow> mp_BindSession pol)) methodPolicies
   \<and> (methodPolicyFor meth = None \<longrightarrow>
       isl (snd (UnaryInterceptor auth gate meth md req s)) \<and> isl (snd (StreamInterceptor auth meth md s)))"
proof -
  have "distinct (map fst methodPolicies)" by code_simp
  moreover have "list_all (\<lambda>(m, pol). mp_Public pol = (m \<in> {''/grpc.health.v1.Health/Check'', ''/grpc.health.v1.Health/Watch''})
        \<and> mp_Public pol = (mp_Capability pol \<notin> set apiKeyCapabilityOrder)
        \<and> (mp_Capability pol = CapProvide \<longrightarrow> mp_BindSession pol)) methodPolicies" by code_simp
  moreover have "methodPolicyFor meth = None \<Longrightarrow>
      isl (snd (UnaryInterceptor auth gate meth md req s)) \<and> isl (snd (StreamInterceptor auth meth md s))"
    by (auto simp: UnaryInterceptor_def StreamInterceptor_def authorizeUnary_def split: prod.split sum.split)
  ultimately show ?thesis by simp
qed


section \<open>Admission\<close>

lemma unary_admits:
  assumes "UnaryInterceptor auth gate meth md req s = (s', Inr p)"
    and "methodPolicyFor meth = Some pol" and "\<not> mp_Public pol"
  obtains m token s1 where "md = Some m" "tokenFromMetadata m = Some token" "auth token s = (s1, Inr p)"
    "authorizeUnary p meth req = None" "authorizeMachineToken gate md p req pol s1 = (s', None)"
  using assms
  by (auto simp: UnaryInterceptor_def authenticateRequest_def split: prod.splits sum.splits option.splits)

text \<open>The wiring of \<open>internal/server/server.go\<close>: keys are authenticated by the session service,
  machine credentials by the machine registry, over one shared store.\<close>

definition postgresAuthenticator :: "hash_fun \<Rightarrow> time \<Rightarrow> (sessions_state \<times> server) authenticator" where
  "postgresAuthenticator hash now token s =
     (case s of (sx, sv) \<Rightarrow>
        (case AuthenticateAPIKey hash now token (sx\<lparr> sx_store := sv_store sv \<rparr>) of (sx1, r) \<Rightarrow> ((sx1, sv), r)))"

definition registryGate :: "hash_fun \<Rightarrow> (sessions_state \<times> server) machine_auth" where
  "registryGate hash sessionID machineID token s =
     (case s of (sx, sv) \<Rightarrow>
        (case AuthorizeMachineToken hash sessionID machineID token sv of
           (sv1, r) \<Rightarrow> ((sx\<lparr> sx_store := sv_store sv1 \<rparr>, sv1), r)))"


section \<open>The machine gate\<close>

text \<open>What the interceptor relies on: a credential check that refuses a caller who does not hold
  the credential bound to the machine.\<close>

locale machine_gate =
  fixes gate :: "'s machine_auth" and impostor :: "'s \<Rightarrow> string \<Rightarrow> string \<Rightarrow> string \<Rightarrow> bool"
    and auth :: "'s authenticator"
  assumes gate_refuses: "impostor s sess m tok \<Longrightarrow> \<exists>s1 e. gate sess m tok s = (s1, Inl e)"
    and auth_keeps: "auth t s = (s1, Inr p) \<Longrightarrow> impostor s sess m tok \<Longrightarrow> impostor s1 sess m tok"
    and auth_mode: "auth t s = (s1, Inr p) \<Longrightarrow> p_Mode p = AuthModeSessionKey"
begin

lemma impostor_refused:
  assumes "methodPolicyFor meth = Some pol" and "mp_Capability pol = CapProvide" and "\<not> mp_Public pol"
    and "q_SessionId req = Some sess" and "q_MachineId req = Some m"
    and "impostor s sess m (MachineTokenFromContext md)"
  shows "\<exists>s' e. UnaryInterceptor auth (Some gate) meth md req s = (s', Inl e)"
proof (rule ccontr)
  assume no: "\<nexists>s' e. UnaryInterceptor auth (Some gate) meth md req s = (s', Inl e)"
  obtain s' r where "UnaryInterceptor auth (Some gate) meth md req s = (s', r)" by fastforce
  with no obtain p where u: "UnaryInterceptor auth (Some gate) meth md req s = (s', Inr p)"
    by (cases r) auto
  obtain token s1 where a: "auth token s = (s1, Inr p)"
    and g: "authorizeMachineToken (Some gate) md p req pol s1 = (s', None)"
    using unary_admits [OF u assms(1,3)] by blast
  obtain s2 e where "gate sess m (MachineTokenFromContext md) s1 = (s2, Inl e)"
    using gate_refuses [OF auth_keeps [OF a assms(6)]] by blast
  with g auth_mode [OF a] assms(2,4,5) show False
    by (auto simp: authorizeMachineToken_def split: if_splits)
qed

end

definition wrong_credential :: "hash_fun \<Rightarrow> sessions_state \<times> server \<Rightarrow> string \<Rightarrow> string \<Rightarrow> string \<Rightarrow> bool" where
  "wrong_credential hash s sess m tok \<longleftrightarrow> m \<noteq> '''' \<and>
     (case gm_get2 (sv_machines (snd s)) sess m of
        Some mc \<Rightarrow> m_TokenHash mc \<noteq> '''' \<and> hash tok \<noteq> m_TokenHash mc
      | None \<Rightarrow> (case mem_GetMachine m (sv_store (snd s)) of
                  Some mc \<Rightarrow> m_SessionID mc = sess \<and> m_TokenHash mc \<noteq> '''' \<and> hash tok \<noteq> m_TokenHash mc
                | None \<Rightarrow> False))"

interpretation registry: machine_gate "registryGate hash" "wrong_credential hash" "postgresAuthenticator hash now"
  for hash now
proof
  fix s sess m tok
  assume "wrong_credential hash s sess m tok"
  then show "\<exists>s1 e. registryGate hash sess m tok s = (s1, Inl e)"
    by (cases s; cases "gm_get2 (sv_machines (snd s)) sess m")
      (auto simp: wrong_credential_def registryGate_def AuthorizeMachineToken_def Let_def MatchesMachineToken_def
        split: option.splits)
next
  fix t s s1 p sess m tok
  assume "postgresAuthenticator hash now t s = (s1, Inr p)"
  then have "snd s1 = snd s" by (auto simp: postgresAuthenticator_def split: prod.splits)
  then show "wrong_credential hash s sess m tok \<Longrightarrow> wrong_credential hash s1 sess m tok"
    by (auto simp: wrong_credential_def split: option.splits)
next
  fix t s s1 p
  assume a: "postgresAuthenticator hash now t s = (s1, Inr p)"
  have mode: "p_Mode (key_principal k sx) = AuthModeSessionKey" for k sx by (simp add: key_principal_def)
  from a show "p_Mode p = AuthModeSessionKey"
    by (auto simp: postgresAuthenticator_def AuthenticateAPIKey_def Let_def mode
        split: prod.splits option.splits if_splits)
qed

text \<open>C27: A machine cannot be impersonated.  Whatever API key a caller holds, a provider call on
  behalf of a machine whose credential is bound, in this replica's registry or only in the
  shared store, is refused unless the caller presents that machine's credential.\<close>

theorem machine_cannot_be_impersonated:
  assumes "methodPolicyFor meth = Some pol" and "mp_Capability pol = CapProvide"
    and "q_SessionId req = Some sess" and "q_MachineId req = Some m"
    and "wrong_credential hash (sx, sv) sess m (MachineTokenFromContext md)"
  shows "\<exists>s' e. UnaryInterceptor (postgresAuthenticator hash now) (Some (registryGate hash)) meth md req (sx, sv) = (s', Inl e)"
proof -
  have "list_all (\<lambda>(m, pol). mp_Capability pol = CapProvide \<longrightarrow> \<not> mp_Public pol) methodPolicies" by code_simp
  moreover have "(meth, pol) \<in> set methodPolicies" using assms(1) by (simp add: methodPolicyFor_def gm_get_SomeD)
  ultimately have "\<not> mp_Public pol" using assms(2) by (auto simp: list_all_iff)
  from registry.impostor_refused [OF assms(1,2) this assms(3-5)] show ?thesis .
qed

section \<open>Streams\<close>

text \<open>Streams respect the tool allowlist.  A streaming handler receives exactly the messages
  before the first one that names a tool outside the key's allowlist; from then on the stream
  delivers nothing.\<close>

theorem stream_stops_at_denied_tool:
  "receive_all p False ms = takeWhile (\<lambda>m. case q_ToolName m of None \<Rightarrow> True | Some t \<Rightarrow> AllowsTool t p) ms"
proof -
  have denied: "receive_all p True ms = []" for ms
    by (induction ms) (simp_all add: RecvMsg_def)
  show ?thesis by (induction ms) (auto simp: RecvMsg_def denied split: option.split)
qed

section \<open>Instances\<close>

definition demo_hash1 :: hash_fun where "demo_hash1 = (\<lambda>x. ''h'' @ x)"

definition demo_md :: metadata where
  "demo_md = [(''authorization'', [demo_token]), (''x-toolplane-machine-token'', [''guess''])]"

definition demo_registry :: server where
  "demo_registry = \<lparr> sv_store = mem_SaveMachine
       (NewMachine demo_hash1 ''u1'' ''u2'' 100 ''s1'' ''m1'' ''1.0'' ''go'' ''ip'') (sx_store demo_sessions),
     sv_requests = [], sv_machines = [], sv_capacity = [], sv_inflight = [], sv_drains = [], sv_tools = [], sv_active = [] \<rparr>"

theorem policy_table_sound_witness:
  "isl (snd (UnaryInterceptor (postgresAuthenticator demo_hash1 5) None ''/api.v1.Nope/Drop'' (Some demo_md)
     \<lparr> q_SessionId = None, q_UserId = None, q_MachineId = None, q_ToolName = None \<rparr> (demo_sessions, demo_registry)))"
proof -
  have "methodPolicyFor ''/api.v1.Nope/Drop'' = None" by code_simp
  then show ?thesis by (rule conjunct1 [OF mp [OF conjunct2 [OF conjunct2 [OF policy_table_sound]]]])
qed


theorem machine_cannot_be_impersonated_witness:
  "\<exists>s' e. UnaryInterceptor (postgresAuthenticator demo_hash1 5) (Some (registryGate demo_hash1))
       ''/api.v1.RequestsService/ClaimRequest'' (Some demo_md)
       \<lparr> q_SessionId = Some ''s1'', q_UserId = None, q_MachineId = Some ''m1'', q_ToolName = None \<rparr>
       (demo_sessions, demo_registry) = (s', Inl e)"
proof -
  have pol: "methodPolicyFor ''/api.v1.RequestsService/ClaimRequest'' = Some (policy CapProvide True False False)" by code_simp
  have "wrong_credential demo_hash1 (demo_sessions, demo_registry) ''s1'' ''m1'' (MachineTokenFromContext (Some demo_md))"
    by code_simp
  then show ?thesis by (intro machine_cannot_be_impersonated [OF pol]) (simp_all add: policy_def)
qed

end
