(* ===== verification/Proto_Convert.thy ===== *)
theory Proto_Convert
  imports Auth_Model Service_Errors
begin

text \<open>
  \<open>pkg/service/converter.go\<close> and \<open>converter_gen.go\<close>: the wire messages and the conversions from
  the model.  A wire message is the record of the fields the converters set; an absent
  timestamp is \<open>None\<close>.  \<open>json.Marshal\<close> is the argument \<open>marshal\<close>, which may fail.
\<close>

type_synonym json_encoder = "go_value \<Rightarrow> string option"

text \<open>What a handler returns: a status or a response.\<close>

type_synonym 'a grpc_result = "grpc_status + 'a"

definition grpc_failure :: "domain_error \<Rightarrow> grpc_status" where
  "grpc_failure e =
     (case statusFromDomainError (Some e) of Some st \<Rightarrow> st | None \<Rightarrow> (CodeInternal, None, None))"

datatype proto_request_status =
    REQUEST_STATUS_UNSPECIFIED | REQUEST_STATUS_PENDING | REQUEST_STATUS_CLAIMED
  | REQUEST_STATUS_RUNNING | REQUEST_STATUS_DONE | REQUEST_STATUS_FAILED | REQUEST_STATUS_CANCELLED

datatype proto_task_status =
    TASK_STATUS_UNSPECIFIED | TASK_STATUS_PENDING | TASK_STATUS_RUNNING | TASK_STATUS_COMPLETED
  | TASK_STATUS_FAILED | TASK_STATUS_CANCELLED

definition timestampProto :: "time \<Rightarrow> time option" where
  "timestampProto t = (if t = zero_time then None else Some t)"

definition timestampProtoFromPtr :: "time option \<Rightarrow> time option" where
  "timestampProtoFromPtr t = (case t of None \<Rightarrow> None | Some t' \<Rightarrow> timestampProto t')"

definition protoRequestStatus :: "request_status \<Rightarrow> proto_request_status" where
  "protoRequestStatus s =
     (case s of
        Pending \<Rightarrow> REQUEST_STATUS_PENDING
      | Claimed \<Rightarrow> REQUEST_STATUS_CLAIMED
      | Running \<Rightarrow> REQUEST_STATUS_RUNNING
      | Done \<Rightarrow> REQUEST_STATUS_DONE
      | Failed \<Rightarrow> REQUEST_STATUS_FAILED
      | Cancelled \<Rightarrow> REQUEST_STATUS_CANCELLED
      | _ \<Rightarrow> REQUEST_STATUS_UNSPECIFIED)"

definition protoTaskStatus :: "task_status \<Rightarrow> proto_task_status" where
  "protoTaskStatus s =
     (case s of
        TPending \<Rightarrow> TASK_STATUS_PENDING
      | TRunning \<Rightarrow> TASK_STATUS_RUNNING
      | TCompleted \<Rightarrow> TASK_STATUS_COMPLETED
      | TFailed \<Rightarrow> TASK_STATUS_FAILED
      | TCancelled \<Rightarrow> TASK_STATUS_CANCELLED)"

text \<open>The empty status string, which filters nothing and names no transition, is \<open>None\<close>.\<close>

definition requestStatusFromProto :: "proto_request_status \<Rightarrow> request_status option" where
  "requestStatusFromProto s =
     (case s of
        REQUEST_STATUS_PENDING \<Rightarrow> Some Pending
      | REQUEST_STATUS_CLAIMED \<Rightarrow> Some Claimed
      | REQUEST_STATUS_RUNNING \<Rightarrow> Some Running
      | REQUEST_STATUS_DONE \<Rightarrow> Some Done
      | REQUEST_STATUS_FAILED \<Rightarrow> Some Failed
      | _ \<Rightarrow> None)"

section \<open>Messages\<close>

record proto_tool =
  pt_Id :: string
  pt_Name :: string
  pt_Description :: string
  pt_Schema :: string
  pt_Config :: "string gomap"
  pt_CreatedAt :: "time option"
  pt_LastPingAt :: "time option"
  pt_SessionId :: string
  pt_Tags :: "string list"

record proto_session =
  ps_Id :: string
  ps_Name :: string
  ps_Description :: string
  ps_CreatedAt :: "time option"
  ps_CreatedBy :: string
  ps_Namespace :: string

record proto_api_key =
  pk_Id :: string
  pk_Name :: string
  pk_Key :: string
  pk_SessionId :: string
  pk_CreatedAt :: "time option"
  pk_CreatedBy :: string
  pk_RevokedAt :: "time option"
  pk_AllowedTools :: "string list"
  pk_Capabilities :: "string list"
  pk_KeyPreview :: string

record proto_machine =
  pm_Id :: string
  pm_SessionId :: string
  pm_SdkVersion :: string
  pm_SdkLanguage :: string
  pm_Ip :: string
  pm_CreatedAt :: "time option"
  pm_LastPingAt :: "time option"
  pm_Draining :: bool
  pm_MachineToken :: string

record proto_request =
  pr_Id :: string
  pr_SessionId :: string
  pr_ToolName :: string
  pr_Status :: proto_request_status
  pr_Input :: string
  pr_Result :: string
  pr_ResultType :: string
  pr_Error :: string
  pr_CreatedAt :: "time option"
  pr_UpdatedAt :: "time option"
  pr_ExecutingMachineId :: string
  pr_LeasedBy :: string
  pr_LeaseEpoch :: int
  pr_LeaseExpiresAt :: "time option"
  pr_TimeoutSeconds :: int

record proto_task =
  pj_Id :: string
  pj_SessionId :: string
  pj_ToolName :: string
  pj_Status :: proto_task_status
  pj_Input :: string
  pj_Result :: string
  pj_ResultType :: string
  pj_Error :: string
  pj_CreatedAt :: "time option"
  pj_UpdatedAt :: "time option"
  pj_CompletedAt :: "time option"
  pj_CurrentRequestId :: string

record proto_audit_event =
  pa_Id :: int
  pa_CreatedAt :: "time option"
  pa_Event :: string
  pa_SessionId :: string
  pa_MachineId :: string
  pa_RequestId :: string
  pa_TaskId :: string
  pa_ActorKeyId :: string
  pa_Details :: string

section \<open>Conversions\<close>

definition config_entry :: "json_encoder \<Rightarrow> string \<times> go_value \<Rightarrow> (string \<times> string) option" where
  "config_entry marshal kv =
     (case snd kv of
        VString val \<Rightarrow> Some (fst kv, val)
      | val \<Rightarrow> map_option (\<lambda>bytes. (fst kv, bytes)) (marshal val))"

definition convertModelToolToProto :: "json_encoder \<Rightarrow> tool \<Rightarrow> proto_tool" where
  "convertModelToolToProto marshal t =
     \<lparr> pt_Id = tl_ID t, pt_Name = tl_Name t, pt_Description = tl_Description t, pt_Schema = tl_Schema t,
       pt_Config = List.map_filter (config_entry marshal) (tl_Config t),
       pt_CreatedAt = timestampProto (tl_CreatedAt t), pt_LastPingAt = timestampProto (tl_LastPingAt t),
       pt_SessionId = tl_SessionID t, pt_Tags = tl_Tags t \<rparr>"

definition convertModelSessionToProto :: "session \<Rightarrow> proto_session" where
  "convertModelSessionToProto s =
     \<lparr> ps_Id = ss_ID s, ps_Name = ss_Name s, ps_Description = ss_Description s,
       ps_CreatedAt = timestampProto (ss_CreatedAt s), ps_CreatedBy = ss_CreatedBy s,
       ps_Namespace = ss_Namespace s \<rparr>"

definition convertPublicSessionToProto :: "session \<Rightarrow> proto_session" where
  "convertPublicSessionToProto s = convertModelSessionToProto s"

definition convertModelApiKeyToProto :: "api_key \<Rightarrow> proto_api_key" where
  "convertModelApiKeyToProto k =
     \<lparr> pk_Id = k_ID k, pk_Name = k_Name k, pk_Key = k_Key k, pk_SessionId = k_SessionID k,
       pk_CreatedAt = timestampProto (k_CreatedAt k), pk_CreatedBy = k_CreatedBy k,
       pk_RevokedAt = timestampProtoFromPtr (k_RevokedAt k), pk_AllowedTools = k_AllowedTools k,
       pk_Capabilities = [], pk_KeyPreview = '''' \<rparr>"

definition convertPublicAPIKeyToProto :: "api_key \<Rightarrow> bool \<Rightarrow> proto_api_key" where
  "convertPublicAPIKeyToProto k includeSecret =
     (let out = convertModelApiKeyToProto k;
          out1 = (if \<not> includeSecret then out\<lparr> pk_Key := '''' \<rparr> else out)
      in out1\<lparr> pk_Capabilities := CapabilityStrings (k_Capabilities k), pk_KeyPreview := k_KeyPreview k \<rparr>)"

definition convertModelMachineToProto :: "machine \<Rightarrow> proto_machine" where
  "convertModelMachineToProto m =
     \<lparr> pm_Id = m_ID m, pm_SessionId = m_SessionID m, pm_SdkVersion = m_SDKVersion m,
       pm_SdkLanguage = m_SDKLanguage m, pm_Ip = m_IP m, pm_CreatedAt = timestampProto (m_CreatedAt m),
       pm_LastPingAt = timestampProto (m_LastPingAt m), pm_Draining = m_Draining m,
       pm_MachineToken = '''' \<rparr>"

definition convertModelRequestToProto :: "json_encoder \<Rightarrow> request \<Rightarrow> proto_request" where
  "convertModelRequestToProto marshal r =
     \<lparr> pr_Id = r_ID r, pr_SessionId = r_SessionID r, pr_ToolName = r_ToolName r,
       pr_Status = protoRequestStatus (r_Status r), pr_Input = r_Input r,
       pr_Result = (if r_Result r = VNil then '''' else case marshal (r_Result r) of None \<Rightarrow> '''' | Some bytes \<Rightarrow> bytes),
       pr_ResultType = r_ResultType r, pr_Error = r_Error r,
       pr_CreatedAt = timestampProto (r_CreatedAt r), pr_UpdatedAt = timestampProto (r_UpdatedAt r),
       pr_ExecutingMachineId = r_ExecutingMachineID r, pr_LeasedBy = r_LeasedBy r,
       pr_LeaseEpoch = r_LeaseEpoch r,
       pr_LeaseExpiresAt = (if r_VisibleAt r \<noteq> zero_time \<and> (r_Status r = Claimed \<or> r_Status r = Running)
                            then timestampProto (r_VisibleAt r) else None),
       pr_TimeoutSeconds = wrap32 (r_TimeoutSeconds r) \<rparr>"

definition convertModelTaskToProto :: "task \<Rightarrow> proto_task" where
  "convertModelTaskToProto t =
     \<lparr> pj_Id = tk_ID t, pj_SessionId = tk_SessionID t, pj_ToolName = tk_ToolName t,
       pj_Status = protoTaskStatus (tk_Status t), pj_Input = tk_Input t, pj_Result = tk_Result t,
       pj_ResultType = tk_ResultType t, pj_Error = tk_Error t,
       pj_CreatedAt = timestampProto (tk_CreatedAt t), pj_UpdatedAt = timestampProto (tk_UpdatedAt t),
       pj_CompletedAt = timestampProtoFromPtr (tk_CompletedAt t), pj_CurrentRequestId = tk_CurrentRequestID t \<rparr>"

definition convertModelAuditEventToProto :: "json_encoder \<Rightarrow> audit_event \<Rightarrow> proto_audit_event" where
  "convertModelAuditEventToProto marshal a =
     \<lparr> pa_Id = a_ID a, pa_CreatedAt = timestampProto (a_CreatedAt a), pa_Event = a_Event a,
       pa_SessionId = a_SessionID a, pa_MachineId = a_MachineID a, pa_RequestId = a_RequestID a,
       pa_TaskId = a_TaskID a, pa_ActorKeyId = a_ActorKeyID a,
       pa_Details = (case a_Details a of
                       None \<Rightarrow> ''''
                     | Some d \<Rightarrow> if d = [] then ''''
                                 else case marshal (VMap d) of None \<Rightarrow> '''' | Some bytes \<Rightarrow> bytes) \<rparr>"

section \<open>What the wire can say\<close>

text \<open>Statuses on the wire.  The wire form of a request status is mapped back to that status
  exactly for the five statuses a filter or an update can name; a cancelled request has its
  own wire status, but that status maps back to no status at all, and a stalled request is
  unspecified on the wire.  Task statuses are represented one to one.\<close>

lemma request_status_round_trip:
  "(requestStatusFromProto (protoRequestStatus s) = Some s \<longleftrightarrow> s \<in> {Pending, Claimed, Running, Done, Failed})
   \<and> (requestStatusFromProto (protoRequestStatus s) = None \<longleftrightarrow> s \<in> {Stalled, Cancelled})
   \<and> (protoRequestStatus s = REQUEST_STATUS_UNSPECIFIED \<longleftrightarrow> s = Stalled)
   \<and> (case requestStatusFromProto w of None \<Rightarrow> w \<in> {REQUEST_STATUS_UNSPECIFIED, REQUEST_STATUS_CANCELLED}
      | Some s' \<Rightarrow> protoRequestStatus s' = w)
   \<and> inj protoTaskStatus"
proof -
  have "inj protoTaskStatus"
    by (rule injI) (auto simp: protoTaskStatus_def split: task_status.splits)
  then show ?thesis
    by (cases s; cases w) (simp_all add: protoRequestStatus_def requestStatusFromProto_def)
qed

end
