(* ===== verification/Page_Token.thy ===== *)
theory Page_Token
  imports Session_Theorems Service_Theorems Service_Listing Registry_Theorems Proto_Convert
begin

text \<open>
  \<open>pkg/service/page_token.go\<close> and the list handlers of \<open>pkg/service/server.go\<close> that use it.  The
  pieces of the standard library a token is made of are modelled as documented: raw URL-safe
  base64 (decoding ignores line breaks and does not look at the unused trailing bits), and
  decimal integers (decoding accepts a sign and leading zeros, and rejects values outside 64
  bits).
\<close>

section \<open>Base64\<close>

definition b64_alphabet :: string where
  "b64_alphabet = ''ABCDEFGHIJKLMNOPQRSTUVWXYZabcdefghijklmnopqrstuvwxyz0123456789-_''"

definition b64_char :: "nat \<Rightarrow> char" where
  "b64_char n = b64_alphabet ! n"

fun index_of :: "char \<Rightarrow> string \<Rightarrow> nat option" where
  "index_of c [] = None"
| "index_of c (x # xs) = (if c = x then Some 0 else map_option Suc (index_of c xs))"

definition b64_value :: "char \<Rightarrow> nat option" where
  "b64_value c = index_of c b64_alphabet"

fun b64_encode :: "nat list \<Rightarrow> string" where
  "b64_encode (a # b # c # rest) =
     b64_char (a div 4) # b64_char (a mod 4 * 16 + b div 16) # b64_char (b mod 16 * 4 + c div 64)
       # b64_char (c mod 64) # b64_encode rest"
| "b64_encode [a, b] = [b64_char (a div 4), b64_char (a mod 4 * 16 + b div 16), b64_char (b mod 16 * 4)]"
| "b64_encode [a] = [b64_char (a div 4), b64_char (a mod 4 * 16)]"
| "b64_encode [] = []"

fun b64_bytes :: "nat list \<Rightarrow> nat list option" where
  "b64_bytes (p # q # r # s # rest) =
     map_option (\<lambda>bs. (p * 4 + q div 16) # (q mod 16 * 16 + r div 4) # (r mod 4 * 64 + s) # bs) (b64_bytes rest)"
| "b64_bytes [p, q, r] = Some [p * 4 + q div 16, q mod 16 * 16 + r div 4]"
| "b64_bytes [p, q] = Some [p * 4 + q div 16]"
| "b64_bytes [p] = None"
| "b64_bytes [] = Some []"

fun b64_values :: "string \<Rightarrow> nat list option" where
  "b64_values [] = Some []"
| "b64_values (c # cs) =
     (case b64_value c of None \<Rightarrow> None | Some v \<Rightarrow> map_option (\<lambda>vs. v # vs) (b64_values cs))"

definition EncodeToString :: "string \<Rightarrow> string" where
  "EncodeToString s = b64_encode (map of_char s)"

definition DecodeString :: "string \<Rightarrow> string option" where
  "DecodeString s =
     (case b64_values (filter (\<lambda>c. c \<noteq> CHR 0x0A \<and> c \<noteq> CHR 0x0D) s) of
        None \<Rightarrow> None
      | Some vs \<Rightarrow> map_option (map char_of) (b64_bytes vs))"

section \<open>Decimal integers\<close>

definition digit :: "nat \<Rightarrow> char" where
  "digit n = char_of (48 + n)"

fun itoa_nat :: "nat \<Rightarrow> string" where
  "itoa_nat n = (if n < 10 then [digit n] else itoa_nat (n div 10) @ [digit (n mod 10)])"

declare itoa_nat.simps [simp del]

definition Itoa :: "int \<Rightarrow> string" where
  "Itoa n = (if n < 0 then CHR ''-'' # itoa_nat (nat (- n)) else itoa_nat (nat n))"

definition digit_value :: "char \<Rightarrow> nat option" where
  "digit_value c = (let n = of_char c :: nat in if 48 \<le> n \<and> n \<le> 57 then Some (n - 48) else None)"

fun digits_value :: "nat \<Rightarrow> string \<Rightarrow> nat option" where
  "digits_value acc [] = Some acc"
| "digits_value acc (c # cs) =
     (case digit_value c of None \<Rightarrow> None | Some d \<Rightarrow> digits_value (acc * 10 + d) cs)"

definition unsigned :: "string \<Rightarrow> nat option" where
  "unsigned s = (if s = '''' then None else digits_value 0 s)"

definition signed_range :: "nat option \<Rightarrow> int \<Rightarrow> int option" where
  "signed_range v sign =
     (case v of
        None \<Rightarrow> None
      | Some n \<Rightarrow> if sign * int n > max_int64 \<or> sign * int n < - max_int64 - 1 then None else Some (sign * int n))"

definition Atoi :: "string \<Rightarrow> int option" where
  "Atoi s =
     (if s \<noteq> [] \<and> hd s = CHR ''-'' then signed_range (unsigned (tl s)) (- 1)
      else if s \<noteq> [] \<and> hd s = CHR ''+'' then signed_range (unsigned (tl s)) 1
      else signed_range (unsigned s) 1)"

section \<open>Tokens\<close>

definition token_prefix :: string where "token_prefix = ''offset:''"

definition Encode :: "int \<Rightarrow> string svc_result" where
  "Encode offset =
     (if offset < 0 then Inl ErrOther
      else if offset = 0 then Inr ''''
      else Inr (EncodeToString (token_prefix @ Itoa offset)))"

definition Decode :: "string \<Rightarrow> int svc_result" where
  "Decode token =
     (if TrimSpace token = '''' then Inr 0
      else case DecodeString token of
             None \<Rightarrow> Inl ErrInvalidArgument
           | Some raw \<Rightarrow>
               if take (length token_prefix) raw \<noteq> token_prefix then Inl ErrInvalidArgument
               else (case Atoi (drop (length token_prefix) raw) of
                       None \<Rightarrow> Inl ErrInvalidArgument
                     | Some offset \<Rightarrow> if offset < 0 then Inl ErrInvalidArgument else Inr offset))"

text \<open>The page trailer: the total as an \<open>int32\<close> and the token of the next page, if any.\<close>

record list_page =
  lp_TotalSize :: int
  lp_NextPageToken :: string

definition buildListPage :: "int \<Rightarrow> int \<Rightarrow> int \<Rightarrow> list_page svc_result" where
  "buildListPage offset returned totalCount =
     (let page = \<lparr> lp_TotalSize = wrap32 totalCount, lp_NextPageToken = '''' \<rparr>;
          nextStart = wrap64 (offset + returned)
      in if returned > 0 \<and> nextStart < totalCount
         then (case Encode nextStart of Inl e \<Rightarrow> Inl e | Inr token \<Rightarrow> Inr (page\<lparr> lp_NextPageToken := token \<rparr>))
         else Inr page)"

section \<open>The list handlers\<close>

definition defaultListPageSize :: int where "defaultListPageSize = 10"

definition finish_page :: "int \<Rightarrow> 'a list \<Rightarrow> int \<Rightarrow> ('a list \<times> list_page) grpc_result" where
  "finish_page offset items totalCount =
     (case buildListPage offset (int (length items)) totalCount of
        Inl e \<Rightarrow> Inl (grpc_failure e)
      | Inr page \<Rightarrow> Inr (items, page))"

definition grpc_ListUserSessions ::
  "string \<Rightarrow> int \<Rightarrow> string \<Rightarrow> string \<Rightarrow> sessions_state \<Rightarrow> sessions_state \<times> (proto_session list \<times> list_page) grpc_result" where
  "grpc_ListUserSessions userId pageSize filt pageToken sx =
     (sx, case Decode pageToken of
            Inl e \<Rightarrow> Inl (grpc_failure e)
          | Inr offset \<Rightarrow>
              (case ListUserSessions userId pageSize offset filt sx of
                 (sessions, totalCount) \<Rightarrow>
                   finish_page offset (map convertPublicSessionToProto sessions) totalCount))"

definition grpc_ListAuditEvents ::
  "json_encoder \<Rightarrow> string \<Rightarrow> string \<Rightarrow> string \<Rightarrow> int \<Rightarrow> string \<Rightarrow> sessions_state
     \<Rightarrow> sessions_state \<times> (proto_audit_event list \<times> list_page) grpc_result" where
  "grpc_ListAuditEvents marshal sessionId actorKeyId event pageSize0 pageToken sx =
     (sx, case Decode pageToken of
            Inl e \<Rightarrow> Inl (grpc_failure e)
          | Inr offset \<Rightarrow>
              (let pageSize = (if pageSize0 \<le> 0 \<or> pageSize0 > defaultListPageSize * 10 then defaultListPageSize else pageSize0)
               in case ListAuditEvents \<lparr> f_SessionID = sessionId, f_ActorKeyID = actorKeyId, f_Event = event,
                                        f_Limit = pageSize, f_Offset = offset \<rparr> sx of
                    (events, totalCount) \<Rightarrow> finish_page offset (map (convertModelAuditEventToProto marshal) events) totalCount))"

definition grpc_ListRequests ::
  "json_encoder \<Rightarrow> string \<Rightarrow> proto_request_status \<Rightarrow> string \<Rightarrow> int \<Rightarrow> string \<Rightarrow> server
     \<Rightarrow> server \<times> (proto_request list \<times> list_page) grpc_result" where
  "grpc_ListRequests marshal sessionId status toolName pageSize0 pageToken sv =
     (case Decode pageToken of
        Inl e \<Rightarrow> (sv, Inl (grpc_failure e))
      | Inr offset \<Rightarrow>
          (let pageSize = (if pageSize0 \<le> 0 then defaultListPageSize else pageSize0)
           in case ListRequests sessionId (requestStatusFromProto status) toolName pageSize offset sv of
                (sv1, requests, totalCount) \<Rightarrow>
                  (sv1, finish_page offset (map (convertModelRequestToProto marshal) requests) totalCount)))"

section \<open>Round trips\<close>

lemma b64_char_value: "n < 64 \<Longrightarrow> b64_value (b64_char n) = Some n"
proof -
  have "list_all (\<lambda>n. b64_value (b64_char n) = Some n) [0..<64]" by code_simp
  then show "n < 64 \<Longrightarrow> b64_value (b64_char n) = Some n" by (auto simp: list_all_iff)
qed

lemma b64_char_plain: "n < 64 \<Longrightarrow> b64_char n \<noteq> CHR 0x0A \<and> b64_char n \<noteq> CHR 0x0D \<and> \<not> is_space (b64_char n)"
proof -
  have "list_all (\<lambda>n. b64_char n \<noteq> CHR 0x0A \<and> b64_char n \<noteq> CHR 0x0D \<and> \<not> is_space (b64_char n)) [0..<64]" by code_simp
  then show "n < 64 \<Longrightarrow> b64_char n \<noteq> CHR 0x0A \<and> b64_char n \<noteq> CHR 0x0D \<and> \<not> is_space (b64_char n)"
    by (auto simp: list_all_iff)
qed

lemma quotients: "b < 256 \<Longrightarrow> b div 4 < 64" "b < 256 \<Longrightarrow> b div 16 < 16" "b < 256 \<Longrightarrow> b div 64 < 4" for b :: nat
  by (simp_all add: less_mult_imp_div_less)

lemma join16: "q < 16 \<Longrightarrow> (x * 16 + q) div 16 = x" "q < 16 \<Longrightarrow> (x * 16 + q) mod 16 = q" for x q :: nat
  by simp_all

lemma join4: "q < 4 \<Longrightarrow> (x * 4 + q) div 4 = x" "q < 4 \<Longrightarrow> (x * 4 + q) mod 4 = q" for x q :: nat
  by simp_all

lemma bounded16: "x < 4 \<Longrightarrow> q < 16 \<Longrightarrow> x * 16 + q < 64" for x q :: nat by simp

lemma bounded4: "x < 16 \<Longrightarrow> q < 4 \<Longrightarrow> x * 4 + q < 64" for x q :: nat by simp

lemma sixbit:
  assumes "a < 256" "b < 256" "c < (256 :: nat)"
  shows "a div 4 < 64" "a mod 4 * 16 + b div 16 < 64" "b mod 16 * 4 + c div 64 < 64" "c mod 64 < 64"
    "a mod 4 * 16 < 64" "b mod 16 * 4 < 64"
  using assms by (simp_all add: quotients bounded16 bounded4 bounded16 [of _ 0, simplified] bounded4 [of _ 0, simplified])

lemma regroup:
  assumes "a < 256" "b < 256" "c < (256 :: nat)"
  shows "a div 4 * 4 + (a mod 4 * 16 + b div 16) div 16 = a"
    "(a mod 4 * 16 + b div 16) mod 16 * 16 + (b mod 16 * 4 + c div 64) div 4 = b"
    "(b mod 16 * 4 + c div 64) mod 4 * 64 + c mod 64 = c"
    "a div 4 * 4 + a mod 4 * 16 div 16 = a"
    "(a mod 4 * 16 + b div 16) mod 16 * 16 + b mod 16 * 4 div 4 = b"
  using quotients(2) [OF assms(2)] quotients(3) [OF assms(3)] by (simp_all add: join16 join4)

lemma values_encode:
  "list_all (\<lambda>b. b < 256) bs \<Longrightarrow> \<exists>vs. b64_values (b64_encode bs) = Some vs \<and> b64_bytes vs = Some bs"
proof (induction bs rule: b64_encode.induct)
  case (1 a b c rest)
  then show ?case using sixbit [of a b c] regroup [of a b c] by (auto simp: b64_char_value)
next
  case (2 a b)
  then show ?case using sixbit [of a b 0] regroup [of a b 0] by (simp add: b64_char_value)
next
  case (3 a)
  then show ?case using sixbit [of a 0 0] regroup [of a 0 0] by (simp add: b64_char_value)
qed simp

lemma encode_plain:
  "list_all (\<lambda>b. b < 256) bs \<Longrightarrow>
     list_all (\<lambda>c. c \<noteq> CHR 0x0A \<and> c \<noteq> CHR 0x0D \<and> \<not> is_space c) (b64_encode bs)"
proof (induction bs rule: b64_encode.induct)
  case (1 a b c rest)
  then show ?case using sixbit [of a b c] by (simp add: b64_char_plain)
next
  case (2 a b)
  then show ?case using sixbit [of a b 0] by (simp add: b64_char_plain)
next
  case (3 a)
  then show ?case using sixbit [of a 0 0] by (simp add: b64_char_plain)
qed simp

lemma bytes_of_string: "list_all (\<lambda>b. b < 256) (map (of_char :: char \<Rightarrow> nat) s)"
  by (simp add: list_all_iff nat_of_char_less_256)

lemma decode_encode: "DecodeString (EncodeToString s) = Some s"
proof -
  have "filter (\<lambda>c. c \<noteq> CHR 0x0A \<and> c \<noteq> CHR 0x0D) (EncodeToString s) = EncodeToString s"
    using encode_plain [OF bytes_of_string, of s] by (auto simp: EncodeToString_def list_all_iff filter_id_conv)
  moreover obtain vs where "b64_values (EncodeToString s) = Some vs" "b64_bytes vs = Some (map of_char s)"
    using values_encode [OF bytes_of_string, of s] by (auto simp: EncodeToString_def)
  ultimately show ?thesis by (simp add: DecodeString_def o_def)
qed

lemma digit_code: "n < 10 \<Longrightarrow> digit_value (digit n) = Some n"
  by (simp add: digit_value_def digit_def Let_def)

lemma digits_append:
  "digits_value acc (xs @ ys) = (case digits_value acc xs of None \<Rightarrow> None | Some v \<Rightarrow> digits_value v ys)"
  by (induction acc xs rule: digits_value.induct) (auto split: option.split)

lemma digits_itoa: "\<exists>k. digits_value acc (itoa_nat n) = Some (acc * 10 ^ k + n)"
proof (induction n arbitrary: acc rule: itoa_nat.induct)
  case (1 n)
  show ?case
  proof (cases "n < 10")
    case True
    then have "digits_value acc (itoa_nat n) = Some (acc * 10 ^ 1 + n)"
      by (simp add: itoa_nat.simps [of n] digit_code)
    then show ?thesis by blast
  next
    case False
    then obtain k where "digits_value acc (itoa_nat (n div 10)) = Some (acc * 10 ^ k + n div 10)" using 1 by blast
    with False have "digits_value acc (itoa_nat n) = Some ((acc * 10 ^ k + n div 10) * 10 + n mod 10)"
      by (simp add: itoa_nat.simps [of n] digits_append digit_code)
    also have "(acc * 10 ^ k + n div 10) * 10 + n mod 10 = acc * 10 ^ Suc k + n" by (simp add: algebra_simps)
    finally show ?thesis by blast
  qed
qed

lemma itoa_head: "\<exists>d ds. itoa_nat n = digit d # ds \<and> d < 10"
proof (induction n rule: itoa_nat.induct)
  case (1 n)
  then show ?case by (cases "n < 10") (auto simp: itoa_nat.simps [of n])
qed

lemma digit_not_sign: "d < 10 \<Longrightarrow> digit d \<noteq> CHR ''-'' \<and> digit d \<noteq> CHR ''+''"
proof -
  have "list_all (\<lambda>d. digit d \<noteq> CHR ''-'' \<and> digit d \<noteq> CHR ''+'') [0..<10]" by code_simp
  then show "d < 10 \<Longrightarrow> digit d \<noteq> CHR ''-'' \<and> digit d \<noteq> CHR ''+''" by (auto simp: list_all_iff)
qed

lemma atoi_itoa:
  assumes "0 \<le> n" and "n \<le> max_int64"
  shows "Atoi (Itoa n) = Some n"
proof -
  obtain d ds where d: "itoa_nat (nat n) = digit d # ds" "d < 10" using itoa_head by blast
  have "unsigned (itoa_nat (nat n)) = Some (nat n)"
    using digits_itoa [of 0 "nat n"] d by (simp add: unsigned_def)
  with assms d digit_not_sign [OF d(2)] show ?thesis
    by (simp add: Atoi_def Itoa_def signed_range_def)
qed

lemma token_decodes:
  assumes "0 < offset" and "offset \<le> max_int64"
  shows "Decode (EncodeToString (token_prefix @ Itoa offset)) = Inr offset"
proof -
  let ?t = "EncodeToString (token_prefix @ Itoa offset)"
  have "?t \<noteq> []" by (simp add: EncodeToString_def token_prefix_def)
  then have "TrimSpace ?t \<noteq> ''''"
    using encode_plain [OF bytes_of_string, of "token_prefix @ Itoa offset"] hd_in_set [of ?t]
    by (auto simp: trim_ends EncodeToString_def list_all_iff simp del: hd_in_set)
  with assms atoi_itoa [of offset] show ?thesis by (simp add: Decode_def decode_encode)
qed

lemma decode_empty: "Decode '''' = Inr 0"
  by (simp add: Decode_def TrimSpace_def)

lemma decode_range: "Decode token = Inr n \<Longrightarrow> 0 \<le> n \<and> n \<le> max_int64"
  by (auto simp: Decode_def Atoi_def signed_range_def split: option.splits if_splits)

lemma decode_error: "Decode token = Inl e \<Longrightarrow> e = ErrInvalidArgument"
  by (auto simp: Decode_def split: option.splits if_splits)

text \<open>C29: Page tokens round-trip.  Encoding an offset that fits the machine integer and decoding
  the token gives the offset back; a negative offset has no token; and a decoded token is
  never negative.\<close>

theorem page_token_round_trip:
  "(if offset < 0 then Encode offset = Inl ErrOther
    else if offset \<le> max_int64 then (case Encode offset of Inl e \<Rightarrow> False | Inr token \<Rightarrow> Decode token = Inr offset)
    else True)
   \<and> (case Decode token of Inl e \<Rightarrow> e = ErrInvalidArgument | Inr n \<Rightarrow> 0 \<le> n \<and> n \<le> max_int64)"
proof -
  have "Decode (EncodeToString (token_prefix @ Itoa offset)) = Inr offset" if "0 < offset" "offset \<le> max_int64"
    using that by (rule token_decodes)
  then show ?thesis
    using decode_empty decode_range [of token] decode_error [of token] by (auto simp: Encode_def split: sum.split)
qed

section \<open>Walking the pages\<close>

text \<open>A client that follows the page tokens, until it gets none.\<close>

fun walk :: "(string \<Rightarrow> 's \<Rightarrow> 's \<times> ('b list \<times> list_page) grpc_result) \<Rightarrow> nat \<Rightarrow> string \<Rightarrow> 's \<Rightarrow> 's \<times> 'b list option" where
  "walk fetch 0 token s = (s, None)"
| "walk fetch (Suc n) token s =
     (case fetch token s of
        (s1, Inl e) \<Rightarrow> (s1, None)
      | (s1, Inr (items, page)) \<Rightarrow>
          if lp_NextPageToken page = '''' then (s1, Some items)
          else (case walk fetch n (lp_NextPageToken page) s1 of (s2, r) \<Rightarrow> (s2, map_option (\<lambda>rest. items @ rest) r)))"

text \<open>
  The contract of a paged listing: as long as the listed sequence stays the same, the handler
  answers a token with the slice it addresses and the trailer for that slice.
\<close>

locale paged_listing =
  fixes fetch :: "string \<Rightarrow> 's \<Rightarrow> 's \<times> ('b list \<times> list_page) grpc_result"
    and stable :: "'s \<Rightarrow> bool" and items :: "'b list" and size :: nat
  assumes size: "0 < size"
    and fetch: "stable s \<Longrightarrow> Decode token = Inr off \<Longrightarrow>
      \<exists>s'. stable s' \<and> fetch token s = (s', finish_page off (take size (drop (nat off) items)) (int (length items)))"
begin

lemma walk_from:
  assumes "stable s" and "Decode token = Inr off" and "0 \<le> off"
    and "int (length items) \<le> max_int64" and "length items - nat off < n"
  shows "snd (walk fetch n token s) = Some (drop (nat off) items)"
  using assms
proof (induction n arbitrary: token off s)
  case (Suc n)
  let ?here = "take size (drop (nat off) items)" and ?nxt = "off + int (length (take size (drop (nat off) items)))"
  obtain s' where s': "stable s'" "fetch token s = (s', finish_page off ?here (int (length items)))"
    using fetch [OF Suc.prems(1,2)] by blast
  show ?case
  proof (cases "?here \<noteq> [] \<and> ?nxt < int (length items)")
    case True
    then have w: "wrap64 ?nxt = ?nxt" and pos: "0 < ?nxt" and le: "?nxt \<le> max_int64"
      using Suc.prems(3,4) by (auto intro!: wrap64_id)
    have nxt: "nat ?nxt = nat off + size" using True Suc.prems(3) by (auto simp: min_def split: if_splits)
    define t where "t = EncodeToString (token_prefix @ Itoa ?nxt)"
    have "Encode ?nxt = Inr t" using pos by (simp add: Encode_def t_def)
    then have t: "Decode t = Inr ?nxt" "t \<noteq> ''''"
      using token_decodes [OF pos le] by (auto simp: t_def EncodeToString_def token_prefix_def)
    have "finish_page off ?here (int (length items))
            = Inr (?here, \<lparr> lp_TotalSize = wrap32 (int (length items)), lp_NextPageToken = t \<rparr>)"
      using True w \<open>Encode ?nxt = Inr t\<close> by (simp add: finish_page_def buildListPage_def Let_def)
    moreover have "snd (walk fetch n t s') = Some (drop (nat ?nxt) items)"
      using size nxt Suc.prems(3,4,5) True by (intro Suc.IH [OF s'(1) t(1)]) auto
    moreover have "?here @ drop (nat ?nxt) items = drop (nat off) items"
      unfolding nxt by (metis add.commute append_take_drop_id drop_drop)
    ultimately show ?thesis using s'(2) t(2) by (simp add: split_beta)
  next
    case False
    then have "drop (nat off) items = ?here" using size Suc.prems(3) by (auto simp: take_all_iff)
    moreover have "finish_page off ?here (int (length items))
            = Inr (?here, \<lparr> lp_TotalSize = wrap32 (int (length items)), lp_NextPageToken = '''' \<rparr>)"
    proof (cases "?here = []")
      case True
      then have "\<not> 0 < int (length ?here)" by (simp del: length_take length_drop)
      then show ?thesis by (simp add: finish_page_def buildListPage_def Let_def del: length_take length_drop)
    next
      case here: False
      then have "?nxt \<le> int (length items)" using Suc.prems(3) by auto
      then have "wrap64 ?nxt = ?nxt" using Suc.prems(3,4) by (intro wrap64_id) auto
      with False here show ?thesis by (simp add: finish_page_def buildListPage_def Let_def)
    qed
    ultimately show ?thesis using s'(2) by simp
  qed
qed simp

lemma walk_all:
  assumes "stable s" and "int (length items) \<le> max_int64" and "length items < n"
  shows "snd (walk fetch n '''' s) = Some items"
  using walk_from [of s "''''" 0 n] assms by (simp add: decode_empty)

end

section \<open>The three paged listings\<close>

definition user_sessions :: "string \<Rightarrow> string \<Rightarrow> sessions_state \<Rightarrow> session list" where
  "user_sessions userId filt sx = fst (ListUserSessions userId (snd (ListUserSessions userId 0 0 filt sx) + 1) 0 filt sx)"

definition page_size :: "int \<Rightarrow> nat" where
  "page_size n = nat (if n \<le> 0 then 10 else n)"

lemma page_size_pos: "0 < page_size n"
  by (simp add: page_size_def)

lemma user_sessions_page:
  "ListUserSessions userId n off filt sx
     = (take (page_size n) (drop (nat off) (user_sessions userId filt sx)), int (length (user_sessions userId filt sx)))"
  by (simp add: user_sessions_def ListUserSessions_def Let_def page_of_eq page_size_def)

interpretation user_session_pages:
  paged_listing "grpc_ListUserSessions userId n filt" "(=) sx"
    "map convertPublicSessionToProto (user_sessions userId filt sx)" "page_size n"
  for userId n filt sx
  by unfold_locales
    (auto simp: page_size_pos grpc_ListUserSessions_def user_sessions_page take_map drop_map)

definition audit_page_size :: "int \<Rightarrow> nat" where
  "audit_page_size n = (if n > 100 then 10 else page_size n)"

definition audit_rows :: "string \<Rightarrow> string \<Rightarrow> string \<Rightarrow> sessions_state \<Rightarrow> audit_event list" where
  "audit_rows sessionId actorKeyId event sx =
     rev (filter (audit_matches \<lparr> f_SessionID = sessionId, f_ActorKeyID = actorKeyId, f_Event = event,
                                  f_Limit = 0, f_Offset = 0 \<rparr>) (st_auditLog (sx_store sx)))"

lemma audit_rows_page:
  "ListAuditEvents \<lparr> f_SessionID = sessionId, f_ActorKeyID = actorKeyId, f_Event = event, f_Limit = k, f_Offset = off \<rparr> sx
     = (take (nat (if k \<le> 0 then 50 else k)) (drop (nat off) (audit_rows sessionId actorKeyId event sx)),
        int (length (audit_rows sessionId actorKeyId event sx)))"
proof -
  have "audit_matches \<lparr> f_SessionID = sessionId, f_ActorKeyID = actorKeyId, f_Event = event, f_Limit = k, f_Offset = off \<rparr>
      = audit_matches \<lparr> f_SessionID = sessionId, f_ActorKeyID = actorKeyId, f_Event = event, f_Limit = 0, f_Offset = 0 \<rparr>"
    by (rule ext) (simp add: audit_matches_def)
  then show ?thesis by (simp add: ListAuditEvents_def audit_listing_is_page audit_rows_def)
qed

interpretation audit_pages:
  paged_listing "grpc_ListAuditEvents marshal sessionId actorKeyId event n" "(=) sx"
    "map (convertModelAuditEventToProto marshal) (audit_rows sessionId actorKeyId event sx)" "audit_page_size n"
  for marshal sessionId actorKeyId event n sx
  by unfold_locales
    (auto simp: page_size_pos page_size_def audit_page_size_def defaultListPageSize_def
       grpc_ListAuditEvents_def audit_rows_page take_map drop_map)

text \<open>Mirroring the rows of a session again changes nothing.\<close>

lemma gm_put_twice: "gm_put k v (gm_put k w m) = gm_put k v m"
  by (simp add: gm_put_def update_last)

lemma gm_put_same: "gm_get m k = Some v \<Longrightarrow> gm_put k v m = m"
  by (simp add: gm_put_def gm_get_def update_triv)

lemma gm_put_swap:
  "k \<noteq> k' \<Longrightarrow> k' \<in> fst ` set m \<Longrightarrow> gm_put k v (gm_put k' v' m) = gm_put k' v' (gm_put k v m)"
  by (induction m) (auto simp: gm_put_def)

abbreviation put_rows :: "request list \<Rightarrow> request gomap \<Rightarrow> request gomap" where
  "put_rows rs m \<equiv> fold (\<lambda>r. gm_put (r_ID r) r) rs m"

lemma keys_put: "fst ` set (gm_put k v m) = insert k (fst ` set m)"
  by (simp add: gm_put_def dom_update)

lemma put_rows_keys: "fst ` set (put_rows rs m) = r_ID ` set rs \<union> fst ` set m"
  by (induction rs arbitrary: m) (simp_all add: keys_put)

lemma put_rows_absorb:
  "r_ID ` set rs \<subseteq> fst ` set m \<Longrightarrow> gm_put k v (put_rows rs (gm_put k w m)) = gm_put k v (put_rows rs m)"
proof (induction rs arbitrary: m)
  case (Cons r rs)
  then have sub: "r_ID ` set rs \<subseteq> fst ` set (gm_put (r_ID r) r m)" by (auto simp: keys_put)
  show ?case
  proof (cases "r_ID r = k")
    case True
    then show ?thesis by (simp add: gm_put_twice)
  next
    case False
    then have "gm_put (r_ID r) r (gm_put k w m) = gm_put k w (gm_put (r_ID r) r m)"
      using Cons.prems gm_put_swap [of k "r_ID r" m w r] by simp
    then show ?thesis using Cons.IH [OF sub] by simp
  qed
qed (simp add: gm_put_twice)

lemma put_rows_idem: "put_rows rs (put_rows rs m) = put_rows rs m"
proof (induction rs rule: rev_induct)
  case (snoc r rs)
  then show ?case using put_rows_absorb [of rs "put_rows rs m" "r_ID r" r r] by (simp add: put_rows_keys)
qed simp

definition mirror_session :: "string \<Rightarrow> server \<Rightarrow> server" where
  "mirror_session sessionID sv = fst (ListRequests sessionID None '''' 0 0 sv)"

lemma gm_inner_put [simp]: "gm_inner (gm_put s x m) s = x"
  by (simp add: gm_inner_def)

lemma cache_rows:
  "gm_get (sv_requests sv) s = Some inner \<Longrightarrow>
     fold (\<lambda>r. cache_put s (r_ID r) r) rs sv = sv\<lparr> sv_requests := gm_put s (put_rows rs inner) (sv_requests sv) \<rparr>"
proof (induction rs arbitrary: sv inner)
  case Nil
  then show ?case by (simp add: gm_put_same)
next
  case (Cons r rs)
  then have "cache_put s (r_ID r) r sv = sv\<lparr> sv_requests := gm_put s (gm_put (r_ID r) r inner) (sv_requests sv) \<rparr>"
    by (simp add: cache_put_def gm_put2_def gm_inner_def)
  then show ?case using Cons.IH [of "cache_put s (r_ID r) r sv" "gm_put (r_ID r) r inner"] by (simp add: gm_put_twice)
qed

lemma ensured: "gm_get (gm_ensure s [] m) s = Some (gm_inner m s)"
  by (simp add: gm_ensure_def gm_inner_def split: option.split)

lemma mirror_session_eq:
  "mirror_session s sv = sv\<lparr> sv_requests := gm_put s (put_rows (mem_ListRequestsBySession s (sv_store sv)) (gm_inner (sv_requests sv) s))
      (gm_ensure s [] (sv_requests sv)) \<rparr>"
  using cache_rows [of "sv\<lparr> sv_requests := gm_ensure s [] (sv_requests sv) \<rparr>" s "gm_inner (sv_requests sv) s"]
  by (simp add: mirror_session_def ListRequests_def Let_def ensured)

lemma mirror_session_idem: "mirror_session s (mirror_session s sv) = mirror_session s sv"
  by (simp add: mirror_session_eq gm_ensure_def put_rows_idem gm_put_same gm_put_twice)

definition request_rows :: "string \<Rightarrow> request_status option \<Rightarrow> string \<Rightarrow> server \<Rightarrow> request list" where
  "request_rows sessionID status toolName sv =
     sort_slice list_less
       (filter (\<lambda>r. (status = None \<or> status = Some (r_Status r)) \<and> (toolName = '''' \<or> r_ToolName r = toolName))
          (gm_vals (gm_inner (sv_requests (mirror_session sessionID sv)) sessionID)))"

lemma ListRequests_page:
  "ListRequests s st tool n off sv =
     (mirror_session s sv, take (page_size n) (drop (nat off) (request_rows s st tool sv)), int (length (request_rows s st tool sv)))"
  by (simp add: mirror_session_def request_rows_def ListRequests_def Let_def page_of_eq page_size_def)

interpretation request_pages:
  paged_listing "grpc_ListRequests marshal s status tool n"
    "\<lambda>sv. request_rows s (requestStatusFromProto status) tool sv = rows"
    "map (convertModelRequestToProto marshal) rows" "page_size n"
  for marshal s status tool n rows
proof
  show "0 < page_size n" by (rule page_size_pos)
next
  fix sv token off
  assume rows: "request_rows s (requestStatusFromProto status) tool sv = rows" and "Decode token = Inr off"
  then have "grpc_ListRequests marshal s status tool n token sv = (mirror_session s sv,
      finish_page off (take (page_size n) (drop (nat off) (map (convertModelRequestToProto marshal) rows)))
        (int (length (map (convertModelRequestToProto marshal) rows))))"
    by (simp add: grpc_ListRequests_def ListRequests_page page_size_def defaultListPageSize_def take_map drop_map)
  moreover have "request_rows s (requestStatusFromProto status) tool (mirror_session s sv) = rows"
    using rows by (simp add: request_rows_def mirror_session_idem)
  ultimately show "\<exists>sv'. request_rows s (requestStatusFromProto status) tool sv' = rows
      \<and> grpc_ListRequests marshal s status tool n token sv = (sv',
      finish_page off (take (page_size n) (drop (nat off) (map (convertModelRequestToProto marshal) rows)))
        (int (length (map (convertModelRequestToProto marshal) rows))))" by blast
qed

text \<open>C24: Walking a listing.  A client that starts without a token and follows the tokens it is given
  stops, and has then received the whole listing, each item once and in order, whatever page
  size it asked for: for requests the session's mirrored requests that match the filters,
  sorted by creation time and id; for sessions and audit events the filtered sequence the
  service pages through.  This is for a listing that does not change during the walk; as
  many fetches as the listing has items, plus one, are always enough.\<close>

theorem page_walk_is_complete:
  assumes "length (request_rows s (requestStatusFromProto status) tool sv) < n"
    and "length (user_sessions userId filt sx) < n" and "length (audit_rows s actor event sx) < n"
    and "int n \<le> max_int64"
  shows "snd (walk (grpc_ListRequests marshal s status tool k) n '''' sv)
      = Some (map (convertModelRequestToProto marshal) (request_rows s (requestStatusFromProto status) tool sv))
    \<and> sorted_wrt (\<lambda>a b. \<not> list_less b a) (request_rows s (requestStatusFromProto status) tool sv)
    \<and> mset (request_rows s (requestStatusFromProto status) tool sv)
      = mset (filter (\<lambda>r. (requestStatusFromProto status = None \<or> requestStatusFromProto status = Some (r_Status r))
                \<and> (tool = '''' \<or> r_ToolName r = tool))
          (gm_vals (gm_inner (sv_requests (mirror_session s sv)) s)))
    \<and> snd (walk (grpc_ListUserSessions userId k filt) n '''' sx)
      = Some (map convertPublicSessionToProto (user_sessions userId filt sx))
    \<and> snd (walk (grpc_ListAuditEvents marshal s actor event k) n '''' sx)
      = Some (map (convertModelAuditEventToProto marshal) (audit_rows s actor event sx))"
proof (intro conjI)
  show "snd (walk (grpc_ListRequests marshal s status tool k) n '''' sv)
      = Some (map (convertModelRequestToProto marshal) (request_rows s (requestStatusFromProto status) tool sv))"
    using assms by (intro request_pages.walk_all) auto
  show "snd (walk (grpc_ListUserSessions userId k filt) n '''' sx)
      = Some (map convertPublicSessionToProto (user_sessions userId filt sx))"
    using assms by (intro user_session_pages.walk_all) auto
  show "snd (walk (grpc_ListAuditEvents marshal s actor event k) n '''' sx)
      = Some (map (convertModelAuditEventToProto marshal) (audit_rows s actor event sx))"
    using assms by (intro audit_pages.walk_all) auto
qed (simp_all add: request_rows_def requests_by_age.sort_slice_sorted requests_by_age.sort_slice_perm)

definition demo_listed :: server where
  "demo_listed = demo_server (mem_New\<lparr> st_requests :=
     [(''r2'', NewRequest ''r2'' 2000 ''s1'' ''echo'' ''y''), (''r1'', NewRequest ''r1'' 1000 ''s1'' ''echo'' ''x'')] \<rparr>)"

theorem page_walk_is_complete_witness:
  "map_option (map pr_Id) (snd (walk (grpc_ListRequests (\<lambda>v. None) ''s1'' REQUEST_STATUS_PENDING '''' 1) 3 '''' demo_listed))
     = Some [''r1'', ''r2'']"
proof -
  have ids: "map r_ID (request_rows ''s1'' (requestStatusFromProto REQUEST_STATUS_PENDING) '''' demo_listed) = [''r1'', ''r2'']"
    by code_simp
  have len: "length (request_rows ''s1'' (requestStatusFromProto REQUEST_STATUS_PENDING) '''' demo_listed) = 2"
    using arg_cong [OF ids, of length] by simp
  have "length (user_sessions ''alice'' '''' demo_sessions) < 3" "length (audit_rows ''s1'' '''' '''' demo_sessions) < 3"
    by code_simp+
  with len have "snd (walk (grpc_ListRequests (\<lambda>v. None) ''s1'' REQUEST_STATUS_PENDING '''' 1) 3 '''' demo_listed)
      = Some (map (convertModelRequestToProto (\<lambda>v. None))
          (request_rows ''s1'' (requestStatusFromProto REQUEST_STATUS_PENDING) '''' demo_listed))"
    using page_walk_is_complete [of "''s1''" REQUEST_STATUS_PENDING "''''" demo_listed 3 "''alice''" "''''" demo_sessions "''''" "''''" "\<lambda>v. None" 1]
    by simp
  with ids show ?thesis by (simp add: o_def convertModelRequestToProto_def)
qed

end
