(* ===== verification/Task_Service.thy ===== *)
theory Task_Service
  imports Service_Requests Proto_Convert Registry_Theorems
begin

text \<open>
  \<open>pkg/service/task.go\<close> on a store-backed replica.  The state is the server below (store, request
  cache, registry) with this replica's task cache and its table of running executions.  A
  cached task is the object the execution loop works on, so every step of the loop reads and
  writes the cache entry.  The loop of \<open>executeTask\<close> makes one attempt when a store is
  configured; its locked sections are separate steps, because cancellations, renewals and
  other replicas act between them.  Error texts are the argument \<open>msg\<close>; trace events are not
  modelled.
\<close>

record task_execution =
  x_requestID :: string
  x_cancelled :: bool
  x_leaseLost :: bool

record tasks_state =
  tv_server :: server
  tv_tasks :: "task gomap"
  tv_executions :: "task_execution gomap"
  tv_instanceID :: string

datatype attempt_error = ErrTaskCancelled | ErrTaskTimedOut | ErrTaskRequestCancelled | AttemptError domain_error

definition taskAdoptionSweepBatch :: int where "taskAdoptionSweepBatch = 32"
definition taskRetentionAge :: duration where "taskRetentionAge = 24 * 3600 * Second"

definition tv_store :: "tasks_state \<Rightarrow> store" where
  "tv_store tv = sv_store (tv_server tv)"

definition set_task_store :: "store \<Rightarrow> tasks_state \<Rightarrow> tasks_state" where
  "set_task_store st tv = tv\<lparr> tv_server := (tv_server tv)\<lparr> sv_store := st \<rparr> \<rparr>"

definition cache_task :: "task \<Rightarrow> tasks_state \<Rightarrow> tasks_state" where
  "cache_task t tv = tv\<lparr> tv_tasks := gm_put (tk_ID t) t (tv_tasks tv) \<rparr>"

definition persistTask :: "task \<Rightarrow> tasks_state \<Rightarrow> tasks_state" where
  "persistTask t tv = set_task_store (mem_SaveTask t (tv_store tv)) tv"

text \<open>A locked write to the task object, then the write-through.\<close>

definition put_persist :: "task \<Rightarrow> tasks_state \<Rightarrow> tasks_state" where
  "put_persist t tv = persistTask t (cache_task t tv)"

section \<open>The execution table\<close>

definition setTaskExecution :: "string \<Rightarrow> tasks_state \<Rightarrow> tasks_state" where
  "setTaskExecution taskID tv =
     tv\<lparr> tv_executions := gm_put taskID \<lparr> x_requestID = '''', x_cancelled = False, x_leaseLost = False \<rparr> (tv_executions tv) \<rparr>"

definition setTaskRequestID :: "string \<Rightarrow> string \<Rightarrow> tasks_state \<Rightarrow> tasks_state" where
  "setTaskRequestID taskID requestID tv =
     (case gm_get (tv_executions tv) taskID of
        None \<Rightarrow> tv
      | Some x \<Rightarrow> tv\<lparr> tv_executions := gm_put taskID (x\<lparr> x_requestID := requestID \<rparr>) (tv_executions tv) \<rparr>)"

definition CurrentRequestID :: "string \<Rightarrow> tasks_state \<Rightarrow> string" where
  "CurrentRequestID taskID tv =
     (case gm_get (tv_executions tv) taskID of None \<Rightarrow> '''' | Some x \<Rightarrow> x_requestID x)"

definition clearTaskExecution :: "string \<Rightarrow> tasks_state \<Rightarrow> tasks_state" where
  "clearTaskExecution taskID tv = tv\<lparr> tv_executions := gm_del taskID (tv_executions tv) \<rparr>"

definition cancel_execution :: "bool \<Rightarrow> string \<Rightarrow> tasks_state \<Rightarrow> tasks_state" where
  "cancel_execution lost taskID tv =
     (case gm_get (tv_executions tv) taskID of
        None \<Rightarrow> tv
      | Some x \<Rightarrow> tv\<lparr> tv_executions :=
          gm_put taskID (x\<lparr> x_cancelled := True, x_leaseLost := x_leaseLost x \<or> lost \<rparr>) (tv_executions tv) \<rparr>)"

definition ctx_done :: "string \<Rightarrow> tasks_state \<Rightarrow> bool" where
  "ctx_done taskID tv \<longleftrightarrow> (case gm_get (tv_executions tv) taskID of None \<Rightarrow> False | Some x \<Rightarrow> x_cancelled x)"

definition lease_lost :: "string \<Rightarrow> tasks_state \<Rightarrow> bool" where
  "lease_lost taskID tv \<longleftrightarrow> (case gm_get (tv_executions tv) taskID of None \<Rightarrow> False | Some x \<Rightarrow> x_leaseLost x)"

definition isTaskCancelled :: "string \<Rightarrow> tasks_state \<Rightarrow> bool" where
  "isTaskCancelled taskID tv \<longleftrightarrow>
     (case gm_get (tv_tasks tv) taskID of None \<Rightarrow> False | Some t \<Rightarrow> tk_Status t = TCancelled)"

definition setCurrentRequestID :: "time \<Rightarrow> string \<Rightarrow> string \<Rightarrow> tasks_state \<Rightarrow> tasks_state" where
  "setCurrentRequestID now taskID requestID tv =
     (case gm_get (tv_tasks tv) taskID of
        None \<Rightarrow> tv
      | Some t \<Rightarrow> if tk_Status t = TCancelled then tv
                  else put_persist (t\<lparr> tk_CurrentRequestID := requestID, tk_UpdatedAt := now \<rparr>) tv)"

section \<open>Creation and reads\<close>

definition findTaskByIdempotencyKey :: "string \<Rightarrow> string \<Rightarrow> tasks_state \<Rightarrow> tasks_state \<times> task option" where
  "findTaskByIdempotencyKey sessionID idempotencyKey tv =
     (case List.find (\<lambda>t. tk_SessionID t = sessionID \<and> tk_IdempotencyKey t = idempotencyKey) (gm_vals (tv_tasks tv)) of
        Some t \<Rightarrow> (tv, Some t)
      | None \<Rightarrow>
          (case mem_GetTaskByIdempotencyKey sessionID idempotencyKey (tv_store tv) of
             None \<Rightarrow> (tv, None)
           | Some found \<Rightarrow>
               (if gm_get (tv_tasks tv) (tk_ID found) = None then cache_task found tv else tv, Some found)))"

definition CreateTask ::
  "string \<Rightarrow> time \<Rightarrow> string \<Rightarrow> string \<Rightarrow> string \<Rightarrow> string \<Rightarrow> tasks_state \<Rightarrow> tasks_state \<times> task" where
  "CreateTask uuid now sessionID toolName input idempotencyKey tv =
     (case (if idempotencyKey \<noteq> '''' then findTaskByIdempotencyKey sessionID idempotencyKey tv else (tv, None)) of
        (tv1, Some existing) \<Rightarrow> (tv1, existing)
      | (tv1, None) \<Rightarrow>
          (let t = (NewTask uuid now sessionID toolName input)\<lparr> tk_IdempotencyKey := idempotencyKey \<rparr>
           in (cache_task t (persistTask t tv1), t)))"

definition GetTask :: "string \<Rightarrow> tasks_state \<Rightarrow> task svc_result" where
  "GetTask taskID tv = (case gm_get (tv_tasks tv) taskID of None \<Rightarrow> Inl ErrNotFound | Some t \<Rightarrow> Inr t)"

text \<open>The stored row decides existence and session; the answer is the cached object, which the
  stored row becomes only when there is none.\<close>

definition GetTaskByID :: "string \<Rightarrow> string \<Rightarrow> tasks_state \<Rightarrow> tasks_state \<times> task svc_result" where
  "GetTaskByID sessionID taskID tv =
     (case mem_GetTaskByID taskID (tv_store tv) of
        None \<Rightarrow> (tv, Inl ErrNotFound)
      | Some stored \<Rightarrow>
          (let tv1 = (if gm_get (tv_tasks tv) taskID = None
                      then tv\<lparr> tv_tasks := gm_put taskID stored (tv_tasks tv) \<rparr> else tv);
               out = (case gm_get (tv_tasks tv1) taskID of Some cached_task \<Rightarrow> cached_task | None \<Rightarrow> stored)
           in if tk_SessionID stored \<noteq> sessionID then (tv1, Inl ErrNotFound) else (tv1, Inr out)))"

fun mirror_tasks :: "task list \<Rightarrow> tasks_state \<Rightarrow> tasks_state \<times> task list" where
  "mirror_tasks [] tv = (tv, [])"
| "mirror_tasks (t # ts) tv =
     (let tv1 = (if gm_get (tv_tasks tv) (tk_ID t) = None then cache_task t tv else tv);
          out = (case gm_get (tv_tasks tv1) (tk_ID t) of Some c \<Rightarrow> c | None \<Rightarrow> t)
      in case mirror_tasks ts tv1 of (tv2, outs) \<Rightarrow> (tv2, out # outs))"

definition ListTasks :: "string \<Rightarrow> tasks_state \<Rightarrow> tasks_state \<times> task list" where
  "ListTasks sessionID tv = mirror_tasks (mem_ListTasksBySession sessionID (tv_store tv)) tv"

section \<open>Cancellation\<close>

definition apply_cancel :: "time \<Rightarrow> task \<Rightarrow> task" where
  "apply_cancel now t =
     t\<lparr> tk_Status := TCancelled, tk_Error := ''Task cancelled by user'', tk_Result := '''', tk_ResultType := '''',
        tk_UpdatedAt := now, tk_CompletedAt := Some now, tk_NextAttemptAt := None,
        tk_DeadLetter := False, tk_LastError := '''' \<rparr>"

text \<open>The fenced cancel of the request, tried at most twice.\<close>

definition cancel_request_retry :: "time \<Rightarrow> string \<Rightarrow> string \<Rightarrow> server \<Rightarrow> server \<times> unit svc_result" where
  "cancel_request_retry now sessionID requestID sv =
     (case CancelRequest now sessionID requestID sv of
        (sv1, Inr _) \<Rightarrow> (sv1, Inr ())
      | (sv1, Inl e) \<Rightarrow>
          if e = ErrRequestNotCancellable then (sv1, Inr ())
          else (case CancelRequest now sessionID requestID sv1 of
                  (sv2, Inr _) \<Rightarrow> (sv2, Inr ())
                | (sv2, Inl e') \<Rightarrow> (sv2, if e' = ErrRequestNotCancellable then Inr () else Inl e')))"

definition CancelTask :: "time \<Rightarrow> string \<Rightarrow> string \<Rightarrow> tasks_state \<Rightarrow> tasks_state \<times> unit svc_result" where
  "CancelTask now sessionID taskID tv =
     (let local = gm_get (tv_tasks tv) taskID;
          durable = mem_GetTaskByID taskID (tv_store tv);
          tv1 = (case (local, durable) of
                   (None, Some d) \<Rightarrow> tv\<lparr> tv_tasks := gm_put taskID d (tv_tasks tv) \<rparr> | _ \<Rightarrow> tv)
      in case (case durable of Some d \<Rightarrow> Some d | None \<Rightarrow> local) of
           None \<Rightarrow> (tv1, Inl ErrNotFound)
         | Some working \<Rightarrow>
             if tk_SessionID working \<noteq> sessionID then (tv1, Inl ErrNotFound)
             else if tk_Status working \<noteq> TPending \<and> tk_Status working \<noteq> TRunning then (tv1, Inl ErrTaskNotCancellable)
             else (let requestID = (if CurrentRequestID taskID tv1 = '''' then tk_CurrentRequestID working
                                    else CurrentRequestID taskID tv1)
                   in case (if requestID \<noteq> '''' then cancel_request_retry now sessionID requestID (tv_server tv1)
                            else (tv_server tv1, Inr ())) of
                        (sv2, Inl e) \<Rightarrow> (cancel_execution False taskID (tv1\<lparr> tv_server := sv2 \<rparr>), Inl e)
                      | (sv2, Inr _) \<Rightarrow>
                          (let tv2 = tv1\<lparr> tv_server := sv2 \<rparr>;
                               tv3 = tv2\<lparr> tv_tasks := gm_put taskID
                                  (apply_cancel now (case local of Some t \<Rightarrow> t | None \<Rightarrow> working)) (tv_tasks tv2) \<rparr>
                           in (cancel_execution False taskID (persistTask (apply_cancel now working) tv3), Inr ()))))"

section \<open>One attempt\<close>

fun first_with_room :: "string \<Rightarrow> machine list \<Rightarrow> server \<Rightarrow> machine option" where
  "first_with_room sessionID [] sv = None"
| "first_with_room sessionID (m # ms) sv =
     (case MachineLoadInfo sessionID (m_ID m) sv of
        (load, capacity) \<Rightarrow> if load < capacity then Some m else first_with_room sessionID ms sv)"

definition selectMachine :: "string \<Rightarrow> string \<Rightarrow> server \<Rightarrow> server \<times> machine svc_result" where
  "selectMachine sessionID toolName sv =
     (case FindMachinesWithTool sessionID toolName sv of
        (sv1, Inl e) \<Rightarrow> (sv1, Inl e)
      | (sv1, Inr machines) \<Rightarrow>
          if machines = [] then (sv1, Inl ErrNoProviderAvailable)
          else (case OrderMachinesByLoad sessionID machines sv1 of
                  (sv2, ordered) \<Rightarrow>
                    (case first_with_room sessionID ordered sv2 of
                       Some m \<Rightarrow> (sv2, Inr m)
                     | None \<Rightarrow> (sv2, Inl ErrMachineAtCapacity))))"

definition start_attempt :: "time \<Rightarrow> task \<Rightarrow> task" where
  "start_attempt now t =
     t\<lparr> tk_Attempts := wrap64 (tk_Attempts t + 1), tk_Status := TRunning, tk_Error := '''', tk_Result := '''',
        tk_ResultType := '''', tk_UpdatedAt := now, tk_CompletedAt := None, tk_NextAttemptAt := None \<rparr>"

text \<open>The first locked section of \<open>runTaskAttempt\<close>.\<close>

definition attempt_begin :: "time \<Rightarrow> string \<Rightarrow> tasks_state \<Rightarrow> tasks_state \<times> attempt_error option" where
  "attempt_begin now taskID tv =
     (case gm_get (tv_tasks tv) taskID of
        None \<Rightarrow> (tv, Some ErrTaskCancelled)
      | Some t \<Rightarrow> if tk_Status t = TCancelled then (tv, Some ErrTaskCancelled)
                  else (put_persist (start_attempt now t) tv, None))"

text \<open>The key of an attempt's request: \<open><task key>#attempt-<n>\<close>.\<close>

definition attempt_key :: "(int \<Rightarrow> string) \<Rightarrow> task \<Rightarrow> string" where
  "attempt_key itoa t =
     (if tk_IdempotencyKey t \<noteq> '''' then tk_IdempotencyKey t @ ''#attempt-'' @ itoa (tk_Attempts t) else '''')"

text \<open>The preflight, the request, and the links to it.\<close>

definition attempt_submit ::
  "(int \<Rightarrow> string) \<Rightarrow> string \<Rightarrow> time \<Rightarrow> string \<Rightarrow> tasks_state \<Rightarrow> tasks_state \<times> (attempt_error + string)" where
  "attempt_submit itoa uuid now taskID tv =
     (case gm_get (tv_tasks tv) taskID of
        None \<Rightarrow> (tv, Inl ErrTaskCancelled)
      | Some t \<Rightarrow>
          (case selectMachine (tk_SessionID t) (tk_ToolName t) (tv_server tv) of
             (sv1, Inl e) \<Rightarrow> (tv\<lparr> tv_server := sv1 \<rparr>, Inl (AttemptError e))
           | (sv1, Inr m) \<Rightarrow>
               if ctx_done taskID tv
               then (tv\<lparr> tv_server := sv1 \<rparr>,
                     Inl (if isTaskCancelled taskID tv then ErrTaskCancelled else AttemptError CtxCanceled))
               else (case CreateRequest uuid now (tk_SessionID t) (tk_ToolName t) (tk_Input t) (tk_TimeoutSeconds t)
                            (attempt_key itoa t) sv1 of
                       (sv2, Inl e) \<Rightarrow> (tv\<lparr> tv_server := sv2 \<rparr>, Inl (AttemptError e))
                     | (sv2, Inr request) \<Rightarrow>
                         (setCurrentRequestID now taskID (r_ID request)
                            (setTaskRequestID taskID (r_ID request) (tv\<lparr> tv_server := sv2 \<rparr>)),
                          Inr (r_ID request)))))"

text \<open>\<open>WaitForRequestTerminal\<close>: a round of the wait, or the end of the attempt's context.\<close>

definition attempt_wait ::
  "time \<Rightarrow> string \<Rightarrow> string \<Rightarrow> domain_error option \<Rightarrow> tasks_state
     \<Rightarrow> tasks_state \<times> (string \<times> go_value \<times> string) svc_result option" where
  "attempt_wait now taskID requestID ended tv =
     (let sessionID = (case gm_get (tv_tasks tv) taskID of None \<Rightarrow> '''' | Some t \<Rightarrow> tk_SessionID t)
      in case ended of
           None \<Rightarrow> (case wait_round now sessionID requestID (tv_server tv) of (sv1, r) \<Rightarrow> (tv\<lparr> tv_server := sv1 \<rparr>, r))
         | Some e \<Rightarrow> (tv\<lparr> tv_server := wait_abandoned now sessionID requestID (tv_server tv) \<rparr>, Some (Inl e)))"

definition complete_task :: "time \<Rightarrow> string \<Rightarrow> string \<Rightarrow> task \<Rightarrow> task" where
  "complete_task now result resultType t =
     t\<lparr> tk_Status := TCompleted, tk_Result := result, tk_ResultType := resultType, tk_Error := '''',
        tk_CompletedAt := Some now, tk_UpdatedAt := now, tk_NextAttemptAt := None, tk_DeadLetter := False,
        tk_LastError := '''' \<rparr>"

text \<open>The end of \<open>runTaskAttempt\<close>, with its deferred unlinking.\<close>

definition attempt_unlink :: "time \<Rightarrow> string \<Rightarrow> tasks_state \<Rightarrow> tasks_state" where
  "attempt_unlink now taskID tv = setCurrentRequestID now taskID '''' (setTaskRequestID taskID '''' tv)"

definition attempt_finish ::
  "(go_value \<Rightarrow> string) \<Rightarrow> time \<Rightarrow> string \<Rightarrow> (string \<times> go_value \<times> string) svc_result \<Rightarrow> tasks_state
     \<Rightarrow> tasks_state \<times> attempt_error option" where
  "attempt_finish render now taskID waited tv =
     (if isTaskCancelled taskID tv then (attempt_unlink now taskID tv, Some ErrTaskCancelled)
      else case waited of
             Inl e \<Rightarrow> (attempt_unlink now taskID tv,
                 Some (if e = ErrRequestCancelled then ErrTaskRequestCancelled
                       else if e = CtxDeadlineExceeded then ErrTaskTimedOut else AttemptError e))
           | Inr (requestID, result, resultType) \<Rightarrow>
               (case gm_get (tv_tasks tv) taskID of
                  None \<Rightarrow> (attempt_unlink now taskID tv, None)
                | Some t \<Rightarrow> (attempt_unlink now taskID (put_persist (complete_task now (render result) resultType t) tv), None)))"

section \<open>Concluding an attempt\<close>

definition updateTaskWithCancelled :: "time \<Rightarrow> string \<Rightarrow> string \<Rightarrow> tasks_state \<Rightarrow> tasks_state" where
  "updateTaskWithCancelled now taskID reason tv =
     (case gm_get (tv_tasks tv) taskID of
        None \<Rightarrow> tv
      | Some t \<Rightarrow>
          if tk_Status t \<noteq> TPending \<and> tk_Status t \<noteq> TRunning then tv
          else put_persist (t\<lparr> tk_Status := TCancelled, tk_Error := reason, tk_UpdatedAt := now,
                               tk_CompletedAt := Some now, tk_NextAttemptAt := None \<rparr>) tv)"

definition updateTaskWithError :: "time \<Rightarrow> string \<Rightarrow> string \<Rightarrow> tasks_state \<Rightarrow> tasks_state" where
  "updateTaskWithError now taskID errorMsg tv =
     (case gm_get (tv_tasks tv) taskID of
        None \<Rightarrow> tv
      | Some t \<Rightarrow>
          if tk_Status t = TCancelled then tv
          else put_persist (t\<lparr> tk_Status := TFailed, tk_Error := errorMsg, tk_UpdatedAt := now,
                               tk_CompletedAt := Some now, tk_NextAttemptAt := None \<rparr>) tv)"

text \<open>A failed attempt: dead-letter the task, or schedule the next slot.\<close>

definition retry_task :: "time \<Rightarrow> string \<Rightarrow> task \<Rightarrow> task" where
  "retry_task now errorMsg t0 =
     (let t = t0\<lparr> tk_Error := errorMsg, tk_Result := '''', tk_ResultType := '''', tk_Status := TPending,
                  tk_UpdatedAt := now, tk_CompletedAt := None \<rparr>
      in if tk_Attempts t \<ge> tk_MaxAttempts t
         then (task_MarkDeadLetter now errorMsg t)\<lparr> tk_CompletedAt := Some now \<rparr>
         else t\<lparr> tk_NextAttemptAt := Some (now + seconds (wrap64 (tk_BackoffSeconds t * tk_Attempts t))) \<rparr>)"

definition shutdown_text :: string where "shutdown_text = ''task cancelled due to server shutdown''"

text \<open>The error switch of \<open>executeTask\<close>.\<close>

definition conclude :: "(attempt_error \<Rightarrow> string) \<Rightarrow> time \<Rightarrow> string \<Rightarrow> attempt_error option \<Rightarrow> tasks_state \<Rightarrow> tasks_state" where
  "conclude msg now taskID outcome tv =
     (case outcome of
        None \<Rightarrow> tv
      | Some ErrTaskCancelled \<Rightarrow> tv
      | Some ErrTaskRequestCancelled \<Rightarrow> updateTaskWithCancelled now taskID ''underlying request cancelled'' tv
      | Some ErrTaskTimedOut \<Rightarrow> updateTaskWithError now taskID (msg ErrTaskTimedOut) tv
      | Some (AttemptError e) \<Rightarrow>
          if isTaskCancelled taskID tv then tv
          else if e = CtxCanceled
          then (if lease_lost taskID tv then tv else updateTaskWithError now taskID shutdown_text tv)
          else (case gm_get (tv_tasks tv) taskID of
                  None \<Rightarrow> tv
                | Some t \<Rightarrow> put_persist (retry_task now (msg (AttemptError e)) t) tv))"

text \<open>The deferred clean-up: release the adoption lease, forget the execution.\<close>

definition execute_end :: "time \<Rightarrow> string \<Rightarrow> tasks_state \<Rightarrow> tasks_state" where
  "execute_end now taskID tv =
     clearTaskExecution taskID
       (set_task_store (mem_ReleaseTaskAdoption now taskID (tv_instanceID tv) (tv_store tv)) tv)"

text \<open>The head of \<open>executeTask\<close>.  \<open>None\<close> goes on to the attempt.\<close>

definition execute_begin :: "task \<Rightarrow> tasks_state \<Rightarrow> tasks_state" where
  "execute_begin t tv = setTaskExecution (tk_ID t) (cache_task t tv)"

definition execute_check :: "time \<Rightarrow> string \<Rightarrow> tasks_state \<Rightarrow> tasks_state option" where
  "execute_check now taskID tv =
     (if ctx_done taskID tv
      then Some (if isTaskCancelled taskID tv \<or> lease_lost taskID tv then tv
                 else updateTaskWithError now taskID shutdown_text tv)
      else if isTaskCancelled taskID tv then Some tv else None)"

text \<open>A tick of the renewal loop.\<close>

definition renew_tick :: "time \<Rightarrow> string \<Rightarrow> tasks_state \<Rightarrow> tasks_state" where
  "renew_tick now taskID tv =
     (case mem_RenewTaskAdoption now taskID (tv_instanceID tv) (tv_store tv) of
        (st1, renewed) \<Rightarrow>
          (let tv1 = set_task_store st1 tv
           in if renewed then tv1 else cancel_execution True taskID tv1))"

text \<open>The whole execution; \<open>waiting\<close> is what happens while the attempt waits for its request.\<close>

definition executeTask ::
  "(go_value \<Rightarrow> string) \<Rightarrow> (int \<Rightarrow> string) \<Rightarrow> (attempt_error \<Rightarrow> string) \<Rightarrow> string
     \<Rightarrow> (string \<Rightarrow> tasks_state \<Rightarrow> tasks_state \<times> (string \<times> go_value \<times> string) svc_result)
     \<Rightarrow> time \<Rightarrow> time \<Rightarrow> task \<Rightarrow> tasks_state \<Rightarrow> tasks_state" where
  "executeTask render itoa msg uuid waiting now now' t tv =
     (let tv1 = execute_begin t tv; k = tk_ID t
      in case execute_check now k tv1 of
           Some tv2 \<Rightarrow> execute_end now' k tv2
         | None \<Rightarrow>
             (case attempt_begin now k tv1 of
                (tv2, Some e) \<Rightarrow> execute_end now' k (conclude msg now' k (Some e) tv2)
              | (tv2, None) \<Rightarrow>
                  (case attempt_submit itoa uuid now k tv2 of
                     (tv3, Inl e) \<Rightarrow> execute_end now' k (conclude msg now' k (Some e) tv3)
                   | (tv3, Inr requestID) \<Rightarrow>
                       (case waiting requestID tv3 of
                          (tv4, r) \<Rightarrow>
                            (case attempt_finish render now' k r tv4 of
                               (tv5, oc) \<Rightarrow> execute_end now' k (conclude msg now' k oc tv5))))))"

section \<open>Adoption and retention\<close>

definition taskAttemptDue :: "time \<Rightarrow> task \<Rightarrow> bool" where
  "taskAttemptDue now t \<longleftrightarrow> \<not> tk_DeadLetter t \<and> \<not> task_terminal t
     \<and> (case tk_NextAttemptAt t of None \<Rightarrow> True | Some na \<Rightarrow> \<not> na > now)"

text \<open>Claim each candidate; a claimed task starts executing.\<close>

definition adopt_task :: "time \<Rightarrow> string \<Rightarrow> tasks_state \<Rightarrow> tasks_state" where
  "adopt_task now taskID tv =
     (case mem_ClaimTaskForAdoption now taskID (tv_instanceID tv) taskAdoptionLeaseTTL (tv_store tv) of
        (st1, None) \<Rightarrow> set_task_store st1 tv
      | (st1, Some claimed) \<Rightarrow> execute_begin claimed (set_task_store st1 tv))"

definition dispatchTask :: "time \<Rightarrow> string \<Rightarrow> tasks_state \<Rightarrow> tasks_state" where
  "dispatchTask now taskID tv = adopt_task now taskID tv"

definition adoptDueTasks :: "time \<Rightarrow> tasks_state \<Rightarrow> tasks_state" where
  "adoptDueTasks now tv =
     fold (\<lambda>t. adopt_task now (tk_ID t))
       (mem_FindAdoptableTasks now taskAdoptionLeaseTTL taskAdoptionSweepBatch (tv_store tv)) tv"

definition NewTasksService :: "string \<Rightarrow> time \<Rightarrow> server \<Rightarrow> tasks_state" where
  "NewTasksService uuid now sv =
     (let tv0 = \<lparr> tv_server = sv, tv_tasks = [], tv_executions = [], tv_instanceID = ''toolplane-task-'' @ uuid \<rparr>;
          tv1 = fold cache_task (mem_AllTasks (sv_store sv)) tv0
      in fold (\<lambda>t tv. if taskAttemptDue now t then adopt_task now (tk_ID t) tv else tv)
           (mem_FindNonTerminalTasks (sv_store sv)) tv1)"

definition cleanable :: "time \<Rightarrow> tasks_state \<Rightarrow> string \<times> task \<Rightarrow> bool" where
  "cleanable cutoff tv e \<longleftrightarrow>
     \<not> tk_CreatedAt (snd e) > cutoff \<and> gm_get (tv_executions tv) (fst e) = None \<and> task_terminal (snd e)"

definition CleanupOldTasks :: "time \<Rightarrow> duration \<Rightarrow> tasks_state \<Rightarrow> tasks_state" where
  "CleanupOldTasks now maxAge tv =
     (let removals = map fst (filter (cleanable (now - maxAge) tv) (tv_tasks tv));
          tv1 = tv\<lparr> tv_tasks := filter (\<lambda>e. \<not> cleanable (now - maxAge) tv e) (tv_tasks tv) \<rparr>
      in set_task_store (fold mem_DeleteTask removals (tv_store tv)) tv1)"

definition count_tasks :: "(task \<Rightarrow> bool) \<Rightarrow> tasks_state \<Rightarrow> int" where
  "count_tasks P tv = int (length (filter P (gm_vals (tv_tasks tv))))"

definition TaskMetricsSnapshot :: "tasks_state \<Rightarrow> int \<times> int \<times> int \<times> int \<times> int \<times> int" where
  "TaskMetricsSnapshot tv =
     (count_tasks (\<lambda>t. tk_Status t = TPending) tv, count_tasks (\<lambda>t. tk_Status t = TRunning) tv,
      count_tasks (\<lambda>t. tk_Status t = TCompleted) tv, count_tasks (\<lambda>t. tk_Status t = TFailed) tv,
      count_tasks (\<lambda>t. tk_Status t = TCancelled) tv, count_tasks tk_DeadLetter tv)"

end
