(* ===== verification/Task_Theorems.thy ===== *)
theory Task_Theorems
  imports Task_Service Service_Theorems
begin

text \<open>
  What the task service guarantees: attempts end in exactly one recorded outcome, failing tasks
  are dead-lettered after their last attempt, cancellation is durable, and the retention sweep
  deletes finished tasks only.
\<close>

section \<open>What request processing leaves alone\<close>

lemma tasks_cancel [simp]: "st_tasks (sv_store (fst (CancelRequest now s r sv))) = st_tasks (sv_store sv)"
  by (auto simp: CancelRequest_def mem_CancelRequestFenced_def cache_put_def ReleaseMachineSlot_def Let_def
      split: prod.splits sum.splits option.splits bool.splits if_splits)

lemma tasks_insert [simp]: "st_tasks (sv_store (fst (insert_request r sv))) = st_tasks (sv_store sv)"
proof -
  have i: "st_tasks (fst (mem_InsertRequest r st)) = st_tasks st" for st
    by (simp add: mem_InsertRequest_def Let_def)
  show ?thesis
    by (simp add: insert_request_def cache_put_def split_beta i split: sum.split option.split storage_error.split)
qed

lemma tasks_create [simp]:
  "st_tasks (sv_store (fst (CreateRequest u now s tool inp n k sv))) = st_tasks (sv_store sv)"
  by (simp add: CreateRequest_def Let_def split_beta split: sum.split option.split)

lemma store_load_metrics [simp]: "sv_store (fst (load_metrics s ms sv)) = sv_store sv"
  by (induction ms arbitrary: sv) (simp_all add: Let_def split_beta ensureCapacityLocked_def)

lemma store_order [simp]: "sv_store (fst (OrderMachinesByLoad s ms sv)) = sv_store sv"
  by (simp add: OrderMachinesByLoad_def split_beta)

lemma store_selectMachine [simp]: "sv_store (fst (selectMachine s tool sv)) = sv_store sv"
proof -
  have o: "sv_store sv' = sv_store sv0" if "OrderMachinesByLoad s ms sv0 = (sv', x)" for ms sv0 sv' x
    using that store_order [of s ms sv0] by simp
  show ?thesis
    by (auto simp: selectMachine_def store_pairs dest!: o split: prod.splits sum.splits option.splits)
qed

lemma store_wait_round [simp]: "sv_store (fst (wait_round now s r sv)) = sv_store sv"
  by (auto simp: wait_round_def waitForRequestState_def cache_put_def store_pairs
      split: prod.splits sum.splits option.splits)

lemma tasks_abandoned [simp]: "st_tasks (sv_store (wait_abandoned now s r sv)) = st_tasks (sv_store sv)"
  by (simp add: wait_abandoned_def)

lemma tasks_cancel_retry [simp]:
  "st_tasks (sv_store (fst (cancel_request_retry now s r sv))) = st_tasks (sv_store sv)"
proof -
  have c: "st_tasks (sv_store sv') = st_tasks (sv_store sv0)" if "CancelRequest now s r sv0 = (sv', x)" for sv0 sv' x
    using that tasks_cancel [of now s r sv0] by simp
  show ?thesis
    by (auto simp: cancel_request_retry_def dest!: c split: prod.splits sum.splits)
qed

section \<open>The cache and the table\<close>

abbreviation row :: "string \<Rightarrow> tasks_state \<Rightarrow> task option" where
  "row k tv \<equiv> gm_get (st_tasks (tv_store tv)) k"

abbreviation local_task :: "string \<Rightarrow> tasks_state \<Rightarrow> task option" where
  "local_task k tv \<equiv> gm_get (tv_tasks tv) k"

definition settled :: "task option \<Rightarrow> bool" where
  "settled d \<longleftrightarrow> (case d of None \<Rightarrow> True | Some t \<Rightarrow> task_terminal t)"

text \<open>A task this replica holds as finished is finished in the table, or gone from it.\<close>

definition tasks_ok :: "tasks_state \<Rightarrow> bool" where
  "tasks_ok tv \<longleftrightarrow> gm_wf (tv_tasks tv) \<and> gm_wf (st_tasks (tv_store tv)) \<and> (\<forall>k t. row k tv = Some t \<longrightarrow> tk_ID t = k)
     \<and> (\<forall>k t. local_task k tv = Some t \<longrightarrow> tk_ID t = k \<and> (task_terminal t \<longrightarrow> settled (row k tv)))"

lemma store_set [simp]: "tv_store (set_task_store st tv) = st"
  by (simp add: tv_store_def set_task_store_def)

lemma set_fields [simp]:
  "tv_tasks (set_task_store st tv) = tv_tasks tv" "tv_executions (set_task_store st tv) = tv_executions tv"
  "tv_instanceID (set_task_store st tv) = tv_instanceID tv"
  by (simp_all add: set_task_store_def)

lemma cache_fields [simp]:
  "tv_store (cache_task t tv) = tv_store tv" "tv_executions (cache_task t tv) = tv_executions tv"
  "tv_tasks (cache_task t tv) = gm_put (tk_ID t) t (tv_tasks tv)" "tv_instanceID (cache_task t tv) = tv_instanceID tv"
  by (simp_all add: cache_task_def tv_store_def)

lemma put_persist_fields [simp]:
  "tv_tasks (put_persist t tv) = gm_put (tk_ID t) t (tv_tasks tv)"
  "tv_executions (put_persist t tv) = tv_executions tv" "tv_instanceID (put_persist t tv) = tv_instanceID tv"
  "tv_store (put_persist t tv) = mem_SaveTask t (tv_store tv)"
  by (simp_all add: put_persist_def persistTask_def)

lemma row_saved:
  "gm_get (st_tasks (mem_SaveTask t st)) k
     = (if k = tk_ID t \<and> (gm_get (st_tasks st) k = None \<or> \<not> settled (gm_get (st_tasks st) k)) then Some t
        else gm_get (st_tasks st) k)"
  by (auto simp: mem_SaveTask_def put_task_def settled_def split: option.split)

lemma wf_saved [simp]: "gm_wf (st_tasks st) \<Longrightarrow> gm_wf (st_tasks (mem_SaveTask t st))"
  by (simp add: mem_SaveTask_def put_task_def split: option.split)

lemma store_fields [simp]:
  "tv_store (tv\<lparr> tv_executions := x \<rparr>) = tv_store tv" "tv_store (tv\<lparr> tv_server := sv \<rparr>) = sv_store sv"
  "tv_store (tv\<lparr> tv_tasks := m \<rparr>) = tv_store tv"
  by (simp_all add: tv_store_def)

lemma ok_exec [simp]: "tasks_ok (tv\<lparr> tv_executions := x \<rparr>) = tasks_ok tv"
  by (simp add: tasks_ok_def)

lemma ok_server: "tasks_ok tv \<Longrightarrow> st_tasks (sv_store sv) = st_tasks (tv_store tv) \<Longrightarrow> tasks_ok (tv\<lparr> tv_server := sv \<rparr>)"
  by (simp add: tasks_ok_def)

lemma ok_cache:
  "tasks_ok tv \<Longrightarrow> tk_ID t = k \<Longrightarrow> \<not> task_terminal t \<or> settled (row k tv) \<Longrightarrow>
     tasks_ok (tv\<lparr> tv_tasks := gm_put k t (tv_tasks tv) \<rparr>)"
  by (auto simp: tasks_ok_def)

lemma ok_cache_task: "tasks_ok tv \<Longrightarrow> \<not> task_terminal t \<or> settled (row (tk_ID t) tv) \<Longrightarrow> tasks_ok (cache_task t tv)"
  using ok_cache [of tv t "tk_ID t"] by (simp add: cache_task_def)

lemma ok_save:
  assumes "tasks_ok tv" and "\<not> task_terminal t \<longrightarrow> row (tk_ID t) tv \<noteq> None \<or> local_task (tk_ID t) tv = None
      \<or> \<not> task_terminal (the (local_task (tk_ID t) tv))"
  shows "tasks_ok (set_task_store (mem_SaveTask t (tv_store tv)) tv)"
proof -
  have "settled (gm_get (st_tasks (mem_SaveTask t (tv_store tv))) k)"
    if "local_task k tv = Some c" "task_terminal c" for k c
  proof -
    have "settled (row k tv)" using assms(1) that by (simp add: tasks_ok_def)
    then show ?thesis using assms(2) that by (auto simp: row_saved settled_def)
  qed
  with assms(1) show ?thesis by (simp add: tasks_ok_def row_saved)
qed

lemma ok_put_persist: "tasks_ok tv \<Longrightarrow> tasks_ok (put_persist t tv)"
proof -
  assume ok: "tasks_ok tv"
  then have "settled (gm_get (st_tasks (mem_SaveTask t (tv_store tv))) k)"
    if "local_task k (put_persist t tv) = Some c" "task_terminal c" for k c
    using that by (cases "k = tk_ID t") (simp_all add: tasks_ok_def row_saved settled_def)
  with ok show ?thesis by (simp add: tasks_ok_def row_saved)
qed

lemma ok_set:
  "tasks_ok tv \<Longrightarrow> gm_wf (st_tasks st) \<Longrightarrow> (\<And>k t. gm_get (st_tasks st) k = Some t \<Longrightarrow> tk_ID t = k)
     \<Longrightarrow> (\<And>k. settled (row k tv) \<Longrightarrow> settled (gm_get (st_tasks st) k)) \<Longrightarrow> tasks_ok (set_task_store st tv)"
  by (auto simp: tasks_ok_def)

lemma tasks_ok_id: "tasks_ok tv \<Longrightarrow> local_task k tv = Some t \<Longrightarrow> tk_ID t = k"
  by (simp add: tasks_ok_def)

section \<open>Steps of a replica\<close>

text \<open>
  The locked sections of the service, in any order, and what other replicas do to the table:
  they save rows that exist or are new to this replica, adopt, renew, release and delete.
\<close>

inductive task_step ::
  "(go_value \<Rightarrow> string) \<Rightarrow> (int \<Rightarrow> string) \<Rightarrow> (attempt_error \<Rightarrow> string) \<Rightarrow> tasks_state \<Rightarrow> tasks_state \<Rightarrow> bool"
  for render :: "go_value \<Rightarrow> string" and itoa :: "int \<Rightarrow> string" and msg :: "attempt_error \<Rightarrow> string"
where
  create: "task_step render itoa msg tv (fst (CreateTask uuid now s tool inp key tv))"
| get: "task_step render itoa msg tv (fst (GetTaskByID s k tv))"
| listing: "task_step render itoa msg tv (fst (ListTasks s tv))"
| cancel: "task_step render itoa msg tv (fst (CancelTask now s k tv))"
| dispatch: "task_step render itoa msg tv (dispatchTask now k tv)"
| sweep: "task_step render itoa msg tv (adoptDueTasks now tv)"
| check: "execute_check now k tv = Some tv' \<Longrightarrow> task_step render itoa msg tv tv'"
| begins: "task_step render itoa msg tv (fst (attempt_begin now k tv))"
| submit: "task_step render itoa msg tv (fst (attempt_submit itoa uuid now k tv))"
| waits: "task_step render itoa msg tv (fst (attempt_wait now k r ended tv))"
| finish: "task_step render itoa msg tv (fst (attempt_finish render now k w tv))"
| concludes: "task_step render itoa msg tv (conclude msg now k oc tv)"
| ends: "task_step render itoa msg tv (execute_end now k tv)"
| renew: "task_step render itoa msg tv (renew_tick now k tv)"
| cleanup: "task_step render itoa msg tv (CleanupOldTasks now age tv)"
| other_save: "row (tk_ID t) tv \<noteq> None \<or> local_task (tk_ID t) tv = None \<Longrightarrow>
    task_step render itoa msg tv (set_task_store (mem_SaveTask t (tv_store tv)) tv)"
| other_claim: "task_step render itoa msg tv (set_task_store (fst (mem_ClaimTaskForAdoption now k w ttl (tv_store tv))) tv)"
| other_renew: "task_step render itoa msg tv (set_task_store (fst (mem_RenewTaskAdoption now k w (tv_store tv))) tv)"
| other_release: "task_step render itoa msg tv (set_task_store (mem_ReleaseTaskAdoption now k w (tv_store tv)) tv)"
| other_delete: "task_step render itoa msg tv (set_task_store (mem_DeleteTask k (tv_store tv)) tv)"

text \<open>Adopting, renewing and releasing change a row's timestamp at most.\<close>

definition touched :: "store \<Rightarrow> store \<Rightarrow> bool" where
  "touched s t \<longleftrightarrow> (gm_wf (st_tasks s) \<longrightarrow> gm_wf (st_tasks t)) \<and> (\<forall>k. gm_get (st_tasks t) k = gm_get (st_tasks s) k
     \<or> (\<exists>d now. gm_get (st_tasks s) k = Some d \<and> gm_get (st_tasks t) k = Some (d\<lparr> tk_UpdatedAt := now \<rparr>)))"

lemma touched_ops:
  "touched s (fst (mem_ClaimTaskForAdoption now k w ttl s))"
  "touched s (fst (mem_RenewTaskAdoption now k w s))"
  "touched s (mem_ReleaseTaskAdoption now k w s)"
  by (auto simp: touched_def mem_ClaimTaskForAdoption_def mem_RenewTaskAdoption_def mem_ReleaseTaskAdoption_def
      put_task_def Let_def split: option.splits)

lemma ok_touched: "tasks_ok tv \<Longrightarrow> touched (tv_store tv) st \<Longrightarrow> tasks_ok (set_task_store st tv)"
proof (rule ok_set)
  assume ok: "tasks_ok tv" and t: "touched (tv_store tv) st"
  then show "gm_wf (st_tasks st)" by (simp add: tasks_ok_def touched_def)
  fix k d
  from t have c: "gm_get (st_tasks st) k = row k tv
     \<or> (\<exists>d now. row k tv = Some d \<and> gm_get (st_tasks st) k = Some (d\<lparr> tk_UpdatedAt := now \<rparr>))"
    by (simp add: touched_def)
  then show "gm_get (st_tasks st) k = Some d \<Longrightarrow> tk_ID d = k" using ok by (auto simp: tasks_ok_def)
  from c show "settled (row k tv) \<Longrightarrow> settled (gm_get (st_tasks st) k)" by (auto simp: settled_def task_terminal_def)
qed

lemma ok_executions:
  "tasks_ok (setTaskExecution k tv) = tasks_ok tv" "tasks_ok (setTaskRequestID k r tv) = tasks_ok tv"
  "tasks_ok (clearTaskExecution k tv) = tasks_ok tv" "tasks_ok (cancel_execution l k tv) = tasks_ok tv"
  by (simp_all add: setTaskExecution_def setTaskRequestID_def clearTaskExecution_def cancel_execution_def
      split: option.split)

lemma ok_link: "tasks_ok tv \<Longrightarrow> tasks_ok (setCurrentRequestID now k r tv)"
  by (simp add: setCurrentRequestID_def ok_put_persist split: option.split)

lemma ok_claimed:
  assumes "mem_ClaimTaskForAdoption now k w ttl s = (st, Some d)"
  shows "\<not> task_terminal d"
  using assms by (auto simp: mem_ClaimTaskForAdoption_def Let_def task_terminal_def split: option.splits if_splits)

lemma ok_adopt: "tasks_ok tv \<Longrightarrow> tasks_ok (adopt_task now k tv)"
proof -
  assume ok: "tasks_ok tv"
  obtain st r where e: "mem_ClaimTaskForAdoption now k (tv_instanceID tv) taskAdoptionLeaseTTL (tv_store tv) = (st, r)"
    by fastforce
  then have "tasks_ok (set_task_store st tv)"
    using ok_touched [OF ok touched_ops(1), of now k "tv_instanceID tv" taskAdoptionLeaseTTL] by simp
  with e show ?thesis
    by (cases r) (auto simp: adopt_task_def execute_begin_def ok_executions intro!: ok_cache_task dest: ok_claimed)
qed

lemma ok_sweep: "tasks_ok tv \<Longrightarrow> tasks_ok (adoptDueTasks now tv)"
proof -
  have "tasks_ok tv \<Longrightarrow> tasks_ok (fold (\<lambda>t. adopt_task now (tk_ID t)) ts tv)" for ts
    by (induction ts arbitrary: tv) (simp_all add: ok_adopt)
  then show "tasks_ok tv \<Longrightarrow> tasks_ok (adoptDueTasks now tv)" by (simp add: adoptDueTasks_def)
qed

lemma ok_mirror: "tasks_ok tv \<Longrightarrow> (\<And>t. t \<in> set ts \<Longrightarrow> row (tk_ID t) tv = Some t) \<Longrightarrow> tasks_ok (fst (mirror_tasks ts tv))"
proof (induction ts arbitrary: tv)
  case (Cons t ts)
  define tv1 where "tv1 = (if local_task (tk_ID t) tv = None then cache_task t tv else tv)"
  have "row (tk_ID t) tv = Some t" using Cons.prems(2) by simp
  with Cons.prems(1) have "tasks_ok tv1" by (auto simp: tv1_def settled_def intro!: ok_cache_task)
  moreover have "tv_store tv1 = tv_store tv" by (simp add: tv1_def)
  ultimately have "tasks_ok (fst (mirror_tasks ts tv1))" using Cons.IH [of tv1] Cons.prems(2) by simp
  then show ?case by (simp add: Let_def split_beta flip: tv1_def)
qed simp

lemma stored_row: "tasks_ok tv \<Longrightarrow> t \<in> set (gm_vals (st_tasks (tv_store tv))) \<Longrightarrow> row (tk_ID t) tv = Some t"
  by (auto simp: tasks_ok_def gm_vals_get)

lemma ok_create: "tasks_ok tv \<Longrightarrow> tasks_ok (fst (CreateTask u now s tool inp key tv))"
proof -
  assume ok: "tasks_ok tv"
  have found: "tasks_ok (cache_task t tv)" if "mem_GetTaskByIdempotencyKey s key (tv_store tv) = Some t" for t
  proof -
    have "t \<in> set (gm_vals (st_tasks (tv_store tv)))"
      using that by (auto simp: mem_GetTaskByIdempotencyKey_def find_Some_iff split: if_splits)
    from stored_row [OF ok this] show ?thesis using ok by (intro ok_cache_task) (auto simp: settled_def)
  qed
  obtain tv1 r where f: "(if key \<noteq> '''' then findTaskByIdempotencyKey s key tv else (tv, None)) = (tv1, r)" by fastforce
  then have ok1: "tasks_ok tv1"
    using ok found by (auto simp: findTaskByIdempotencyKey_def split: if_splits option.splits)
  define t where "t = (NewTask u now s tool inp)\<lparr> tk_IdempotencyKey := key \<rparr>"
  have "tasks_ok (cache_task t (persistTask t tv1))"
  proof -
    have e: "cache_task t (persistTask t tv1) = put_persist t tv1"
      by (simp add: put_persist_def persistTask_def cache_task_def set_task_store_def tv_store_def)
    show ?thesis unfolding e by (rule ok_put_persist [OF ok1])
  qed
  with ok1 show ?thesis by (cases r) (simp_all add: CreateTask_def f Let_def flip: t_def)
qed

lemma ok_get: "tasks_ok tv \<Longrightarrow> tasks_ok (fst (GetTaskByID s k tv))"
  by (auto simp: GetTaskByID_def mem_GetTaskByID_def Let_def settled_def tasks_ok_def intro!: ok_cache split: option.split)

lemma ok_list: "tasks_ok tv \<Longrightarrow> tasks_ok (fst (ListTasks s tv))"
  by (auto simp: ListTasks_def mem_ListTasksBySession_def intro!: ok_mirror stored_row)

lemma ok_attempt:
  assumes "tasks_ok tv"
  shows "tasks_ok (fst (attempt_begin now k tv))" "tasks_ok (fst (attempt_wait now k r ended tv))"
    "tasks_ok (fst (attempt_finish render now k w tv))"
proof -
  have sv: "tasks_ok (tv\<lparr> tv_server := sv \<rparr>)" if "sv_store sv = tv_store tv" for sv
    using ok_server [OF assms] that by simp
  show "tasks_ok (fst (attempt_begin now k tv))"
    using assms by (simp add: attempt_begin_def ok_put_persist split: option.split)
  show "tasks_ok (fst (attempt_wait now k r ended tv))"
    using assms ok_server [OF assms]
    by (simp add: attempt_wait_def Let_def split_beta tv_store_def split: option.split)
  show "tasks_ok (fst (attempt_finish render now k w tv))"
    using assms
    by (auto simp: attempt_finish_def attempt_unlink_def ok_link ok_executions ok_put_persist split: sum.split option.split)
qed

lemma ok_submit: "tasks_ok tv \<Longrightarrow> tasks_ok (fst (attempt_submit itoa u now k tv))"
proof (cases "local_task k tv")
  case None
  then show "tasks_ok tv \<Longrightarrow> ?thesis" by (simp add: attempt_submit_def)
next
  case (Some t)
  assume ok: "tasks_ok tv"
  obtain sv1 m where m: "selectMachine (tk_SessionID t) (tk_ToolName t) (tv_server tv) = (sv1, m)" by fastforce
  then have s1: "sv_store sv1 = tv_store tv" using store_selectMachine by (metis fst_conv tv_store_def)
  obtain sv2 r where r: "CreateRequest u now (tk_SessionID t) (tk_ToolName t) (tk_Input t) (tk_TimeoutSeconds t)
      (attempt_key itoa t) sv1 = (sv2, r)" by fastforce
  then have s2: "st_tasks (sv_store sv2) = st_tasks (tv_store tv)" using tasks_create s1 by (metis fst_conv)
  show ?thesis
    using ok_server [OF ok, of sv1] ok_server [OF ok s2] s1 Some
    by (cases m; cases r) (auto simp: attempt_submit_def m r intro!: ok_link simp: ok_executions)
qed

lemma ok_conclude: "tasks_ok tv \<Longrightarrow> tasks_ok (conclude msg now k oc tv)"
  by (auto simp: conclude_def updateTaskWithCancelled_def updateTaskWithError_def ok_put_persist
      split: option.split attempt_error.split)

lemma ok_check: "tasks_ok tv \<Longrightarrow> execute_check now k tv = Some tv' \<Longrightarrow> tasks_ok tv'"
  by (auto simp: execute_check_def updateTaskWithError_def ok_put_persist split: if_splits option.splits)

lemma ok_delete: "tasks_ok tv \<Longrightarrow> tasks_ok (set_task_store (mem_DeleteTask k (tv_store tv)) tv)"
  by (rule ok_set) (auto simp: mem_DeleteTask_def tasks_ok_def settled_def split: if_splits)

lemma ok_end: "tasks_ok tv \<Longrightarrow> tasks_ok (execute_end now k tv)"
  using ok_touched [OF _ touched_ops(3)] by (simp add: execute_end_def ok_executions)

lemma ok_renew: "tasks_ok tv \<Longrightarrow> tasks_ok (renew_tick now k tv)"
  using ok_touched [OF _ touched_ops(2), of tv now k "tv_instanceID tv"]
  by (auto simp: renew_tick_def Let_def ok_executions split: prod.split)

lemma ok_cancelled:
  assumes "tasks_ok tv" and "tk_ID a = k" and "tk_ID w = k" and "task_terminal w"
  shows "tasks_ok (persistTask w (tv\<lparr> tv_tasks := gm_put k a (tv_tasks tv) \<rparr>))"
proof -
  have "settled (gm_get (st_tasks (mem_SaveTask w (tv_store tv))) j)"
    if "gm_get (gm_put k a (tv_tasks tv)) j = Some c" "task_terminal c" for j c
    using assms that by (cases "j = k") (auto simp: tasks_ok_def row_saved settled_def split: if_splits)
  with assms show ?thesis by (auto simp: persistTask_def tasks_ok_def row_saved split: if_splits)
qed

lemma apply_cancel_fields [simp]:
  "tk_ID (apply_cancel now t) = tk_ID t" "task_terminal (apply_cancel now t)"
  "tk_Status (apply_cancel now t) = TCancelled" "tk_SessionID (apply_cancel now t) = tk_SessionID t"
  by (simp_all add: apply_cancel_def task_terminal_def)

text \<open>The shape of a cancellation: the row that decides, and the state it leaves.\<close>

definition cancel_view :: "string \<Rightarrow> tasks_state \<Rightarrow> tasks_state" where
  "cancel_view k tv =
     (if local_task k tv = None \<and> row k tv \<noteq> None then tv\<lparr> tv_tasks := gm_put k (the (row k tv)) (tv_tasks tv) \<rparr> else tv)"

definition cancel_target :: "string \<Rightarrow> tasks_state \<Rightarrow> task option" where
  "cancel_target k tv = (if row k tv \<noteq> None then row k tv else local_task k tv)"

definition cancel_request_id :: "string \<Rightarrow> tasks_state \<Rightarrow> string" where
  "cancel_request_id k tv =
     (if CurrentRequestID k tv = '''' then tk_CurrentRequestID (the (cancel_target k tv)) else CurrentRequestID k tv)"

definition cancel_server :: "time \<Rightarrow> string \<Rightarrow> string \<Rightarrow> tasks_state \<Rightarrow> server \<times> unit svc_result" where
  "cancel_server now s k tv =
     (if cancel_request_id k tv \<noteq> '''' then cancel_request_retry now s (cancel_request_id k tv) (tv_server tv)
      else (tv_server tv, Inr ()))"

lemma cancel_view_fields [simp]:
  "tv_server (cancel_view k tv) = tv_server tv" "tv_store (cancel_view k tv) = tv_store tv"
  "tv_executions (cancel_view k tv) = tv_executions tv"
  by (simp_all add: cancel_view_def tv_store_def)

lemma CancelTask_eq:
  "CancelTask now s k tv =
     (case cancel_target k tv of
        None \<Rightarrow> (cancel_view k tv, Inl ErrNotFound)
      | Some w \<Rightarrow>
          if tk_SessionID w \<noteq> s then (cancel_view k tv, Inl ErrNotFound)
          else if tk_Status w \<noteq> TPending \<and> tk_Status w \<noteq> TRunning then (cancel_view k tv, Inl ErrTaskNotCancellable)
          else (case cancel_server now s k tv of
                  (sv2, Inl e) \<Rightarrow> (cancel_execution False k ((cancel_view k tv)\<lparr> tv_server := sv2 \<rparr>), Inl e)
                | (sv2, Inr _) \<Rightarrow>
                    (cancel_execution False k (persistTask (apply_cancel now w)
                       ((cancel_view k tv)\<lparr> tv_server := sv2,
                          tv_tasks := gm_put k (apply_cancel now (the (local_task k (cancel_view k tv))))
                                        (tv_tasks (cancel_view k tv)) \<rparr>)), Inr ())))"
proof (cases "local_task k tv")
  case None
  then show ?thesis
    by (cases "row k tv")
      (simp_all add: CancelTask_def mem_GetTaskByID_def Let_def cancel_target_def cancel_view_def cancel_server_def
        cancel_request_id_def CurrentRequestID_def cong: if_cong)
next
  case (Some t)
  then show ?thesis
    by (cases "row k tv")
      (simp_all add: CancelTask_def mem_GetTaskByID_def Let_def cancel_target_def cancel_view_def cancel_server_def
        cancel_request_id_def CurrentRequestID_def cong: if_cong)
qed

lemma ok_view: "tasks_ok tv \<Longrightarrow> tasks_ok (cancel_view k tv)"
  by (auto simp: cancel_view_def settled_def tasks_ok_def intro!: ok_cache)

lemma cancel_ids:
  assumes "tasks_ok tv" and "cancel_target k tv = Some w"
  shows "tk_ID w = k" "local_task k (cancel_view k tv) \<noteq> None" "tk_ID (the (local_task k (cancel_view k tv))) = k"
proof -
  show "tk_ID w = k" using assms by (auto simp: cancel_target_def tasks_ok_def split: if_splits)
  show l: "local_task k (cancel_view k tv) \<noteq> None" using assms(2) by (auto simp: cancel_target_def cancel_view_def split: if_splits)
  show "tk_ID (the (local_task k (cancel_view k tv))) = k" using l ok_view [OF assms(1), of k] by (auto simp: tasks_ok_def)
qed

lemma tasks_cancel_server: "cancel_server now s k tv = (sv, r) \<Longrightarrow> st_tasks (sv_store sv) = st_tasks (tv_store tv)"
  by (auto simp: cancel_server_def tv_store_def split: if_splits) (metis fst_conv tasks_cancel_retry)

lemma ok_cancel: "tasks_ok tv \<Longrightarrow> tasks_ok (fst (CancelTask now s k tv))"
proof -
  assume ok: "tasks_ok tv"
  show ?thesis
  proof (cases "cancel_target k tv")
    case None
    then show ?thesis using ok_view [OF ok] by (simp add: CancelTask_eq)
  next
    case (Some w)
    obtain sv2 r where c: "cancel_server now s k tv = (sv2, r)" by fastforce
    have ok2: "tasks_ok ((cancel_view k tv)\<lparr> tv_server := sv2 \<rparr>)"
      using ok_server [OF ok_view [OF ok, of k]] tasks_cancel_server [OF c] by simp
    have "tasks_ok (persistTask (apply_cancel now w) ((cancel_view k tv)\<lparr> tv_server := sv2,
        tv_tasks := gm_put k (apply_cancel now (the (local_task k (cancel_view k tv)))) (tv_tasks (cancel_view k tv)) \<rparr>))"
      using ok_cancelled [OF ok2, of "apply_cancel now (the (local_task k (cancel_view k tv)))" k "apply_cancel now w"]
        cancel_ids [OF ok Some] by simp
    then show ?thesis using Some ok2 ok_view [OF ok] by (cases r) (simp_all add: CancelTask_eq c ok_executions)
  qed
qed

text \<open>The sweep deletes rows of finished tasks only.\<close>

lemma deleted_rows:
  "gm_get (st_tasks (fold mem_DeleteTask ks st)) k = (if k \<in> set ks then None else gm_get (st_tasks st) k)"
  by (induction ks arbitrary: st) (auto simp: mem_DeleteTask_def)

lemma wf_deleted: "gm_wf (st_tasks st) \<Longrightarrow> gm_wf (st_tasks (fold mem_DeleteTask ks st))"
  by (induction ks arbitrary: st) (auto simp: mem_DeleteTask_def)

lemma ok_cleanup: "tasks_ok tv \<Longrightarrow> tasks_ok (CleanupOldTasks now age tv)"
proof -
  assume ok: "tasks_ok tv"
  define ks where "ks = map fst (filter (cleanable (now - age) tv) (tv_tasks tv))"
  define tv1 where "tv1 = tv\<lparr> tv_tasks := filter (\<lambda>e. \<not> cleanable (now - age) tv e) (tv_tasks tv) \<rparr>"
  have "tasks_ok tv1" using ok by (auto simp: tasks_ok_def tv1_def gm_get_filter gm_wf_filter split: option.splits if_splits)
  then have "tasks_ok (set_task_store (fold mem_DeleteTask ks (tv_store tv1)) tv1)"
    by (rule ok_set) (use \<open>tasks_ok tv1\<close> in \<open>auto simp: deleted_rows wf_deleted tasks_ok_def settled_def split: if_splits\<close>)
  moreover have "CleanupOldTasks now age tv = set_task_store (fold mem_DeleteTask ks (tv_store tv1)) tv1"
    by (simp add: CleanupOldTasks_def Let_def tv1_def ks_def)
  ultimately show ?thesis by simp
qed

interpretation task_cache: kept_by_steps "task_step render itoa msg" tasks_ok for render itoa msg
proof
  fix tv tv'
  show "task_step render itoa msg tv tv' \<Longrightarrow> tasks_ok tv \<Longrightarrow> tasks_ok tv'"
  proof (induction rule: task_step.induct)
    case (other_save t tv)
    then show ?case by (intro ok_save) auto
  qed (simp_all add: ok_create ok_get ok_list ok_cancel dispatchTask_def ok_adopt ok_sweep ok_check ok_attempt ok_submit
      ok_conclude ok_end ok_renew ok_cleanup ok_touched touched_ops ok_delete)
qed

lemma ok_new:
  assumes "gm_wf (st_tasks (sv_store sv))" and "\<And>k t. gm_get (st_tasks (sv_store sv)) k = Some t \<Longrightarrow> tk_ID t = k"
  shows "tasks_ok (NewTasksService uuid now sv)"
proof -
  define tv0 where "tv0 = \<lparr> tv_server = sv, tv_tasks = [], tv_executions = [], tv_instanceID = ''toolplane-task-'' @ uuid \<rparr>"
  have "tasks_ok (fold cache_task ts tv1)" if "tasks_ok tv1" "set ts \<subseteq> set (gm_vals (st_tasks (tv_store tv1)))" for ts tv1
    using that
  proof (induction ts arbitrary: tv1)
    case (Cons t ts)
    then have "row (tk_ID t) tv1 = Some t" by (intro stored_row) auto
    then have "tasks_ok (cache_task t tv1)" using Cons.prems(1) by (intro ok_cache_task) (auto simp: settled_def)
    then show ?case using Cons by simp
  qed simp
  moreover have "tasks_ok tv0" using assms by (auto simp: tasks_ok_def tv0_def tv_store_def)
  ultimately have 1: "tasks_ok (fold cache_task (mem_AllTasks (sv_store sv)) tv0)"
    by (simp add: mem_AllTasks_def tv0_def tv_store_def)
  have "tasks_ok (fold (\<lambda>t tv. if taskAttemptDue now t then adopt_task now (tk_ID t) tv else tv) ts tv1)"
    if "tasks_ok tv1" for ts tv1
    using that by (induction ts arbitrary: tv1) (simp_all add: ok_adopt)
  from this [OF 1] show ?thesis by (simp add: NewTasksService_def Let_def tv0_def)
qed

text \<open>Retention spares unfinished tasks.  From start-up on, through any interleaving of
  creations, reads, cancellations, adoption, attempts and sweeps of a replica with the task
  writes of the others, the retention sweep of that replica leaves the row of every
  unfinished task as it is, and removes nothing it is executing; a task it holds that is
  finished, idle and old enough is gone from its cache and from the table.\<close>

theorem retention_spares_unfinished_tasks:
  assumes "gm_wf (st_tasks (sv_store sv))" and "\<And>j t. gm_get (st_tasks (sv_store sv)) j = Some t \<Longrightarrow> tk_ID t = j"
    and "(task_step render itoa msg)\<^sup>*\<^sup>* (NewTasksService uuid start sv) tv"
  shows "(case row k tv of
       None \<Rightarrow> True
     | Some d \<Rightarrow> if task_terminal d then True else row k (CleanupOldTasks now age tv) = Some d)
    \<and> (gm_get (tv_executions tv) k \<noteq> None \<longrightarrow> row k (CleanupOldTasks now age tv) = row k tv
         \<and> local_task k (CleanupOldTasks now age tv) = local_task k tv)
    \<and> (case local_task k tv of
       None \<Rightarrow> row k (CleanupOldTasks now age tv) = row k tv
     | Some t \<Rightarrow> if cleanable (now - age) tv (k, t)
                 then local_task k (CleanupOldTasks now age tv) = None \<and> row k (CleanupOldTasks now age tv) = None
                 else local_task k (CleanupOldTasks now age tv) = Some t \<and> row k (CleanupOldTasks now age tv) = row k tv)"
proof -
  have ok: "tasks_ok tv" by (rule task_cache.kept_run [OF assms(3) ok_new [OF assms(1,2)]])
  define ks where "ks = map fst (filter (cleanable (now - age) tv) (tv_tasks tv))"
  have wf: "gm_wf (tv_tasks tv)" using ok by (simp add: tasks_ok_def)
  have in_ks: "k \<in> set ks \<longleftrightarrow> (\<exists>t. local_task k tv = Some t \<and> cleanable (now - age) tv (k, t))"
    using gm_get_in [OF wf] by (force simp: ks_def)
  have row': "row k (CleanupOldTasks now age tv) = (if k \<in> set ks then None else row k tv)"
    by (simp add: CleanupOldTasks_def Let_def deleted_rows ks_def)
  have local': "local_task k (CleanupOldTasks now age tv) =
      (case local_task k tv of None \<Rightarrow> None | Some t \<Rightarrow> if cleanable (now - age) tv (k, t) then None else Some t)"
    by (simp add: CleanupOldTasks_def Let_def gm_get_filter [OF wf] split: option.split)
  have "settled (row k tv)" if "k \<in> set ks"
    using that ok by (auto simp: in_ks cleanable_def tasks_ok_def)
  then have "case row k tv of None \<Rightarrow> True
     | Some d \<Rightarrow> if task_terminal d then True else row k (CleanupOldTasks now age tv) = Some d"
    by (auto simp: row' settled_def split: option.split)
  moreover have "k \<notin> set ks" if "gm_get (tv_executions tv) k \<noteq> None" using that by (auto simp: in_ks cleanable_def)
  ultimately show ?thesis
    by (auto simp: row' local' in_ks cleanable_def split: option.split)
qed

end
