(* ===== verification/Task_Outcomes.thy ===== *)
theory Task_Outcomes
  imports Task_Theorems
begin

text \<open>
  The outcome of an attempt, of a series of failing attempts, and of a cancellation, as they are
  recorded in the shared task table; and what a replica that is not executing a task reports.
\<close>

section \<open>One attempt\<close>

text \<open>
  The record an attempt leaves, given what the wait for its request returned: status, result,
  error, dead-letter flag and next slot, for the given attempt number, limit and backoff.
\<close>

definition verdict ::
  "(go_value \<Rightarrow> string) \<Rightarrow> (attempt_error \<Rightarrow> string) \<Rightarrow> time \<Rightarrow> int \<Rightarrow> int \<Rightarrow> int
     \<Rightarrow> (string \<times> go_value \<times> string) svc_result \<Rightarrow> task_status \<times> string \<times> string \<times> bool \<times> time option" where
  "verdict render msg now attempts maxAttempts backoff r =
     (case r of
        Inr (rid, result, resultType) \<Rightarrow> (TCompleted, render result, '''', False, None)
      | Inl e \<Rightarrow>
          if e = ErrRequestCancelled then (TCancelled, '''', ''underlying request cancelled'', False, None)
          else if e = CtxDeadlineExceeded then (TFailed, '''', msg ErrTaskTimedOut, False, None)
          else if e = CtxCanceled then (TFailed, '''', shutdown_text, False, None)
          else if attempts \<ge> maxAttempts then (TFailed, '''', msg (AttemptError e), True, None)
          else (TPending, '''', msg (AttemptError e), False, Some (now + seconds (wrap64 (backoff * attempts)))))"

definition recorded :: "task \<Rightarrow> task_status \<times> string \<times> string \<times> bool \<times> time option" where
  "recorded t = (tk_Status t, tk_Result t, tk_Error t, tk_DeadLetter t, tk_NextAttemptAt t)"

definition linked :: "time \<Rightarrow> string \<Rightarrow> task \<Rightarrow> task" where
  "linked now rid t = t\<lparr> tk_CurrentRequestID := rid, tk_UpdatedAt := now \<rparr>"

text \<open>The cache entry and the row agree and the task is not finished.\<close>

definition in_step :: "string \<Rightarrow> task \<Rightarrow> tasks_state \<Rightarrow> bool" where
  "in_step k t tv \<longleftrightarrow> local_task k tv = Some t \<and> row k tv = Some t \<and> tk_ID t = k \<and> \<not> task_terminal t"

lemma in_step_put: "in_step k t tv \<Longrightarrow> tk_ID t' = k \<Longrightarrow> local_task k (put_persist t' tv) = Some t' \<and> row k (put_persist t' tv) = Some t'"
  by (simp add: in_step_def row_saved settled_def)

lemma in_step_link: "in_step k t tv \<Longrightarrow> in_step k (linked now rid t) (setCurrentRequestID now k rid tv)"
proof -
  assume i: "in_step k t tv"
  then have "tk_ID (linked now rid t) = k" "tk_Status t \<noteq> TCancelled" "\<not> task_terminal (linked now rid t)"
    by (auto simp: in_step_def linked_def task_terminal_def)
  with i in_step_put [OF i, of "linked now rid t"] show ?thesis
    by (auto simp: in_step_def setCurrentRequestID_def linked_def)
qed

lemma in_step_execs [simp]:
  "in_step k t (setTaskRequestID j r tv) = in_step k t tv" "in_step k t (tv\<lparr> tv_executions := x \<rparr>) = in_step k t tv"
  by (simp_all add: in_step_def setTaskRequestID_def split: option.split)

lemma begin_attempt:
  assumes "row k tv = Some t" and "tk_ID t = k" and "\<not> task_terminal t"
  shows "execute_check now k (execute_begin t tv) = None"
    and "attempt_begin now k (execute_begin t tv) = (put_persist (start_attempt now t) (execute_begin t tv), None)"
    and "in_step k (start_attempt now t) (put_persist (start_attempt now t) (execute_begin t tv))"
proof -
  have i: "in_step k t (execute_begin t tv)"
    using assms by (simp add: in_step_def execute_begin_def setTaskExecution_def)
  have ns: "tk_Status t \<noteq> TCancelled" using assms(3) by (auto simp: task_terminal_def)
  with i show "execute_check now k (execute_begin t tv) = None"
    using assms(2) by (auto simp: execute_check_def ctx_done_def isTaskCancelled_def in_step_def execute_begin_def setTaskExecution_def)
  show "attempt_begin now k (execute_begin t tv) = (put_persist (start_attempt now t) (execute_begin t tv), None)"
    using i ns by (simp add: attempt_begin_def in_step_def)
  show "in_step k (start_attempt now t) (put_persist (start_attempt now t) (execute_begin t tv))"
    using in_step_put [OF i, of "start_attempt now t"] assms(2) by (simp add: in_step_def start_attempt_def task_terminal_def)
qed

lemma submit_links:
  assumes "attempt_submit itoa u now k tv = (tv', Inr rid)" and "in_step k t tv"
  shows "in_step k (linked now rid t) tv'"
proof -
  from assms(2) have lt: "local_task k tv = Some t" by (simp add: in_step_def)
  obtain sv1 m where m: "selectMachine (tk_SessionID t) (tk_ToolName t) (tv_server tv) = (sv1, m)" by fastforce
  then have s1: "sv_store sv1 = tv_store tv" using store_selectMachine by (metis fst_conv tv_store_def)
  obtain sv2 r where r: "CreateRequest u now (tk_SessionID t) (tk_ToolName t) (tk_Input t) (tk_TimeoutSeconds t)
      (attempt_key itoa t) sv1 = (sv2, r)" by fastforce
  then have s2: "st_tasks (sv_store sv2) = st_tasks (tv_store tv)" using tasks_create s1 by (metis fst_conv)
  have i: "in_step k t (tv\<lparr> tv_server := sv2 \<rparr>)" using assms(2) s2 by (simp add: in_step_def)
  from assms(1) have "tv' = setCurrentRequestID now k rid (setTaskRequestID k rid (tv\<lparr> tv_server := sv2 \<rparr>))"
    by (cases m; cases r) (auto simp: attempt_submit_def lt m r split: if_splits)
  then show ?thesis using in_step_link [of k t "setTaskRequestID k rid (tv\<lparr> tv_server := sv2 \<rparr>)"] i by simp
qed

lemma final_row: "row k tv = Some t \<Longrightarrow> task_terminal t \<Longrightarrow> row k (setCurrentRequestID now k rid tv) = Some t"
  by (auto simp: setCurrentRequestID_def row_saved settled_def split: option.split)

lemma unlink_row: "row k tv = Some t \<Longrightarrow> task_terminal t \<Longrightarrow> row k (attempt_unlink now k tv) = Some t"
  using final_row [where k = k and tv = "setTaskRequestID k '''' tv"]
  by (auto simp: attempt_unlink_def setTaskRequestID_def split: option.splits)

lemma unlink_in_step: "in_step k t tv \<Longrightarrow> in_step k (linked now '''' t) (attempt_unlink now k tv)"
  by (simp add: attempt_unlink_def in_step_link)

lemma lost_unlink [simp]: "lease_lost k (attempt_unlink now k tv) = lease_lost k tv"
  by (auto simp: attempt_unlink_def lease_lost_def setCurrentRequestID_def setTaskRequestID_def split: option.splits)

lemma verdict_recorded:
  assumes "in_step k t tv" and "\<not> lease_lost k tv" and "tk_Result t = ''''" and "tk_NextAttemptAt t = None"
    and "\<not> tk_DeadLetter t"
    and "attempt_finish render now k r tv = (tv', oc)"
  shows "\<exists>d. row k (conclude msg now k oc tv') = Some d
    \<and> recorded d = verdict render msg now (tk_Attempts t) (tk_MaxAttempts t) (tk_BackoffSeconds t) r
    \<and> tk_Attempts d = tk_Attempts t"
proof -
  have nc: "\<not> isTaskCancelled k tv" using assms(1) by (auto simp: isTaskCancelled_def in_step_def task_terminal_def)
  show ?thesis
  proof (cases r)
    case (Inr v)
    obtain rid result rt where v: "v = (rid, result, rt)" by (metis prod.exhaust)
    let ?d = "complete_task now (render result) rt t"
    have "row k (put_persist ?d tv) = Some ?d"
      using in_step_put [OF assms(1), of ?d] assms(1) by (simp add: in_step_def complete_task_def)
    then have "row k (attempt_unlink now k (put_persist ?d tv)) = Some ?d"
      by (rule unlink_row) (simp add: complete_task_def task_terminal_def)
    moreover have "tv' = attempt_unlink now k (put_persist ?d tv)" "oc = None"
      using assms(1,6) nc Inr v by (auto simp: attempt_finish_def in_step_def)
    ultimately show ?thesis
      by (simp add: conclude_def Inr v verdict_def recorded_def complete_task_def)
  next
    case (Inl e)
    let ?t = "linked now '''' t"
    have tv': "tv' = attempt_unlink now k tv" and
      oc: "oc = Some (if e = ErrRequestCancelled then ErrTaskRequestCancelled
                       else if e = CtxDeadlineExceeded then ErrTaskTimedOut else AttemptError e)"
      using assms(6) nc Inl by (auto simp: attempt_finish_def)
    have i: "in_step k ?t tv'" unfolding tv' by (rule unlink_in_step [OF assms(1)])
    have live: "tk_Status ?t = TPending \<or> tk_Status ?t = TRunning"
      using i by (cases "tk_Status ?t") (auto simp: in_step_def task_terminal_def)
    have nc': "\<not> isTaskCancelled k tv'" using i by (auto simp: isTaskCancelled_def in_step_def task_terminal_def)
    have ll: "\<not> lease_lost k tv'" using assms(2) by (simp add: tv')
    have lt: "local_task k tv' = Some ?t" and id: "tk_ID ?t = k" using i by (auto simp: in_step_def)
    have put: "row k (put_persist d tv') = Some d" if "tk_ID d = k" for d using in_step_put [OF i that] by simp
    show ?thesis
      using live nc' ll lt assms(3,4,5) id put
      by (auto simp: oc Inl conclude_def updateTaskWithCancelled_def updateTaskWithError_def retry_task_def Let_def
          task_MarkDeadLetter_def recorded_def verdict_def linked_def)
  qed
qed

lemma end_row:
  assumes "row k tv = Some d"
  shows "\<exists>d'. row k (execute_end now k tv) = Some d' \<and> recorded d' = recorded d \<and> tk_Attempts d' = tk_Attempts d"
  using assms
  by (auto simp: execute_end_def clearTaskExecution_def mem_ReleaseTaskAdoption_def put_task_def Let_def recorded_def)

lemma end_releases:
  assumes "tv_instanceID tv \<noteq> ''''"
  shows "gm_get (tv_executions (execute_end now k tv)) k = None \<and> task_owner k (tv_store (execute_end now k tv)) \<noteq> tv_instanceID tv"
proof -
  have "task_owner k (mem_ReleaseTaskAdoption now k (tv_instanceID tv) (tv_store tv)) \<noteq> tv_instanceID tv"
    using assms
    by (simp add: mem_ReleaseTaskAdoption_def put_task_def Let_def task_owner_def split: option.split)
  then show ?thesis by (simp add: execute_end_def clearTaskExecution_def)
qed

lemma instance_kept [simp]:
  "tv_instanceID (setCurrentRequestID now k r tv) = tv_instanceID tv"
  "tv_instanceID (setTaskRequestID k r tv) = tv_instanceID tv"
  by (simp_all add: setCurrentRequestID_def setTaskRequestID_def split: option.split)

lemma instance_finish [simp]: "tv_instanceID (fst (attempt_finish render now k r tv)) = tv_instanceID tv"
  by (simp add: attempt_finish_def attempt_unlink_def split: sum.split option.split)

lemma instance_conclude [simp]: "tv_instanceID (conclude msg now k oc tv) = tv_instanceID tv"
  by (auto simp: conclude_def updateTaskWithCancelled_def updateTaskWithError_def split: option.split attempt_error.split)

lemma claimed_row:
  assumes "mem_ClaimTaskForAdoption now k w ttl s = (st, Some t)"
  shows "gm_get (st_tasks st) k = Some t" "\<not> task_terminal t" "\<not> tk_DeadLetter t"
    "\<exists>d. gm_get (st_tasks s) k = Some d \<and> tk_ID t = tk_ID d"
  using assms by (auto simp: mem_ClaimTaskForAdoption_def Let_def task_terminal_def split: option.splits if_splits)

text \<open>C14: An attempt leaves exactly one outcome.  When an adopted task has its request created and
  nothing interferes with the task while it waits, the row it leaves in the shared table is
  determined by what the wait returned: a result completes the task with that result; a
  cancelled request cancels it; a deadline or a shutdown fails it for good; any other error
  dead-letters it at the last attempt and otherwise schedules the next attempt after the
  backoff times the number of attempts.  The attempt is counted once, the execution is
  forgotten, and the adoption is released.\<close>

theorem attempt_outcome_is_recorded:
  assumes "tasks_ok tv"
    and "mem_ClaimTaskForAdoption now k (tv_instanceID tv) taskAdoptionLeaseTTL (tv_store tv) = (st, Some t)"
    and "attempt_submit itoa u now k (put_persist (start_attempt now t) (execute_begin t (set_task_store st tv))) = (tv3, Inr rid)"
    and "waiting rid tv3 = (tv4, r)" and "local_task k tv4 = local_task k tv3" and "row k tv4 = row k tv3"
    and "\<not> lease_lost k tv4" and "tv_instanceID tv4 = tv_instanceID tv" and "tv_instanceID tv \<noteq> ''''"
    and "0 \<le> tk_Attempts t" and "tk_Attempts t < max_int64"
  shows "case executeTask render itoa msg u waiting now now' t (set_task_store st tv) of
     tv' \<Rightarrow> (\<exists>d. row k tv' = Some d \<and> tk_Attempts d = tk_Attempts t + 1
         \<and> recorded d = verdict render msg now' (tk_Attempts t + 1) (tk_MaxAttempts t) (tk_BackoffSeconds t) r)
       \<and> gm_get (tv_executions tv') k = None \<and> task_owner k (tv_store tv') \<noteq> tv_instanceID tv"
proof -
  let ?tv0 = "set_task_store st tv" and ?s = "start_attempt now t"
  note c = claimed_row [OF assms(2)]
  have id: "tk_ID t = k" using c(4) assms(1) by (auto simp: tasks_ok_def)
  have r0: "row k ?tv0 = Some t" using c(1) by simp
  note b = begin_attempt [OF r0 id c(2)]
  have i: "in_step k (linked now rid ?s) tv4"
    using submit_links [OF assms(3) b(3)] assms(5,6) by (simp add: in_step_def)
  have n: "tk_Attempts ?s = tk_Attempts t + 1"
    using assms(10,11) by (simp add: start_attempt_def wrap64_suc)
  obtain tv5 oc where f: "attempt_finish render now' k r tv4 = (tv5, oc)" by fastforce
  have e: "executeTask render itoa msg u waiting now now' t ?tv0 = execute_end now' k (conclude msg now' k oc tv5)"
    using id b(1,2) assms(3,4) f by (simp add: executeTask_def Let_def)
  obtain d where d: "row k (conclude msg now' k oc tv5) = Some d"
    "recorded d = verdict render msg now' (tk_Attempts t + 1) (tk_MaxAttempts t) (tk_BackoffSeconds t) r"
    "tk_Attempts d = tk_Attempts t + 1"
    using verdict_recorded [OF i assms(7) _ _ _ f, of msg] c(3) n by (auto simp: linked_def start_attempt_def)
  have "tv_instanceID (conclude msg now' k oc tv5) = tv_instanceID tv"
    using instance_finish [of render now' k r tv4] f assms(8) by simp
  with end_row [OF d(1), of now'] end_releases [of "conclude msg now' k oc tv5" now' k] d(2,3) assms(9)
  show ?thesis by (simp add: e) blast
qed

section \<open>Failing over and over\<close>

definition fail_round :: "time \<times> string \<Rightarrow> task \<Rightarrow> task" where
  "fail_round e t = retry_task (fst e) (snd e) (start_attempt (fst e) t)"

lemma fail_round_fields:
  assumes "0 \<le> tk_Attempts t" and "tk_Attempts t < tk_MaxAttempts t" and "tk_MaxAttempts t \<le> max_int64"
  shows "tk_Attempts (fail_round e t) = tk_Attempts t + 1" "tk_MaxAttempts (fail_round e t) = tk_MaxAttempts t"
    "tk_Status (fail_round e t) = (if tk_Attempts t + 1 = tk_MaxAttempts t then TFailed else TPending)"
    "tk_DeadLetter (fail_round e t) = (tk_DeadLetter t \<or> tk_Attempts t + 1 = tk_MaxAttempts t)"
proof -
  have "wrap64 (tk_Attempts t + 1) = tk_Attempts t + 1" using assms by (intro wrap64_suc) auto
  then show "tk_Attempts (fail_round e t) = tk_Attempts t + 1" "tk_MaxAttempts (fail_round e t) = tk_MaxAttempts t"
    "tk_Status (fail_round e t) = (if tk_Attempts t + 1 = tk_MaxAttempts t then TFailed else TPending)"
    "tk_DeadLetter (fail_round e t) = (tk_DeadLetter t \<or> tk_Attempts t + 1 = tk_MaxAttempts t)"
    using assms(2) by (auto simp: fail_round_def retry_task_def start_attempt_def task_MarkDeadLetter_def Let_def)
qed

text \<open>C25: A failing task ends.  Attempt after attempt with an ordinary error, a task that has attempts
  left stays pending and adoptable until exactly its last attempt, and that attempt
  dead-letters it: it is failed, counted at its limit, and never adopted again.\<close>

theorem failing_task_is_dead_lettered:
  assumes "0 \<le> tk_Attempts t" and "tk_Attempts t < tk_MaxAttempts t" and "tk_MaxAttempts t \<le> max_int64"
    and "\<not> tk_DeadLetter t"
  shows "case fold fail_round rounds t of t' \<Rightarrow>
     (0 < length rounds \<and> int (length rounds) < tk_MaxAttempts t - tk_Attempts t \<longrightarrow>
        tk_Status t' = TPending \<and> \<not> tk_DeadLetter t' \<and> tk_Attempts t' = tk_Attempts t + int (length rounds))
   \<and> (int (length rounds) = tk_MaxAttempts t - tk_Attempts t \<longrightarrow>
        tk_Status t' = TFailed \<and> tk_DeadLetter t' \<and> tk_Attempts t' = tk_MaxAttempts t \<and> \<not> taskAttemptDue now t')"
  using assms
proof (induction rounds arbitrary: t)
  case (Cons e rounds)
  note f = fail_round_fields [OF Cons.prems(1,2,3), of e]
  show ?case
  proof (cases "tk_Attempts t + 1 = tk_MaxAttempts t")
    case True
    then show ?thesis using f by (cases rounds) (auto simp: taskAttemptDue_def)
  next
    case False
    then have m: "tk_Attempts t + 1 < tk_MaxAttempts t" using Cons.prems(2) by simp
    have ih: "case fold fail_round rounds (fail_round e t) of t' \<Rightarrow>
     (0 < length rounds \<and> int (length rounds) < tk_MaxAttempts t - (tk_Attempts t + 1) \<longrightarrow>
        tk_Status t' = TPending \<and> \<not> tk_DeadLetter t' \<and> tk_Attempts t' = tk_Attempts t + 1 + int (length rounds))
   \<and> (int (length rounds) = tk_MaxAttempts t - (tk_Attempts t + 1) \<longrightarrow>
        tk_Status t' = TFailed \<and> tk_DeadLetter t' \<and> tk_Attempts t' = tk_MaxAttempts t \<and> \<not> taskAttemptDue now t')"
      using Cons.IH [of "fail_round e t"] Cons.prems m f by simp
    show ?thesis
    proof (cases rounds)
      case Nil
      then show ?thesis using f m Cons.prems(4) by simp
    next
      case (Cons e' rounds')
      then show ?thesis using ih by auto
    qed
  qed
qed simp

section \<open>Cancellation\<close>

lemma cancel_request_stops:
  assumes "CancelRequest now s rid sv = (sv', res)" and "res = Inr () \<or> res = Inl ErrRequestNotCancellable"
  shows "\<exists>q. mem_GetRequest rid (sv_store sv') = Some q \<and> IsTerminalStatus (r_Status q)"
  using assms
  by (auto simp: CancelRequest_def mem_CancelRequestFenced_def lookupFenced_def Let_def cache_put_def upd_request_def
      ReleaseMachineSlot_def mem_GetRequest_def IsTerminalStatus_def cancel_row_def SetResult_def
      split: option.splits if_splits prod.splits sum.splits bool.splits)

lemma cancel_retry_stops:
  assumes "cancel_request_retry now s rid sv = (sv', Inr ())"
  shows "\<exists>q. mem_GetRequest rid (sv_store sv') = Some q \<and> IsTerminalStatus (r_Status q)"
proof -
  obtain sv1 r1 where 1: "CancelRequest now s rid sv = (sv1, r1)" by fastforce
  obtain sv2 r2 where 2: "CancelRequest now s rid sv1 = (sv2, r2)" by fastforce
  show ?thesis
    using assms cancel_request_stops [OF 1] cancel_request_stops [OF 2]
    by (cases r1; cases r2) (auto simp: cancel_request_retry_def 1 2 split: if_splits)
qed

lemma get_request_persist [simp]: "mem_GetRequest rid (tv_store (persistTask t tv)) = mem_GetRequest rid (tv_store tv)"
  by (simp add: persistTask_def mem_GetRequest_def mem_SaveTask_def put_task_def split: option.split)

lemma cancel_execution_fields [simp]:
  "tv_store (cancel_execution l k tv) = tv_store tv" "tv_tasks (cancel_execution l k tv) = tv_tasks tv"
  by (simp_all add: cancel_execution_def split: option.split)

text \<open>C26: A cancellation that succeeds is final.  The task is cancelled in the cache and in the table,
  no saving, adopting, renewing or releasing by any instance changes that, the request of
  the running attempt, if one is known, has ended, and an attempt that is still waiting on
  this replica ends as cancelled whatever its wait returns.\<close>

theorem cancelled_task_stays_cancelled:
  assumes "tasks_ok tv" and "CancelTask now s k tv = (tv', Inr ())"
  shows "(\<exists>c. local_task k tv' = Some c \<and> tk_Status c = TCancelled)
    \<and> (\<exists>d. gm_get (st_tasks (fold apply_task_op ops (tv_store tv'))) k = Some d \<and> tk_Status d = TCancelled)
    \<and> (cancel_request_id k tv \<noteq> '''' \<longrightarrow>
        (\<exists>q. mem_GetRequest (cancel_request_id k tv) (tv_store tv') = Some q \<and> IsTerminalStatus (r_Status q)))
    \<and> (case attempt_finish render now' k r tv' of
         (tv2, oc) \<Rightarrow> oc = Some ErrTaskCancelled \<and> local_task k (conclude msg now' k oc tv2) = local_task k tv')"
proof -
  obtain w where w: "cancel_target k tv = Some w" using assms(2) by (auto simp: CancelTask_eq split: option.splits)
  note ids = cancel_ids [OF assms(1) w]
  obtain sv2 where c: "cancel_server now s k tv = (sv2, Inr ())"
    and live: "tk_Status w = TPending \<or> tk_Status w = TRunning"
    and tv': "tv' = cancel_execution False k (persistTask (apply_cancel now w) ((cancel_view k tv)\<lparr> tv_server := sv2,
        tv_tasks := gm_put k (apply_cancel now (the (local_task k (cancel_view k tv)))) (tv_tasks (cancel_view k tv)) \<rparr>))"
    using assms(2) w by (auto simp: CancelTask_eq split: if_splits prod.splits sum.splits)
  have l: "local_task k tv' = Some (apply_cancel now (the (local_task k (cancel_view k tv))))"
    by (simp add: tv' persistTask_def)
  have nt: "\<not> settled (row k tv) \<or> row k tv = None"
    using w live by (auto simp: cancel_target_def settled_def task_terminal_def split: option.splits if_splits)
  have row: "row k tv' = Some (apply_cancel now w)"
    using tasks_cancel_server [OF c] ids(1) nt by (auto simp: tv' persistTask_def row_saved)
  have fin: "finished k (task_outcome (apply_cancel now w)) (tv_store tv')"
    using row by (simp add: finished_def)
  have "\<exists>d. gm_get (st_tasks (fold apply_task_op ops (tv_store tv'))) k = Some d \<and> tk_Status d = TCancelled"
    using tasks.kept_run [OF task_run fin, of ops] by (auto simp: finished_def task_outcome_def)
  moreover have "\<exists>q. mem_GetRequest (cancel_request_id k tv) (tv_store tv') = Some q \<and> IsTerminalStatus (r_Status q)"
    if "cancel_request_id k tv \<noteq> ''''"
    using cancel_retry_stops [of now s "cancel_request_id k tv" "tv_server tv" sv2] c that
    by (simp add: cancel_server_def tv')
  moreover obtain a where a: "local_task k tv' = Some a" "tk_Status a = TCancelled" using l by simp
  then have "isTaskCancelled k tv'" by (simp add: isTaskCancelled_def)
  with a have "case attempt_finish render now' k r tv' of
         (tv2, oc) \<Rightarrow> oc = Some ErrTaskCancelled \<and> local_task k (conclude msg now' k oc tv2) = local_task k tv'"
    by (auto simp: attempt_finish_def conclude_def attempt_unlink_def setCurrentRequestID_def setTaskRequestID_def
        split: option.splits)
  ultimately show ?thesis using l by auto
qed

section \<open>Reading a task elsewhere\<close>

text \<open>What the other replicas do to the table in between.\<close>

fun reads_between :: "string \<Rightarrow> string \<Rightarrow> task_op list list \<Rightarrow> tasks_state \<Rightarrow> tasks_state" where
  "reads_between s k [] tv = tv"
| "reads_between s k (ops # rest) tv =
     reads_between s k rest (fst (GetTaskByID s k (set_task_store (fold apply_task_op ops (tv_store tv)) tv)))"

lemma reads_keep_copy:
  "local_task k tv = Some c \<Longrightarrow> local_task k (reads_between s k rest tv) = Some c"
proof (induction s k rest tv rule: reads_between.induct)
  case (2 s k ops rest tv)
  have "local_task k (fst (GetTaskByID s k (set_task_store (fold apply_task_op ops (tv_store tv)) tv))) = Some c"
    using 2(2) by (simp add: GetTaskByID_def Let_def split: option.split)
  from 2(1) [OF this] show ?case by simp
qed simp

text \<open>A replica that has a copy of a task but does not execute it reports that copy for ever.
  However far the replica that executes the task moves the row, and however often this
  replica reads it in between, each read that finds the row answers with the copy it first
  saw: a task that completed elsewhere stays pending here.\<close>

theorem task_reads_are_frozen:
  assumes "local_task k tv = Some c"
    and "gm_get (st_tasks (fold apply_task_op ops (tv_store (reads_between s k earlier tv)))) k = Some d"
    and "tk_SessionID d = s"
  shows "snd (GetTaskByID s k (set_task_store (fold apply_task_op ops (tv_store (reads_between s k earlier tv)))
           (reads_between s k earlier tv))) = Inr c"
  using reads_keep_copy [OF assms(1), of s earlier] assms(2,3)
  by (simp add: GetTaskByID_def mem_GetTaskByID_def Let_def)

section \<open>Concrete tasks\<close>

definition demo_tasks :: tasks_state where
  "demo_tasks = fst (CreateTask ''t1'' 2000 ''s1'' ''echo'' ''x'' ''k1'' (NewTasksService ''i1'' 1500 demo_registered))"

abbreviation demo_render :: "go_value \<Rightarrow> string" where "demo_render \<equiv> (\<lambda>v. ''ok'')"
abbreviation demo_itoa :: "int \<Rightarrow> string" where "demo_itoa \<equiv> (\<lambda>n. ''1'')"
abbreviation demo_msg :: "attempt_error \<Rightarrow> string" where "demo_msg \<equiv> (\<lambda>e. ''failed'')"

definition demo_claimed :: task where
  "demo_claimed = the (snd (mem_ClaimTaskForAdoption 3000 ''t1'' (tv_instanceID demo_tasks) taskAdoptionLeaseTTL (tv_store demo_tasks)))"

definition demo_adopted :: tasks_state where
  "demo_adopted = set_task_store
     (fst (mem_ClaimTaskForAdoption 3000 ''t1'' (tv_instanceID demo_tasks) taskAdoptionLeaseTTL (tv_store demo_tasks))) demo_tasks"

lemma demo_task_row: "row ''t1'' demo_tasks = Some ((NewTask ''t1'' 2000 ''s1'' ''echo'' ''x'')\<lparr> tk_IdempotencyKey := ''k1'' \<rparr>)"
  by code_simp

lemma demo_submit: "snd (attempt_submit demo_itoa ''r1'' 3000 ''t1''
    (put_persist (start_attempt 3000 demo_claimed) (execute_begin demo_claimed demo_adopted))) = Inr ''r1''"
  by code_simp

lemma demo_claimed_fields:
  "tk_Attempts demo_claimed = 0" "tk_MaxAttempts demo_claimed = 3" "tk_BackoffSeconds demo_claimed = 5"
  by code_simp+

lemma demo_rows_keyed:
  "gm_wf (st_tasks (sv_store demo_registered))" "gm_get (st_tasks (sv_store demo_registered)) k = Some t \<Longrightarrow> tk_ID t = k"
proof -
  have e: "st_tasks (sv_store demo_registered) = []" by code_simp
  show "gm_wf (st_tasks (sv_store demo_registered))" by (simp add: e)
  show "gm_get (st_tasks (sv_store demo_registered)) k = Some t \<Longrightarrow> tk_ID t = k" by (simp add: e)
qed

lemma demo_tasks_ok: "tasks_ok demo_tasks"
  unfolding demo_tasks_def by (rule ok_create) (rule ok_new [OF demo_rows_keyed])

lemma demo_claim_pair:
  "mem_ClaimTaskForAdoption 3000 ''t1'' (tv_instanceID demo_tasks) taskAdoptionLeaseTTL (tv_store demo_tasks)
     = (tv_store demo_adopted, Some demo_claimed)" by code_simp

theorem retention_spares_unfinished_tasks_witness:
  "row ''t1'' (CleanupOldTasks 999999999999999 1 demo_tasks) = row ''t1'' demo_tasks"
proof -
  have s: "(task_step demo_render demo_itoa demo_msg)\<^sup>*\<^sup>* (NewTasksService ''i1'' 1500 demo_registered) demo_tasks"
    unfolding demo_tasks_def by (rule r_into_rtranclp) (rule task_step.create)
  show ?thesis
    using retention_spares_unfinished_tasks [OF demo_rows_keyed s, where k = "''t1''" and now = 999999999999999 and age = 1]
    by (simp add: demo_task_row task_terminal_def NewTask_def)
qed

theorem attempt_outcome_is_recorded_witness:
  "\<exists>d. row ''t1'' (executeTask demo_render demo_itoa demo_msg ''r1'' (\<lambda>rid tv. (tv, Inl ErrOther)) 3000 4000 demo_claimed demo_adopted) = Some d
     \<and> tk_Status d = TPending \<and> tk_NextAttemptAt d = Some (4000 + 5 * Second)"
proof -
  note c = demo_claim_pair
  have a: "demo_adopted = set_task_store (tv_store demo_adopted) demo_tasks"
    by (simp add: demo_adopted_def)
  let ?tv2 = "put_persist (start_attempt 3000 demo_claimed) (execute_begin demo_claimed (set_task_store (tv_store demo_adopted) demo_tasks))"
  define tv3 where "tv3 = fst (attempt_submit demo_itoa ''r1'' 3000 ''t1'' ?tv2)"
  have sub: "attempt_submit demo_itoa ''r1'' 3000 ''t1'' ?tv2 = (tv3, Inr ''r1'')"
    using demo_submit unfolding tv3_def by (metis a prod.collapse)
  have "\<not> lease_lost ''t1'' tv3" "tv_instanceID tv3 = tv_instanceID demo_tasks" "tv_instanceID demo_tasks \<noteq> ''''"
    unfolding tv3_def by code_simp+
  then have "\<exists>d. row ''t1'' (executeTask demo_render demo_itoa demo_msg ''r1'' (\<lambda>rid tv. (tv, Inl ErrOther)) 3000 4000 demo_claimed
        (set_task_store (tv_store demo_adopted) demo_tasks)) = Some d
      \<and> recorded d = verdict demo_render demo_msg 4000 (tk_Attempts demo_claimed + 1) (tk_MaxAttempts demo_claimed)
          (tk_BackoffSeconds demo_claimed) (Inl ErrOther)"
    using attempt_outcome_is_recorded [where waiting = "\<lambda>rid tv. (tv, Inl ErrOther)" and render = demo_render and msg = demo_msg
        and now' = 4000, OF demo_tasks_ok c sub refl refl refl]
    by (simp add: demo_claimed_fields) blast
  then show ?thesis
    by (auto simp: a [symmetric] recorded_def verdict_def demo_claimed_fields seconds_def wrap64_id Second_def)
qed
theorem failing_task_is_dead_lettered_witness:
  "tk_DeadLetter (fold fail_round [(4000, ''a''), (9000, ''b''), (19000, ''c'')] demo_claimed)"
  using failing_task_is_dead_lettered [where t = demo_claimed and rounds = "[(4000, ''a''), (9000, ''b''), (19000, ''c'')]"]
  by (simp add: demo_claimed_fields claimed_row(3) [of 3000 "''t1''" "tv_instanceID demo_tasks" taskAdoptionLeaseTTL
        "tv_store demo_tasks" "tv_store demo_adopted"] demo_claim_pair)

definition demo_running :: tasks_state where
  "demo_running = fst (attempt_submit demo_itoa ''r1'' 3000 ''t1'' (fst (attempt_begin 3000 ''t1'' (adopt_task 3000 ''t1'' demo_tasks))))"

theorem cancelled_task_stays_cancelled_witness:
  "\<exists>d q. gm_get (st_tasks (fold apply_task_op [TSave demo_claimed, TClaim 9000 ''t1'' ''other'' 1]
        (tv_store (fst (CancelTask 5000 ''s1'' ''t1'' demo_running))))) ''t1'' = Some d \<and> tk_Status d = TCancelled
     \<and> mem_GetRequest ''r1'' (tv_store (fst (CancelTask 5000 ''s1'' ''t1'' demo_running))) = Some q
     \<and> IsTerminalStatus (r_Status q)"
proof -
  have ok: "tasks_ok demo_running"
    unfolding demo_running_def by (intro ok_submit ok_attempt(1) ok_adopt demo_tasks_ok)
  have "snd (CancelTask 5000 ''s1'' ''t1'' demo_running) = Inr ()" by code_simp
  then have c: "CancelTask 5000 ''s1'' ''t1'' demo_running = (fst (CancelTask 5000 ''s1'' ''t1'' demo_running), Inr ())"
    by (metis prod.collapse)
  have r: "cancel_request_id ''t1'' demo_running = ''r1''" by code_simp
  show ?thesis
    using cancelled_task_stays_cancelled [OF ok c, where ops = "[TSave demo_claimed, TClaim 9000 ''t1'' ''other'' 1]"]
    unfolding r by blast
qed

definition demo_done_task :: task where
  "demo_done_task = complete_task 9000 ''ok'' ResultTypeResolution demo_claimed"

theorem task_reads_are_frozen_witness:
  "\<exists>c. snd (GetTaskByID ''s1'' ''t1'' (set_task_store (fold apply_task_op [TSave demo_done_task] (tv_store demo_tasks)) demo_tasks)) = Inr c
     \<and> tk_Status c = TPending \<and> tk_Status demo_done_task = TCompleted"
proof -
  let ?st = "fold apply_task_op [TSave demo_done_task] (tv_store demo_tasks)"
  have "local_task ''t1'' demo_tasks = Some ((NewTask ''t1'' 2000 ''s1'' ''echo'' ''x'')\<lparr> tk_IdempotencyKey := ''k1'' \<rparr>)"
    "gm_get (st_tasks ?st) ''t1'' = Some demo_done_task" "tk_SessionID demo_done_task = ''s1''" by code_simp+
  then show ?thesis
    using task_reads_are_frozen [where tv = demo_tasks and k = "''t1''" and s = "''s1''" and earlier = "[]"
        and ops = "[TSave demo_done_task]" and d = demo_done_task]
    by (simp add: NewTask_def demo_done_task_def complete_task_def)
qed

end
