(* ===== verification/Stream_Delivery.thy ===== *)
theory Stream_Delivery
  imports Service_Lifecycle Authorizer Proto_Convert
begin

text \<open>
  The streaming handlers of \<open>pkg/service/server.go\<close>: a stream polls snapshots of its request and
  sends what is new, until the request is finished, the client leaves, or a send fails.  What
  happens between two polls is an argument.  \<open>up\<close> says which messages \<open>stream.Send\<close> accepts,
  and \<open>render\<close> is \<open>marshalExecuteToolResult\<close>.
\<close>

record stream_chunk =
  ec_Seq :: int
  ec_RequestId :: string
  ec_Chunk :: string
  ec_IsFinal :: bool
  ec_Error :: string

datatype stream_end = Finished | Broken domain_error | Denied auth_error | Panicked

definition snapshot_IsTerminal :: "stream_snapshot \<Rightarrow> bool" where
  "snapshot_IsTerminal sn = IsTerminalStatus (sn_Status sn)"

definition FinalSeq :: "stream_snapshot \<Rightarrow> int" where
  "FinalSeq sn = w_NextSeq (sn_Window sn)"

text \<open>The loop over the window from index \<open>i\<close>: the messages sent, the last sequence number sent,
  and whether every send succeeded.\<close>

fun send_window ::
  "(stream_chunk \<Rightarrow> bool) \<Rightarrow> string \<Rightarrow> int \<Rightarrow> nat \<Rightarrow> string list \<Rightarrow> int \<Rightarrow> stream_chunk list \<times> int \<times> bool" where
  "send_window up rid start i [] lastSeq = ([], lastSeq, True)"
| "send_window up rid start i (c # cs) lastSeq =
     (let seq = wrap32 (start + wrap32 (int i));
          m = \<lparr> ec_Seq = seq, ec_RequestId = rid, ec_Chunk = c, ec_IsFinal = False, ec_Error = '''' \<rparr>
      in if seq \<le> lastSeq then send_window up rid start (Suc i) cs lastSeq
         else if \<not> up m then ([], lastSeq, False)
         else case send_window up rid start (Suc i) cs seq of (ms, l, sent) \<Rightarrow> (m # ms, l, sent))"

definition final_message :: "(go_value \<Rightarrow> string) \<Rightarrow> stream_snapshot \<Rightarrow> stream_chunk" where
  "final_message render sn =
     \<lparr> ec_Seq = FinalSeq sn, ec_RequestId = sn_RequestID sn, ec_Chunk = render (sn_Result sn), ec_IsFinal = True,
       ec_Error = sn_Error sn \<rparr>"

definition sendExecuteToolSnapshot ::
  "(stream_chunk \<Rightarrow> bool) \<Rightarrow> (go_value \<Rightarrow> string) \<Rightarrow> stream_snapshot \<Rightarrow> int \<Rightarrow> stream_chunk list \<times> int \<times> bool" where
  "sendExecuteToolSnapshot up render sn lastSeq =
     (case send_window up (sn_RequestID sn) (w_StartSeq (sn_Window sn)) 0 (w_Chunks (sn_Window sn)) lastSeq of
        (ms, l, sent) \<Rightarrow>
          if \<not> sent then (ms, l, False)
          else if snapshot_IsTerminal sn \<and> l < FinalSeq sn
          then (if up (final_message render sn) then (ms @ [final_message render sn], FinalSeq sn, True) else (ms, l, False))
          else (ms, l, True))"

text \<open>One poll; the fourth component is the end of the stream, if it is over.\<close>

definition stream_poll ::
  "(stream_chunk \<Rightarrow> bool) \<Rightarrow> (go_value \<Rightarrow> string) \<Rightarrow> time \<Rightarrow> string \<Rightarrow> string \<Rightarrow> int \<Rightarrow> server
     \<Rightarrow> server \<times> stream_chunk list \<times> int \<times> stream_end option" where
  "stream_poll up render now sess rid lastSeq sv =
     (case requestStreamSnapshot now sess rid lastSeq sv of
        (sv1, None) \<Rightarrow> (sv1, [], lastSeq, Some Panicked)
      | (sv1, Some (Inl e)) \<Rightarrow> (sv1, [], lastSeq, Some (Broken e))
      | (sv1, Some (Inr sn)) \<Rightarrow>
          (case sendExecuteToolSnapshot up render sn lastSeq of
             (ms, l, sent) \<Rightarrow>
               (sv1, ms, l, if \<not> sent then Some (Broken ErrStreamSendFailed)
                            else if snapshot_IsTerminal sn then Some Finished else None)))"

text \<open>The loop; when nothing more is to happen the client has disconnected.\<close>

fun stream_loop ::
  "(stream_chunk \<Rightarrow> bool) \<Rightarrow> (go_value \<Rightarrow> string) \<Rightarrow> string \<Rightarrow> string \<Rightarrow> (time \<times> (server \<Rightarrow> server)) list \<Rightarrow> int \<Rightarrow> server
     \<Rightarrow> server \<times> stream_chunk list \<times> stream_end" where
  "stream_loop up render sess rid [] lastSeq sv = (sv, [], Broken ErrClientDisconnected)"
| "stream_loop up render sess rid ((now, between) # rest) lastSeq sv =
     (case stream_poll up render now sess rid lastSeq (between sv) of
        (sv1, ms, l, Some fin) \<Rightarrow> (sv1, ms, fin)
      | (sv1, ms, l, None) \<Rightarrow>
          (case stream_loop up render sess rid rest l sv1 of (sv2, ms', fin) \<Rightarrow> (sv2, ms @ ms', fin)))"

definition StreamExecuteTool ::
  "(stream_chunk \<Rightarrow> bool) \<Rightarrow> (go_value \<Rightarrow> string) \<Rightarrow> string \<Rightarrow> time \<Rightarrow> auth_principal option \<Rightarrow> string \<Rightarrow> string \<Rightarrow> string
     \<Rightarrow> int \<Rightarrow> string \<Rightarrow> (time \<times> (server \<Rightarrow> server)) list \<Rightarrow> server \<Rightarrow> server \<times> stream_chunk list \<times> stream_end" where
  "StreamExecuteTool up render uuid now caller sessionID toolName input timeoutSeconds idempotencyKey rounds sv =
     (case RequireSessionCapability caller sessionID CapInvoke of
        Some e \<Rightarrow> (sv, [], Denied e)
      | None \<Rightarrow>
          (case CreateRequest uuid now sessionID toolName input timeoutSeconds idempotencyKey sv of
             (sv1, Inl e) \<Rightarrow> (sv1, [], Broken e)
           | (sv1, Inr request) \<Rightarrow> stream_loop up render (r_SessionID request) (r_ID request) rounds 0 sv1))"

definition ResumeStream ::
  "(stream_chunk \<Rightarrow> bool) \<Rightarrow> (go_value \<Rightarrow> string) \<Rightarrow> time \<Rightarrow> auth_principal option \<Rightarrow> string \<Rightarrow> int
     \<Rightarrow> (time \<times> (server \<Rightarrow> server)) list \<Rightarrow> server \<Rightarrow> server \<times> stream_chunk list \<times> stream_end" where
  "ResumeStream up render now caller requestID lastSeq rounds sv =
     (case caller of
        None \<Rightarrow> (sv, [], Broken ErrPrincipalRequired)
      | Some p \<Rightarrow>
          (case GetRequestByIDAnySession now requestID sv of
             (sv1, Inl e) \<Rightarrow> (sv1, [], Broken (if e = ErrStorage StErrNotFound then ErrNotFound else e))
           | (sv1, Inr request) \<Rightarrow>
               if p_Mode p \<noteq> AuthModeFixed \<and> p_SessionID p \<noteq> '''' \<and> p_SessionID p \<noteq> r_SessionID request
               then (sv1, [], Broken ErrNotFound)
               else (case RequireSessionCapability caller (r_SessionID request) CapInvoke of
                       Some e \<Rightarrow> (sv1, [], Denied e)
                     | None \<Rightarrow> stream_loop up render '''' requestID rounds lastSeq sv1)))"

section \<open>The log only grows\<close>

text \<open>How many chunks an operation can append.\<close>

fun op_load :: "store_op \<Rightarrow> nat" where
  "op_load (OFenced (FAppend now cs) sess rid m e) = length cs"
| "op_load (OFenced (FSubmit now v rt meta) sess rid m e) = 1"
| "op_load _ = 0"

lemma stream_abs_frame:
  "r_StreamResults r' = r_StreamResults r \<Longrightarrow> r_StreamStartSeq r' = r_StreamStartSeq r
     \<Longrightarrow> r_NextStreamSeq r' = r_NextStreamSeq r \<Longrightarrow> stream_abs log r' = stream_abs log r"
  by (simp add: stream_abs_def)

lemma stream_rows [simp]:
  "stream_abs log (grant_lease now d m r) = stream_abs log r"
  "stream_abs log (reclaim_row now ma b r) = stream_abs log r"
  "stream_abs log (cancel_row now msg r) = stream_abs log r"
  "stream_abs log (requeue_row now reason b r) = stream_abs log r"
  "stream_abs log (submit_row now v rt meta r) = stream_abs log r"
  "stream_abs log (update_row now m st v rt d r) = stream_abs log r"
  by (rule stream_abs_frame;
      simp add: grant_lease_def reclaim_row_def cancel_row_def requeue_row_def submit_row_def update_row_def
        merge_meta_def SetResult_def Let_def split: option.split request_status.split)+

lemma stream_renew: "renew_row now d r = Inr r' \<Longrightarrow> stream_abs log r' = stream_abs log r"
  by (rule stream_abs_frame) (auto simp: renew_row_def Let_def split: if_splits option.splits)

lemma effect_extends:
  assumes "fenced_effect w m r = Inr r'" and "stream_abs log r"
    and "int (length log + op_load (OFenced w sess rid m e)) < max_int32"
  shows "\<exists>ext. length ext \<le> op_load (OFenced w sess rid m e) \<and> stream_abs (log @ ext) r'"
proof (cases w)
  case (FRenew now d)
  with assms show ?thesis by (auto simp: stream_renew split: if_splits)
next
  case (FSubmit now v rt meta)
  show ?thesis
  proof (cases "stream_abs log r'")
    case True
    then show ?thesis by (intro exI [of _ "[]"]) simp
  next
    case False
    then obtain c where c: "r' = fst (AddStreamChunk now c r)"
      using FSubmit assms(1,2) by (auto split: if_splits go_value.splits)
    have "r_NextStreamSeq r < max_int32" using assms(2,3) FSubmit by (simp add: stream_abs_def)
    from AddStreamChunk_abs(1) [OF assms(2) this] show ?thesis using c FSubmit by (intro exI [of _ "[c]"]) simp
  qed
next
  case (FAppend now cs)
  have "r_NextStreamSeq r + int (length cs) \<le> max_int32" using assms(2,3) FAppend by (simp add: stream_abs_def)
  from AddStreamChunks_abs [OF assms(2) this] show ?thesis using assms(1) FAppend by (intro exI [of _ cs]) auto
next
  case (FUpdate now st v rt d)
  with assms show ?thesis by (intro exI [of _ "[]"]) (auto split: if_splits)
next
  case (FRequeue now reason b)
  with assms show ?thesis by (intro exI [of _ "[]"]) auto
qed

lemma op_extends:
  assumes "store_ok s" and "legal_op op" and "gm_get (st_requests s) rid = Some r"
    and "gm_get (st_requests (apply_op op s)) rid = Some r'" and "stream_abs log r"
    and "int (length log + op_load op) < max_int32"
  shows "\<exists>ext. length ext \<le> op_load op \<and> stream_abs (log @ ext) r'"
proof -
  have k: "keyed (st_requests s)" using assms(1) by (simp add: store_ok_def)
  have "stream_abs log r'" if "\<And>w sess i m e. op \<noteq> OFenced w sess i m e"
  proof (cases op)
    case (OInsert q)
    with assms show ?thesis by (auto simp: mem_InsertRequest_def split: if_splits)
  next
    case (OLease now sess m tools d)
    with assms lease_rows [OF k, of now sess m tools d] show ?thesis
      by (cases "mem_LeasePendingRequest now sess m tools d s") (auto split: if_splits)
  next
    case (OClaim now sess i m d)
    with assms claim_rows [of now sess i m d s] show ?thesis
      by (cases "mem_ClaimRequest now sess i m d s") (auto split: if_splits)
  next
    case (OReclaim i now d ma b)
    with assms show ?thesis
      by (auto simp: mem_ReclaimExpiredRequest_def Let_def split: option.splits if_splits)
  next
    case (OFenced w sess i m e)
    with that show ?thesis by blast
  next
    case (OCancel now sess i msg)
    with assms show ?thesis
      by (auto simp: mem_CancelRequestFenced_def lookupFenced_def Let_def split: option.splits if_splits)
  next
    case (OReadChunks i a b)
    with assms ensure_id [OF assms(5)] show ?thesis
      by (auto simp: mem_GetRequestChunksByRequest_def Let_def split: option.splits if_splits)
  next
    case (OSweep c)
    with assms k show ?thesis
      by (auto simp: mem_DeleteTerminalRequestsBefore_def gm_get_prune keyed_def split: option.splits if_splits)
  next
    case (OOther s')
    with assms show ?thesis by simp
  next
    case (OReorder m)
    with assms k show ?thesis
      by (auto simp: keyed_def gm_get_perm [of "st_requests s" m] split: if_splits)
  qed
  then have other: "(\<And>w sess i m e. op \<noteq> OFenced w sess i m e) \<Longrightarrow> ?thesis" by (intro exI [of _ "[]"]) simp
  show ?thesis
  proof (cases op)
    case (OFenced w sess i m e)
    then have "r' = r \<or> fenced_effect w m r = Inr r'"
      using assms(3,4) by (auto simp: mem_write_eq split: option.splits sum.splits if_splits)
    then show ?thesis
      using effect_extends [of w m r r' log sess i e] assms(5,6) OFenced by (auto intro: exI [of _ "[]"])
  qed (rule other, simp)+
qed

text \<open>A stream's row through the rounds of a run: it exists, and its timestamp does not go back.\<close>

fun steady :: "string \<Rightarrow> store_op list list \<Rightarrow> store \<Rightarrow> bool" where
  "steady rid [] s = True"
| "steady rid (ops # rest) s =
     (case (mem_GetRequest rid s, mem_GetRequest rid (run ops s)) of
        (Some r, Some r') \<Rightarrow> r_UpdatedAt r \<le> r_UpdatedAt r' \<and> quiet rid ops \<and> steady rid rest (run ops s)
      | _ \<Rightarrow> False)"

lemma run_extends:
  assumes "store_ok s" and "quiet rid ops" and "mem_GetRequest rid s = Some r" and "mem_GetRequest rid (run ops s) = Some r'"
    and "stream_abs log r" and "int (length log + sum_list (map op_load ops)) < max_int32"
  shows "\<exists>ext. length ext \<le> sum_list (map op_load ops) \<and> stream_abs (log @ ext) r'"
  using assms
proof (induction ops arbitrary: s r log)
  case Nil
  then show ?case by (intro exI [of _ "[]"]) simp
next
  case (Cons op ops)
  let ?s1 = "apply_op op s"
  have l: "legal_op op" "quiet rid ops" "\<not> inserts rid op" using Cons.prems(2) by (auto simp: quiet_def)
  have ok1: "store_ok ?s1" using store_ok_run [of s "[op]"] Cons.prems(1) l(1) by simp
  obtain r1 where r1: "mem_GetRequest rid ?s1 = Some r1" using row_run [OF ok1 l(2)] Cons.prems(4) by auto
  obtain ext where e: "length ext \<le> op_load op" "stream_abs (log @ ext) r1"
    using op_extends [OF Cons.prems(1) l(1), of rid r r1 log] Cons.prems(3,5,6) r1 by (auto simp: mem_GetRequest_def)
  have "int (length (log @ ext) + sum_list (map op_load ops)) < max_int32" using e(1) Cons.prems(6) by simp
  from Cons.IH [OF ok1 l(2) r1 _ e(2) this] Cons.prems(4)
  obtain ext' where "length ext' \<le> sum_list (map op_load ops)" "stream_abs ((log @ ext) @ ext') r'" by auto
  with e(1) show ?case by (intro exI [of _ "ext @ ext'"]) simp
qed

section \<open>One poll\<close>

text \<open>The log behind the stored row, and a cache that is not ahead of the store.\<close>

definition streaming :: "string \<Rightarrow> string \<Rightarrow> string list \<Rightarrow> server \<Rightarrow> bool" where
  "streaming sess rid log sv \<longleftrightarrow>
     (case mem_GetRequest rid (sv_store sv) of
        None \<Rightarrow> False
      | Some r \<Rightarrow> r_ID r = rid \<and> stream_abs log r
          \<and> (sess = '''' \<or> r_SessionID r = sess
               \<and> (case cached sess rid sv of None \<Rightarrow> True | Some e \<Rightarrow> r_UpdatedAt e \<le> r_UpdatedAt r)))"

text \<open>The messages for chunks that follow the first \<open>k\<close>.\<close>

fun numbered :: "string \<Rightarrow> int \<Rightarrow> string list \<Rightarrow> stream_chunk list" where
  "numbered rid k [] = []"
| "numbered rid k (c # cs) =
     \<lparr> ec_Seq = k + 1, ec_RequestId = rid, ec_Chunk = c, ec_IsFinal = False, ec_Error = '''' \<rparr> # numbered rid (k + 1) cs"

lemma numbered_append: "numbered rid k (xs @ ys) = numbered rid k xs @ numbered rid (k + int (length xs)) ys"
  by (induction xs arbitrary: k) (simp_all add: algebra_simps)

lemma length_numbered [simp]: "length (numbered rid k cs) = length cs"
  by (induction cs arbitrary: k) simp_all

lemma defaults_time [simp]:
  "r_UpdatedAt (ensureRequestDefaults now r) = r_UpdatedAt r" "r_Error (ensureRequestDefaults now r) = r_Error r"
  by (simp_all add: ensureRequestDefaults_def EnsureStreamSequenceDefaults_def Let_def split: option.split)

lemma lookup_streaming:
  assumes "streaming sess rid log sv"
  obtains r sv1 where "mem_GetRequest rid (sv_store sv) = Some r" "r_ID r = rid" "stream_abs log r"
    "lookupRequestForStream now sess rid sv = (sv1, Inr (ensureRequestDefaults now r))"
    "sv_store sv1 = sv_store sv" "streaming sess rid log sv1"
proof -
  obtain r where r: "mem_GetRequest rid (sv_store sv) = Some r" "r_ID r = rid" "stream_abs log r"
    using assms by (auto simp: streaming_def split: option.splits)
  let ?r = "ensureRequestDefaults now r"
  obtain sv1 where l: "lookupRequestForStream now sess rid sv = (sv1, Inr ?r)" "sv_store sv1 = sv_store sv"
    "sess = '''' \<or> cached sess rid sv1 = Some ?r"
  proof (cases "sess = ''''")
    case True
    with r that show thesis
      by (auto simp: lookupRequestForStream_def GetRequestByIDAnySession_def Let_def cache_put_def)
  next
    case False
    let ?sv = "sv\<lparr> sv_requests := gm_ensure sess [] (sv_requests sv) \<rparr>"
    have c: "cached sess rid ?sv = cached sess rid sv"
      by (auto simp: cached_def gm_get2_def gm_ensure_def split: option.split)
    have "lookupRequestForStream now sess rid sv = (cache_put sess rid ?r ?sv, Inr ?r)"
      using assms r False c
      by (auto simp: streaming_def lookupRequestForStream_def GetRequestByID_def Let_def split: option.splits)
    then show thesis using that [of "cache_put sess rid ?r ?sv"] by (simp add: cache_put_def cached_def)
  qed
  have "streaming sess rid log sv1" using assms r l(2,3) by (auto simp: streaming_def)
  with r l(1,2) that show thesis by blast
qed

lemma snapshot_streaming:
  assumes "streaming sess rid log sv" and "0 \<le> k" and "k \<le> int (length log)"
  obtains (expired) sv' a b where "requestStreamSnapshot now sess rid k sv = (sv', Some (Inl (RequestStreamExpiredError rid k a b)))"
      "k + 1 < a" "sv_store sv' = sv_store sv" "streaming sess rid log sv'"
  | (window) sv' sn r where "requestStreamSnapshot now sess rid k sv = (sv', Some (Inr sn))"
      "sv_store sv' = sv_store sv" "streaming sess rid log sv'" "mem_GetRequest rid (sv_store sv) = Some r"
      "sn_RequestID sn = rid" "sn_Status sn = r_Status r" "sn_Result sn = r_Result r" "sn_Error sn = r_Error r"
      "sn_Window sn = \<lparr> w_StartSeq = k + 1, w_NextSeq = int (length log) + 1, w_Chunks = drop (nat k) log \<rparr>"
proof -
  obtain r sv1 where r: "mem_GetRequest rid (sv_store sv) = Some r" "r_ID r = rid" "stream_abs log r"
    "lookupRequestForStream now sess rid sv = (sv1, Inr (ensureRequestDefaults now r))"
    "sv_store sv1 = sv_store sv" "streaming sess rid log sv1"
    by (rule lookup_streaming [OF assms(1)])
  let ?r = "ensureRequestDefaults now r"
  have abs: "stream_abs log ?r" by (rule stream_abs_defaults(1) [OF r(3)])
  have f: "r_ID ?r = rid" "r_StreamStartSeq ?r = r_StreamStartSeq r" "r_NextStreamSeq ?r = r_NextStreamSeq r"
    using r(2) stream_abs_defaults [OF r(3)] by simp_all
  have win: "mem_GetRequestChunksByRequest rid (r_StreamStartSeq r) (r_NextStreamSeq r) (sv_store sv) =
      (sv_store sv,
       \<lparr> w_StartSeq = r_StreamStartSeq r, w_NextSeq = r_NextStreamSeq r, w_Chunks = r_StreamResults r \<rparr>)"
    using r(1) stored_window [of "sv_store sv" rid r log] r(3) by (simp add: mem_GetRequest_def upd_request_id)
  have same: "sv1\<lparr> sv_store := sv_store sv \<rparr> = sv1" using r(5) by (simp flip: r(5))
  have kb: "k < max_int32" using r(3) assms(3) by (auto simp: stream_abs_def)
  note w = replay_window_abs [OF r(3) assms(2) kb refl, of rid]
  show thesis
  proof (cases "k + 1 < r_StreamStartSeq r")
    case True
    with w have "requestStreamSnapshot now sess rid k sv =
        (sv1, Some (Inl (RequestStreamExpiredError rid k (r_StreamStartSeq r) (r_NextStreamSeq r))))"
      using assms(2) r(4,5) win f same by (simp add: requestStreamSnapshot_def ensure_id [OF abs] Let_def)
    then show thesis using expired [OF _ True r(5,6)] by blast
  next
    case False
    with w obtain v where v: "replay_window rid k \<lparr> w_StartSeq = r_StreamStartSeq r, w_NextSeq = r_NextStreamSeq r,
        w_Chunks = r_StreamResults r \<rparr> = Some (Inr v)" "w_StartSeq v = k + 1" "w_NextSeq v = int (length log) + 1"
      "take (nat k) log @ w_Chunks v = log" using assms(3) by auto
    have "length (take (nat k) log) = nat k" using assms(2,3) by simp
    then have "w_Chunks v = drop (nat k) log" using v(4) by (metis append_eq_conv_conj)
    then have v': "v = \<lparr> w_StartSeq = k + 1, w_NextSeq = int (length log) + 1, w_Chunks = drop (nat k) log \<rparr>"
      using v(2,3) by simp
    have "requestStreamSnapshot now sess rid k sv = (sv1, Some (Inr ((snapshotRequestStreamLocked ?r)\<lparr> sn_Window := v \<rparr>)))"
      using assms(2) r(4,5) win f v(1) same by (simp add: requestStreamSnapshot_def ensure_id [OF abs] Let_def)
    then show thesis
      using window [OF _ r(5,6,1)] f(1) v' by (simp add: snapshotRequestStreamLocked_def)
  qed
qed

lemma send_numbered:
  assumes "0 \<le> k" and "k + 1 + int (i + length cs) \<le> max_int32"
  shows "\<exists>j \<le> length cs. \<exists>sent. send_window up rid (k + 1) i cs (k + int i)
      = (numbered rid (k + int i) (take j cs), k + int i + int j, sent) \<and> (sent \<longleftrightarrow> j = length cs)"
  using assms
proof (induction cs arbitrary: i)
  case (Cons c cs)
  have w: "wrap32 (int i) = int i" "wrap32 (k + 1 + int i) = k + int i + 1"
    using Cons.prems by (auto simp: algebra_simps intro!: wrap32_id)
  let ?m = "\<lparr> ec_Seq = k + int i + 1, ec_RequestId = rid, ec_Chunk = c, ec_IsFinal = False, ec_Error = '''' \<rparr>"
  obtain j sent where j: "j \<le> length cs" "send_window up rid (k + 1) (Suc i) cs (k + int (Suc i))
      = (numbered rid (k + int (Suc i)) (take j cs), k + int (Suc i) + int j, sent)" "sent \<longleftrightarrow> j = length cs"
    using Cons.IH [of "Suc i"] Cons.prems by auto
  show ?case
  proof (cases "up ?m")
    case True
    then have "send_window up rid (k + 1) i (c # cs) (k + int i)
        = (numbered rid (k + int i) (take (Suc j) (c # cs)), k + int i + int (Suc j), sent)"
      using w j(2) by (simp add: Let_def algebra_simps)
    then show ?thesis using j(1,3) by (intro exI [of _ "Suc j"]) auto
  next
    case False
    then have "send_window up rid (k + 1) i (c # cs) (k + int i) = (numbered rid (k + int i) (take 0 (c # cs)), k + int i + int 0, False)"
      using w by (simp add: Let_def)
    then show ?thesis by (intro exI [of _ 0]) auto
  qed
qed simp

text \<open>What one poll sends and how it ends.\<close>

lemma poll_sends:
  assumes "streaming sess rid log sv" and "0 \<le> k" and "k \<le> int (length log)"
    and "stream_poll up render now sess rid k sv = (sv1, ms, l, fin)"
  shows "streaming sess rid log sv1 \<and> sv_store sv1 = sv_store sv
    \<and> (case fin of
         None \<Rightarrow> ms = numbered rid k (drop (nat k) log) \<and> l = int (length log)
       | Some Finished \<Rightarrow> \<exists>r. mem_GetRequest rid (sv_store sv1) = Some r \<and> IsTerminalStatus (r_Status r)
           \<and> ms = numbered rid k (drop (nat k) log)
               @ [\<lparr> ec_Seq = int (length log) + 1, ec_RequestId = rid, ec_Chunk = render (r_Result r), ec_IsFinal = True,
                    ec_Error = r_Error r \<rparr>]
       | Some (Broken e) \<Rightarrow> \<exists>n. ms = numbered rid k (take n (drop (nat k) log))
       | Some _ \<Rightarrow> False)"
  using assms(1,2,3)
proof (cases rule: snapshot_streaming [where now = now])
  case (expired sv' a b)
  then show ?thesis using assms(4) by (auto simp: stream_poll_def) (rule exI [of _ 0], simp)
next
  case (window sv' sn r)
  let ?cs = "drop (nat k) log"
  obtain r0 where "stream_abs log r0" using assms(1) by (auto simp: streaming_def split: option.splits)
  then have "int (length log) + 1 \<le> max_int32" by (simp add: stream_abs_def)
  then obtain j sent where j: "j \<le> length ?cs"
    "send_window up rid (k + 1) 0 ?cs k = (numbered rid k (take j ?cs), k + int j, sent)" "sent \<longleftrightarrow> j = length ?cs"
    using send_numbered [of k 0 ?cs up rid] assms(2,3) by auto
  have full: "k + int (length ?cs) = int (length log)" using assms(2,3) by simp
  let ?fin = "\<lparr> ec_Seq = int (length log) + 1, ec_RequestId = rid, ec_Chunk = render (r_Result r), ec_IsFinal = True,
      ec_Error = r_Error r \<rparr>"
  have fm: "final_message render sn = ?fin" using window by (simp add: final_message_def FinalSeq_def)
  have send: "sendExecuteToolSnapshot up render sn k =
      (if \<not> sent then (numbered rid k (take j ?cs), k + int j, False)
       else if IsTerminalStatus (r_Status r)
       then (if up ?fin then (numbered rid k ?cs @ [?fin], int (length log) + 1, True)
             else (numbered rid k ?cs, int (length log), False))
       else (numbered rid k ?cs, int (length log), True))"
    using j(2,3) window(5,6,9) full assms(2) by (simp add: sendExecuteToolSnapshot_def fm snapshot_IsTerminal_def FinalSeq_def)
  have poll: "stream_poll up render now sess rid k sv = (case sendExecuteToolSnapshot up render sn k of
      (ms, l, ok) \<Rightarrow> (sv', ms, l, if \<not> ok then Some (Broken ErrStreamSendFailed)
         else if IsTerminalStatus (r_Status r) then Some Finished else None))"
    using window(1,6) by (simp add: stream_poll_def snapshot_IsTerminal_def)
  have all: "\<exists>n. numbered rid k ?cs = numbered rid k (take n ?cs)" by (rule exI [of _ "length log"]) simp
  show ?thesis
    using assms(4) window(2,3,4) all unfolding poll send
    by (cases sent; cases "IsTerminalStatus (r_Status r)"; cases "up ?fin") auto
qed

section \<open>A whole stream\<close>

lemma row_step_session: "row_step r r' \<Longrightarrow> r_SessionID r' = r_SessionID r"
proof (induction rule: row_step.induct)
  case (fenced m w r e r')
  then show ?case using fenced_effect_grant [of w m r r'] by (simp add: same_grant_def)
qed (simp_all add: grant_lease_def reclaim_row_def cancel_row_def SetResult_def EnsureStreamSequenceDefaults_def Let_def)

lemma row_steps_session: "row_step\<^sup>*\<^sup>* r r' \<Longrightarrow> r_SessionID r' = r_SessionID r"
  by (induction rule: rtranclp_induct) (auto dest: row_step_session)

definition others :: "store_op list \<Rightarrow> server \<Rightarrow> server" where
  "others ops sv = sv\<lparr> sv_store := run ops (sv_store sv) \<rparr>"

lemma streaming_others:
  assumes "store_ok (sv_store sv)" and "streaming sess rid log sv" and "steady rid (ops # rest) (sv_store sv)"
    and "int (length log + sum_list (map op_load ops)) < max_int32"
  shows "\<exists>ext. length ext \<le> sum_list (map op_load ops) \<and> streaming sess rid (log @ ext) (others ops sv)
    \<and> store_ok (sv_store (others ops sv)) \<and> steady rid rest (sv_store (others ops sv))"
proof -
  obtain r r' where r: "mem_GetRequest rid (sv_store sv) = Some r" "mem_GetRequest rid (run ops (sv_store sv)) = Some r'"
    "r_UpdatedAt r \<le> r_UpdatedAt r'" "quiet rid ops" "steady rid rest (run ops (sv_store sv))"
    using assms(3) by (auto split: option.splits)
  have abs: "stream_abs log r" using assms(2) r(1) by (simp add: streaming_def)
  obtain ext where e: "length ext \<le> sum_list (map op_load ops)" "stream_abs (log @ ext) r'"
    using run_extends [OF assms(1) r(4,1,2) abs assms(4)] by blast
  have ok: "store_ok (run ops (sv_store sv))"
    using store_ok_run [OF assms(1), of ops] r(4) by (auto simp: quiet_def list_all_iff)
  then have id: "r_ID r' = rid" using r(2) by (auto simp: store_ok_def keyed_def mem_GetRequest_def)
  have "r_SessionID r' = r_SessionID r"
    using row_run [OF assms(1) r(4,2)] r(1) row_steps_session by auto
  then have "streaming sess rid (log @ ext) (others ops sv)"
    using assms(2) r(1,2,3) e(2) id by (auto simp: streaming_def others_def cached_def split: option.splits)
  with e(1) ok r(5) show ?thesis by (auto simp: others_def)
qed

lemma numbered_take:
  assumes "0 \<le> k" and "k \<le> int (length log)"
  shows "numbered rid k (drop (nat k) log) @ numbered rid (int (length log)) (take n (drop (nat (int (length log))) (log @ ext)))
    = numbered rid k (take (length log - nat k + n) (drop (nat k) (log @ ext)))"
proof -
  have "numbered rid k (drop (nat k) log @ take n ext) = numbered rid k (drop (nat k) log) @ numbered rid (int (length log)) (take n ext)"
    using assms by (simp add: numbered_append)
  then show ?thesis using assms by simp
qed

text \<open>C8: Streams are gapless, ordered and complete.  Follow a request from a position its log has
  reached, while any replicas append chunks, renew, reclaim, cancel and finish it.  The
  messages the client gets are the log after its position, numbered consecutively, each
  chunk once.  If the stream finishes, they are the whole rest of the log and then one final
  message with the next number, the stored result and the stored error of a finished
  request; if it breaks (the window moved on, a send failed, the client left) they are an
  initial part of the rest of the log, so that resuming after the last number received
  loses and repeats nothing.\<close>

theorem stream_delivers_the_log:
  assumes "store_ok (sv_store sv)" and "streaming sess rid log sv" and "0 \<le> k" and "k \<le> int (length log)"
    and "steady rid (map snd script) (sv_store sv)"
    and "int (length log + sum_list (map op_load (concat (map snd script)))) < max_int32"
    and "stream_loop up render sess rid (map (\<lambda>(now, ops). (now, others ops)) script) k sv = (sv', ms, fin)"
  shows "\<exists>log'. prefix log log' \<and> streaming sess rid log' sv'
    \<and> (case fin of
         Finished \<Rightarrow> \<exists>r. mem_GetRequest rid (sv_store sv') = Some r \<and> IsTerminalStatus (r_Status r)
           \<and> ms = numbered rid k (drop (nat k) log')
               @ [\<lparr> ec_Seq = int (length log') + 1, ec_RequestId = rid, ec_Chunk = render (r_Result r), ec_IsFinal = True,
                    ec_Error = r_Error r \<rparr>]
       | Broken e \<Rightarrow> \<exists>n. ms = numbered rid k (take n (drop (nat k) log'))
       | _ \<Rightarrow> False)"
  using assms
proof (induction script arbitrary: log k sv ms)
  case Nil
  then have "sv' = sv" "ms = numbered rid k (take 0 (drop (nat k) log))" "fin = Broken ErrClientDisconnected" by auto
  with Nil.prems(2) show ?case by (intro exI [of _ log]) (auto intro: exI [of _ "0 :: nat"])
next
  case (Cons a script)
  obtain now ops where a: "a = (now, ops)" by fastforce
  have load: "int (length log + sum_list (map op_load ops)) < max_int32" using Cons.prems(6) by (simp add: a)
  obtain ext where e: "length ext \<le> sum_list (map op_load ops)" "streaming sess rid (log @ ext) (others ops sv)"
    "store_ok (sv_store (others ops sv))" "steady rid (map snd script) (sv_store (others ops sv))"
    using streaming_others [OF Cons.prems(1,2) _ load] Cons.prems(5) by (auto simp: a)
  have k: "k \<le> int (length (log @ ext))" using Cons.prems(4) by simp
  obtain sv1 ms1 l fin1 where p: "stream_poll up render now sess rid k (others ops sv) = (sv1, ms1, l, fin1)"
    by (metis prod.exhaust)
  note s = poll_sends [OF e(2) Cons.prems(3) k p]
  show ?case
  proof (cases fin1)
    case (Some f)
    then have r: "sv' = sv1" "ms = ms1" "fin = f" using Cons.prems(7) by (auto simp: a p)
    show ?thesis
      using s unfolding Some r by (intro exI [of _ "log @ ext"]) (cases f; auto)
  next
    case None
    then have ms1: "ms1 = numbered rid k (drop (nat k) (log @ ext))" "l = int (length (log @ ext))"
      "streaming sess rid (log @ ext) sv1" "sv_store sv1 = sv_store (others ops sv)" using s by auto
    obtain ms2 where rest: "stream_loop up render sess rid (map (\<lambda>(now, ops). (now, others ops)) script) l sv1 = (sv', ms2, fin)"
      "ms = ms1 @ ms2" using Cons.prems(7) None by (auto simp: a p split: prod.splits)
    have ld: "int (length (log @ ext) + sum_list (map op_load (concat (map snd script)))) < max_int32"
      using Cons.prems(6) e(1) by (simp add: a)
    have st: "store_ok (sv_store sv1)" "steady rid (map snd script) (sv_store sv1)"
      using e(3,4) ms1(4) by simp_all
    obtain log' where l': "prefix (log @ ext) log'" "streaming sess rid log' sv'" and
      cs: "case fin of
         Finished \<Rightarrow> \<exists>r. mem_GetRequest rid (sv_store sv') = Some r \<and> IsTerminalStatus (r_Status r)
           \<and> ms2 = numbered rid l (drop (nat l) log')
               @ [\<lparr> ec_Seq = int (length log') + 1, ec_RequestId = rid, ec_Chunk = render (r_Result r), ec_IsFinal = True,
                    ec_Error = r_Error r \<rparr>]
       | Broken e \<Rightarrow> \<exists>n. ms2 = numbered rid l (take n (drop (nat l) log'))
       | _ \<Rightarrow> False"
      using Cons.IH [OF st(1) ms1(3) _ _ st(2) ld rest(1)] ms1(2) by auto
    obtain more where m: "log' = (log @ ext) @ more" using l'(1) by (auto elim: prefixE)
    have cut: "numbered rid k (drop (nat k) (log @ ext)) @ numbered rid l (take n (drop (nat l) log'))
        = numbered rid k (take (length (log @ ext) - nat k + n) (drop (nat k) log'))" for n
      unfolding m ms1(2) by (rule numbered_take [OF Cons.prems(3) k])
    have whole: "numbered rid k (drop (nat k) (log @ ext)) @ numbered rid l (drop (nat l) log') = numbered rid k (drop (nat k) log')"
      using cut [of "length log'"] by simp
    show ?thesis
      using cs whole cut l' unfolding rest(2) ms1(1)
      by (intro exI [of _ log']) (cases fin; fastforce simp flip: append_assoc dest: append_prefixD)
  qed
qed

section \<open>Resuming\<close>

text \<open>Resuming reveals nothing about other sessions.  To a caller with a session key, resuming a
  request of another session looks exactly like resuming a request that does not exist: no
  message, the same not-found error, whatever the request's state, log and progress.\<close>

theorem resume_hides_other_sessions:
  assumes "p_Mode p \<noteq> AuthModeFixed" and "p_SessionID p \<noteq> ''''"
    and "mem_GetRequest rid (sv_store sv) = Some r" and "r_SessionID r \<noteq> p_SessionID p"
    and "snd (GetRequestByIDAnySession now rid sv0) = Inl ErrNotFound"
  shows "snd (ResumeStream up render now (Some p) rid k rounds sv) = ([], Broken ErrNotFound)
    \<and> snd (ResumeStream up render now (Some p) rid k rounds sv) = snd (ResumeStream up' render' now (Some p) rid k' rounds' sv0)"
proof -
  have "\<exists>sv1. GetRequestByIDAnySession now rid sv = (sv1, Inr (ensureRequestDefaults now r))"
    using assms(3) by (simp add: GetRequestByIDAnySession_def Let_def)
  moreover have "\<exists>sv1. GetRequestByIDAnySession now rid sv0 = (sv1, Inl ErrNotFound)"
    using assms(5) by (metis prod.collapse)
  ultimately show ?thesis using assms(1,2,4) by (auto simp: ResumeStream_def)
qed

section \<open>Concrete streams\<close>

definition demo_streamed_row :: request where
  "demo_streamed_row = (submit_row 2010 (VString ''ok'') ResultTypeResolution None (grant_lease 2000 60 ''m1'' demo_row))
     \<lparr> r_StreamResults := [''a'', ''b''], r_NextStreamSeq := 3 \<rparr>"

definition demo_streamed :: server where
  "demo_streamed = demo_server (demo_done\<lparr> st_requests := [(''r1'', demo_streamed_row)] \<rparr>)"

theorem stream_delivers_the_log_witness:
  "\<exists>log (r :: request). prefix [''a'', ''b''] log
     \<and> snd (stream_loop (\<lambda>m. True) (\<lambda>v. ''ok'') ''s1'' ''r1'' [(3000, others [])] 1 demo_streamed)
     = (numbered ''r1'' 1 (drop 1 log) @ [\<lparr> ec_Seq = int (length log) + 1, ec_RequestId = ''r1'', ec_Chunk = ''ok'', ec_IsFinal = True,
          ec_Error = r_Error r \<rparr>], Finished)"
proof -
  let ?run = "stream_loop (\<lambda>m. True) (\<lambda>v. ''ok'') ''s1'' ''r1'' [(3000, others [])] 1 demo_streamed"
  have fin: "snd (snd ?run) = Finished" by code_simp
  obtain sv' ms where run: "?run = (sv', ms, Finished)" using fin by (metis prod.collapse)
  have g: "mem_GetRequest ''r1'' (sv_store demo_streamed) = Some demo_streamed_row"
    by (simp add: demo_streamed_def demo_server_def mem_GetRequest_def gm_get_def)
  have abs: "stream_abs [''a'', ''b''] demo_streamed_row"
    by (simp add: stream_abs_def demo_streamed_row_def grant_lease_def submit_row_def merge_meta_def SetResult_def
        demo_row_def NewRequest_def Let_def)
  have f: "r_ID demo_streamed_row = ''r1''" "r_SessionID demo_streamed_row = ''s1''" by code_simp+
  have s: "streaming ''s1'' ''r1'' [''a'', ''b''] demo_streamed"
    using abs f g by (simp add: streaming_def) (simp add: demo_streamed_def demo_server_def cached_def gm_get2_def)
  have "row_ok (submit_row 2010 (VString ''ok'') ResultTypeResolution None (grant_lease 2000 60 ''m1'' demo_row))"
    using demo_ok(3) demo_rows(3) by (auto simp: store_ok_def mem_GetRequest_def)
  then have "row_ok demo_streamed_row" by (simp add: demo_streamed_row_def row_ok_def)
  then have ok: "store_ok (sv_store demo_streamed)"
    using f(1) by (auto simp: store_ok_def keyed_def demo_streamed_def demo_server_def gm_get_def split: if_splits)
  have st: "steady ''r1'' (map snd [(3000 :: int, [])]) (sv_store demo_streamed)" using g by (simp add: quiet_def)
  have ld: "int (length [''a'', ''b''] + sum_list (map op_load (concat (map snd [(3000 :: int, [])])))) < max_int32" by simp
  have run': "stream_loop (\<lambda>m. True) (\<lambda>v. ''ok'') ''s1'' ''r1'' (map (\<lambda>(now, ops). (now, others ops)) [(3000, [])]) 1 demo_streamed
      = (sv', ms, Finished)" using run by simp
  have k: "0 \<le> (1 :: int)" "1 \<le> int (length [''a'', ''b''])" by simp_all
  from stream_delivers_the_log [OF ok s k st ld run'] obtain log and r :: request where
    "prefix [''a'', ''b''] log" "ms = numbered ''r1'' 1 (drop (nat 1) log) @ [\<lparr> ec_Seq = int (length log) + 1, ec_RequestId = ''r1'',
       ec_Chunk = ''ok'', ec_IsFinal = True, ec_Error = r_Error r \<rparr>]" unfolding stream_end.case by blast
  then show ?thesis unfolding run by auto
qed

definition demo_outsider :: auth_principal where
  "demo_outsider = \<lparr> p_Mode = AuthModeSessionKey, p_SessionID = ''s2'', p_UserID = ''bob'', p_KeyID = ''k2'',
     p_Capabilities = [CapInvoke], p_AllowedTools = [], p_TokenPreview = '''' \<rparr>"

theorem resume_hides_other_sessions_witness:
  "snd (ResumeStream (\<lambda>m. True) (\<lambda>v. ''ok'') 3000 (Some demo_outsider) ''r1'' 0 [] (demo_server demo_held)) = ([], Broken ErrNotFound)"
proof -
  have "mem_GetRequest ''r1'' (sv_store (demo_server demo_held)) = Some (grant_lease 2000 60 ''m1'' demo_row)"
    by (simp add: demo_server_def demo_rows)
  moreover have "r_SessionID (grant_lease 2000 60 ''m1'' demo_row) \<noteq> p_SessionID demo_outsider"
    by (simp add: grant_lease_def demo_row_def NewRequest_def demo_outsider_def)
  moreover have "snd (GetRequestByIDAnySession 3000 ''r1'' (demo_server mem_New)) = Inl ErrNotFound" by code_simp
  ultimately show ?thesis
    using resume_hides_other_sessions [of demo_outsider "''r1''" "demo_server demo_held" _ 3000 "demo_server mem_New" "\<lambda>m. True" "\<lambda>v. ''ok''" 0 "[]"]
    by (simp add: demo_outsider_def)
qed

end
