(* ===== verification/Grpc_Handlers.thy ===== *)
theory Grpc_Handlers
  imports Task_Service Page_Token Stream_Delivery
begin

text \<open>
  The unary handlers of \<open>pkg/service/server.go\<close>, and a replica that serves calls: the
  interceptor of \<open>internal/auth\<close> in front of the handler the method names.  The five services
  of \<open>GRPCServer\<close> share one store: the tool, machine and request services are the \<open>server\<close>
  inside the task service's state, and the session service works on the same store.  What the
  handlers take from outside (time, fresh identifiers, hashing, JSON) is the record
  \<open>grpc_env\<close>.  The operation names in error texts are not modelled.
\<close>

record grpc_server =
  gs_sessions :: sessions_state
  gs_tasks :: tasks_state

definition gs_store :: "grpc_server \<Rightarrow> store" where
  "gs_store g = tv_store (gs_tasks g)"

definition on_sessions :: "(sessions_state \<Rightarrow> sessions_state \<times> 'a) \<Rightarrow> grpc_server \<Rightarrow> grpc_server \<times> 'a" where
  "on_sessions f g =
     (case f ((gs_sessions g)\<lparr> sx_store := gs_store g \<rparr>) of
        (sx, a) \<Rightarrow> (g\<lparr> gs_sessions := sx, gs_tasks := set_task_store (sx_store sx) (gs_tasks g) \<rparr>, a))"

definition on_server :: "(server \<Rightarrow> server \<times> 'a) \<Rightarrow> grpc_server \<Rightarrow> grpc_server \<times> 'a" where
  "on_server f g =
     (case f (tv_server (gs_tasks g)) of
        (sv, a) \<Rightarrow> (g\<lparr> gs_tasks := (gs_tasks g)\<lparr> tv_server := sv \<rparr> \<rparr>, a))"

definition on_tasks :: "(tasks_state \<Rightarrow> tasks_state \<times> 'a) \<Rightarrow> grpc_server \<Rightarrow> grpc_server \<times> 'a" where
  "on_tasks f g = (case f (gs_tasks g) of (tv, a) \<Rightarrow> (g\<lparr> gs_tasks := tv \<rparr>, a))"

text \<open>The end of a handler: an error becomes a status, a result a response.\<close>

definition reply :: "('a \<Rightarrow> 'b) \<Rightarrow> 's \<times> 'a svc_result \<Rightarrow> 's \<times> 'b grpc_result" where
  "reply f r = (case r of (s, Inl e) \<Rightarrow> (s, Inl (grpc_failure e)) | (s, Inr a) \<Rightarrow> (s, Inr (f a)))"

definition reply_ok :: "('a \<Rightarrow> 'b) \<Rightarrow> 's \<times> 'a \<Rightarrow> 's \<times> 'b grpc_result" where
  "reply_ok f r = (case r of (s, a) \<Rightarrow> (s, Inr (f a)))"

record grpc_env =
  e_hash :: hash_fun
  e_json_object :: "string \<Rightarrow> bool"
  e_marshal :: json_encoder
  e_unmarshal :: "string \<Rightarrow> go_value option"
  e_format :: "go_value \<Rightarrow> string"
  e_now :: time
  e_uuid :: string
  e_uuid2 :: string

section \<open>Tools\<close>

definition string_config :: "string gomap \<Rightarrow> go_value gomap" where
  "string_config config = map (\<lambda>(k, v). (k, VString v)) config"

definition grpc_RegisterTool ::
  "grpc_env \<Rightarrow> string \<Rightarrow> string \<Rightarrow> string \<Rightarrow> string \<Rightarrow> string \<Rightarrow> string gomap \<Rightarrow> string list \<Rightarrow> server
     \<Rightarrow> server \<times> proto_tool grpc_result" where
  "grpc_RegisterTool env sessionId machineId name description schema config tags sv =
     reply (convertModelToolToProto (e_marshal env))
       (RegisterTool (e_json_object env) (e_uuid env) (e_now env) sessionId machineId name description schema
          (string_config config) tags sv)"

definition grpc_ListTools :: "grpc_env \<Rightarrow> string \<Rightarrow> server \<Rightarrow> server \<times> proto_tool list grpc_result" where
  "grpc_ListTools env sessionId sv =
     reply_ok (map (convertModelToolToProto (e_marshal env))) (ListTools sessionId sv)"

definition grpc_GetToolById :: "grpc_env \<Rightarrow> string \<Rightarrow> string \<Rightarrow> server \<Rightarrow> server \<times> proto_tool grpc_result" where
  "grpc_GetToolById env sessionId toolId sv =
     reply (convertModelToolToProto (e_marshal env)) (sv, GetToolByID sessionId toolId sv)"

definition grpc_GetToolByName :: "grpc_env \<Rightarrow> string \<Rightarrow> string \<Rightarrow> server \<Rightarrow> server \<times> proto_tool grpc_result" where
  "grpc_GetToolByName env sessionId toolName sv =
     reply (convertModelToolToProto (e_marshal env)) (GetToolByName sessionId toolName sv)"

definition grpc_GetTool :: "grpc_env \<Rightarrow> string \<Rightarrow> string \<Rightarrow> string \<Rightarrow> server \<Rightarrow> server \<times> proto_tool grpc_result" where
  "grpc_GetTool env sessionId toolId toolName sv =
     (if TrimSpace toolId \<noteq> '''' then grpc_GetToolById env sessionId toolId sv
      else if TrimSpace toolName \<noteq> '''' then grpc_GetToolByName env sessionId toolName sv
      else (sv, Inl (grpc_failure ErrInvalidArgument)))"

definition grpc_DeleteTool :: "string \<Rightarrow> string \<Rightarrow> server \<Rightarrow> server \<times> bool grpc_result" where
  "grpc_DeleteTool sessionId toolId sv = reply (\<lambda>_. True) (DeleteTool sessionId toolId sv)"

definition grpc_UpdateToolPing :: "grpc_env \<Rightarrow> string \<Rightarrow> string \<Rightarrow> server \<Rightarrow> server \<times> proto_tool grpc_result" where
  "grpc_UpdateToolPing env sessionId toolId sv =
     reply (convertModelToolToProto (e_marshal env)) (UpdateToolPing (e_now env) sessionId toolId sv)"

section \<open>Sessions and API keys\<close>

text \<open>The acting key goes into trace events only, so it is not an argument here.\<close>

definition grpc_CreateSession ::
  "grpc_env \<Rightarrow> string \<Rightarrow> string \<Rightarrow> string \<Rightarrow> string \<Rightarrow> string \<Rightarrow> sessions_state \<Rightarrow> sessions_state \<times> proto_session grpc_result" where
  "grpc_CreateSession env userId name description sessionId namespace sx =
     reply convertPublicSessionToProto (CreateSession (e_uuid env) (e_now env) userId name description sessionId namespace sx)"

definition grpc_GetSession :: "string \<Rightarrow> sessions_state \<Rightarrow> sessions_state \<times> proto_session grpc_result" where
  "grpc_GetSession sessionId sx = reply convertPublicSessionToProto (GetSessionByID sessionId sx)"

definition grpc_ListSessions :: "string \<Rightarrow> sessions_state \<Rightarrow> sessions_state \<times> proto_session list grpc_result" where
  "grpc_ListSessions userId sx = reply_ok (map convertPublicSessionToProto) (sx, ListSessions userId sx)"

definition grpc_UpdateSession ::
  "string \<Rightarrow> string \<Rightarrow> string \<Rightarrow> string \<Rightarrow> sessions_state \<Rightarrow> sessions_state \<times> proto_session grpc_result" where
  "grpc_UpdateSession sessionId name description namespace sx =
     reply convertPublicSessionToProto (UpdateSession sessionId name description namespace sx)"

definition grpc_DeleteSession :: "string \<Rightarrow> sessions_state \<Rightarrow> sessions_state \<times> bool grpc_result" where
  "grpc_DeleteSession sessionId sx = reply (\<lambda>_. True) (DeleteSession sessionId sx)"

definition grpc_BulkDeleteSessions ::
  "string \<Rightarrow> string list \<Rightarrow> string \<Rightarrow> sessions_state \<Rightarrow> sessions_state \<times> (int \<times> string list) grpc_result" where
  "grpc_BulkDeleteSessions userId sessionIds filt sx =
     reply_ok (\<lambda>(deletedCount, failedDeletions). (wrap32 deletedCount, failedDeletions))
       (BulkDeleteSessions userId sessionIds filt sx)"

definition grpc_GetSessionStats :: "string \<Rightarrow> sessions_state \<Rightarrow> sessions_state \<times> (int \<times> int \<times> int) grpc_result" where
  "grpc_GetSessionStats userId sx =
     reply_ok (\<lambda>(a, b, c). (wrap32 a, wrap32 b, wrap32 c)) (sx, GetSessionStats userId sx)"

definition grpc_InvalidateSession :: "grpc_env \<Rightarrow> string \<Rightarrow> sessions_state \<Rightarrow> sessions_state \<times> int grpc_result" where
  "grpc_InvalidateSession env sessionId sx = reply_ok wrap32 (InvalidateSession (e_now env) sessionId sx)"

definition grpc_CreateApiKey ::
  "grpc_env \<Rightarrow> auth_principal option \<Rightarrow> string \<Rightarrow> string \<Rightarrow> string list \<Rightarrow> string list \<Rightarrow> sessions_state
     \<Rightarrow> sessions_state \<times> proto_api_key grpc_result" where
  "grpc_CreateApiKey env caller sessionId name capabilities allowedTools sx =
     (let createdBy = (case caller of None \<Rightarrow> '''' | Some p \<Rightarrow> if p_UserID p = '''' then p_KeyID p else p_UserID p)
      in reply (\<lambda>k. convertPublicAPIKeyToProto k True)
           (CreateApiKey (e_hash env) (e_uuid env) (e_uuid2 env) (e_now env) sessionId name createdBy capabilities allowedTools sx))"

definition grpc_ListApiKeys :: "string \<Rightarrow> sessions_state \<Rightarrow> sessions_state \<times> proto_api_key list grpc_result" where
  "grpc_ListApiKeys sessionId sx =
     reply_ok (map (\<lambda>k. convertPublicAPIKeyToProto k False)) (sx, ListApiKeys sessionId sx)"

definition grpc_RevokeApiKey :: "grpc_env \<Rightarrow> string \<Rightarrow> string \<Rightarrow> sessions_state \<Rightarrow> sessions_state \<times> bool grpc_result" where
  "grpc_RevokeApiKey env sessionId keyId sx = reply (\<lambda>_. True) (RevokeApiKey (e_now env) sessionId keyId sx)"
section \<open>Machines\<close>

record tool_request =
  rt_Name :: string
  rt_Description :: string
  rt_Schema :: string
  rt_Config :: "string gomap"
  rt_Tags :: "string list"

definition requested_tool :: "tool_request \<Rightarrow> tool" where
  "requested_tool toolReq =
     \<lparr> tl_ID = '''', tl_MachineID = '''', tl_SessionID = '''', tl_Name = rt_Name toolReq,
       tl_Description = rt_Description toolReq, tl_Schema = rt_Schema toolReq,
       tl_Config = string_config (rt_Config toolReq), tl_Tags = rt_Tags toolReq,
       tl_CreatedAt = zero_time, tl_LastPingAt = zero_time \<rparr>"

text \<open>Each requested tool comes with the fresh identifier its registration would use.\<close>

definition grpc_RegisterMachine ::
  "grpc_env \<Rightarrow> metadata option \<Rightarrow> string \<Rightarrow> string \<Rightarrow> string \<Rightarrow> string \<Rightarrow> (string \<times> tool_request) list \<Rightarrow> server
     \<Rightarrow> server \<times> proto_machine grpc_result" where
  "grpc_RegisterMachine env md sessionId machineId sdkVersion sdkLanguage tools sv =
     reply (\<lambda>machine. (convertModelMachineToProto machine)\<lparr> pm_MachineToken := m_Token machine \<rparr>)
       (RegisterMachine (e_hash env) (e_json_object env) (e_uuid env) (e_uuid2 env) (e_now env) sessionId machineId
          sdkVersion sdkLanguage ''127.0.0.1'' (map (\<lambda>(u, t). (u, requested_tool t)) tools)
          (MachineTokenFromContext md) sv)"

definition grpc_ListMachines :: "string \<Rightarrow> server \<Rightarrow> server \<times> proto_machine list grpc_result" where
  "grpc_ListMachines sessionId sv = reply_ok (map convertModelMachineToProto) (ListMachines sessionId sv)"

definition grpc_GetMachine :: "string \<Rightarrow> string \<Rightarrow> server \<Rightarrow> server \<times> proto_machine grpc_result" where
  "grpc_GetMachine sessionId machineId sv = reply convertModelMachineToProto (GetMachineByID sessionId machineId sv)"

definition grpc_UpdateMachinePing :: "grpc_env \<Rightarrow> string \<Rightarrow> string \<Rightarrow> server \<Rightarrow> server \<times> proto_machine grpc_result" where
  "grpc_UpdateMachinePing env sessionId machineId sv =
     reply convertModelMachineToProto (UpdateMachinePing (e_now env) sessionId machineId sv)"

definition grpc_UnregisterMachine :: "string \<Rightarrow> string \<Rightarrow> server \<Rightarrow> server \<times> bool grpc_result" where
  "grpc_UnregisterMachine sessionId machineId sv = (UnregisterMachine sessionId machineId sv, Inr True)"

text \<open>The handler waits for the end of the drain, whose rounds are separate steps; \<open>ended\<close> is the
  end of the caller's context, if that comes first.\<close>

definition grpc_DrainMachine :: "domain_error option \<Rightarrow> string \<Rightarrow> string \<Rightarrow> server \<Rightarrow> server \<times> bool grpc_result" where
  "grpc_DrainMachine ended sessionId machineId sv =
     (DrainMachine sessionId machineId sv,
      if \<not> snd (snd (getOrCreateDrainState sessionId machineId sv)) then Inr True
      else case ended of None \<Rightarrow> Inr True | Some e \<Rightarrow> Inl (grpc_failure e))"

section \<open>Requests\<close>

text \<open>A result text is JSON if it parses, and the text itself otherwise.\<close>

definition decode_result :: "grpc_env \<Rightarrow> string \<Rightarrow> go_value" where
  "decode_result env text =
     (if text = '''' then VNil else case e_unmarshal env text of Some v \<Rightarrow> v | None \<Rightarrow> VString text)"

definition marshalExecuteToolResult :: "grpc_env \<Rightarrow> go_value \<Rightarrow> string" where
  "marshalExecuteToolResult env result =
     (if result = VNil then '''' else case e_marshal env result of Some encoded \<Rightarrow> encoded | None \<Rightarrow> e_format env result)"

definition grpc_CreateRequest ::
  "grpc_env \<Rightarrow> string \<Rightarrow> string \<Rightarrow> string \<Rightarrow> int \<Rightarrow> string \<Rightarrow> server \<Rightarrow> server \<times> proto_request grpc_result" where
  "grpc_CreateRequest env sessionId toolName input timeoutSeconds idempotencyKey sv =
     reply (convertModelRequestToProto (e_marshal env))
       (CreateRequest (e_uuid env) (e_now env) sessionId toolName input timeoutSeconds idempotencyKey sv)"

definition grpc_GetRequest :: "grpc_env \<Rightarrow> string \<Rightarrow> string \<Rightarrow> server \<Rightarrow> server \<times> proto_request grpc_result" where
  "grpc_GetRequest env sessionId requestId sv =
     reply (convertModelRequestToProto (e_marshal env)) (GetRequestByID (e_now env) sessionId requestId sv)"

definition grpc_UpdateRequest ::
  "grpc_env \<Rightarrow> string \<Rightarrow> string \<Rightarrow> proto_request_status \<Rightarrow> string \<Rightarrow> string \<Rightarrow> string \<Rightarrow> int \<Rightarrow> server
     \<Rightarrow> server \<times> proto_request grpc_result" where
  "grpc_UpdateRequest env sessionId requestId status result resultType machineId leaseEpoch sv =
     reply (convertModelRequestToProto (e_marshal env))
       (updateRequestViaStore (e_now env) sessionId requestId machineId leaseEpoch (requestStatusFromProto status)
          (decode_result env result) resultType sv)"

definition grpc_ClaimRequest :: "grpc_env \<Rightarrow> string \<Rightarrow> string \<Rightarrow> string \<Rightarrow> server \<Rightarrow> server \<times> proto_request grpc_result" where
  "grpc_ClaimRequest env sessionId requestId machineId sv =
     reply (convertModelRequestToProto (e_marshal env)) (ClaimRequest (e_now env) sessionId requestId machineId sv)"

text \<open>An idle queue is a response without a request.\<close>

definition grpc_ClaimNextRequest ::
  "grpc_env \<Rightarrow> string \<Rightarrow> string \<Rightarrow> string list \<Rightarrow> server \<Rightarrow> server \<times> proto_request option grpc_result" where
  "grpc_ClaimNextRequest env sessionId machineId toolNames sv =
     (case ClaimPendingRequest (e_now env) sessionId machineId toolNames sv of
        (sv1, Inl e) \<Rightarrow> (sv1, if e = ErrNoPendingRequests then Inr None else Inl (grpc_failure e))
      | (sv1, Inr r) \<Rightarrow> (sv1, Inr (Some (convertModelRequestToProto (e_marshal env) r))))"

definition grpc_CancelRequest :: "grpc_env \<Rightarrow> string \<Rightarrow> string \<Rightarrow> server \<Rightarrow> server \<times> bool grpc_result" where
  "grpc_CancelRequest env sessionId requestId sv = reply (\<lambda>_. True) (CancelRequest (e_now env) sessionId requestId sv)"

definition grpc_SubmitRequestResult ::
  "grpc_env \<Rightarrow> string \<Rightarrow> string \<Rightarrow> string \<Rightarrow> string \<Rightarrow> string gomap \<Rightarrow> string \<Rightarrow> int \<Rightarrow> server \<Rightarrow> server \<times> bool grpc_result" where
  "grpc_SubmitRequestResult env sessionId requestId result resultType meta machineId leaseEpoch sv =
     reply (\<lambda>_. True)
       (SubmitRequestResult (e_now env) sessionId requestId machineId leaseEpoch (decode_result env result) resultType
          (Some meta) sv)"

definition grpc_AppendRequestChunks ::
  "grpc_env \<Rightarrow> string \<Rightarrow> string \<Rightarrow> string list \<Rightarrow> string \<Rightarrow> int \<Rightarrow> server \<Rightarrow> server \<times> bool grpc_result" where
  "grpc_AppendRequestChunks env sessionId requestId chunks machineId leaseEpoch sv =
     reply (\<lambda>_. True) (AppendRequestChunks (e_now env) sessionId requestId machineId leaseEpoch chunks sv)"

definition grpc_RenewRequestLease ::
  "grpc_env \<Rightarrow> string \<Rightarrow> string \<Rightarrow> string \<Rightarrow> int \<Rightarrow> server \<Rightarrow> server \<times> proto_request grpc_result" where
  "grpc_RenewRequestLease env sessionId requestId machineId leaseEpoch sv =
     reply (convertModelRequestToProto (e_marshal env))
       (RenewRequestLease (e_now env) sessionId requestId machineId leaseEpoch sv)"

text \<open>The whole retained window: a negative position asks for no replay.  \<open>None\<close> is a panic.\<close>

definition GetRequestChunks :: "time \<Rightarrow> string \<Rightarrow> string \<Rightarrow> server \<Rightarrow> server \<times> chunk_window svc_result option" where
  "GetRequestChunks now sessionID requestID sv =
     (case requestStreamSnapshot now sessionID requestID (-1) sv of
        (sv1, None) \<Rightarrow> (sv1, None)
      | (sv1, Some (Inl e)) \<Rightarrow> (sv1, Some (Inl e))
      | (sv1, Some (Inr sn)) \<Rightarrow> (sv1, Some (Inr (sn_Window sn))))"

definition grpc_GetRequestChunks :: "grpc_env \<Rightarrow> string \<Rightarrow> string \<Rightarrow> server \<Rightarrow> server \<times> chunk_window grpc_result option" where
  "grpc_GetRequestChunks env sessionId requestId sv =
     (case GetRequestChunks (e_now env) sessionId requestId sv of
        (sv1, None) \<Rightarrow> (sv1, None)
      | (sv1, Some (Inl e)) \<Rightarrow> (sv1, Some (Inl (grpc_failure e)))
      | (sv1, Some (Inr window)) \<Rightarrow> (sv1, Some (Inr window)))"
section \<open>Synchronous execution\<close>

record execute_response =
  er_RequestId :: string
  er_Status :: proto_request_status
  er_Result :: string
  er_ResultType :: string
  er_Error :: string

definition maxWaitTimeout :: duration where "maxWaitTimeout = maxRequestTimeout"

definition validateWaitTimeoutSeconds :: "int \<Rightarrow> domain_error option" where
  "validateWaitTimeoutSeconds secs =
     (if secs > wrap32 (maxWaitTimeout div Second) then Some ErrRequestTimeoutOutOfRange else None)"

text \<open>The wait loop: read, and while the request is live wait for a wake-up.  Each later round has
  the time of its read and what others did before it; when there are no more, the context has
  ended with \<open>ended\<close>.\<close>

fun WaitForRequestState ::
  "string \<Rightarrow> string \<Rightarrow> domain_error \<Rightarrow> time \<Rightarrow> (time \<times> (server \<Rightarrow> server)) list \<Rightarrow> server \<Rightarrow> server \<times> request svc_result" where
  "WaitForRequestState sessionID requestID ended now rounds sv =
     (case waitForRequestState now sessionID requestID sv of
        (sv1, Inl e) \<Rightarrow> (sv1, Inl e)
      | (sv1, Inr req) \<Rightarrow>
          if IsTerminalStatus (r_Status req) then (sv1, Inr req)
          else (case rounds of
                  [] \<Rightarrow> (sv1, Inl ended)
                | (now', between) # rest \<Rightarrow> WaitForRequestState sessionID requestID ended now' rest (between sv1)))"

definition execute_reply :: "grpc_env \<Rightarrow> string \<Rightarrow> request \<Rightarrow> execute_response" where
  "execute_reply env requestID final =
     \<lparr> er_RequestId = requestID, er_Status = protoRequestStatus (r_Status final),
       er_Result = marshalExecuteToolResult env (r_Result final), er_ResultType = r_ResultType final,
       er_Error = r_Error final \<rparr>"

text \<open>\<open>reread\<close> is the time of the read after an expired wait.\<close>

definition grpc_ExecuteTool ::
  "grpc_env \<Rightarrow> (time \<times> (server \<Rightarrow> server)) list \<Rightarrow> domain_error \<Rightarrow> time \<Rightarrow> string \<Rightarrow> string \<Rightarrow> string \<Rightarrow> int \<Rightarrow> string \<Rightarrow> int
     \<Rightarrow> server \<Rightarrow> server \<times> execute_response grpc_result" where
  "grpc_ExecuteTool env rounds ended reread sessionId toolName input timeoutSeconds idempotencyKey waitTimeoutSeconds sv =
     (case validateWaitTimeoutSeconds waitTimeoutSeconds of
        Some e \<Rightarrow> (sv, Inl (grpc_failure e))
      | None \<Rightarrow>
          (case CreateRequest (e_uuid env) (e_now env) sessionId toolName input timeoutSeconds idempotencyKey sv of
             (sv1, Inl e) \<Rightarrow> (sv1, Inl (grpc_failure e))
           | (sv1, Inr request) \<Rightarrow>
               if waitTimeoutSeconds \<le> 0
               then (sv1, Inr \<lparr> er_RequestId = r_ID request, er_Status = protoRequestStatus (r_Status request),
                                er_Result = '''', er_ResultType = '''', er_Error = '''' \<rparr>)
               else (case WaitForRequestState sessionId (r_ID request) ended (e_now env) rounds sv1 of
                       (sv2, Inr final) \<Rightarrow> (sv2, Inr (execute_reply env (r_ID request) final))
                     | (sv2, Inl e) \<Rightarrow>
                         if e \<noteq> CtxDeadlineExceeded \<and> e \<noteq> CtxCanceled then (sv2, Inl (grpc_failure e))
                         else reply (execute_reply env (r_ID request))
                                (GetRequestByID reread sessionId (r_ID request) sv2))))"

definition grpc_InvokeTool ::
  "grpc_env \<Rightarrow> (time \<times> (server \<Rightarrow> server)) list \<Rightarrow> domain_error \<Rightarrow> time \<Rightarrow> string \<Rightarrow> string \<Rightarrow> string \<Rightarrow> int \<Rightarrow> string \<Rightarrow> int
     \<Rightarrow> server \<Rightarrow> server \<times> execute_response grpc_result" where
  "grpc_InvokeTool = grpc_ExecuteTool"

section \<open>Tasks and health\<close>

text \<open>A task without a durable link to its request shows the live one.\<close>

definition task_message :: "tasks_state \<Rightarrow> task \<Rightarrow> proto_task" where
  "task_message tv t =
     (let p = convertModelTaskToProto t
      in if pj_CurrentRequestId p = '''' then p\<lparr> pj_CurrentRequestId := CurrentRequestID (tk_ID t) tv \<rparr> else p)"

definition grpc_CreateTask ::
  "grpc_env \<Rightarrow> string \<Rightarrow> string \<Rightarrow> string \<Rightarrow> string \<Rightarrow> tasks_state \<Rightarrow> tasks_state \<times> proto_task grpc_result" where
  "grpc_CreateTask env sessionId toolName input idempotencyKey tv =
     (case CreateTask (e_uuid env) (e_now env) sessionId toolName input idempotencyKey tv of
        (tv1, t) \<Rightarrow> (tv1, Inr (task_message tv1 t)))"

definition grpc_GetTask :: "string \<Rightarrow> string \<Rightarrow> tasks_state \<Rightarrow> tasks_state \<times> proto_task grpc_result" where
  "grpc_GetTask sessionId taskId tv =
     (case GetTaskByID sessionId taskId tv of
        (tv1, Inl e) \<Rightarrow> (tv1, Inl (grpc_failure e)) | (tv1, Inr t) \<Rightarrow> (tv1, Inr (task_message tv1 t)))"

definition grpc_ListTasks :: "string \<Rightarrow> tasks_state \<Rightarrow> tasks_state \<times> proto_task list grpc_result" where
  "grpc_ListTasks sessionId tv =
     (case ListTasks sessionId tv of (tv1, ts) \<Rightarrow> (tv1, Inr (map (task_message tv1) ts)))"

definition grpc_CancelTask :: "grpc_env \<Rightarrow> string \<Rightarrow> string \<Rightarrow> tasks_state \<Rightarrow> tasks_state \<times> bool grpc_result" where
  "grpc_CancelTask env sessionId taskId tv = reply (\<lambda>_. True) (CancelTask (e_now env) sessionId taskId tv)"

definition grpc_HealthCheck :: "string \<Rightarrow> string \<Rightarrow> string \<times> string \<times> string" where
  "grpc_HealthCheck buildVersion storageSummary = (''ok'', buildVersion, storageSummary)"

end
