(* ===== verification/Grpc_Serve.thy ===== *)
theory Grpc_Serve
  imports Grpc_Handlers Task_Theorems
begin

text \<open>
  A replica that serves unary calls: the calls of the five services of \<open>proto/service.proto\<close>, the
  fields of a call the interceptor reads, and the composition of the interceptor with the
  handler of the method (\<open>internal/server/server.go\<close>).  A call runs without other calls in
  between; what other replicas do shows between calls.
\<close>

section \<open>Calls\<close>

datatype tool_call =
    RegisterToolRpc string string string string string "string gomap" "string list"
  | ListToolsRpc string
  | GetToolRpc string string string
  | GetToolByIdRpc string string
  | GetToolByNameRpc string string
  | DeleteToolRpc string string string
  | UpdateToolPingRpc string string string
  | InvokeToolRpc string string string int string int
  | ExecuteToolRpc string string string int string int
  | HealthCheckRpc

datatype session_call =
    CreateSessionRpc string string string string string
  | GetSessionRpc string
  | ListSessionsRpc string
  | UpdateSessionRpc string string string string
  | DeleteSessionRpc string
  | ListUserSessionsRpc string int string string
  | BulkDeleteSessionsRpc string "string list" string
  | GetSessionStatsRpc string
  | InvalidateSessionRpc string string
  | CreateApiKeyRpc string string "string list" "string list"
  | ListApiKeysRpc string
  | RevokeApiKeyRpc string string
  | ListAuditEventsRpc string string string int string

datatype machine_call =
    RegisterMachineRpc string string string string "(string \<times> tool_request) list"
  | ListMachinesRpc string
  | GetMachineRpc string string
  | UpdateMachinePingRpc string string
  | UnregisterMachineRpc string string
  | DrainMachineRpc string string

datatype request_call =
    CreateRequestRpc string string string int string
  | GetRequestRpc string string
  | ListRequestsRpc string proto_request_status string int string
  | UpdateRequestRpc string string proto_request_status string string string int
  | ClaimRequestRpc string string string
  | ClaimNextRequestRpc string string "string list"
  | CancelRequestRpc string string
  | SubmitRequestResultRpc string string string string "string gomap" string int
  | AppendRequestChunksRpc string string "string list" string int
  | GetRequestChunksRpc string string
  | RenewRequestLeaseRpc string string string int

datatype task_call =
    CreateTaskRpc string string string string
  | GetTaskRpc string string
  | ListTasksRpc string
  | CancelTaskRpc string string

datatype rpc_call =
    ToolCall tool_call | SessionCall session_call | MachineCall machine_call | RequestCall request_call | TaskCall task_call

section \<open>What the interceptor reads\<close>

text \<open>The fields of a message: session, user, machine, and the tool it would execute.\<close>

definition message :: "string option \<Rightarrow> string option \<Rightarrow> string option \<Rightarrow> string option \<Rightarrow> rpc_message" where
  "message s u m t = \<lparr> q_SessionId = s, q_UserId = u, q_MachineId = m, q_ToolName = t \<rparr>"

fun tool_rpc :: "tool_call \<Rightarrow> string \<times> rpc_message" where
  "tool_rpc (RegisterToolRpc s m n d sc c t) = (''/api.v1.ToolService/RegisterTool'', message (Some s) None (Some m) None)"
| "tool_rpc (ListToolsRpc s) = (''/api.v1.ToolService/ListTools'', message (Some s) None None None)"
| "tool_rpc (GetToolRpc s i n) = (''/api.v1.ToolService/GetTool'', message (Some s) None None None)"
| "tool_rpc (GetToolByIdRpc s i) = (''/api.v1.ToolService/GetToolById'', message (Some s) None None None)"
| "tool_rpc (GetToolByNameRpc s n) = (''/api.v1.ToolService/GetToolByName'', message (Some s) None None None)"
| "tool_rpc (DeleteToolRpc s i m) = (''/api.v1.ToolService/DeleteTool'', message (Some s) None (Some m) None)"
| "tool_rpc (UpdateToolPingRpc s i m) = (''/api.v1.ToolService/UpdateToolPing'', message (Some s) None (Some m) None)"
| "tool_rpc (InvokeToolRpc s n inp t k w) = (''/api.v1.ToolService/InvokeTool'', message (Some s) None None (Some n))"
| "tool_rpc (ExecuteToolRpc s n inp t k w) = (''/api.v1.ToolService/ExecuteTool'', message (Some s) None None (Some n))"
| "tool_rpc HealthCheckRpc = (''/api.v1.ToolService/HealthCheck'', message None None None None)"

fun session_rpc :: "session_call \<Rightarrow> string \<times> rpc_message" where
  "session_rpc (CreateSessionRpc u n d s ns) = (''/api.v1.SessionsService/CreateSession'', message (Some s) (Some u) None None)"
| "session_rpc (GetSessionRpc s) = (''/api.v1.SessionsService/GetSession'', message (Some s) None None None)"
| "session_rpc (ListSessionsRpc u) = (''/api.v1.SessionsService/ListSessions'', message None (Some u) None None)"
| "session_rpc (UpdateSessionRpc s n d ns) = (''/api.v1.SessionsService/UpdateSession'', message (Some s) None None None)"
| "session_rpc (DeleteSessionRpc s) = (''/api.v1.SessionsService/DeleteSession'', message (Some s) None None None)"
| "session_rpc (ListUserSessionsRpc u z f t) = (''/api.v1.SessionsService/ListUserSessions'', message None (Some u) None None)"
| "session_rpc (BulkDeleteSessionsRpc u ss f) = (''/api.v1.SessionsService/BulkDeleteSessions'', message None (Some u) None None)"
| "session_rpc (GetSessionStatsRpc u) = (''/api.v1.SessionsService/GetSessionStats'', message None (Some u) None None)"
| "session_rpc (InvalidateSessionRpc s r) = (''/api.v1.SessionsService/InvalidateSession'', message (Some s) None None None)"
| "session_rpc (CreateApiKeyRpc s n c a) = (''/api.v1.SessionsService/CreateApiKey'', message (Some s) None None None)"
| "session_rpc (ListApiKeysRpc s) = (''/api.v1.SessionsService/ListApiKeys'', message (Some s) None None None)"
| "session_rpc (RevokeApiKeyRpc s k) = (''/api.v1.SessionsService/RevokeApiKey'', message (Some s) None None None)"
| "session_rpc (ListAuditEventsRpc s a e z t) = (''/api.v1.SessionsService/ListAuditEvents'', message (Some s) None None None)"

fun machine_rpc :: "machine_call \<Rightarrow> string \<times> rpc_message" where
  "machine_rpc (RegisterMachineRpc s m v l ts) = (''/api.v1.MachinesService/RegisterMachine'', message (Some s) None (Some m) None)"
| "machine_rpc (ListMachinesRpc s) = (''/api.v1.MachinesService/ListMachines'', message (Some s) None None None)"
| "machine_rpc (GetMachineRpc s m) = (''/api.v1.MachinesService/GetMachine'', message (Some s) None (Some m) None)"
| "machine_rpc (UpdateMachinePingRpc s m) = (''/api.v1.MachinesService/UpdateMachinePing'', message (Some s) None (Some m) None)"
| "machine_rpc (UnregisterMachineRpc s m) = (''/api.v1.MachinesService/UnregisterMachine'', message (Some s) None (Some m) None)"
| "machine_rpc (DrainMachineRpc s m) = (''/api.v1.MachinesService/DrainMachine'', message (Some s) None (Some m) None)"

fun request_rpc :: "request_call \<Rightarrow> string \<times> rpc_message" where
  "request_rpc (CreateRequestRpc s n inp t k) = (''/api.v1.RequestsService/CreateRequest'', message (Some s) None None (Some n))"
| "request_rpc (GetRequestRpc s r) = (''/api.v1.RequestsService/GetRequest'', message (Some s) None None None)"
| "request_rpc (ListRequestsRpc s st n z t) = (''/api.v1.RequestsService/ListRequests'', message (Some s) None None None)"
| "request_rpc (UpdateRequestRpc s r st v rt m e) = (''/api.v1.RequestsService/UpdateRequest'', message (Some s) None (Some m) None)"
| "request_rpc (ClaimRequestRpc s r m) = (''/api.v1.RequestsService/ClaimRequest'', message (Some s) None (Some m) None)"
| "request_rpc (ClaimNextRequestRpc s m ts) = (''/api.v1.RequestsService/ClaimNextRequest'', message (Some s) None (Some m) None)"
| "request_rpc (CancelRequestRpc s r) = (''/api.v1.RequestsService/CancelRequest'', message (Some s) None None None)"
| "request_rpc (SubmitRequestResultRpc s r v rt mt m e) =
     (''/api.v1.RequestsService/SubmitRequestResult'', message (Some s) None (Some m) None)"
| "request_rpc (AppendRequestChunksRpc s r cs m e) =
     (''/api.v1.RequestsService/AppendRequestChunks'', message (Some s) None (Some m) None)"
| "request_rpc (GetRequestChunksRpc s r) = (''/api.v1.RequestsService/GetRequestChunks'', message (Some s) None None None)"
| "request_rpc (RenewRequestLeaseRpc s r m e) = (''/api.v1.RequestsService/RenewRequestLease'', message (Some s) None (Some m) None)"

fun task_rpc :: "task_call \<Rightarrow> string \<times> rpc_message" where
  "task_rpc (CreateTaskRpc s n inp k) = (''/api.v1.TasksService/CreateTask'', message (Some s) None None (Some n))"
| "task_rpc (GetTaskRpc s t) = (''/api.v1.TasksService/GetTask'', message (Some s) None None None)"
| "task_rpc (ListTasksRpc s) = (''/api.v1.TasksService/ListTasks'', message (Some s) None None None)"
| "task_rpc (CancelTaskRpc s t) = (''/api.v1.TasksService/CancelTask'', message (Some s) None None None)"

fun rpc_of :: "rpc_call \<Rightarrow> string \<times> rpc_message" where
  "rpc_of (ToolCall c) = tool_rpc c"
| "rpc_of (SessionCall c) = session_rpc c"
| "rpc_of (MachineCall c) = machine_rpc c"
| "rpc_of (RequestCall c) = request_rpc c"
| "rpc_of (TaskCall c) = task_rpc c"
section \<open>Dispatch\<close>

datatype response =
    Rejected auth_error | Status grpc_status | Crashed
  | ToolReply proto_tool | ToolsReply "proto_tool list" | ExecuteReply execute_response | HealthReply "string \<times> string \<times> string"
  | SessionReply proto_session | SessionsReply "proto_session list" | SessionPage "proto_session list \<times> list_page"
  | BulkReply "int \<times> string list" | StatsReply "int \<times> int \<times> int" | CountReply int
  | KeyReply proto_api_key | KeysReply "proto_api_key list" | AuditPage "proto_audit_event list \<times> list_page"
  | MachineReply proto_machine | MachinesReply "proto_machine list"
  | RequestReply proto_request | RequestPage "proto_request list \<times> list_page" | ClaimReply "proto_request option"
  | ChunksReply chunk_window | TaskReply proto_task | TasksReply "proto_task list" | Success bool

definition answer :: "('a \<Rightarrow> response) \<Rightarrow> 's \<times> 'a grpc_result \<Rightarrow> 's \<times> response" where
  "answer f r = (case r of (s, Inl st) \<Rightarrow> (s, Status st) | (s, Inr a) \<Rightarrow> (s, f a))"

text \<open>A synchronous execution polls at the times \<open>polls\<close> and then its wait expires.\<close>

fun handle_tool :: "grpc_env \<Rightarrow> time list \<Rightarrow> tool_call \<Rightarrow> server \<Rightarrow> server \<times> response" where
  "handle_tool env polls (RegisterToolRpc s m n d sc c t) sv = answer ToolReply (grpc_RegisterTool env s m n d sc c t sv)"
| "handle_tool env polls (ListToolsRpc s) sv = answer ToolsReply (grpc_ListTools env s sv)"
| "handle_tool env polls (GetToolRpc s i n) sv = answer ToolReply (grpc_GetTool env s i n sv)"
| "handle_tool env polls (GetToolByIdRpc s i) sv = answer ToolReply (grpc_GetToolById env s i sv)"
| "handle_tool env polls (GetToolByNameRpc s n) sv = answer ToolReply (grpc_GetToolByName env s n sv)"
| "handle_tool env polls (DeleteToolRpc s i m) sv = answer Success (grpc_DeleteTool s i sv)"
| "handle_tool env polls (UpdateToolPingRpc s i m) sv = answer ToolReply (grpc_UpdateToolPing env s i sv)"
| "handle_tool env polls (InvokeToolRpc s n inp t k w) sv = answer ExecuteReply
     (grpc_InvokeTool env (map (\<lambda>now. (now, \<lambda>sv. sv)) polls) CtxDeadlineExceeded (e_now env) s n inp t k w sv)"
| "handle_tool env polls (ExecuteToolRpc s n inp t k w) sv = answer ExecuteReply
     (grpc_ExecuteTool env (map (\<lambda>now. (now, \<lambda>sv. sv)) polls) CtxDeadlineExceeded (e_now env) s n inp t k w sv)"
| "handle_tool env polls HealthCheckRpc sv = (sv, HealthReply (grpc_HealthCheck ''dev'' ''memory''))"

fun handle_session :: "grpc_env \<Rightarrow> auth_principal option \<Rightarrow> session_call \<Rightarrow> sessions_state \<Rightarrow> sessions_state \<times> response" where
  "handle_session env caller (CreateSessionRpc u n d s ns) sx = answer SessionReply (grpc_CreateSession env u n d s ns sx)"
| "handle_session env caller (GetSessionRpc s) sx = answer SessionReply (grpc_GetSession s sx)"
| "handle_session env caller (ListSessionsRpc u) sx = answer SessionsReply (grpc_ListSessions u sx)"
| "handle_session env caller (UpdateSessionRpc s n d ns) sx = answer SessionReply (grpc_UpdateSession s n d ns sx)"
| "handle_session env caller (DeleteSessionRpc s) sx = answer Success (grpc_DeleteSession s sx)"
| "handle_session env caller (ListUserSessionsRpc u z f t) sx = answer SessionPage (grpc_ListUserSessions u z f t sx)"
| "handle_session env caller (BulkDeleteSessionsRpc u ss f) sx = answer BulkReply (grpc_BulkDeleteSessions u ss f sx)"
| "handle_session env caller (GetSessionStatsRpc u) sx = answer StatsReply (grpc_GetSessionStats u sx)"
| "handle_session env caller (InvalidateSessionRpc s r) sx = answer CountReply (grpc_InvalidateSession env s sx)"
| "handle_session env caller (CreateApiKeyRpc s n c a) sx = answer KeyReply (grpc_CreateApiKey env caller s n c a sx)"
| "handle_session env caller (ListApiKeysRpc s) sx = answer KeysReply (grpc_ListApiKeys s sx)"
| "handle_session env caller (RevokeApiKeyRpc s k) sx = answer Success (grpc_RevokeApiKey env s k sx)"
| "handle_session env caller (ListAuditEventsRpc s a e z t) sx =
     answer AuditPage (grpc_ListAuditEvents (e_marshal env) s a e z t sx)"

fun handle_machine :: "grpc_env \<Rightarrow> metadata option \<Rightarrow> machine_call \<Rightarrow> server \<Rightarrow> server \<times> response" where
  "handle_machine env md (RegisterMachineRpc s m v l ts) sv = answer MachineReply (grpc_RegisterMachine env md s m v l ts sv)"
| "handle_machine env md (ListMachinesRpc s) sv = answer MachinesReply (grpc_ListMachines s sv)"
| "handle_machine env md (GetMachineRpc s m) sv = answer MachineReply (grpc_GetMachine s m sv)"
| "handle_machine env md (UpdateMachinePingRpc s m) sv = answer MachineReply (grpc_UpdateMachinePing env s m sv)"
| "handle_machine env md (UnregisterMachineRpc s m) sv = answer Success (grpc_UnregisterMachine s m sv)"
| "handle_machine env md (DrainMachineRpc s m) sv = answer Success (grpc_DrainMachine (Some CtxCanceled) s m sv)"

fun handle_request :: "grpc_env \<Rightarrow> request_call \<Rightarrow> server \<Rightarrow> server \<times> response" where
  "handle_request env (CreateRequestRpc s n inp t k) sv = answer RequestReply (grpc_CreateRequest env s n inp t k sv)"
| "handle_request env (GetRequestRpc s r) sv = answer RequestReply (grpc_GetRequest env s r sv)"
| "handle_request env (ListRequestsRpc s st n z t) sv = answer RequestPage (grpc_ListRequests (e_marshal env) s st n z t sv)"
| "handle_request env (UpdateRequestRpc s r st v rt m e) sv = answer RequestReply (grpc_UpdateRequest env s r st v rt m e sv)"
| "handle_request env (ClaimRequestRpc s r m) sv = answer RequestReply (grpc_ClaimRequest env s r m sv)"
| "handle_request env (ClaimNextRequestRpc s m ts) sv = answer ClaimReply (grpc_ClaimNextRequest env s m ts sv)"
| "handle_request env (CancelRequestRpc s r) sv = answer Success (grpc_CancelRequest env s r sv)"
| "handle_request env (SubmitRequestResultRpc s r v rt mt m e) sv =
     answer Success (grpc_SubmitRequestResult env s r v rt mt m e sv)"
| "handle_request env (AppendRequestChunksRpc s r cs m e) sv = answer Success (grpc_AppendRequestChunks env s r cs m e sv)"
| "handle_request env (GetRequestChunksRpc s r) sv =
     (case grpc_GetRequestChunks env s r sv of
        (sv1, None) \<Rightarrow> (sv1, Crashed) | (sv1, Some w) \<Rightarrow> answer ChunksReply (sv1, w))"
| "handle_request env (RenewRequestLeaseRpc s r m e) sv = answer RequestReply (grpc_RenewRequestLease env s r m e sv)"

fun handle_task :: "grpc_env \<Rightarrow> task_call \<Rightarrow> tasks_state \<Rightarrow> tasks_state \<times> response" where
  "handle_task env (CreateTaskRpc s n inp k) tv = answer TaskReply (grpc_CreateTask env s n inp k tv)"
| "handle_task env (GetTaskRpc s t) tv = answer TaskReply (grpc_GetTask s t tv)"
| "handle_task env (ListTasksRpc s) tv = answer TasksReply (grpc_ListTasks s tv)"
| "handle_task env (CancelTaskRpc s t) tv = answer Success (grpc_CancelTask env s t tv)"

fun handle ::
  "grpc_env \<Rightarrow> time list \<Rightarrow> metadata option \<Rightarrow> auth_principal option \<Rightarrow> rpc_call \<Rightarrow> grpc_server \<Rightarrow> grpc_server \<times> response" where
  "handle env polls md caller (ToolCall c) g = on_server (handle_tool env polls c) g"
| "handle env polls md caller (SessionCall c) g = on_sessions (handle_session env caller c) g"
| "handle env polls md caller (MachineCall c) g = on_server (handle_machine env md c) g"
| "handle env polls md caller (RequestCall c) g = on_server (handle_request env c) g"
| "handle env polls md caller (TaskCall c) g = on_tasks (handle_task env c) g"

text \<open>The interceptor, and behind it the handler.\<close>

definition authenticate :: "grpc_env \<Rightarrow> grpc_server authenticator" where
  "authenticate env token = on_sessions (AuthenticateAPIKey (e_hash env) (e_now env) token)"

definition machine_gate :: "grpc_env \<Rightarrow> grpc_server machine_auth" where
  "machine_gate env s m t = on_server (AuthorizeMachineToken (e_hash env) s m t)"

definition serve :: "grpc_env \<Rightarrow> time list \<Rightarrow> metadata option \<Rightarrow> rpc_call \<Rightarrow> grpc_server \<Rightarrow> grpc_server \<times> response" where
  "serve env polls md c g =
     (case UnaryInterceptor (authenticate env) (Some (machine_gate env)) (fst (rpc_of c)) md (snd (rpc_of c)) g of
        (g1, Inl e) \<Rightarrow> (g1, Rejected e)
      | (g1, Inr p) \<Rightarrow> handle env polls md (Some p) c g1)"

end
