(* ===== verification/Grpc_Isolation.thy ===== *)
theory Grpc_Isolation
  imports Grpc_Serve
begin

text \<open>
  Sessions as tenants.  What a served call can do to the work of other sessions: nothing to
  their requests and tasks (\<open>tenants_are_isolated\<close>), and the two places where the boundary is
  open: reading the output of any request through an empty session id
  (\<open>chunk_read_crosses_sessions\<close>), and taking over the row of a machine of another session by
  registering under its id (\<open>machine_row_is_taken_over\<close>).
\<close>

section \<open>The work of other sessions\<close>

text \<open>The requests and tasks outside the sessions \<open>T\<close>.  Reading a stream fills in the defaults of
  a row's sequence numbers, so requests are compared after that.\<close>

definition others_requests :: "string set \<Rightarrow> store \<Rightarrow> string \<Rightarrow> request option" where
  "others_requests T s i =
     (case mem_GetRequest i s of
        None \<Rightarrow> None | Some r \<Rightarrow> if r_SessionID r \<in> T then None else Some (EnsureStreamSequenceDefaults r))"

definition others_tasks :: "string set \<Rightarrow> store \<Rightarrow> string \<Rightarrow> task option" where
  "others_tasks T s i =
     (case mem_GetTaskByID i s of None \<Rightarrow> None | Some t \<Rightarrow> if tk_SessionID t \<in> T then None else Some t)"


lemma ensure_idem [simp]: "EnsureStreamSequenceDefaults (EnsureStreamSequenceDefaults r) = EnsureStreamSequenceDefaults r"
  by (simp add: EnsureStreamSequenceDefaults_def Let_def)





text \<open>The store goes from \<open>s\<close> to \<open>t\<close> without touching the work outside \<open>T\<close>.\<close>

definition spares :: "string set \<Rightarrow> store \<Rightarrow> store \<Rightarrow> bool" where
  "spares T s t \<longleftrightarrow> (store_ok s \<longrightarrow> store_ok t \<and> others_requests T t = others_requests T s)
     \<and> others_tasks T t = others_tasks T s"

lemma spares_refl [simp, intro]: "spares T s s"
  by (simp add: spares_def)






section \<open>Handlers act for the session they name\<close>

lemma answer_state [simp]: "fst (answer f r) = fst r"
  by (simp add: answer_def split_beta split: sum.split)

lemma reply_state [simp]: "fst (reply f r) = fst r" "fst (reply_ok g q) = fst q"
  by (simp_all add: reply_def reply_ok_def split_beta split: sum.split)





lemma store_wait [simp]:
  "sv_store (fst (WaitForRequestState s r ended now (map (\<lambda>now. (now, \<lambda>sv. sv)) polls) sv)) = sv_store sv"
proof (induction polls arbitrary: now sv)
  case Nil
  then show ?case
    by (auto simp: waitForRequestState_def cache_put_def store_pairs split: prod.split sum.split option.split)
next
  case (Cons p ps)
  have w: "sv_store (fst (waitForRequestState now s r sv)) = sv_store sv"
    by (auto simp: waitForRequestState_def cache_put_def split: option.split)
  obtain sv1 x where 1: "waitForRequestState now s r sv = (sv1, x)" by fastforce
  with w Cons show ?case by (auto split: sum.split)
qed

declare WaitForRequestState.simps [simp del]




text \<open>The session service writes sessions, user links and keys only.\<close>

lemma work_session_ops [simp]:
  "st_requests (mem_AddUserSession u i st) = st_requests st" "st_tasks (mem_AddUserSession u i st) = st_tasks st"
  "st_requests (mem_RemoveUserSession u i st) = st_requests st" "st_tasks (mem_RemoveUserSession u i st) = st_tasks st"
  "st_requests (mem_SaveSession s st) = st_requests st" "st_tasks (mem_SaveSession s st) = st_tasks st"
  "st_requests (mem_DeleteSession i st) = st_requests st" "st_tasks (mem_DeleteSession i st) = st_tasks st"
  "st_requests (mem_SaveApiKey k st) = st_requests st" "st_tasks (mem_SaveApiKey k st) = st_tasks st"
  "st_requests (fst (mem_InsertSessionIfAbsent s st)) = st_requests st"
  "st_tasks (fst (mem_InsertSessionIfAbsent s st)) = st_tasks st"
  by (simp_all add: mem_AddUserSession_def mem_RemoveUserSession_def mem_SaveSession_def mem_DeleteSession_def
      mem_SaveApiKey_def mem_InsertSessionIfAbsent_def split: option.split)

lemma work_fold_keys [simp]:
  "st_requests (fold mem_SaveApiKey ks st) = st_requests st" "st_tasks (fold mem_SaveApiKey ks st) = st_tasks st"
  by (rule fold_keeps; simp)+




section \<open>Task handlers\<close>


lemma store_find [simp]: "tv_store (fst (findTaskByIdempotencyKey s k tv)) = tv_store tv"
  by (simp add: findTaskByIdempotencyKey_def split: option.split)



lemma store_cancel_execution [simp]: "tv_store (cancel_execution l k tv) = tv_store tv"
  by (simp add: cancel_execution_def split: option.split)


lemma store_mirror [simp]: "tv_store (fst (mirror_tasks ts tv)) = tv_store tv"
  by (induction ts arbitrary: tv) (simp_all add: Let_def split_beta)


section \<open>The interceptor\<close>

text \<open>The policies of the served methods.\<close>

lemma served_policies:
  "methodPolicyFor ''/api.v1.ToolService/RegisterTool'' = Some (policy CapProvide True False False)"
  "methodPolicyFor ''/api.v1.ToolService/ListTools'' = Some (policy CapRead True False False)"
  "methodPolicyFor ''/api.v1.ToolService/GetTool'' = Some (policy CapRead True False False)"
  "methodPolicyFor ''/api.v1.ToolService/GetToolById'' = Some (policy CapRead True False False)"
  "methodPolicyFor ''/api.v1.ToolService/GetToolByName'' = Some (policy CapRead True False False)"
  "methodPolicyFor ''/api.v1.ToolService/DeleteTool'' = Some (policy CapProvide True False False)"
  "methodPolicyFor ''/api.v1.ToolService/UpdateToolPing'' = Some (policy CapProvide True False False)"
  "methodPolicyFor ''/api.v1.ToolService/InvokeTool'' = Some (policy CapInvoke True False False)"
  "methodPolicyFor ''/api.v1.ToolService/ExecuteTool'' = Some (policy CapInvoke True False False)"
  "methodPolicyFor ''/api.v1.ToolService/HealthCheck'' = Some (policy CapRead False False False)"
  "methodPolicyFor ''/api.v1.SessionsService/CreateSession'' = Some (policy CapAdmin False True False)"
  "methodPolicyFor ''/api.v1.SessionsService/GetSession'' = Some (policy CapRead True False False)"
  "methodPolicyFor ''/api.v1.SessionsService/ListSessions'' = Some (policy CapAdmin False True False)"
  "methodPolicyFor ''/api.v1.SessionsService/UpdateSession'' = Some (policy CapAdmin True False False)"
  "methodPolicyFor ''/api.v1.SessionsService/DeleteSession'' = Some (policy CapAdmin True False False)"
  "methodPolicyFor ''/api.v1.SessionsService/ListUserSessions'' = Some (policy CapAdmin False True False)"
  "methodPolicyFor ''/api.v1.SessionsService/BulkDeleteSessions'' = Some (policy CapAdmin False True False)"
  "methodPolicyFor ''/api.v1.SessionsService/GetSessionStats'' = Some (policy CapAdmin False True False)"
  "methodPolicyFor ''/api.v1.SessionsService/InvalidateSession'' = Some (policy CapAdmin True False False)"
  "methodPolicyFor ''/api.v1.SessionsService/CreateApiKey'' = Some (policy CapAdmin True False False)"
  "methodPolicyFor ''/api.v1.SessionsService/ListApiKeys'' = Some (policy CapAdmin True False False)"
  "methodPolicyFor ''/api.v1.SessionsService/RevokeApiKey'' = Some (policy CapAdmin True False False)"
  "methodPolicyFor ''/api.v1.SessionsService/ListAuditEvents'' = Some (policy CapAdmin False False False)"
  "methodPolicyFor ''/api.v1.MachinesService/RegisterMachine'' = Some (policy CapProvide True False False)"
  "methodPolicyFor ''/api.v1.MachinesService/ListMachines'' = Some (policy CapRead True False False)"
  "methodPolicyFor ''/api.v1.MachinesService/GetMachine'' = Some (policy CapRead True False False)"
  "methodPolicyFor ''/api.v1.MachinesService/UpdateMachinePing'' = Some (policy CapProvide True False False)"
  "methodPolicyFor ''/api.v1.MachinesService/UnregisterMachine'' = Some (policy CapProvide True False False)"
  "methodPolicyFor ''/api.v1.MachinesService/DrainMachine'' = Some (policy CapProvide True False False)"
  "methodPolicyFor ''/api.v1.RequestsService/CreateRequest'' = Some (policy CapInvoke True False False)"
  "methodPolicyFor ''/api.v1.RequestsService/GetRequest'' = Some (policy CapRead True False False)"
  "methodPolicyFor ''/api.v1.RequestsService/ListRequests'' = Some (policy CapRead True False False)"
  "methodPolicyFor ''/api.v1.RequestsService/UpdateRequest'' = Some (policy CapProvide True False False)"
  "methodPolicyFor ''/api.v1.RequestsService/ClaimRequest'' = Some (policy CapProvide True False False)"
  "methodPolicyFor ''/api.v1.RequestsService/ClaimNextRequest'' = Some (policy CapProvide True False False)"
  "methodPolicyFor ''/api.v1.RequestsService/CancelRequest'' = Some (policy CapInvoke True False False)"
  "methodPolicyFor ''/api.v1.RequestsService/SubmitRequestResult'' = Some (policy CapProvide True False False)"
  "methodPolicyFor ''/api.v1.RequestsService/AppendRequestChunks'' = Some (policy CapProvide True False False)"
  "methodPolicyFor ''/api.v1.RequestsService/GetRequestChunks'' = Some (policy CapRead True False False)"
  "methodPolicyFor ''/api.v1.RequestsService/RenewRequestLease'' = Some (policy CapProvide True False False)"
  "methodPolicyFor ''/api.v1.TasksService/CreateTask'' = Some (policy CapInvoke True False False)"
  "methodPolicyFor ''/api.v1.TasksService/GetTask'' = Some (policy CapRead True False False)"
  "methodPolicyFor ''/api.v1.TasksService/ListTasks'' = Some (policy CapRead True False False)"
  "methodPolicyFor ''/api.v1.TasksService/CancelTask'' = Some (policy CapInvoke True False False)"
  by code_simp+




lemma auth_step:
  assumes "authenticate env token g = (g1, x)"
  shows "gs_tasks g1 = gs_tasks g" and "x = Inr p \<Longrightarrow> p_Mode p = AuthModeSessionKey"
proof -
  let ?sx = "(gs_sessions g)\<lparr> sx_store := gs_store g \<rparr>"
  obtain sx where a: "AuthenticateAPIKey (e_hash env) (e_now env) token ?sx = (sx, x)"
    and g1: "g1 = g\<lparr> gs_sessions := sx, gs_tasks := set_task_store (sx_store sx) (gs_tasks g) \<rparr>"
    using assms by (auto simp: authenticate_def on_sessions_def split: prod.splits)
  have "sx_store sx = gs_store g" using store_Authenticate [of "e_hash env" "e_now env" token ?sx] a by simp
  with g1 show "gs_tasks g1 = gs_tasks g" by (simp add: gs_store_def set_task_store_def tv_store_def)
  show "x = Inr p \<Longrightarrow> p_Mode p = AuthModeSessionKey"
    using a by (auto simp: AuthenticateAPIKey_def key_principal_def Let_def split: if_splits option.splits prod.splits)
qed

lemma auth_tasks: "authenticateRequest (authenticate env) md g = (g1, x) \<Longrightarrow> gs_tasks g1 = gs_tasks g"
  by (auto simp: authenticateRequest_def dest: auth_step(1) split: option.splits prod.splits sum.splits)

lemma session_mode: "snd (authenticateRequest (authenticate env) md g) = Inr p \<Longrightarrow> p_Mode p = AuthModeSessionKey"
  by (auto simp: authenticateRequest_def split: option.splits prod.splits sum.splits dest: auth_step(2))





section \<open>Isolation\<close>





lemma gs_server: "gs_store g = sv_store (tv_server (gs_tasks g))"
  by (simp add: gs_store_def tv_store_def)


section \<open>Where the boundary is open\<close>

lemma chunk_window_any:
  assumes "mem_GetRequest rid (sv_store sv) = Some r" and "r_ID r = rid" and "stream_abs log r"
  shows "snd (grpc_GetRequestChunks env '''' rid sv)
    = Some (Inr \<lparr> w_StartSeq = r_StreamStartSeq r, w_NextSeq = r_NextStreamSeq r, w_Chunks = r_StreamResults r \<rparr>)"
proof -
  let ?r = "ensureRequestDefaults (e_now env) r"
  note d = stream_abs_defaults [OF assms(3), of "e_now env"]
  have i: "r_ID ?r = rid" using assms(2) by simp
  have e: "EnsureStreamSequenceDefaults ?r = ?r" by (rule ensure_id [OF d(1)])
  have g: "gm_get (st_requests (sv_store sv)) rid = Some r" using assms(1) by (simp add: mem_GetRequest_def)
  from stored_window [OF g assms(3)] show ?thesis
    by (simp add: grpc_GetRequestChunks_def GetRequestChunks_def requestStreamSnapshot_def lookupRequestForStream_def
        GetRequestByIDAnySession_def assms(1,2) e i d Let_def split_beta)
qed

text \<open>C34: The output of any request can be read with any key.  A call that names no session is
  admitted, and reading chunks without a session looks the request up in every session: a
  caller with the read capability, of whatever session, gets the retained output of any
  request whose id it knows, although naming the session of that request is refused.\<close>

theorem chunk_read_crosses_sessions:
  assumes "snd (authenticateRequest (authenticate env) md g) = Inr p" and "CapRead \<in> set (p_Capabilities p)"
    and "mem_GetRequest rid (gs_store g) = Some r" and "r_ID r = rid" and "stream_abs log r"
    and "r_SessionID r \<noteq> p_SessionID p" and "r_SessionID r \<noteq> ''''"
  shows "(\<exists>g'. serve env polls md (RequestCall (GetRequestChunksRpc '''' rid)) g = (g', ChunksReply
        \<lparr> w_StartSeq = r_StreamStartSeq r, w_NextSeq = r_NextStreamSeq r, w_Chunks = r_StreamResults r \<rparr>))
    \<and> (\<exists>g'. serve env polls md (RequestCall (GetRequestChunksRpc (r_SessionID r) rid)) g = (g', Rejected PermissionDenied))"
proof -
  obtain g1 where a: "authenticateRequest (authenticate env) md g = (g1, Inr p)"
    using assms(1) by (metis prod.collapse)
  have mode: "p_Mode p = AuthModeSessionKey" by (rule session_mode [OF assms(1)])
  have cap: "HasCapability CapRead (Some p)" using assms(2) by (auto simp: HasCapability_def list_ex_iff)
  note u = UnaryInterceptor_def a served_policies policy_def authorizeUnary_def mode cap check_session_def check_tool_def
    check_user_def message_def authorizeMachineToken_def
  have "mem_GetRequest rid (sv_store (tv_server (gs_tasks g1))) = Some r"
    using assms(3) auth_tasks [OF a] by (simp add: gs_store_def tv_store_def)
  from chunk_window_any [OF this assms(4,5), of env]
  have "\<exists>g'. handle env polls md (Some p) (RequestCall (GetRequestChunksRpc '''' rid)) g1 = (g', ChunksReply
      \<lparr> w_StartSeq = r_StreamStartSeq r, w_NextSeq = r_NextStreamSeq r, w_Chunks = r_StreamResults r \<rparr>)"
    by (cases "grpc_GetRequestChunks env '''' rid (tv_server (gs_tasks g1))") (simp add: on_server_def answer_def)
  moreover have "CapRead \<noteq> CapProvide" by simp
  ultimately show ?thesis using assms(6,7) by (simp add: serve_def u)
qed

text \<open>C35: A machine row can be taken over across sessions.  Registering under the id of a machine
  that belongs to another session needs no credential of that machine: the call is admitted
  and succeeds with a fresh credential, the stored row moves to the caller's session, and on
  every replica the machine's own session no longer has it.\<close>

theorem machine_row_is_taken_over:
  assumes "snd (authenticateRequest (authenticate env) md g) = Inr p" and "CapProvide \<in> set (p_Capabilities p)"
    and "mem_GetMachine m (gs_store g) = Some victim" and "m_ID victim = m" and "m \<noteq> ''''"
    and "m_SessionID victim \<noteq> p_SessionID p" and "gm_get2 (sv_machines (tv_server (gs_tasks g))) (p_SessionID p) m = None"
    and "\<not> IsMachineDraining (p_SessionID p) m (tv_server (gs_tasks g))"
  shows "\<exists>g' reply row. serve env polls md (MachineCall (RegisterMachineRpc (p_SessionID p) m v l [])) g = (g', MachineReply reply)
    \<and> pm_MachineToken reply = ''toolplane_machine_'' @ e_uuid2 env
    \<and> mem_GetMachine m (gs_store g') = Some row \<and> m_SessionID row = p_SessionID p
    \<and> (\<forall>sv. sv_store sv = gs_store g' \<longrightarrow> snd (grpc_GetMachine (m_SessionID victim) m sv) = Inl (grpc_failure ErrNotFound))"
proof -
  let ?S = "p_SessionID p" and ?sv = "tv_server (gs_tasks g)"
  let ?new = "NewMachine (e_hash env) (e_uuid env) (e_uuid2 env) (e_now env) ?S m v l ''127.0.0.1''"
  obtain g1 where a: "authenticateRequest (authenticate env) md g = (g1, Inr p)"
    using assms(1) by (metis prod.collapse)
  have mode: "p_Mode p = AuthModeSessionKey" by (rule session_mode [OF assms(1)])
  have cap: "HasCapability CapProvide (Some p)" using assms(2) by (auto simp: HasCapability_def list_ex_iff)
  have g1: "gs_tasks g1 = gs_tasks g" by (rule auth_tasks [OF a])
  have stored: "mem_GetMachine m (sv_store ?sv) = Some victim" using assms(3) by (simp add: gs_server)
  have gate: "machine_gate env ?S m tok g1 = (g1, Inr ())" for tok
    using assms(5,6,7) stored by (simp add: machine_gate_def on_server_def AuthorizeMachineToken_def g1 Let_def)
  have i: "UnaryInterceptor (authenticate env) (Some (machine_gate env)) ''/api.v1.MachinesService/RegisterMachine'' md
      (message (Some ?S) None (Some m) None) g = (g1, Inr p)"
    using assms(5) by (simp add: UnaryInterceptor_def a served_policies policy_def authorizeUnary_def mode cap check_session_def
        check_tool_def check_user_def message_def authorizeMachineToken_def gate)
  have n: "m_ID ?new = m" "m_SessionID ?new = ?S" "m_Token ?new = ''toolplane_machine_'' @ e_uuid2 env"
    using assms(5) by (simp_all add: NewMachine_def Let_def)
  obtain sv' where r: "RegisterMachine (e_hash env) (e_json_object env) (e_uuid env) (e_uuid2 env) (e_now env) ?S m v l
      ''127.0.0.1'' [] (MachineTokenFromContext md) ?sv = (sv', Inr ?new)"
    and st: "sv_store sv' = mem_SaveMachine ?new (sv_store ?sv)"
    using assms(5,6,7,8) stored n(1)
    by (simp add: RegisterMachine_def resolve_machine_def gm_get2_ensure Let_def)
  have "\<exists>row. mem_GetMachine m (sv_store sv') = Some row \<and> m_SessionID row = ?S"
    unfolding st using n by (simp add: mem_SaveMachine_def mem_GetMachine_def cloneMachine_def Let_def split: option.split)
  then obtain row where row: "mem_GetMachine m (sv_store sv') = Some row" "m_SessionID row = ?S" by blast
  have nf: "snd (grpc_GetMachine (m_SessionID victim) m sv) = Inl (grpc_failure ErrNotFound)" if "sv_store sv = sv_store sv'" for sv
    using row assms(6) that by (simp add: grpc_GetMachine_def GetMachineByID_def reply_def Let_def)
  show ?thesis
    using i r row nf n(3) by (simp add: serve_def on_server_def grpc_RegisterMachine_def reply_def answer_def g1 gs_server)
qed

section \<open>Two tenants\<close>

text \<open>Session \<open>s1\<close> has a machine and a finished request with output; the caller holds a key of
  session \<open>s2\<close>.\<close>

definition demo_env :: grpc_env where
  "demo_env = \<lparr> e_hash = demo_hash1, e_json_object = (\<lambda>x. True), e_marshal = (\<lambda>v. None), e_unmarshal = (\<lambda>x. None),
     e_format = (\<lambda>v. ''''), e_now = 5000, e_uuid = ''n1'', e_uuid2 = ''n2'' \<rparr>"

definition demo_neighbour :: sessions_state where
  "demo_neighbour = fst (CreateApiKey demo_hash1 ''u1'' ''k2'' 1000 ''s2'' ''ci'' ''bob'' [''read'', ''invoke'', ''provide''] []
     (fst (CreateSession ''u0'' 900 ''bob'' ''two'' '''' ''s2'' '''' (NewSessionsService demo_hash1 800
       (mem_SaveMachine (NewMachine demo_hash1 ''u1'' ''u2'' 100 ''s1'' ''m1'' ''1.0'' ''go'' ''ip'') (sv_store demo_streamed))))))"

definition demo_replica :: grpc_server where
  "demo_replica = \<lparr> gs_sessions = demo_neighbour,
     gs_tasks = \<lparr> tv_server = demo_server (sx_store demo_neighbour), tv_tasks = [], tv_executions = [], tv_instanceID = ''i1'' \<rparr> \<rparr>"

definition demo_caller :: auth_principal where
  "demo_caller = \<lparr> p_Mode = AuthModeSessionKey, p_SessionID = ''s2'', p_UserID = ''bob'', p_KeyID = ''k2'',
     p_Capabilities = [CapRead, CapInvoke, CapProvide], p_AllowedTools = [], p_TokenPreview = BuildAPIKeyPreview ''toolplane_key_u1'' \<rparr>"

lemma demo_auth: "snd (authenticateRequest (authenticate demo_env) (Some demo_md) demo_replica) = Inr demo_caller"
  by code_simp

lemma demo_store_rows: "st_requests (gs_store demo_replica) = [(''r1'', demo_streamed_row)]" "st_tasks (gs_store demo_replica) = []"
  by code_simp+



theorem chunk_read_crosses_sessions_witness:
  "snd (serve demo_env [] (Some demo_md) (RequestCall (GetRequestChunksRpc '''' ''r1'')) demo_replica)
     = ChunksReply \<lparr> w_StartSeq = 1, w_NextSeq = 3, w_Chunks = [''a'', ''b''] \<rparr>"
proof -
  have abs: "stream_abs [''a'', ''b''] demo_streamed_row"
    by (simp add: stream_abs_def demo_streamed_row_def grant_lease_def submit_row_def merge_meta_def SetResult_def
        demo_row_def NewRequest_def Let_def)
  have g: "mem_GetRequest ''r1'' (gs_store demo_replica) = Some demo_streamed_row"
    by (simp add: mem_GetRequest_def demo_store_rows gm_get_def)
  have f: "r_ID demo_streamed_row = ''r1''" "r_SessionID demo_streamed_row \<noteq> p_SessionID demo_caller"
    "r_SessionID demo_streamed_row \<noteq> ''''" "r_StreamStartSeq demo_streamed_row = 1" "r_NextStreamSeq demo_streamed_row = 3"
    "r_StreamResults demo_streamed_row = [''a'', ''b'']" "CapRead \<in> set (p_Capabilities demo_caller)" by code_simp+
  from chunk_read_crosses_sessions [OF demo_auth f(7) g f(1) abs f(2,3), of "[]"] show ?thesis by (auto simp: f)
qed

theorem machine_row_is_taken_over_witness:
  "\<exists>g' reply row. serve demo_env [] (Some demo_md) (MachineCall (RegisterMachineRpc ''s2'' ''m1'' ''2.0'' ''go'' [])) demo_replica
       = (g', MachineReply reply)
    \<and> mem_GetMachine ''m1'' (gs_store demo_replica) \<noteq> None \<and> mem_GetMachine ''m1'' (gs_store g') = Some row \<and> m_SessionID row = ''s2''"
proof -
  obtain victim where v: "mem_GetMachine ''m1'' (gs_store demo_replica) = Some victim" "m_ID victim = ''m1''" "m_SessionID victim = ''s1''"
  proof -
    have "map_option (\<lambda>m. (m_ID m, m_SessionID m)) (mem_GetMachine ''m1'' (gs_store demo_replica)) = Some (''m1'', ''s1'')"
      by code_simp
    then show thesis using that by auto
  qed
  have c: "p_SessionID demo_caller = ''s2''" "CapProvide \<in> set (p_Capabilities demo_caller)" by code_simp+
  have d: "gm_get2 (sv_machines (tv_server (gs_tasks demo_replica))) (p_SessionID demo_caller) ''m1'' = None"
    "\<not> IsMachineDraining (p_SessionID demo_caller) ''m1'' (tv_server (gs_tasks demo_replica))" by code_simp+
  have "m_SessionID victim \<noteq> p_SessionID demo_caller" using v(3) c(1) by simp
  from machine_row_is_taken_over [OF demo_auth c(2) v(1,2) _ this d, where polls = "[]" and v = "''2.0''" and l = "''go''"] v(1) c(1)
  show ?thesis by simp blast
qed

end
