(* ===== verification/Pg_Rows.thy ===== *)
theory Pg_Rows
  imports Auth_Model
begin

text \<open>
  The tables of the PostgreSQL store (\<open>pkg/storage/migrations.go\<close>) and the two translations
  between a row and a record of \<open>pkg/model\<close>: the arguments of an \<open>INSERT\<close> and the scan of a
  \<open>SELECT\<close>.  A table with a primary key is a map from the key to the other columns.  What a
  column makes of a value is the parameter \<open>pg_codec\<close>: a \<open>TIMESTAMPTZ\<close> column keeps a time to
  its own resolution, and a \<open>JSONB\<close> column gives back what \<open>json.Marshal\<close>, the database and
  \<open>json.Unmarshal\<close> make of the value (\<open>toJSON\<close> writes \<open>null\<close> for a value that has no JSON form).
  A nullable text column is an option.
\<close>

record pg_codec =
  kc_time :: "time \<Rightarrow> time"
  kc_json :: "go_value \<Rightarrow> go_value"
  kc_object :: "go_value gomap \<Rightarrow> go_value gomap"

text \<open>What the columns are documented to do: storing what was read changes nothing, and \<open>null\<close> is
  itself.  Texts that reach the server are valid UTF-8, so maps and lists of texts come back
  as they were written.\<close>

definition codec_ok :: "pg_codec \<Rightarrow> bool" where
  "codec_ok k \<longleftrightarrow> (\<forall>t. kc_time k (kc_time k t) = kc_time k t) \<and> (\<forall>v. kc_json k (kc_json k v) = kc_json k v)
     \<and> (\<forall>c. kc_object k (kc_object k c) = kc_object k c) \<and> kc_json k VNil = VNil"

definition nullString :: "string \<Rightarrow> string option" where
  "nullString value = (if value = '''' then None else Some value)"

text \<open>Reading a \<open>sql.NullString\<close>: the text if valid, else the empty string.\<close>

definition null_text :: "string option \<Rightarrow> string" where
  "null_text c = (case c of None \<Rightarrow> '''' | Some t \<Rightarrow> t)"

lemma null_text_inv [simp]: "null_text (nullString s) = s" "null_text None = ''''" "null_text (Some s) = s"
  by (simp_all add: null_text_def nullString_def)

definition nullableTime :: "pg_codec \<Rightarrow> time option \<Rightarrow> time option" where
  "nullableTime k t = map_option (kc_time k) t"

section \<open>Requests\<close>

record request_row =
  c_session_id :: string
  c_tool_name :: string
  c_status :: request_status
  c_input :: string
  c_result :: go_value
  c_result_type :: "string option"
  c_error :: "string option"
  c_executing_machine_id :: "string option"
  c_meta :: "string gomap"
  c_stream_results :: "string list"
  c_stream_start_seq :: int
  c_next_stream_seq :: int
  c_attempts :: int
  c_max_attempts :: int
  c_backoff_seconds :: int
  c_visible_at :: time
  c_next_attempt_at :: "time option"
  c_leased_by :: "string option"
  c_leased_at :: "time option"
  c_lease_epoch :: int
  c_timeout_seconds :: int
  c_dead_letter :: bool
  c_last_error :: "string option"
  c_idempotency_key :: "string option"
  c_created_at :: time
  c_updated_at :: time

text \<open>A nil \<open>Meta\<close> is written as \<open>{}\<close>, a nil result as \<open>null\<close>.\<close>

definition requestRowArgs :: "pg_codec \<Rightarrow> request \<Rightarrow> request_row" where
  "requestRowArgs k req =
     \<lparr> c_session_id = r_SessionID req, c_tool_name = r_ToolName req, c_status = r_Status req, c_input = r_Input req,
       c_result = (if r_Result req = VNil then VNil else kc_json k (r_Result req)),
       c_result_type = nullString (r_ResultType req), c_error = nullString (r_Error req),
       c_executing_machine_id = nullString (r_ExecutingMachineID req),
       c_meta = (case r_Meta req of None \<Rightarrow> [] | Some m \<Rightarrow> m),
       c_stream_results = r_StreamResults req,
       c_stream_start_seq = r_StreamStartSeq req, c_next_stream_seq = r_NextStreamSeq req,
       c_attempts = r_Attempts req, c_max_attempts = r_MaxAttempts req, c_backoff_seconds = r_BackoffSeconds req,
       c_visible_at = kc_time k (r_VisibleAt req), c_next_attempt_at = nullableTime k (r_NextAttemptAt req),
       c_leased_by = nullString (r_LeasedBy req), c_leased_at = nullableTime k (r_LeasedAt req),
       c_lease_epoch = r_LeaseEpoch req, c_timeout_seconds = r_TimeoutSeconds req, c_dead_letter = r_DeadLetter req,
       c_last_error = nullString (r_LastError req), c_idempotency_key = nullString (r_IdempotencyKey req),
       c_created_at = kc_time k (r_CreatedAt req), c_updated_at = kc_time k (r_UpdatedAt req) \<rparr>"

definition scanRequestRow :: "string \<Rightarrow> request_row \<Rightarrow> request" where
  "scanRequestRow rid c =
     \<lparr> r_ID = rid, r_SessionID = c_session_id c, r_ToolName = c_tool_name c, r_Status = c_status c, r_Input = c_input c,
       r_Result = c_result c, r_ResultType = null_text (c_result_type c), r_StreamResults = c_stream_results c,
       r_StreamStartSeq = c_stream_start_seq c, r_NextStreamSeq = c_next_stream_seq c, r_Error = null_text (c_error c),
       r_Meta = Some (c_meta c), r_ExecutingMachineID = null_text (c_executing_machine_id c), r_Attempts = c_attempts c,
       r_MaxAttempts = c_max_attempts c, r_TimeoutSeconds = c_timeout_seconds c, r_BackoffSeconds = c_backoff_seconds c,
       r_VisibleAt = c_visible_at c, r_NextAttemptAt = c_next_attempt_at c, r_LeasedBy = null_text (c_leased_by c),
       r_LeasedAt = c_leased_at c, r_LeaseEpoch = c_lease_epoch c, r_IdempotencyKey = null_text (c_idempotency_key c),
       r_LastError = null_text (c_last_error c), r_DeadLetter = c_dead_letter c, r_CreatedAt = c_created_at c,
       r_UpdatedAt = c_updated_at c \<rparr>"

text \<open>What a request is after it went through a row.\<close>

definition stored_request :: "pg_codec \<Rightarrow> request \<Rightarrow> request" where
  "stored_request k r =
     r\<lparr> r_Result := (if r_Result r = VNil then VNil else kc_json k (r_Result r)),
        r_Meta := Some (case r_Meta r of None \<Rightarrow> [] | Some m \<Rightarrow> m),
        r_VisibleAt := kc_time k (r_VisibleAt r), r_NextAttemptAt := map_option (kc_time k) (r_NextAttemptAt r),
        r_LeasedAt := map_option (kc_time k) (r_LeasedAt r), r_CreatedAt := kc_time k (r_CreatedAt r),
        r_UpdatedAt := kc_time k (r_UpdatedAt r) \<rparr>"

lemma scan_args: "scanRequestRow (r_ID r) (requestRowArgs k r) = stored_request k r"
  by (simp add: scanRequestRow_def requestRowArgs_def stored_request_def nullableTime_def)

lemma scan_fields [simp]:
  "r_ID (scanRequestRow i c) = i" "r_SessionID (scanRequestRow i c) = c_session_id c"
  "r_ToolName (scanRequestRow i c) = c_tool_name c" "r_Status (scanRequestRow i c) = c_status c"
  "r_LeaseEpoch (scanRequestRow i c) = c_lease_epoch c" "r_LeasedBy (scanRequestRow i c) = null_text (c_leased_by c)"
  "r_CreatedAt (scanRequestRow i c) = c_created_at c" "r_DeadLetter (scanRequestRow i c) = c_dead_letter c"
  "r_StreamResults (scanRequestRow i c) = c_stream_results c" "r_StreamStartSeq (scanRequestRow i c) = c_stream_start_seq c"
  "r_NextStreamSeq (scanRequestRow i c) = c_next_stream_seq c" "r_Attempts (scanRequestRow i c) = c_attempts c"
  by (simp_all add: scanRequestRow_def)

section \<open>Machines and tools\<close>

record machine_row =
  mc_session_id :: string
  mc_sdk_version :: "string option"
  mc_sdk_language :: "string option"
  mc_ip :: "string option"
  mc_created_at :: time
  mc_last_ping_at :: time
  mc_token_hash :: "string option"
  mc_draining :: bool

definition machine_args :: "pg_codec \<Rightarrow> machine \<Rightarrow> machine_row" where
  "machine_args k m =
     \<lparr> mc_session_id = m_SessionID m, mc_sdk_version = nullString (m_SDKVersion m), mc_sdk_language = nullString (m_SDKLanguage m),
       mc_ip = nullString (m_IP m), mc_created_at = kc_time k (m_CreatedAt m), mc_last_ping_at = kc_time k (m_LastPingAt m),
       mc_token_hash = nullString (m_TokenHash m), mc_draining = False \<rparr>"

definition scan_machine :: "string \<Rightarrow> machine_row \<Rightarrow> machine" where
  "scan_machine mid c =
     \<lparr> m_ID = mid, m_SessionID = mc_session_id c, m_SDKVersion = null_text (mc_sdk_version c),
       m_SDKLanguage = null_text (mc_sdk_language c), m_IP = null_text (mc_ip c), m_CreatedAt = mc_created_at c,
       m_LastPingAt = mc_last_ping_at c, m_TokenHash = null_text (mc_token_hash c), m_Token = '''', m_Draining = mc_draining c \<rparr>"

record tool_row =
  tc_session_id :: string
  tc_machine_id :: "string option"
  tc_name :: string
  tc_description :: "string option"
  tc_schema :: string
  tc_config :: "go_value gomap"
  tc_tags :: "string list"
  tc_created_at :: time
  tc_last_ping_at :: time

definition tool_args :: "pg_codec \<Rightarrow> tool \<Rightarrow> tool_row" where
  "tool_args k t =
     \<lparr> tc_session_id = tl_SessionID t, tc_machine_id = nullString (tl_MachineID t), tc_name = tl_Name t,
       tc_description = nullString (tl_Description t), tc_schema = tl_Schema t, tc_config = kc_object k (tl_Config t),
       tc_tags = tl_Tags t, tc_created_at = kc_time k (tl_CreatedAt t),
       tc_last_ping_at = kc_time k (tl_LastPingAt t) \<rparr>"

definition scan_tool :: "string \<Rightarrow> tool_row \<Rightarrow> tool" where
  "scan_tool tid c =
     \<lparr> tl_ID = tid, tl_MachineID = null_text (tc_machine_id c), tl_SessionID = tc_session_id c, tl_Name = tc_name c,
       tl_Description = null_text (tc_description c), tl_Schema = tc_schema c, tl_Config = tc_config c,
       tl_Tags = tc_tags c, tl_CreatedAt = tc_created_at c, tl_LastPingAt = tc_last_ping_at c \<rparr>"

section \<open>Tasks\<close>

record task_row =
  kt_session_id :: string
  kt_tool_name :: string
  kt_status :: task_status
  kt_input :: string
  kt_result :: "string option"
  kt_result_type :: "string option"
  kt_error :: "string option"
  kt_attempts :: int
  kt_max_attempts :: int
  kt_backoff_seconds :: int
  kt_next_attempt_at :: "time option"
  kt_timeout_seconds :: int
  kt_dead_letter :: bool
  kt_last_error :: "string option"
  kt_current_request_id :: "string option"
  kt_idempotency_key :: "string option"
  kt_created_at :: time
  kt_updated_at :: time
  kt_completed_at :: "time option"
  kt_adopted_by :: "string option"

definition task_args :: "pg_codec \<Rightarrow> task \<Rightarrow> task_row" where
  "task_args k t =
     \<lparr> kt_session_id = tk_SessionID t, kt_tool_name = tk_ToolName t, kt_status = tk_Status t, kt_input = tk_Input t,
       kt_result = nullString (tk_Result t), kt_result_type = nullString (tk_ResultType t), kt_error = nullString (tk_Error t),
       kt_attempts = tk_Attempts t, kt_max_attempts = tk_MaxAttempts t, kt_backoff_seconds = tk_BackoffSeconds t,
       kt_next_attempt_at = nullableTime k (tk_NextAttemptAt t), kt_timeout_seconds = tk_TimeoutSeconds t,
       kt_dead_letter = tk_DeadLetter t, kt_last_error = nullString (tk_LastError t),
       kt_current_request_id = nullString (tk_CurrentRequestID t), kt_idempotency_key = nullString (tk_IdempotencyKey t),
       kt_created_at = kc_time k (tk_CreatedAt t), kt_updated_at = kc_time k (tk_UpdatedAt t),
       kt_completed_at = nullableTime k (tk_CompletedAt t), kt_adopted_by = None \<rparr>"

definition scanTaskRow :: "string \<Rightarrow> task_row \<Rightarrow> task" where
  "scanTaskRow tid c =
     \<lparr> tk_ID = tid, tk_SessionID = kt_session_id c, tk_ToolName = kt_tool_name c, tk_Input = kt_input c, tk_Status = kt_status c,
       tk_Result = null_text (kt_result c), tk_ResultType = null_text (kt_result_type c), tk_Error = null_text (kt_error c),
       tk_CreatedAt = kt_created_at c, tk_UpdatedAt = kt_updated_at c, tk_CompletedAt = kt_completed_at c,
       tk_Attempts = kt_attempts c, tk_MaxAttempts = kt_max_attempts c, tk_TimeoutSeconds = kt_timeout_seconds c,
       tk_BackoffSeconds = kt_backoff_seconds c, tk_NextAttemptAt = kt_next_attempt_at c, tk_DeadLetter = kt_dead_letter c,
       tk_LastError = null_text (kt_last_error c), tk_CurrentRequestID = null_text (kt_current_request_id c),
       tk_IdempotencyKey = null_text (kt_idempotency_key c) \<rparr>"

section \<open>Sessions, keys, audit events, chunks\<close>

record session_row =
  sc_name :: string
  sc_description :: string
  sc_namespace :: "string option"
  sc_created_at :: time
  sc_created_by :: string

definition session_args :: "pg_codec \<Rightarrow> session \<Rightarrow> session_row" where
  "session_args k s =
     \<lparr> sc_name = ss_Name s, sc_description = ss_Description s, sc_namespace = nullString (ss_Namespace s),
       sc_created_at = kc_time k (ss_CreatedAt s), sc_created_by = ss_CreatedBy s \<rparr>"

definition scanSessionRow :: "string \<Rightarrow> session_row \<Rightarrow> session" where
  "scanSessionRow sid c =
     \<lparr> ss_ID = sid, ss_Name = sc_name c, ss_Description = sc_description c, ss_Namespace = null_text (sc_namespace c),
       ss_CreatedAt = sc_created_at c, ss_CreatedBy = sc_created_by c \<rparr>"

record api_key_row =
  ac_session_id :: string
  ac_name :: string
  ac_key :: "string option"
  ac_key_hash :: "string option"
  ac_key_preview :: "string option"
  ac_capabilities :: "string list"
  ac_allowed_tools :: "string list option"
  ac_created_at :: time
  ac_created_by :: string
  ac_revoked_at :: "time option"

text \<open>A plaintext secret is written only while it is marked as persisted.\<close>

definition api_key_args :: "pg_codec \<Rightarrow> api_key \<Rightarrow> api_key_row" where
  "api_key_args k key =
     \<lparr> ac_session_id = k_SessionID key, ac_name = k_Name key,
       ac_key = (if k_PlaintextPersisted key \<and> k_Key key \<noteq> '''' then Some (k_Key key) else None),
       ac_key_hash = nullString (k_KeyHash key), ac_key_preview = nullString (k_KeyPreview key),
       ac_capabilities = CapabilityStrings (k_Capabilities key),
       ac_allowed_tools = (if k_AllowedTools key = [] then None else Some (k_AllowedTools key)),
       ac_created_at = kc_time k (k_CreatedAt key), ac_created_by = k_CreatedBy key,
       ac_revoked_at = nullableTime k (k_RevokedAt key) \<rparr>"

text \<open>Reading normalises the capabilities, and an unknown one fails the read; then the missing
  security metadata is filled in.\<close>

definition scanAPIKeyRow :: "hash_fun \<Rightarrow> string \<Rightarrow> api_key_row \<Rightarrow> api_key option" where
  "scanAPIKeyRow hash kid c =
     (case NormalizeAPIKeyCapabilities (ac_capabilities c) of
        Inl _ \<Rightarrow> None
      | Inr capabilities \<Rightarrow> Some (fst (EnsureSecurityMetadata hash
          \<lparr> k_ID = kid, k_Name = ac_name c, k_Key = null_text (ac_key c), k_KeyHash = null_text (ac_key_hash c),
            k_KeyPreview = null_text (ac_key_preview c), k_SessionID = ac_session_id c, k_CreatedAt = ac_created_at c,
            k_CreatedBy = ac_created_by c, k_Capabilities = capabilities,
            k_AllowedTools = (case ac_allowed_tools c of None \<Rightarrow> [] | Some ts \<Rightarrow> ts),
            k_RevokedAt = ac_revoked_at c, k_PlaintextPersisted = (null_text (ac_key c) \<noteq> '''') \<rparr>)))"

record audit_row =
  ec_id :: int
  ec_created_at :: time
  ec_event :: string
  ec_session_id :: "string option"
  ec_machine_id :: "string option"
  ec_request_id :: "string option"
  ec_task_id :: "string option"
  ec_actor_key_id :: "string option"
  ec_details :: "go_value gomap option"

definition audit_args :: "pg_codec \<Rightarrow> int \<Rightarrow> audit_event \<Rightarrow> audit_row" where
  "audit_args k n e =
     \<lparr> ec_id = n, ec_created_at = kc_time k (a_CreatedAt e), ec_event = a_Event e, ec_session_id = nullString (a_SessionID e),
       ec_machine_id = nullString (a_MachineID e), ec_request_id = nullString (a_RequestID e), ec_task_id = nullString (a_TaskID e),
       ec_actor_key_id = nullString (a_ActorKeyID e),
       ec_details = (case a_Details e of None \<Rightarrow> None | Some d \<Rightarrow> if d = [] then None else Some (kc_object k d)) \<rparr>"

definition scan_audit :: "audit_row \<Rightarrow> audit_event" where
  "scan_audit c =
     \<lparr> a_ID = ec_id c, a_CreatedAt = ec_created_at c, a_Event = ec_event c, a_SessionID = null_text (ec_session_id c),
       a_MachineID = null_text (ec_machine_id c), a_RequestID = null_text (ec_request_id c), a_TaskID = null_text (ec_task_id c),
       a_ActorKeyID = null_text (ec_actor_key_id c), a_Details = ec_details c \<rparr>"

record chunk_row =
  ch_request_id :: string
  ch_seq :: int
  ch_chunk :: string
  ch_created_at :: time

section \<open>The database\<close>

record pg_db =
  pg_sessions :: "session_row gomap"
  pg_api_keys :: "api_key_row gomap"
  pg_machines :: "machine_row gomap"
  pg_tools :: "tool_row gomap"
  pg_requests :: "request_row gomap"
  pg_tasks :: "task_row gomap"
  pg_user_sessions :: "(string \<times> string) list"
  pg_audit_events :: "audit_row list"
  pg_audit_seq :: int
  pg_request_chunks :: "chunk_row list"

definition migrate :: pg_db where
  "migrate = \<lparr> pg_sessions = [], pg_api_keys = [], pg_machines = [], pg_tools = [], pg_requests = [], pg_tasks = [],
     pg_user_sessions = [], pg_audit_events = [], pg_audit_seq = 0, pg_request_chunks = [] \<rparr>"

text \<open>A statement can fail on a constraint of the schema, and the methods add errors of their own.\<close>

datatype pg_error =
    PgStore storage_error
  | PgUniqueViolation
  | PgForeignKeyViolation
  | PgFailed string

type_synonym 'a pg_result = "pg_error + 'a"

end
