(* ===== verification/Pg_Requests.thy ===== *)
theory Pg_Requests
  imports Pg_Rows
begin

text \<open>
  The request half of the PostgreSQL store: \<open>storage/requests.go\<close>, \<open>storage/requests_fenced.go\<close>
  and the transaction loop of \<open>storage/store.go\<close>.  A statement is a function on the tables; a
  transaction runs alone (the isolation level is serializable) and is undone when it fails.
  \<open>NOW()\<close> is the database's clock \<open>dbnow\<close>, \<open>time.Now()\<close> the replica's \<open>now\<close>.  A statement that
  fails for a reason outside the schema (a lost connection) undoes its transaction like any
  other failure and is not represented.  Where the Go code makes the same assignments as the
  in-memory store, the row functions of \<open>Mem_Store\<close> are used.
\<close>

section \<open>Transactions\<close>

text \<open>The database can abort an attempt at its first statement or at the commit.  The closure
  writes its results to variables of the enclosing method, \<open>'c\<close>, and these writes survive an
  attempt that is rolled back.  Between two attempts the method sleeps: \<open>tf_ended\<close> says whether
  the context ends meanwhile, \<open>tf_others\<close> what other transactions do.\<close>

datatype tx_abort = AbortEarly | AbortAtCommit

record tx_fate =
  tf_abort :: tx_abort
  tf_ended :: bool
  tf_others :: "pg_db \<Rightarrow> pg_db"

type_synonym 'c tx_body = "'c \<Rightarrow> pg_db \<Rightarrow> pg_db \<times> 'c \<times> pg_error option"

definition attemptSerializableTx :: "'c tx_body \<Rightarrow> 'c tx_body" where
  "attemptSerializableTx fn c db =
     (case fn c db of (db1, c1, Some e) \<Rightarrow> (db, c1, Some e) | (db1, c1, None) \<Rightarrow> (db1, c1, None))"

definition tx_maxAttempts :: nat where "tx_maxAttempts = 4"

fun withSerializableTx :: "nat \<Rightarrow> tx_fate list \<Rightarrow> 'c tx_body \<Rightarrow> 'c \<Rightarrow> pg_db \<Rightarrow> pg_db \<times> 'c \<times> pg_error option" where
  "withSerializableTx attempt [] fn c db = attemptSerializableTx fn c db"
| "withSerializableTx attempt (f # fates) fn c db =
     (let (c1, failed) = (case tf_abort f of
            AbortEarly \<Rightarrow> (c, None)
          | AbortAtCommit \<Rightarrow> snd (attemptSerializableTx fn c db))
      in if failed \<noteq> None then (db, c1, failed)
         else if attempt + 1 \<ge> tx_maxAttempts then (db, c1, Some (PgStore StErrSerializationConflict))
         else if tf_ended f then (tf_others f db, c1, Some (PgFailed ''context done''))
         else withSerializableTx (attempt + 1) fates fn c1 (tf_others f db))"

text \<open>\<open>sql.ErrNoRows\<close>, which several methods turn into an empty answer.\<close>

definition ErrNoRows :: pg_error where "ErrNoRows = PgFailed ''sql: no rows in result set''"

section \<open>Tables\<close>

definition session_ref :: "string \<Rightarrow> pg_db \<Rightarrow> bool" where
  "session_ref sessionID db \<longleftrightarrow> gm_get (pg_sessions db) sessionID \<noteq> None"

definition upd_row :: "string \<Rightarrow> (request_row \<Rightarrow> request_row) \<Rightarrow> pg_db \<Rightarrow> pg_db" where
  "upd_row rid f db =
     (case gm_get (pg_requests db) rid of
        None \<Rightarrow> db | Some c \<Rightarrow> db\<lparr> pg_requests := gm_put rid (f c) (pg_requests db) \<rparr>)"

text \<open>The partial unique index on \<open>(session_id, idempotency_key)\<close>.\<close>

definition idempotency_taken :: "string \<Rightarrow> request_row \<Rightarrow> pg_db \<Rightarrow> bool" where
  "idempotency_taken rid row db \<longleftrightarrow> null_text (c_idempotency_key row) \<noteq> ''''
     \<and> list_ex (\<lambda>(i, c). i \<noteq> rid \<and> c_session_id c = c_session_id row \<and> c_idempotency_key c = c_idempotency_key row)
         (pg_requests db)"

definition scan_requests :: "(string \<times> request_row) list \<Rightarrow> request list" where
  "scan_requests rows = map (\<lambda>(i, c). scanRequestRow i c) rows"

section \<open>Reads\<close>

definition pg_AllRequests :: "pg_db \<Rightarrow> request list" where
  "pg_AllRequests db = scan_requests (pg_requests db)"

definition pg_GetRequest :: "string \<Rightarrow> pg_db \<Rightarrow> request option" where
  "pg_GetRequest requestID db = map_option (scanRequestRow requestID) (gm_get (pg_requests db) requestID)"

definition pg_GetRequestByIdempotencyKey :: "string \<Rightarrow> string \<Rightarrow> pg_db \<Rightarrow> request option" where
  "pg_GetRequestByIdempotencyKey sessionID idempotencyKey db =
     (if idempotencyKey = '''' then None
      else map_option (\<lambda>(i, c). scanRequestRow i c)
             (List.find (\<lambda>(i, c). c_session_id c = sessionID \<and> c_idempotency_key c = Some idempotencyKey) (pg_requests db)))"

text \<open>\<open>ORDER BY created_at ASC, id ASC\<close>; the order of texts is the collation \<open>id_rank\<close>.\<close>

definition pg_ListRequestsBySession :: "(string \<Rightarrow> nat) \<Rightarrow> string \<Rightarrow> pg_db \<Rightarrow> request list" where
  "pg_ListRequestsBySession id_rank sessionID db =
     sort_key r_CreatedAt (sort_key (id_rank \<circ> r_ID)
       (scan_requests (filter (\<lambda>(i, c). c_session_id c = sessionID) (pg_requests db))))"

definition pg_CountPendingRequests :: "pg_db \<Rightarrow> int" where
  "pg_CountPendingRequests db =
     int (length (filter (\<lambda>(i, c). c_status c = Pending \<and> \<not> c_dead_letter c) (pg_requests db)))"

definition pg_MachineInFlightCount :: "string \<Rightarrow> string \<Rightarrow> pg_db \<Rightarrow> int" where
  "pg_MachineInFlightCount sessionID machineID db =
     int (length (filter (\<lambda>(i, c). c_executing_machine_id c = Some machineID \<and> c_session_id c = sessionID
            \<and> (c_status c = Claimed \<or> c_status c = Running)) (pg_requests db)))"

text \<open>The scan over the chunk rows stops at a sequence number that does not follow the last one.\<close>

fun collect_chunks :: "int \<Rightarrow> string list \<Rightarrow> chunk_row list \<Rightarrow> string list option" where
  "collect_chunks startSeq chunks [] = Some chunks"
| "collect_chunks startSeq chunks (c # cs) =
     (if ch_seq c \<noteq> wrap32 (startSeq + wrap32 (int (length chunks))) then None
      else collect_chunks startSeq (chunks @ [ch_chunk c]) cs)"

definition selectChunkWindow :: "string \<Rightarrow> int \<Rightarrow> int \<Rightarrow> pg_db \<Rightarrow> chunk_window pg_result" where
  "selectChunkWindow requestID startSeq nextSeq db =
     (case collect_chunks startSeq []
             (sort_key ch_seq (filter (\<lambda>c. ch_request_id c = requestID \<and> startSeq \<le> ch_seq c \<and> ch_seq c < nextSeq)
                (pg_request_chunks db))) of
        None \<Rightarrow> Inl (PgStore StErrChunkWindowGap)
      | Some chunks \<Rightarrow>
          (let expected = wrap32 (nextSeq - startSeq)
           in if expected > 0 \<and> wrap32 (int (length chunks)) \<noteq> expected then Inl (PgStore StErrChunkWindowGap)
              else Inr \<lparr> w_StartSeq = startSeq, w_NextSeq = nextSeq, w_Chunks = chunks \<rparr>))"

definition pg_GetRequestChunksByRequest :: "string \<Rightarrow> int \<Rightarrow> int \<Rightarrow> pg_db \<Rightarrow> chunk_window pg_result" where
  "pg_GetRequestChunksByRequest requestID startSeq nextSeq db = selectChunkWindow requestID startSeq nextSeq db"

section \<open>Writes of whole rows\<close>

definition pg_SaveRequest :: "pg_codec \<Rightarrow> request \<Rightarrow> pg_db \<Rightarrow> pg_db \<times> unit pg_result" where
  "pg_SaveRequest k req db =
     (let row = requestRowArgs k req
      in if \<not> session_ref (r_SessionID req) db then (db, Inl PgForeignKeyViolation)
         else if idempotency_taken (r_ID req) row db then (db, Inl PgUniqueViolation)
         else (db\<lparr> pg_requests := gm_put (r_ID req) row (pg_requests db) \<rparr>, Inr ()))"

text \<open>Inside a transaction; the statement does not name the idempotency key.\<close>

definition persistRequestInTx :: "pg_codec \<Rightarrow> request \<Rightarrow> pg_db \<Rightarrow> pg_db \<times> pg_error option" where
  "persistRequestInTx k req db =
     (case gm_get (pg_requests db) (r_ID req) of
        None \<Rightarrow>
          if \<not> session_ref (r_SessionID req) db then (db, Some PgForeignKeyViolation)
          else (db\<lparr> pg_requests := gm_put (r_ID req) ((requestRowArgs k req)\<lparr> c_idempotency_key := None \<rparr>) (pg_requests db) \<rparr>, None)
      | Some old \<Rightarrow>
          if r_SessionID req \<noteq> c_session_id old \<and> \<not> session_ref (r_SessionID req) db then (db, Some PgForeignKeyViolation)
          else (db\<lparr> pg_requests := gm_put (r_ID req) ((requestRowArgs k req)\<lparr> c_idempotency_key := c_idempotency_key old \<rparr>)
                      (pg_requests db) \<rparr>, None))"

definition insert_tx :: "pg_codec \<Rightarrow> request \<Rightarrow> unit tx_body" where
  "insert_tx k req u db =
     (let pending = int (length (filter (\<lambda>(i, c). c_session_id c = r_SessionID req \<and> c_status c = Pending \<and> \<not> c_dead_letter c)
                (pg_requests db)));
          row = requestRowArgs k req
      in if pending \<ge> MaxPendingRequestsPerSession then (db, (), Some (PgStore StErrTooManyPendingRequests))
         else if gm_get (pg_requests db) (r_ID req) \<noteq> None \<or> idempotency_taken (r_ID req) row db
              then (db, (), Some PgUniqueViolation)
         else if \<not> session_ref (r_SessionID req) db then (db, (), Some PgForeignKeyViolation)
         else (db\<lparr> pg_requests := gm_put (r_ID req) row (pg_requests db) \<rparr>, (), None))"

definition pg_InsertRequest :: "pg_codec \<Rightarrow> tx_fate list \<Rightarrow> request \<Rightarrow> pg_db \<Rightarrow> pg_db \<times> unit pg_result" where
  "pg_InsertRequest k fates req db =
     (case withSerializableTx 0 fates (insert_tx k req) () db of
        (db1, _, Some e) \<Rightarrow> (db1, Inl e) | (db1, _, None) \<Rightarrow> (db1, Inr ()))"

definition pg_MarkRequestRunning :: "pg_codec \<Rightarrow> time \<Rightarrow> string \<Rightarrow> string \<Rightarrow> duration \<Rightarrow> pg_db \<Rightarrow> pg_db" where
  "pg_MarkRequestRunning k now requestID machineID timeout db =
     upd_row requestID (\<lambda>c. c\<lparr> c_status := Running, c_executing_machine_id := Some machineID, c_leased_by := Some machineID,
       c_leased_at := Some (kc_time k now), c_visible_at := kc_time k (now + timeout), c_updated_at := kc_time k now,
       c_next_attempt_at := None \<rparr>) db"

text \<open>The chunks of a removed request go with it (\<open>ON DELETE CASCADE\<close>).\<close>

definition pg_DeleteTerminalRequestsBefore :: "pg_codec \<Rightarrow> time \<Rightarrow> pg_db \<Rightarrow> pg_db \<times> int" where
  "pg_DeleteTerminalRequestsBefore k cutoff db =
     (let gone = (\<lambda>c. c_updated_at c < kc_time k cutoff \<and> (c_status c = Done \<or> c_status c = Failed));
          ids = map fst (filter (\<lambda>(i, c). gone c) (pg_requests db))
      in (db\<lparr> pg_requests := filter (\<lambda>(i, c). \<not> gone c) (pg_requests db),
              pg_request_chunks := filter (\<lambda>c. ch_request_id c \<notin> set ids) (pg_request_chunks db) \<rparr>, int (length ids)))"

section \<open>Claims and expiry\<close>

definition machine_owns :: "string \<Rightarrow> string \<Rightarrow> string \<Rightarrow> pg_db \<Rightarrow> bool" where
  "machine_owns sessionID machineID toolName db =
     list_ex (\<lambda>(i, t). tc_session_id t = sessionID \<and> tc_machine_id t = Some machineID \<and> tc_name t = toolName) (pg_tools db)"

text \<open>The columns a claim sets.\<close>

definition claim_columns :: "pg_codec \<Rightarrow> time \<Rightarrow> duration \<Rightarrow> string \<Rightarrow> request_row \<Rightarrow> request_row" where
  "claim_columns k now leaseDuration machineID c =
     c\<lparr> c_status := Claimed, c_executing_machine_id := Some machineID, c_leased_by := Some machineID,
        c_leased_at := Some (kc_time k now), c_attempts := wrap64 (c_attempts c + 1),
        c_visible_at := kc_time k (now + leaseDuration), c_lease_epoch := wrap64 (c_lease_epoch c + 1),
        c_next_attempt_at := None, c_last_error := None, c_updated_at := kc_time k now \<rparr>"

definition leasable :: "time \<Rightarrow> string \<Rightarrow> string \<Rightarrow> string list \<Rightarrow> pg_db \<Rightarrow> request_row \<Rightarrow> bool" where
  "leasable dbnow sessionID machineID toolNames db c \<longleftrightarrow>
     c_session_id c = sessionID \<and> c_status c = Pending \<and> \<not> c_dead_letter c \<and> c_visible_at c \<le> dbnow
     \<and> (c_max_attempts c \<le> 0 \<or> c_attempts c < c_max_attempts c)
     \<and> (toolNames = [] \<or> c_tool_name c \<in> set toolNames) \<and> machine_owns sessionID machineID (c_tool_name c) db"

text \<open>\<open>FOR UPDATE SKIP LOCKED\<close>: rows that other transactions hold are passed over.\<close>

definition lease_tx ::
  "pg_codec \<Rightarrow> string list \<Rightarrow> time \<Rightarrow> time \<Rightarrow> string \<Rightarrow> string \<Rightarrow> string list \<Rightarrow> duration \<Rightarrow> request option tx_body" where
  "lease_tx k locked dbnow now sessionID machineID toolNames leaseDuration selected db =
     (if machineID = '''' then (db, selected, Some ErrNoRows)
      else case sort_key (\<lambda>(i, c). c_created_at c)
                  (filter (\<lambda>(i, c). i \<notin> set locked \<and> leasable dbnow sessionID machineID toolNames db c) (pg_requests db)) of
             [] \<Rightarrow> (db, selected, Some ErrNoRows)
           | (rid, c) # _ \<Rightarrow>
               (upd_row rid (claim_columns k now leaseDuration machineID) db,
                Some (grant_lease now leaseDuration machineID (scanRequestRow rid c)), None))"

definition pg_LeasePendingRequest ::
  "pg_codec \<Rightarrow> tx_fate list \<Rightarrow> string list \<Rightarrow> time \<Rightarrow> time \<Rightarrow> string \<Rightarrow> string \<Rightarrow> string list \<Rightarrow> duration \<Rightarrow> pg_db
     \<Rightarrow> pg_db \<times> request option pg_result" where
  "pg_LeasePendingRequest k fates locked dbnow now sessionID machineID toolNames leaseDuration db =
     (case withSerializableTx 0 fates (lease_tx k locked dbnow now sessionID machineID toolNames leaseDuration) None db of
        (db1, selected, Some e) \<Rightarrow> (db1, if e = ErrNoRows then Inr None else Inl e)
      | (db1, selected, None) \<Rightarrow> (db1, Inr selected))"

definition claim_tx ::
  "pg_codec \<Rightarrow> time \<Rightarrow> string \<Rightarrow> string \<Rightarrow> string \<Rightarrow> duration \<Rightarrow> request option tx_body" where
  "claim_tx k now sessionID requestID machineID leaseDuration claimed db =
     (case gm_get (pg_requests db) requestID of
        None \<Rightarrow> (db, claimed, Some ErrNoRows)
      | Some c \<Rightarrow>
          (let req = scanRequestRow requestID c
           in if r_SessionID req \<noteq> sessionID \<or> r_Status req \<noteq> Pending \<or> r_DeadLetter req then (db, claimed, None)
              else if backoff_pending now req then (db, claimed, None)
              else if attempts_exhausted req then (db, claimed, None)
              else if machineID = '''' \<or> \<not> machine_owns sessionID machineID (r_ToolName req) db
                   then (db, claimed, Some (PgStore StErrMachineNotToolOwner))
              else (upd_row requestID (claim_columns k now leaseDuration machineID) db,
                    Some (grant_lease now leaseDuration machineID req), None)))"

definition pg_ClaimRequest ::
  "pg_codec \<Rightarrow> tx_fate list \<Rightarrow> time \<Rightarrow> string \<Rightarrow> string \<Rightarrow> string \<Rightarrow> duration \<Rightarrow> pg_db \<Rightarrow> pg_db \<times> request option pg_result" where
  "pg_ClaimRequest k fates now sessionID requestID machineID leaseDuration db =
     (case withSerializableTx 0 fates (claim_tx k now sessionID requestID machineID leaseDuration) None db of
        (db1, claimed, Some e) \<Rightarrow> (db1, if e = ErrNoRows then Inr None else Inl e)
      | (db1, claimed, None) \<Rightarrow> (db1, Inr claimed))"

text \<open>The query has its own clock and applies its limit; the loop over its rows checks again.\<close>

definition pg_FindExpiredRequests :: "time \<Rightarrow> time \<Rightarrow> int \<Rightarrow> pg_db \<Rightarrow> request list" where
  "pg_FindExpiredRequests dbnow now limit db =
     (let rows = sort_key (\<lambda>(i, c). c_visible_at c)
            (filter (\<lambda>(i, c). \<not> c_dead_letter c
               \<and> (case c_leased_at c of None \<Rightarrow> False
                  | Some t \<Rightarrow> c_visible_at c \<le> dbnow \<or> t + c_timeout_seconds c * Second \<le> dbnow)) (pg_requests db));
          page = (if limit > 0 then take (nat limit) rows else rows)
      in filter (\<lambda>r. LeaseExpired now r \<or> HasTimedOut now r) (scan_requests page))"

definition reclaim_tx :: "pg_codec \<Rightarrow> string \<Rightarrow> time \<Rightarrow> int \<Rightarrow> duration \<Rightarrow> request option tx_body" where
  "reclaim_tx k requestID now maxAttempts backoff result db =
     (case gm_get (pg_requests db) requestID of
        None \<Rightarrow> (db, result, Some ErrNoRows)
      | Some c \<Rightarrow>
          (let req = scanRequestRow requestID c
           in if r_Status req \<noteq> Claimed \<and> r_Status req \<noteq> Running then (db, result, None)
              else if \<not> LeaseExpired now req \<and> \<not> HasTimedOut now req then (db, result, None)
              else (let updated = reclaim_row now maxAttempts backoff req
                    in case persistRequestInTx k updated db of
                         (db1, Some e) \<Rightarrow> (db1, result, Some e) | (db1, None) \<Rightarrow> (db1, Some updated, None))))"

definition pg_ReclaimExpiredRequest ::
  "pg_codec \<Rightarrow> tx_fate list \<Rightarrow> string \<Rightarrow> time \<Rightarrow> duration \<Rightarrow> int \<Rightarrow> duration \<Rightarrow> pg_db \<Rightarrow> pg_db \<times> request option pg_result" where
  "pg_ReclaimExpiredRequest k fates requestID now leaseDuration maxAttempts backoff db =
     (case withSerializableTx 0 fates (reclaim_tx k requestID now maxAttempts backoff) None db of
        (db1, result, Some e) \<Rightarrow> (db1, if e = ErrNoRows then Inr None else Inl e)
      | (db1, result, None) \<Rightarrow> (db1, Inr result))"

end
