(* ===== verification/Pg_Fenced.thy ===== *)
theory Pg_Fenced
  imports Pg_Requests Lease_Protocol
begin

text \<open>
  The fenced writes of the PostgreSQL store (\<open>storage/requests_fenced.go\<close>).  The payloads of
  stream chunks are rows of their own table; the request row has the sequence numbers.
\<close>

section \<open>Locked reads and the chunk table\<close>

definition selectRequestForUpdate :: "string \<Rightarrow> string \<Rightarrow> pg_db \<Rightarrow> request pg_result" where
  "selectRequestForUpdate sessionID requestID db =
     (case gm_get (pg_requests db) requestID of
        None \<Rightarrow> Inl (PgStore StErrNotFound)
      | Some c \<Rightarrow> (let req = scanRequestRow requestID c
                  in if r_SessionID req \<noteq> sessionID then Inl (PgStore StErrNotFound) else Inr req))"

text \<open>One \<open>INSERT\<close> per chunk, keyed by \<open>(request_id, seq)\<close>.\<close>

fun insert_chunks :: "string \<Rightarrow> int \<Rightarrow> time \<Rightarrow> string list \<Rightarrow> chunk_row list \<Rightarrow> chunk_row list pg_result" where
  "insert_chunks rid seq now [] rows = Inr rows"
| "insert_chunks rid seq now (c # cs) rows =
     (if seq > max_int32 then Inl (PgFailed ''integer out of range'')
      else if list_ex (\<lambda>r. ch_request_id r = rid \<and> ch_seq r = seq) rows then Inl PgUniqueViolation
      else insert_chunks rid (seq + 1) now cs
             (rows @ [\<lparr> ch_request_id = rid, ch_seq = seq, ch_chunk = c, ch_created_at = now \<rparr>]))"

text \<open>The ranked subquery over the rows from the newest: position and running byte count, and the
  sequence numbers of the rows outside the bounds.\<close>

fun out_of_bounds :: "nat \<Rightarrow> nat \<Rightarrow> chunk_row list \<Rightarrow> int list" where
  "out_of_bounds position running_bytes [] = []"
| "out_of_bounds position running_bytes (c # cs) =
     (let p = position + 1; b = running_bytes + length (ch_chunk c); rest = out_of_bounds p b cs
      in if p > maxRequestStreamChunks \<or> b > MaxRequestStreamWindowBytes then ch_seq c # rest else rest)"

text \<open>\<open>ORDER BY seq ASC LIMIT 1\<close> takes the smallest of them; rows up to it are deleted.  The new
  start of the window is the smallest sequence number left.\<close>

definition enforceChunkWindow :: "string \<Rightarrow> int \<Rightarrow> chunk_row list \<Rightarrow> chunk_row list \<times> int" where
  "enforceChunkWindow requestID nextSeq rows =
     (let mine = filter (\<lambda>r. ch_request_id r = requestID) rows;
          bound = (case sort (out_of_bounds 0 0 (rev (sort_key ch_seq mine))) of [] \<Rightarrow> -1 | s # _ \<Rightarrow> s);
          kept = filter (\<lambda>r. \<not> (ch_request_id r = requestID \<and> ch_seq r \<le> bound)) rows
      in (kept, case sort (map ch_seq (filter (\<lambda>r. ch_request_id r = requestID) kept)) of [] \<Rightarrow> nextSeq | s # _ \<Rightarrow> s))"

text \<open>The end of both appends: trim, write the bookkeeping columns, rebuild the window from the
  table.\<close>

definition stream_columns :: "pg_codec \<Rightarrow> request \<Rightarrow> request_row \<Rightarrow> request_row" where
  "stream_columns k req c =
     c\<lparr> c_stream_start_seq := r_StreamStartSeq req, c_next_stream_seq := r_NextStreamSeq req,
        c_updated_at := kc_time k (r_UpdatedAt req) \<rparr>"

definition finish_append :: "pg_codec \<Rightarrow> request \<Rightarrow> chunk_row list \<Rightarrow> request option tx_body" where
  "finish_append k req rows out db =
     (let (kept, startSeq) = enforceChunkWindow (r_ID req) (r_NextStreamSeq req) rows;
          req1 = req\<lparr> r_StreamStartSeq := startSeq \<rparr>;
          db1 = upd_row (r_ID req) (stream_columns k req1) (db\<lparr> pg_request_chunks := kept \<rparr>)
      in case selectChunkWindow (r_ID req) (r_StreamStartSeq req1) (r_NextStreamSeq req1) db1 of
           Inl e \<Rightarrow> (db1, out, Some e)
         | Inr window \<Rightarrow>
             (db1, Some (req1\<lparr> r_StreamStartSeq := w_StartSeq window, r_StreamResults := w_Chunks window \<rparr>), None))"

section \<open>The writes\<close>

text \<open>A transaction that looks the row up, checks the fence and goes on with the row.\<close>

definition fenced_tx ::
  "string \<Rightarrow> string \<Rightarrow> string \<Rightarrow> int \<Rightarrow> (request \<Rightarrow> request option tx_body) \<Rightarrow> request option tx_body" where
  "fenced_tx sessionID requestID machineID leaseEpoch body out db =
     (case selectRequestForUpdate sessionID requestID db of
        Inl e \<Rightarrow> (db, out, Some e)
      | Inr req \<Rightarrow>
          (case CheckLeaseFence req machineID leaseEpoch of
             Some e \<Rightarrow> (db, out, Some (PgStore e)) | None \<Rightarrow> body req out db))"

definition persist_tx :: "pg_codec \<Rightarrow> request \<Rightarrow> request option tx_body" where
  "persist_tx k req out db =
     (case persistRequestInTx k req db of (db1, Some e) \<Rightarrow> (db1, out, Some e) | (db1, None) \<Rightarrow> (db1, Some req, None))"

text \<open>The methods return the row the closure left in the captured variable.\<close>

definition fenced_result ::
  "pg_db \<times> request option \<times> pg_error option \<Rightarrow> pg_db \<times> request option pg_result" where
  "fenced_result r = (case r of (db, out, Some e) \<Rightarrow> (db, Inl e) | (db, out, None) \<Rightarrow> (db, Inr out))"

definition renew_tx ::
  "pg_codec \<Rightarrow> time \<Rightarrow> string \<Rightarrow> string \<Rightarrow> string \<Rightarrow> int \<Rightarrow> duration \<Rightarrow> request option tx_body" where
  "renew_tx k now sessionID requestID machineID leaseEpoch leaseDuration renewed db =
     (case selectRequestForUpdate sessionID requestID db of
        Inl e \<Rightarrow> (db, renewed, Some e)
      | Inr req \<Rightarrow>
          if r_Status req \<noteq> Claimed \<and> r_Status req \<noteq> Running then (db, renewed, Some (PgStore StErrLeaseConflict))
          else (case CheckLeaseFence req machineID leaseEpoch of
                  Some e \<Rightarrow> (db, renewed, Some (PgStore e))
                | None \<Rightarrow>
                    (case renew_row now leaseDuration req of
                       Inl e \<Rightarrow> (db, renewed, Some (PgStore e))
                     | Inr req1 \<Rightarrow>
                         (upd_row requestID (\<lambda>c. c\<lparr> c_visible_at := kc_time k (r_VisibleAt req1), c_updated_at := kc_time k now \<rparr>) db,
                          Some req1, None))))"

definition pg_RenewRequestLease ::
  "pg_codec \<Rightarrow> tx_fate list \<Rightarrow> time \<Rightarrow> string \<Rightarrow> string \<Rightarrow> string \<Rightarrow> int \<Rightarrow> duration \<Rightarrow> pg_db \<Rightarrow> pg_db \<times> request option pg_result" where
  "pg_RenewRequestLease k fates now sessionID requestID machineID leaseEpoch leaseDuration db =
     fenced_result (withSerializableTx 0 fates (renew_tx k now sessionID requestID machineID leaseEpoch leaseDuration) None db)"

definition submit_body :: "pg_codec \<Rightarrow> time \<Rightarrow> go_value \<Rightarrow> string \<Rightarrow> string gomap option \<Rightarrow> request \<Rightarrow> request option tx_body" where
  "submit_body k now result resultType meta req submitted db =
     (if r_Status req = Done \<or> r_Status req = Failed
      then if resultType \<noteq> ResultTypeStreaming then (db, submitted, Some (PgStore StErrRequestTerminal))
           else (case result of
                   VString str \<Rightarrow>
                     (let (req1, seq) = AddStreamChunk now str req
                      in case insert_chunks (r_ID req) seq (kc_time k now) [str] (pg_request_chunks db) of
                           Inl e \<Rightarrow> (db, submitted, Some e)
                         | Inr rows \<Rightarrow> finish_append k req1 rows submitted db)
                 | _ \<Rightarrow> (db, Some req, None))
      else persist_tx k (submit_row now result resultType meta req) submitted db)"

definition pg_SubmitRequestResultFenced ::
  "pg_codec \<Rightarrow> tx_fate list \<Rightarrow> time \<Rightarrow> string \<Rightarrow> string \<Rightarrow> string \<Rightarrow> int \<Rightarrow> go_value \<Rightarrow> string \<Rightarrow> string gomap option \<Rightarrow> pg_db
     \<Rightarrow> pg_db \<times> request option pg_result" where
  "pg_SubmitRequestResultFenced k fates now sessionID requestID machineID leaseEpoch result resultType meta db =
     fenced_result (withSerializableTx 0 fates
       (fenced_tx sessionID requestID machineID leaseEpoch (submit_body k now result resultType meta)) None db)"

definition append_body :: "pg_codec \<Rightarrow> time \<Rightarrow> string list \<Rightarrow> request \<Rightarrow> request option tx_body" where
  "append_body k now chunks req updated db =
     (let firstSeq = r_NextStreamSeq req;
          req1 = AddStreamChunks now chunks req
      in case insert_chunks (r_ID req) firstSeq (kc_time k now) chunks (pg_request_chunks db) of
           Inl e \<Rightarrow> (db, updated, Some e)
         | Inr rows \<Rightarrow> finish_append k req1 rows updated db)"

definition pg_AppendRequestChunksFenced ::
  "pg_codec \<Rightarrow> tx_fate list \<Rightarrow> time \<Rightarrow> string \<Rightarrow> string \<Rightarrow> string \<Rightarrow> int \<Rightarrow> string list \<Rightarrow> pg_db \<Rightarrow> pg_db \<times> request option pg_result" where
  "pg_AppendRequestChunksFenced k fates now sessionID requestID machineID leaseEpoch chunks db =
     fenced_result (withSerializableTx 0 fates
       (fenced_tx sessionID requestID machineID leaseEpoch (append_body k now chunks)) None db)"

definition update_body ::
  "pg_codec \<Rightarrow> time \<Rightarrow> string \<Rightarrow> request_status option \<Rightarrow> go_value \<Rightarrow> string \<Rightarrow> duration \<Rightarrow> request \<Rightarrow> request option tx_body" where
  "update_body k now machineID status result resultType leaseDuration req updated db =
     (if r_Status req = Done \<or> r_Status req = Failed then (db, updated, Some (PgStore StErrRequestTerminal))
      else persist_tx k (update_row now machineID status result resultType leaseDuration req) updated db)"

definition pg_UpdateRequestFenced ::
  "pg_codec \<Rightarrow> tx_fate list \<Rightarrow> time \<Rightarrow> string \<Rightarrow> string \<Rightarrow> string \<Rightarrow> int \<Rightarrow> request_status option \<Rightarrow> go_value \<Rightarrow> string \<Rightarrow> duration
     \<Rightarrow> pg_db \<Rightarrow> pg_db \<times> request option pg_result" where
  "pg_UpdateRequestFenced k fates now sessionID requestID machineID leaseEpoch status result resultType leaseDuration db =
     fenced_result (withSerializableTx 0 fates (fenced_tx sessionID requestID machineID leaseEpoch
       (update_body k now machineID status result resultType leaseDuration)) None db)"

definition pg_RequeueRequestFenced ::
  "pg_codec \<Rightarrow> tx_fate list \<Rightarrow> time \<Rightarrow> string \<Rightarrow> string \<Rightarrow> string \<Rightarrow> int \<Rightarrow> string \<Rightarrow> duration \<Rightarrow> pg_db \<Rightarrow> pg_db \<times> request option pg_result" where
  "pg_RequeueRequestFenced k fates now sessionID requestID machineID leaseEpoch reason backoff db =
     fenced_result (withSerializableTx 0 fates (fenced_tx sessionID requestID machineID leaseEpoch
       (\<lambda>req. persist_tx k (requeue_row now reason backoff req))) None db)"

text \<open>The captured variables of a cancellation: the row and whether this call cancelled it.\<close>

definition cancel_tx :: "pg_codec \<Rightarrow> time \<Rightarrow> string \<Rightarrow> string \<Rightarrow> string \<Rightarrow> (request option \<times> bool) tx_body" where
  "cancel_tx k now sessionID requestID message c db =
     (case selectRequestForUpdate sessionID requestID db of
        Inl e \<Rightarrow> (db, c, Some e)
      | Inr req \<Rightarrow>
          if r_Status req = Done \<or> r_Status req = Failed \<or> r_Status req = Cancelled then (db, (Some req, snd c), None)
          else (let req1 = cancel_row now message req
                in case persistRequestInTx k req1 db of
                     (db1, Some e) \<Rightarrow> (db1, c, Some e) | (db1, None) \<Rightarrow> (db1, (Some req1, True), None)))"

definition pg_CancelRequestFenced ::
  "pg_codec \<Rightarrow> tx_fate list \<Rightarrow> time \<Rightarrow> string \<Rightarrow> string \<Rightarrow> string \<Rightarrow> pg_db \<Rightarrow> pg_db \<times> (request option \<times> bool) pg_result" where
  "pg_CancelRequestFenced k fates now sessionID requestID message db =
     (case withSerializableTx 0 fates (cancel_tx k now sessionID requestID message) (None, False) db of
        (db1, c, Some e) \<Rightarrow> (db1, Inl e) | (db1, c, None) \<Rightarrow> (db1, Inr c))"

text \<open>The fenced writes of the \<open>Storer\<close> interface, by name.\<close>

fun pg_write :: "pg_codec \<Rightarrow> tx_fate list \<Rightarrow> fenced_op \<Rightarrow> string \<Rightarrow> string \<Rightarrow> string \<Rightarrow> int \<Rightarrow> pg_db \<Rightarrow> pg_db \<times> request option pg_result" where
  "pg_write k fs (FRenew now d) sess rid m e db = pg_RenewRequestLease k fs now sess rid m e d db"
| "pg_write k fs (FSubmit now v rt meta) sess rid m e db = pg_SubmitRequestResultFenced k fs now sess rid m e v rt meta db"
| "pg_write k fs (FAppend now cs) sess rid m e db = pg_AppendRequestChunksFenced k fs now sess rid m e cs db"
| "pg_write k fs (FUpdate now st v rt d) sess rid m e db = pg_UpdateRequestFenced k fs now sess rid m e st v rt d db"
| "pg_write k fs (FRequeue now reason b) sess rid m e db = pg_RequeueRequestFenced k fs now sess rid m e reason b db"

end
