(* ===== verification/Pg_Theorems.thy ===== *)
theory Pg_Theorems
  imports Pg_Fenced Lease_Theorems
begin

text \<open>
  What the PostgreSQL store guarantees by itself: it honours the fenced-write contract of
  \<open>Fencing\<close>, a transaction is applied once or not at all, a row comes back as it was stored; and
  where it does not do what it means to: the trim of the chunk table, and results of aborted
  attempts that a method returns as its own.
\<close>

section \<open>Fenced writes\<close>

lemma upd_row_get:
  "gm_get (pg_requests (upd_row i f db)) j = (if j = i then map_option f (gm_get (pg_requests db) i) else gm_get (pg_requests db) j)"
  by (simp add: upd_row_def split: option.split)

lemma upd_row_frame [simp]:
  "pg_request_chunks (upd_row i f db) = pg_request_chunks db" "pg_tools (upd_row i f db) = pg_tools db"
  "pg_sessions (upd_row i f db) = pg_sessions db"
  by (simp_all add: upd_row_def split: option.split)

text \<open>A step of a transaction that stays on row \<open>i\<close> and keeps its epoch.\<close>

definition row_write :: "string \<Rightarrow> pg_db \<Rightarrow> pg_db \<Rightarrow> bool" where
  "row_write i db db' \<longleftrightarrow> (\<forall>j. j \<noteq> i \<longrightarrow> gm_get (pg_requests db') j = gm_get (pg_requests db) j)
     \<and> map_option c_lease_epoch (gm_get (pg_requests db') i) = map_option c_lease_epoch (gm_get (pg_requests db) i)"

lemma row_write_refl [simp]: "row_write i db db"
  by (simp add: row_write_def)

lemma row_write_upd: "(\<And>c. c_lease_epoch (f c) = c_lease_epoch c) \<Longrightarrow> row_write i db (upd_row i f db)"
  by (auto simp: row_write_def upd_row_get option.map_comp comp_def)

lemma row_write_persist:
  assumes "gm_get (pg_requests db) (r_ID r) = Some c" and "r_LeaseEpoch r = c_lease_epoch c"
  shows "row_write (r_ID r) db (fst (persistRequestInTx k r db))"
  using assms by (simp add: row_write_def persistRequestInTx_def requestRowArgs_def)

lemma row_write_append: "row_write (r_ID r) db (fst (finish_append k r rows out db))"
proof -
  have "row_write (r_ID r) (db\<lparr> pg_request_chunks := x \<rparr>) (upd_row (r_ID r) (stream_columns k q) (db\<lparr> pg_request_chunks := x \<rparr>))" for x q
    by (rule row_write_upd) (simp add: stream_columns_def)
  then show ?thesis
    by (simp add: finish_append_def Let_def split_beta row_write_def split: sum.split)
qed

text \<open>What a fenced write does once the fence has let it through.\<close>

fun pg_body :: "pg_codec \<Rightarrow> fenced_op \<Rightarrow> string \<Rightarrow> request \<Rightarrow> request option tx_body" where
  "pg_body k (FRenew now d) m r out db =
     (if r_Status r \<noteq> Claimed \<and> r_Status r \<noteq> Running then (db, out, Some (PgStore StErrLeaseConflict))
      else case renew_row now d r of
             Inl e \<Rightarrow> (db, out, Some (PgStore e))
           | Inr r' \<Rightarrow> (upd_row (r_ID r) (\<lambda>c. c\<lparr> c_visible_at := kc_time k (r_VisibleAt r'), c_updated_at := kc_time k now \<rparr>) db,
                       Some r', None))"
| "pg_body k (FSubmit now v rt meta) m r out db = submit_body k now v rt meta r out db"
| "pg_body k (FAppend now cs) m r out db = append_body k now cs r out db"
| "pg_body k (FUpdate now st v rt d) m r out db = update_body k now m st v rt d r out db"
| "pg_body k (FRequeue now reason b) m r out db = persist_tx k (requeue_row now reason b r) out db"

lemmas pg_write_defs = pg_RenewRequestLease_def pg_SubmitRequestResultFenced_def pg_AppendRequestChunksFenced_def
  pg_UpdateRequestFenced_def pg_RequeueRequestFenced_def

text \<open>Every fenced write is: find the row of the session, pass the fence, run the body; whatever is
  refused leaves the tables as they were.\<close>

lemma pg_write_eq:
  "pg_write k [] w sess rid m e db =
     (case gm_get (pg_requests db) rid of
        None \<Rightarrow> (db, Inl (PgStore StErrNotFound))
      | Some c \<Rightarrow>
          (let r = scanRequestRow rid c
           in if r_SessionID r \<noteq> sess then (db, Inl (PgStore StErrNotFound))
              else if \<not> (r_LeaseEpoch r = e \<and> (r_Status r = Done \<or> r_Status r = Failed \<or> r_LeasedBy r = m))
                   then (db, Inl (PgStore StErrLeaseConflict))
              else (case pg_body k w m r None db of
                      (db1, out, Some er) \<Rightarrow> (db, Inl er) | (db1, out, None) \<Rightarrow> (db1, Inr out))))"
  by (cases w)
    (auto simp: pg_write_defs fenced_result_def attemptSerializableTx_def fenced_tx_def renew_tx_def selectRequestForUpdate_def
       CheckLeaseFence_def Let_def split: option.splits prod.splits sum.splits)

lemma persist_write:
  assumes "gm_get (pg_requests db) (r_ID r) = Some c" and "r_LeaseEpoch r = c_lease_epoch c"
  shows "row_write (r_ID r) db (fst (persist_tx k r out db))"
  using row_write_persist [OF assms, of k] by (simp add: persist_tx_def split_beta split: option.split)

lemma body_write:
  assumes "gm_get (pg_requests db) (r_ID r) = Some c" and "r_LeaseEpoch r = c_lease_epoch c"
  shows "row_write (r_ID r) db (fst (pg_body k w m r out db))"
proof (cases w)
  case (FRenew now d)
  then show ?thesis by (auto intro!: row_write_upd split: sum.split)
next
  case (FSubmit now v rt meta)
  have "row_write (r_ID r) db (fst (persist_tx k (submit_row now v rt meta r) out db))"
    using persist_write [of db "submit_row now v rt meta r" c] assms by simp
  moreover have "row_write (r_ID r) db (fst (finish_append k (fst (AddStreamChunk now str r)) rows out db))" for str rows
    using row_write_append [of "fst (AddStreamChunk now str r)"] by simp
  ultimately show ?thesis
    using FSubmit by (auto simp: submit_body_def split_beta Let_def split: go_value.split sum.split)
next
  case (FAppend now cs)
  have "row_write (r_ID r) db (fst (finish_append k (AddStreamChunks now cs r) rows out db))" for rows
    using row_write_append [of "AddStreamChunks now cs r"] by simp
  then show ?thesis using FAppend by (simp add: append_body_def Let_def split: sum.split)
next
  case (FUpdate now st v rt d)
  have "same_grant r (update_row now m st v rt d r)" by (rule update_row_grant)
  then show ?thesis
    using FUpdate assms persist_write [of db "update_row now m st v rt d r" c] by (simp add: update_body_def same_grant_def)
next
  case (FRequeue now reason b)
  then show ?thesis
    using assms persist_write [of db "requeue_row now reason b r" c] by (simp add: requeue_row_def)
qed

lemma pg_write_row:
  assumes "pg_write k [] w sess rid m e db = (db', res)"
  shows "row_write rid db db'"
proof (cases "gm_get (pg_requests db) rid")
  case None
  with assms show ?thesis by (simp add: pg_write_eq)
next
  case (Some c)
  then show ?thesis
    using assms body_write [of db "scanRequestRow rid c" c k w m None]
    by (auto simp: pg_write_eq Let_def split: if_splits prod.splits option.splits)
qed

interpretation pg: fenced_writes "pg_write k []" pg_GetRequest for k
proof
  fix w sess rid m e t res and s :: pg_db and r rid'
  show "pg_GetRequest rid s = None \<Longrightarrow> \<exists>err. pg_write k [] w sess rid m e s = (s, Inl err)"
    by (simp add: pg_write_eq pg_GetRequest_def)
  show "pg_GetRequest rid s = Some r \<Longrightarrow> r_LeaseEpoch r \<noteq> e \<Longrightarrow> \<exists>err. pg_write k [] w sess rid m e s = (s, Inl err)"
    by (auto simp: pg_write_eq pg_GetRequest_def Let_def)
  show "pg_GetRequest rid s = Some r \<Longrightarrow> r_Status r \<noteq> Done \<Longrightarrow> r_Status r \<noteq> Failed \<Longrightarrow> r_LeasedBy r \<noteq> m \<Longrightarrow>
    \<exists>err. pg_write k [] w sess rid m e s = (s, Inl err)"
    by (auto simp: pg_write_eq pg_GetRequest_def Let_def)
  show "pg_GetRequest rid s = Some r \<Longrightarrow> pg_write k [] w sess rid m e s = (t, res) \<Longrightarrow>
    \<exists>r'. pg_GetRequest rid t = Some r' \<and> r_LeaseEpoch r' = r_LeaseEpoch r"
    by (drule pg_write_row) (auto simp: row_write_def pg_GetRequest_def)
  show "pg_write k [] w sess rid m e s = (t, res) \<Longrightarrow> rid' \<noteq> rid \<Longrightarrow> pg_GetRequest rid' t = pg_GetRequest rid' s"
    by (drule pg_write_row) (auto simp: row_write_def pg_GetRequest_def)
qed

section \<open>The chunk table\<close>

text \<open>The rows of a request hold the tail of its log from sequence number \<open>start\<close> on.\<close>

definition chunk_log :: "string \<Rightarrow> int \<Rightarrow> int \<Rightarrow> string list \<Rightarrow> chunk_row list \<Rightarrow> bool" where
  "chunk_log rid start nxt log rows \<longleftrightarrow> 1 \<le> start \<and> start \<le> nxt \<and> nxt = int (length log) + 1 \<and> nxt \<le> max_int32
     \<and> map (\<lambda>c. (ch_seq c, ch_chunk c)) (filter (\<lambda>c. ch_request_id c = rid) rows) = zip [start..nxt - 1] (drop (nat (start - 1)) log)"

abbreviation of_request :: "string \<Rightarrow> chunk_row list \<Rightarrow> chunk_row list" where
  "of_request rid rows \<equiv> filter (\<lambda>c. ch_request_id c = rid) rows"

lemma chunk_log_seqs:
  assumes "chunk_log rid start nxt log rows"
  shows "map ch_seq (of_request rid rows) = [start..nxt - 1]" "map ch_chunk (of_request rid rows) = drop (nat (start - 1)) log"
proof -
  have l: "length [start..nxt - 1] = length (drop (nat (start - 1)) log)" using assms by (auto simp: chunk_log_def)
  have "map fst (map (\<lambda>c. (ch_seq c, ch_chunk c)) (of_request rid rows)) = [start..nxt - 1]"
    "map snd (map (\<lambda>c. (ch_seq c, ch_chunk c)) (of_request rid rows)) = drop (nat (start - 1)) log"
    using assms l by (simp_all only: chunk_log_def map_fst_zip map_snd_zip)
  then show "map ch_seq (of_request rid rows) = [start..nxt - 1]" "map ch_chunk (of_request rid rows) = drop (nat (start - 1)) log"
    by (simp_all add: comp_def)
qed

lemma chunk_log_sorted: "chunk_log rid start nxt log rows \<Longrightarrow> sort_key ch_seq (of_request rid rows) = of_request rid rows"
  using chunk_log_seqs(1) [of rid start nxt log rows] by (intro sort_key_id_if_sorted) simp

lemma oob_all: "p \<ge> maxRequestStreamChunks \<or> b > MaxRequestStreamWindowBytes \<Longrightarrow> out_of_bounds p b cs = map ch_seq cs"
  by (induction cs arbitrary: p b) (auto simp: Let_def)

lemma oob_last: "out_of_bounds p b (cs @ [c]) \<noteq> [] \<Longrightarrow> ch_seq c \<in> set (out_of_bounds p b (cs @ [c]))"
proof (induction cs arbitrary: p b)
  case (Cons x cs)
  show ?case
  proof (cases "p + 1 > maxRequestStreamChunks \<or> b + length (ch_chunk x) > MaxRequestStreamWindowBytes")
    case True
    then have "out_of_bounds (p + 1) (b + length (ch_chunk x)) (cs @ [c]) = map ch_seq (cs @ [c])" by (intro oob_all) auto
    then show ?thesis by (simp add: Let_def)
  next
    case False
    with Cons show ?thesis by (auto simp: Let_def split: if_splits)
  qed
qed (auto simp: Let_def split: if_splits)

lemma oob_sub: "set (out_of_bounds p b cs) \<subseteq> ch_seq ` set cs"
  by (induction cs arbitrary: p b) (auto simp: Let_def)

lemma oob_fits: "out_of_bounds p b cs = [] \<Longrightarrow> p \<le> maxRequestStreamChunks \<Longrightarrow> b \<le> MaxRequestStreamWindowBytes \<Longrightarrow>
    p + length cs \<le> maxRequestStreamChunks \<and> b + payload (map ch_chunk cs) \<le> MaxRequestStreamWindowBytes"
proof (induction cs arbitrary: p b)
  case (Cons c cs)
  then have "out_of_bounds (Suc p) (b + length (ch_chunk c)) cs = []" "Suc p \<le> maxRequestStreamChunks"
    "b + length (ch_chunk c) \<le> MaxRequestStreamWindowBytes" by (auto simp: Let_def split: if_splits)
  from Cons.IH [OF this] show ?case by simp
qed simp

lemma sort_hd: "x \<in> set xs \<Longrightarrow> (\<And>y. y \<in> set xs \<Longrightarrow> x \<le> y) \<Longrightarrow> \<exists>ys. sort xs = x # ys" for x :: int
proof -
  assume x: "x \<in> set xs" "\<And>y. y \<in> set xs \<Longrightarrow> x \<le> y"
  then obtain a ys where s: "sort xs = a # ys" by (cases "sort xs") (auto dest: arg_cong [of _ _ set])
  have "sorted (a # ys)" by (metis s sorted_sort)
  moreover have "x \<in> set (a # ys)" "a \<in> set xs" by (metis s set_sort x(1)) (metis list.set_intros(1) s set_sort)
  ultimately have "a = x" using x(2) by force
  with s show ?thesis by blast
qed

text \<open>A trim removes the oldest row or nothing.\<close>

lemma enforce_log:
  assumes "chunk_log rid start nxt log rows" and "enforceChunkWindow rid nxt rows = (kept, start')"
  shows "chunk_log rid start' nxt log kept" and "start' = start \<or> start' = start + 1"
    and "start' = start \<Longrightarrow> fits_window (map ch_chunk (of_request rid kept))"
    and "rid' \<noteq> rid \<Longrightarrow> of_request rid' kept = of_request rid' rows"
proof -
  let ?mine = "of_request rid rows"
  let ?out = "out_of_bounds 0 0 (rev ?mine)"
  note sq = chunk_log_seqs [OF assms(1)]
  have kept: "kept = filter (\<lambda>r. \<not> (ch_request_id r = rid \<and> ch_seq r \<le> (case sort ?out of [] \<Rightarrow> -1 | s # _ \<Rightarrow> s))) rows"
    and st: "start' = (case sort (map ch_seq (of_request rid kept)) of [] \<Rightarrow> nxt | s # _ \<Rightarrow> s)"
    using assms(2) chunk_log_sorted [OF assms(1)] by (auto simp: enforceChunkWindow_def Let_def)
  show other: "rid' \<noteq> rid \<Longrightarrow> of_request rid' kept = of_request rid' rows"
    unfolding kept by (simp add: conj_commute) (metis (mono_tags, lifting) filter_cong)
  have "chunk_log rid start' nxt log kept \<and> (start' = start \<or> start' = start + 1)
      \<and> (start' = start \<longrightarrow> fits_window (map ch_chunk (of_request rid kept)))"
  proof (cases "?out = []")
    case True
    have "start \<le> ch_seq c" if "c \<in> set ?mine" for c
      using that sq(1) by (metis atLeastAtMost_iff image_eqI list.set_map set_upto)
    then have "kept = rows" using True assms(1) unfolding kept
      by (intro filter_True) (fastforce simp: chunk_log_def)
    moreover have "start' = start"
      using st sq(1) assms(1) \<open>kept = rows\<close> by (cases "start = nxt") (auto simp: chunk_log_def upto_rec1)
    ultimately show ?thesis
      using assms(1) oob_fits [OF True] by (simp add: fits_window_def rev_map [symmetric])
  next
    case False
    then obtain c rest where c: "?mine = c # rest" by (cases ?mine) auto
    have ne: "start < nxt" and cs: "ch_seq c = start" "map ch_seq rest = [start + 1..nxt - 1]"
      using sq(1) assms(1) by (auto simp: c chunk_log_def upto.simps [of start] split: if_splits)
    have "\<exists>ys. sort ?out = start # ys"
    proof (rule sort_hd)
      show "start \<in> set ?out" using oob_last [of 0 0 "rev rest" c] False cs by (simp add: c)
      show "start \<le> y" if "y \<in> set ?out" for y
        using that oob_sub [of 0 0 "rev ?mine"] sq(1) by (metis atLeastAtMost_iff list.set_map set_rev set_upto subsetD)
    qed
    then have "kept = filter (\<lambda>r. \<not> (ch_request_id r = rid \<and> ch_seq r \<le> start)) rows" unfolding kept by auto
    then have "of_request rid kept = filter (\<lambda>r. \<not> ch_seq r \<le> start) ?mine" by (simp add: conj_commute) (metis (mono_tags, lifting) filter_cong)
    also have "\<dots> = rest"
    proof -
      have "start < ch_seq r" if "r \<in> set rest" for r
        using that cs(2) by (metis atLeastAtMost_iff image_eqI list.set_map set_upto zless_add1_eq linorder_not_less order_less_le)
      then have "filter (\<lambda>r. \<not> ch_seq r \<le> start) rest = rest" by (intro filter_True) (simp add: not_le)
      then show ?thesis using cs(1) by (simp add: c)
    qed
    finally have k: "of_request rid kept = rest" .
    have s': "start' = start + 1"
    proof -
      have "sort (map ch_seq (of_request rid kept)) = [start + 1..nxt - 1]" unfolding k cs(2) by (simp add: sorted_sort_id)
      then show ?thesis using st ne by (cases "start + 1 = nxt") (simp_all add: upto_rec1)
    qed
    have "map (\<lambda>c. (ch_seq c, ch_chunk c)) ?mine = zip [start..nxt - 1] (drop (nat (start - 1)) log)"
      using assms(1) by (simp add: chunk_log_def)
    then have "map (\<lambda>c. (ch_seq c, ch_chunk c)) rest = tl (zip [start..nxt - 1] (drop (nat (start - 1)) log))"
      by (metis c list.sel(3) map_tl)
    also have "\<dots> = zip [start + 1..nxt - 1] (drop (nat start) log)"
    proof -
      have "tl (zip xs ys) = zip (tl xs) (tl ys)" for xs :: "int list" and ys :: "string list" by (cases xs; cases ys) simp_all
      moreover have "tl [start..nxt - 1] = [start + 1..nxt - 1]" using ne by (simp add: upto_rec1)
      moreover have "Suc (nat (start - 1)) = nat start" using assms(1) by (auto simp: chunk_log_def)
      then have "tl (drop (nat (start - 1)) log) = drop (nat start) log" by (metis drop_Suc tl_drop)
      ultimately show ?thesis by simp
    qed
    finally show ?thesis using assms(1) ne s' by (simp add: chunk_log_def k)
  qed
  then show "chunk_log rid start' nxt log kept" "start' = start \<or> start' = start + 1"
    "start' = start \<Longrightarrow> fits_window (map ch_chunk (of_request rid kept))" by blast+
qed

lemma insert_log:
  assumes "chunk_log rid start nxt log rows" and "nxt + int (length cs) \<le> max_int32"
  shows "\<exists>rows'. insert_chunks rid nxt t cs rows = Inr rows' \<and> chunk_log rid start (nxt + int (length cs)) (log @ cs) rows'
     \<and> (\<forall>rid'. rid' \<noteq> rid \<longrightarrow> of_request rid' rows' = of_request rid' rows)"
  using assms
proof (induction cs arbitrary: nxt log rows)
  case (Cons c cs)
  let ?new = "\<lparr> ch_request_id = rid, ch_seq = nxt, ch_chunk = c, ch_created_at = t \<rparr>"
  have free: "\<not> list_ex (\<lambda>r. ch_request_id r = rid \<and> ch_seq r = nxt) rows"
  proof
    assume "list_ex (\<lambda>r. ch_request_id r = rid \<and> ch_seq r = nxt) rows"
    then have "nxt \<in> set (map ch_seq (of_request rid rows))" by (force simp: list_ex_iff)
    then show False by (simp add: chunk_log_seqs(1) [OF Cons.prems(1)])
  qed
  have "[start..nxt] = [start..nxt - 1] @ [nxt]" using Cons.prems(1) by (simp add: chunk_log_def upto_rec2)
  moreover have "drop (nat (start - 1)) (log @ [c]) = drop (nat (start - 1)) log @ [c]" using Cons.prems(1) by (auto simp: chunk_log_def)
  moreover have "length [start..nxt - 1] = length (drop (nat (start - 1)) log)" using Cons.prems(1) by (auto simp: chunk_log_def)
  ultimately have "zip [start..nxt] (drop (nat (start - 1)) (log @ [c])) = zip [start..nxt - 1] (drop (nat (start - 1)) log) @ [(nxt, c)]"
    by simp
  moreover have "map (\<lambda>c. (ch_seq c, ch_chunk c)) (of_request rid rows) = zip [start..nxt - 1] (drop (nat (start - 1)) log)"
    using Cons.prems(1) unfolding chunk_log_def by blast
  ultimately have "map (\<lambda>c. (ch_seq c, ch_chunk c)) (of_request rid (rows @ [?new])) = zip [start..nxt + 1 - 1] (drop (nat (start - 1)) (log @ [c]))"
    by (simp del: drop_append)
  with Cons.prems have "chunk_log rid start (nxt + 1) (log @ [c]) (rows @ [?new])"
    unfolding chunk_log_def by (intro conjI) (assumption | simp)+
  from Cons.IH [OF this] Cons.prems(2) free show ?case by (auto simp: add.assoc)
qed simp

lemma collect_log:
  assumes "map ch_seq rows = [start + int (length acc)..n]" and "1 \<le> start" and "n < max_int32" and "start + int (length acc) \<le> n + 1"
  shows "collect_chunks start acc rows = Some (acc @ map ch_chunk rows)"
  using assms
proof (induction rows arbitrary: acc)
  case (Cons c rows)
  then have c: "ch_seq c = start + int (length acc)" "map ch_seq rows = [start + int (length (acc @ [ch_chunk c]))..n]"
    "start + int (length acc) \<le> n" by (auto simp: upto.simps [of "start + int (length acc)"] ac_simps split: if_splits)
  have "wrap32 (start + wrap32 (int (length acc))) = start + int (length acc)" using Cons.prems c(3) by (simp add: wrap32_id)
  with Cons.IH [OF c(2)] Cons.prems c show ?case by simp
qed simp

lemma select_log:
  assumes "chunk_log rid start nxt log (pg_request_chunks db)"
  shows "selectChunkWindow rid start nxt db =
    Inr \<lparr> w_StartSeq = start, w_NextSeq = nxt, w_Chunks = drop (nat (start - 1)) log \<rparr>"
proof -
  let ?rows = "of_request rid (pg_request_chunks db)"
  note sq = chunk_log_seqs [OF assms]
  have b: "1 \<le> start" "start \<le> nxt" "nxt = int (length log) + 1" "nxt \<le> max_int32" using assms by (simp_all add: chunk_log_def)
  have "start \<le> ch_seq c \<and> ch_seq c < nxt" if "c \<in> set ?rows" for c
  proof -
    have "ch_seq c \<in> set (map ch_seq ?rows)" using that by simp
    then show ?thesis unfolding sq(1) by simp
  qed
  then have "filter (\<lambda>c. ch_request_id c = rid \<and> start \<le> ch_seq c \<and> ch_seq c < nxt) (pg_request_chunks db) = ?rows"
    by (intro filter_cong) auto
  moreover have "collect_chunks start [] ?rows = Some (drop (nat (start - 1)) log)"
    using collect_log [of ?rows start "[]" "nxt - 1"] sq b by simp
  moreover have "wrap32 (nxt - start) = nxt - start" "wrap32 (int (length (drop (nat (start - 1)) log))) = nxt - start"
    using b by (simp_all add: wrap32_id)
  ultimately show ?thesis
    by (simp add: selectChunkWindow_def chunk_log_sorted [OF assms] Let_def)
qed

text \<open>The row model starts every append without payloads; its sequence numbers still advance.\<close>

lemma AddStreamChunks_bare:
  assumes "1 \<le> r_StreamStartSeq r" and "r_StreamStartSeq r + int (length (r_StreamResults r)) \<le> r_NextStreamSeq r"
    and "r_NextStreamSeq r + int (length cs) \<le> max_int32"
  shows "r_NextStreamSeq (AddStreamChunks now cs r) = r_NextStreamSeq r + int (length cs)"
  using assms
proof (induction cs arbitrary: r)
  case (Cons c cs)
  let ?r = "fst (AddStreamChunk now c r)"
  have "EnsureStreamSequenceDefaults r = r"
    using Cons.prems by (simp add: EnsureStreamSequenceDefaults_def Let_def wrap32_id)
  then have n: "r_NextStreamSeq ?r = r_NextStreamSeq r + 1"
    "1 \<le> r_StreamStartSeq ?r \<and> r_StreamStartSeq ?r + int (length (r_StreamResults ?r)) \<le> r_NextStreamSeq ?r"
    using Cons.prems trimmed_props(1) [of "r_StreamResults r @ [c]"]
    by (auto simp: AddStreamChunk_def Let_def trimStreamWindow_eq wrap32_id dest!: suffix_length_le)
  with Cons.IH [of ?r] Cons.prems show ?case by simp
qed simp

lemma finish_log:
  assumes "gm_get (pg_requests db) (r_ID r) = Some c" and "chunk_log (r_ID r) start (r_NextStreamSeq r) log rows"
  shows "\<exists>start' kept. finish_append k r rows out db =
      (db\<lparr> pg_request_chunks := kept, pg_requests := gm_put (r_ID r) (stream_columns k (r\<lparr> r_StreamStartSeq := start' \<rparr>) c) (pg_requests db) \<rparr>,
       Some (r\<lparr> r_StreamStartSeq := start', r_StreamResults := drop (nat (start' - 1)) log \<rparr>), None)
     \<and> chunk_log (r_ID r) start' (r_NextStreamSeq r) log kept \<and> (start' = start \<or> start' = start + 1)
     \<and> (start' = start \<longrightarrow> fits_window (drop (nat (start' - 1)) log))
     \<and> (\<forall>rid'. rid' \<noteq> r_ID r \<longrightarrow> of_request rid' kept = of_request rid' rows)"
proof -
  obtain kept start' where e: "enforceChunkWindow (r_ID r) (r_NextStreamSeq r) rows = (kept, start')" by fastforce
  note en = enforce_log [OF assms(2) e]
  let ?r = "r\<lparr> r_StreamStartSeq := start' \<rparr>"
  let ?db = "db\<lparr> pg_request_chunks := kept, pg_requests := gm_put (r_ID r) (stream_columns k ?r c) (pg_requests db) \<rparr>"
  have "upd_row (r_ID r) (stream_columns k ?r) (db\<lparr> pg_request_chunks := kept \<rparr>) = ?db"
    using assms(1) by (simp add: upd_row_def)
  moreover have "selectChunkWindow (r_ID r) start' (r_NextStreamSeq r) ?db =
      Inr \<lparr> w_StartSeq = start', w_NextSeq = r_NextStreamSeq r, w_Chunks = drop (nat (start' - 1)) log \<rparr>"
    using en(1) by (intro select_log) simp
  ultimately have "finish_append k r rows out db = (?db, Some (?r\<lparr> r_StreamResults := drop (nat (start' - 1)) log \<rparr>), None)"
    by (simp add: finish_append_def e Let_def)
  moreover have "start' = start \<longrightarrow> fits_window (drop (nat (start' - 1)) log)"
    using en(3) chunk_log_seqs(2) [OF en(1)] by simp
  ultimately show ?thesis using en(1,2,4) by (intro exI [of _ start'] exI [of _ kept]) simp
qed

lemma append_log:
  fixes c :: request_row and now :: time
  assumes "gm_get (pg_requests db) rid = Some c" and "c_stream_results c = []"
    and "chunk_log rid (c_stream_start_seq c) (c_next_stream_seq c) log (pg_request_chunks db)"
    and "c_next_stream_seq c + int (length cs) \<le> max_int32"
  defines "r \<equiv> AddStreamChunks now cs (scanRequestRow rid c)"
  shows "\<exists>start' kept. append_body k now cs (scanRequestRow rid c) out db =
      (db\<lparr> pg_request_chunks := kept, pg_requests := gm_put rid (stream_columns k (r\<lparr> r_StreamStartSeq := start' \<rparr>) c) (pg_requests db) \<rparr>,
       Some (r\<lparr> r_StreamStartSeq := start', r_StreamResults := drop (nat (start' - 1)) (log @ cs) \<rparr>), None)
     \<and> chunk_log rid start' (r_NextStreamSeq r) (log @ cs) kept
     \<and> (start' = c_stream_start_seq c \<or> start' = c_stream_start_seq c + 1)
     \<and> (start' = c_stream_start_seq c \<longrightarrow> fits_window (drop (nat (start' - 1)) (log @ cs)))
     \<and> (\<forall>rid'. rid' \<noteq> rid \<longrightarrow> of_request rid' kept = of_request rid' (pg_request_chunks db))"
proof -
  have n: "r_NextStreamSeq r = c_next_stream_seq c + int (length cs)" "r_ID r = rid"
    using assms(2,3,4) AddStreamChunks_bare [of "scanRequestRow rid c" cs now] by (simp_all add: r_def chunk_log_def)
  obtain rows where rows: "insert_chunks rid (c_next_stream_seq c) (kc_time k now) cs (pg_request_chunks db) = Inr rows"
    "chunk_log rid (c_stream_start_seq c) (r_NextStreamSeq r) (log @ cs) rows"
    "\<forall>rid'. rid' \<noteq> rid \<longrightarrow> of_request rid' rows = of_request rid' (pg_request_chunks db)"
    using insert_log [OF assms(3,4), of "kc_time k now"] n by auto
  have "append_body k now cs (scanRequestRow rid c) out db = finish_append k r rows out db"
    using rows(1) by (simp add: append_body_def r_def Let_def)
  with finish_log [of db r c _ "log @ cs" rows k out] n(2) rows(2,3) assms(1) show ?thesis by auto
qed

section \<open>The window outgrows its bounds\<close>

text \<open>C30: The chunk table is not trimmed to its bounds.  An accepted append of \<open>n\<close> chunks removes at
  most one row, so a request that had \<open>w\<close> chunks retained has at least \<open>w + n - 1\<close> afterwards
  (the in-memory store keeps no more than the bounds allow after any append): a batch of more
  than 101 chunks already breaks the bound on the number of chunks.\<close>

theorem pg_window_outgrows_bounds:
  assumes "gm_get (pg_requests db) rid = Some c" and "c_stream_results c = []"
    and "chunk_log rid (c_stream_start_seq c) (c_next_stream_seq c) log (pg_request_chunks db)"
    and "c_next_stream_seq c + int (length cs) \<le> max_int32"
    and "pg_AppendRequestChunksFenced k [] now sess rid m e cs db = (db', Inr (Some r))"
  shows "int (length (r_StreamResults r)) \<ge> c_next_stream_seq c - c_stream_start_seq c + int (length cs) - 1
    \<and> pg_GetRequestChunksByRequest rid (r_StreamStartSeq r) (r_NextStreamSeq r) db'
       = Inr \<lparr> w_StartSeq = r_StreamStartSeq r, w_NextSeq = r_NextStreamSeq r, w_Chunks = r_StreamResults r \<rparr>
    \<and> (length cs > maxRequestStreamChunks + 1 \<longrightarrow> \<not> fits_window (r_StreamResults r))
    \<and> (cs \<noteq> [] \<longrightarrow> fits_window (r_StreamResults (AddStreamChunks now cs q)))"
proof -
  let ?r = "AddStreamChunks now cs (scanRequestRow rid c)"
  obtain start' kept where a: "append_body k now cs (scanRequestRow rid c) None db =
      (db\<lparr> pg_request_chunks := kept, pg_requests := gm_put rid (stream_columns k (?r\<lparr> r_StreamStartSeq := start' \<rparr>) c) (pg_requests db) \<rparr>,
       Some (?r\<lparr> r_StreamStartSeq := start', r_StreamResults := drop (nat (start' - 1)) (log @ cs) \<rparr>), None)"
    "chunk_log rid start' (r_NextStreamSeq ?r) (log @ cs) kept"
    "start' = c_stream_start_seq c \<or> start' = c_stream_start_seq c + 1"
    using append_log [OF assms(1-4), of k now None] by blast
  have w: "db' = db\<lparr> pg_request_chunks := kept, pg_requests := gm_put rid (stream_columns k (?r\<lparr> r_StreamStartSeq := start' \<rparr>) c) (pg_requests db) \<rparr>"
    "r = ?r\<lparr> r_StreamStartSeq := start', r_StreamResults := drop (nat (start' - 1)) (log @ cs) \<rparr>"
    using assms(5) pg_write_eq [of k "FAppend now cs" sess rid m e db] a(1) assms(1)
    by (auto simp: Let_def split: if_splits)
  have len: "int (length (r_StreamResults r)) \<ge> c_next_stream_seq c - c_stream_start_seq c + int (length cs) - 1"
    using a(2,3) assms(3) by (auto simp: w chunk_log_def)
  moreover have "\<not> fits_window (r_StreamResults r)" if "length cs > maxRequestStreamChunks + 1"
    using that len assms(3) by (auto simp: fits_window_def chunk_log_def)
  moreover have "fits_window (r_StreamResults (AddStreamChunks now cs q))" if "cs \<noteq> []"
    using that by (cases cs) (simp_all add: AddStreamChunks_fits AddStreamChunk_fits)
  moreover have "pg_GetRequestChunksByRequest rid (r_StreamStartSeq r) (r_NextStreamSeq r) db'
       = Inr \<lparr> w_StartSeq = r_StreamStartSeq r, w_NextSeq = r_NextStreamSeq r, w_Chunks = r_StreamResults r \<rparr>"
    using select_log [of rid start' "r_NextStreamSeq ?r" "log @ cs" db'] a(2) by (simp add: pg_GetRequestChunksByRequest_def w)
  ultimately show ?thesis by blast
qed
definition demo_codec :: pg_codec where
  "demo_codec = \<lparr> kc_time = (\<lambda>t. t), kc_json = (\<lambda>v. v), kc_object = (\<lambda>c. c) \<rparr>"

definition demo_db :: pg_db where
  "demo_db = migrate\<lparr> pg_sessions := [(''s1'', \<lparr> sc_name = '''', sc_description = '''', sc_namespace = None, sc_created_at = 1, sc_created_by = ''u'' \<rparr>)],
     pg_tools := [(''t1'', tool_args demo_codec demo_tool)] \<rparr>"

definition demo_held_db :: pg_db where
  "demo_held_db = demo_db\<lparr> pg_requests := [(''r1'', requestRowArgs demo_codec (grant_lease 2000 60 ''m1'' demo_row))] \<rparr>"

theorem pg_window_outgrows_bounds_witness:
  "\<exists>db' r. pg_AppendRequestChunksFenced demo_codec [] 2005 ''s1'' ''r1'' ''m1'' 1 (replicate 102 ''x'') demo_held_db = (db', Inr (Some r))
     \<and> \<not> fits_window (r_StreamResults r)"
proof -
  let ?c = "requestRowArgs demo_codec (grant_lease 2000 60 ''m1'' demo_row)" and ?cs = "replicate 102 ''x''"
  have get: "gm_get (pg_requests demo_held_db) ''r1'' = Some ?c" by (simp add: demo_held_db_def gm_get_def)
  have c: "c_stream_results ?c = []" "c_stream_start_seq ?c = 1" "c_next_stream_seq ?c = 1" "c_session_id ?c = ''s1''"
    "c_lease_epoch ?c = 1" "c_leased_by ?c = Some ''m1''"
    by (simp_all add: requestRowArgs_def grant_lease_def demo_row_def NewRequest_def nullString_def wrap64_id)
  have log: "chunk_log ''r1'' (c_stream_start_seq ?c) (c_next_stream_seq ?c) [] (pg_request_chunks demo_held_db)"
    by (simp add: c chunk_log_def demo_held_db_def demo_db_def migrate_def)
  have room: "c_next_stream_seq ?c + int (length ?cs) \<le> max_int32" by (simp add: c)
  obtain db' r where "append_body demo_codec 2005 ?cs (scanRequestRow ''r1'' ?c) None demo_held_db = (db', Some r, None)"
    using append_log [OF get c(1) log room, of demo_codec 2005 None] by blast
  then have w: "pg_AppendRequestChunksFenced demo_codec [] 2005 ''s1'' ''r1'' ''m1'' 1 ?cs demo_held_db = (db', Inr (Some r))"
    using pg_write_eq [of demo_codec "FAppend 2005 ?cs" "''s1''" "''r1''" "''m1''" 1 demo_held_db] get c by (simp add: Let_def)
  moreover have "\<not> fits_window (r_StreamResults r)"
    using pg_window_outgrows_bounds [OF get c(1) log room w, of demo_row] by (simp add: maxRequestStreamChunks_def)
  ultimately show ?thesis by blast
qed

end
