(* ===== verification/Pg_Simulation.thy ===== *)
theory Pg_Simulation
  imports Pg_Theorems Stream_Delivery
begin

text \<open>
  The in-memory store and the tables, related: the rows are the same up to what a \<open>JSONB\<close> column
  makes of a result, and the chunks of a request are two windows on one log (the stores trim
  differently).  Times are taken to be whole ticks of the database's time columns.  The row
  functions of the protocol respect the relation, and so do the fenced writes.
\<close>

section \<open>Rows that correspond\<close>

definition js :: "pg_codec \<Rightarrow> go_value \<Rightarrow> go_value" where
  "js k v = (if v = VNil then VNil else kc_json k v)"

text \<open>A request without what the stores may differ in: the payload window, the representation of
  the result, an absent metadata map.\<close>

definition bare :: "pg_codec \<Rightarrow> request \<Rightarrow> request" where
  "bare k r = r\<lparr> r_Result := js k (r_Result r), r_Meta := Some (case r_Meta r of None \<Rightarrow> [] | Some m \<Rightarrow> m),
     r_StreamResults := [], r_StreamStartSeq := 0 \<rparr>"

text \<open>A time column keeps whole ticks, and whole seconds are whole ticks.\<close>

definition tick :: "pg_codec \<Rightarrow> time \<Rightarrow> bool" where
  "tick k t \<longleftrightarrow> kc_time k t = t"

definition ticks_ok :: "pg_codec \<Rightarrow> bool" where
  "ticks_ok k \<longleftrightarrow> codec_ok k \<and> (\<forall>t n. tick k t \<longrightarrow> tick k (t + n * Second))"

definition on_ticks :: "pg_codec \<Rightarrow> request \<Rightarrow> bool" where
  "on_ticks k r \<longleftrightarrow> tick k (r_VisibleAt r) \<and> (\<forall>t. r_NextAttemptAt r = Some t \<longrightarrow> tick k t) \<and> (\<forall>t. r_LeasedAt r = Some t \<longrightarrow> tick k t)
     \<and> tick k (r_CreatedAt r) \<and> tick k (r_UpdatedAt r) \<and> \<bar>r_TimeoutSeconds r\<bar> \<le> max_int32"

lemma bareD:
  assumes "bare k r = bare k q"
  shows "r_ID r = r_ID q" "r_SessionID r = r_SessionID q" "r_ToolName r = r_ToolName q" "r_Status r = r_Status q"
    "r_DeadLetter r = r_DeadLetter q" "r_VisibleAt r = r_VisibleAt q" "r_MaxAttempts r = r_MaxAttempts q"
    "r_Attempts r = r_Attempts q" "r_LeaseEpoch r = r_LeaseEpoch q" "r_LeasedBy r = r_LeasedBy q" "r_LeasedAt r = r_LeasedAt q"
    "r_TimeoutSeconds r = r_TimeoutSeconds q" "r_CreatedAt r = r_CreatedAt q" "r_UpdatedAt r = r_UpdatedAt q"
    "r_NextStreamSeq r = r_NextStreamSeq q" "r_IdempotencyKey r = r_IdempotencyKey q" "r_NextAttemptAt r = r_NextAttemptAt q"
    "r_ExecutingMachineID r = r_ExecutingMachineID q"
  using assms by (cases r; cases q; simp add: bare_def)+

lemma js_idem [simp]: "codec_ok k \<Longrightarrow> js k (js k v) = js k v"
  by (auto simp: js_def codec_ok_def)

lemma bare_stored:
  assumes "codec_ok k" and "on_ticks k r"
  shows "bare k (stored_request k r) = bare k r"
  using assms
  by (cases r) (auto simp: bare_def stored_request_def on_ticks_def tick_def js_def codec_ok_def map_option_case split: option.splits)

text \<open>The row functions of the protocol do not see the difference.\<close>

lemma bare_grant: "bare k r = bare k q \<Longrightarrow> bare k (grant_lease now d m r) = bare k (grant_lease now d m q)"
  by (cases r; cases q) (simp add: bare_def grant_lease_def)

lemma bare_reclaim: "bare k r = bare k q \<Longrightarrow> bare k (reclaim_row now ma b r) = bare k (reclaim_row now ma b q)"
  by (cases r; cases q) (simp add: bare_def reclaim_row_def Let_def)

lemma bare_requeue: "bare k r = bare k q \<Longrightarrow> bare k (requeue_row now reason b r) = bare k (requeue_row now reason b q)"
  by (cases r; cases q) (simp add: bare_def requeue_row_def)

lemma bare_cancel: "bare k r = bare k q \<Longrightarrow> bare k (cancel_row now msg r) = bare k (cancel_row now msg q)"
  by (cases r; cases q) (simp add: bare_def cancel_row_def SetResult_def)

lemma bare_submit: "bare k r = bare k q \<Longrightarrow> bare k (submit_row now v rt meta r) = bare k (submit_row now v rt meta q)"
  by (cases r; cases q) (auto simp: bare_def submit_row_def SetResult_def merge_meta_def Let_def split: option.split)

lemma bare_update: "bare k r = bare k q \<Longrightarrow> bare k (update_row now m st v rt d r) = bare k (update_row now m st v rt d q)"
proof (cases st)
  case None
  then show "bare k r = bare k q \<Longrightarrow> ?thesis" by (cases r; cases q) (simp add: bare_def update_row_def Let_def)
next
  case (Some a)
  then show "bare k r = bare k q \<Longrightarrow> ?thesis" by (cases r; cases q; cases a) (simp_all add: bare_def update_row_def Let_def)
qed

lemma bare_renew:
  assumes "bare k r = bare k q"
  shows "(case renew_row now d r of Inl e \<Rightarrow> renew_row now d q = Inl e
     | Inr r' \<Rightarrow> \<exists>q'. renew_row now d q = Inr q' \<and> bare k r' = bare k q' \<and> r_VisibleAt q' = r_VisibleAt r')"
  using assms by (cases r; cases q) (auto simp: bare_def renew_row_def Let_def split: option.split)

lemma expired_cong:
  assumes "bare k r = bare k q"
  shows "LeaseExpired now r = LeaseExpired now q" "HasTimedOut now r = HasTimedOut now q"
    "backoff_pending now r = backoff_pending now q" "attempts_exhausted r = attempts_exhausted q"
  using bareD [OF assms] by (simp_all add: LeaseExpired_def HasTimedOut_def backoff_pending_def attempts_exhausted_def split: option.split)

lemma ticks_grant: "on_ticks k r \<Longrightarrow> tick k now \<Longrightarrow> tick k (now + d) \<Longrightarrow> on_ticks k (grant_lease now d m r)"
  by (simp add: on_ticks_def grant_lease_def)

lemma ticks_reclaim: "on_ticks k r \<Longrightarrow> tick k now \<Longrightarrow> tick k (now + b) \<Longrightarrow> on_ticks k (reclaim_row now ma b r)"
  by (simp add: on_ticks_def reclaim_row_def Let_def)

lemma ticks_requeue: "on_ticks k r \<Longrightarrow> tick k now \<Longrightarrow> tick k (now + b) \<Longrightarrow> on_ticks k (requeue_row now reason b r)"
  by (simp add: on_ticks_def requeue_row_def)

lemma ticks_cancel: "on_ticks k r \<Longrightarrow> tick k now \<Longrightarrow> on_ticks k (cancel_row now msg r)"
  by (simp add: on_ticks_def cancel_row_def SetResult_def)

lemma ticks_submit: "on_ticks k r \<Longrightarrow> tick k now \<Longrightarrow> on_ticks k (submit_row now v rt meta r)"
  by (simp add: on_ticks_def submit_row_def SetResult_def merge_meta_def Let_def split: option.split)

lemma ticks_update: "on_ticks k r \<Longrightarrow> tick k now \<Longrightarrow> tick k (now + d) \<Longrightarrow> on_ticks k (update_row now m st v rt d r)"
  by (simp add: on_ticks_def update_row_def Let_def split: option.split request_status.split)

lemma ticks_append: "on_ticks k r \<Longrightarrow> tick k now \<Longrightarrow> on_ticks k (AddStreamChunks now cs r)"
proof (induction cs arbitrary: r)
  case (Cons c cs)
  have "on_ticks k (fst (AddStreamChunk now c r))" using Cons.prems
    by (simp add: on_ticks_def AddStreamChunk_def EnsureStreamSequenceDefaults_def trimStreamWindow_eq Let_def)
  with Cons show ?case by simp
qed simp

lemma ticks_renew:
  assumes "ticks_ok k" and "on_ticks k r" and "tick k now" and "tick k (now + d)" and "renew_row now d r = Inr r'"
  shows "on_ticks k r'"
proof -
  have "tick k (t + seconds (r_TimeoutSeconds r))" if "r_LeasedAt r = Some t" for t
  proof -
    have "seconds (r_TimeoutSeconds r) = r_TimeoutSeconds r * Second"
      using assms(2) by (auto simp: on_ticks_def seconds_def Second_def intro!: wrap64_id)
    then show ?thesis using assms(1,2) that by (simp add: ticks_ok_def on_ticks_def)
  qed
  then show ?thesis
    using assms(2-5) by (auto simp: on_ticks_def renew_row_def Let_def split: option.splits if_splits)
qed

section \<open>Tables that correspond\<close>

text \<open>A row function that leaves alone the columns no protocol operation writes.\<close>

definition keeps_row :: "request \<Rightarrow> request \<Rightarrow> bool" where
  "keeps_row q q' \<longleftrightarrow> r_ID q' = r_ID q \<and> r_SessionID q' = r_SessionID q \<and> r_IdempotencyKey q' = r_IdempotencyKey q
     \<and> r_StreamResults q' = r_StreamResults q \<and> r_StreamStartSeq q' = r_StreamStartSeq q \<and> r_NextStreamSeq q' = r_NextStreamSeq q"

lemma keeps_rows:
  "keeps_row q (reclaim_row now ma b q)" "keeps_row q (requeue_row now reason b q)" "keeps_row q (cancel_row now msg q)"
  "keeps_row q (submit_row now v rt meta q)" "keeps_row q (update_row now m st v rt d q)" "keeps_row q (grant_lease now d m q)"
  by (simp_all add: keeps_row_def reclaim_row_def requeue_row_def cancel_row_def submit_row_def update_row_def grant_lease_def
      SetResult_def merge_meta_def Let_def split: option.split request_status.split)

definition row_matches :: "pg_codec \<Rightarrow> int \<Rightarrow> chunk_row list \<Rightarrow> (string \<times> request) \<Rightarrow> (string \<times> request_row) \<Rightarrow> bool" where
  "row_matches k B chunks x y \<longleftrightarrow>
     (case (x, y) of ((i, r), (j, c)) \<Rightarrow> i = j \<and> bare k r = bare k (scanRequestRow i c) \<and> c_stream_results c = []
        \<and> on_ticks k r \<and> r_NextStreamSeq r \<le> B
        \<and> (\<exists>log. stream_abs log r \<and> chunk_log i (c_stream_start_seq c) (c_next_stream_seq c) log chunks))"

definition tools_match :: "store \<Rightarrow> pg_db \<Rightarrow> bool" where
  "tools_match s db \<longleftrightarrow> (\<forall>sess m n. m \<noteq> '''' \<longrightarrow> machineProvidesToolLocked sess m n s = machine_owns sess m n db)"

text \<open>\<open>B\<close> bounds the sequence numbers of the streams, \<open>S\<close> are sessions that exist; a chunk belongs to
  a request (the foreign key of the table).\<close>

definition store_matches :: "pg_codec \<Rightarrow> string list \<Rightarrow> int \<Rightarrow> store \<Rightarrow> pg_db \<Rightarrow> bool" where
  "store_matches k S B s db \<longleftrightarrow> gm_wf (st_requests s)
     \<and> list_all2 (row_matches k B (pg_request_chunks db)) (st_requests s) (pg_requests db) \<and> tools_match s db
     \<and> (\<forall>x \<in> set S. session_ref x db) \<and> (\<forall>h \<in> set (pg_request_chunks db). gm_get (pg_requests db) (ch_request_id h) \<noteq> None)"

lemma all2_get:
  assumes "list_all2 (row_matches k B ch) xs ys"
  shows "rel_option (\<lambda>r c. row_matches k B ch (i, r) (i, c)) (gm_get xs i) (gm_get ys i)"
  using assms by (induction rule: list_all2_induct) (auto simp: gm_get_def row_matches_def)

lemma all2_put:
  assumes "list_all2 R xs ys" and "\<And>j r j' c. R (j, r) (j', c) \<Longrightarrow> j = j'" and "distinct (map fst xs)"
    and "\<And>j r c. R (j, r) (j, c) \<Longrightarrow> j \<noteq> i \<Longrightarrow> R' (j, r) (j, c)" and "R' (i, r') (i, c')"
  shows "list_all2 R' (gm_put i r' xs) (gm_put i c' ys)"
  using assms(1,3)
proof (induction rule: list_all2_induct)
  case (Cons x xs y ys)
  obtain j r where x: "x = (j, r)" by (cases x)
  obtain c where y: "y = (j, c)" using Cons.hyps(1) assms(2) x by (cases y) auto
  show ?case
  proof (cases "j = i")
    case True
    have "R' a b" if "a \<in> set xs" "b \<in> set ys" "R a b" for a b
    proof -
      have "fst a \<noteq> i" using that(1) Cons.prems True x by (auto simp: image_iff)
      then show ?thesis using that(3) assms(2,4) by (cases a; cases b) force
    qed
    then have "list_all2 R' xs ys" using Cons.hyps(2) by (auto simp: list_all2_conv_all_nth)
    then show ?thesis using assms(5) True by (simp add: gm_put_def x y)
  next
    case False
    with Cons assms(4) show ?thesis by (auto simp: gm_put_def x y)
  qed
qed (use assms(5) in \<open>simp add: gm_put_def\<close>)

lemma row_matches_mono:
  assumes "row_matches k B ch (j, r) (j, c)" and "B \<le> B'" and "of_request j ch' = of_request j ch"
  shows "row_matches k B' ch' (j, r) (j, c)"
  using assms by (auto simp: row_matches_def chunk_log_def)

lemma match_get:
  assumes "store_matches k S B s db"
  shows "rel_option (\<lambda>r c. row_matches k B (pg_request_chunks db) (i, r) (i, c)) (gm_get (st_requests s) i) (gm_get (pg_requests db) i)"
  using assms by (simp add: store_matches_def all2_get)

lemma match_SomeE:
  assumes "store_matches k S B s db" and "gm_get (st_requests s) i = Some r"
  obtains c where "gm_get (pg_requests db) i = Some c" and "row_matches k B (pg_request_chunks db) (i, r) (i, c)"
    and "bare k r = bare k (scanRequestRow i c)" and "r_ID r = i"
proof -
  obtain c where "gm_get (pg_requests db) i = Some c" "row_matches k B (pg_request_chunks db) (i, r) (i, c)"
    using match_get [OF assms(1), of i] assms(2) by (auto simp: option_rel_Some1)
  moreover from this(2) have "bare k r = bare k (scanRequestRow i c)" by (simp add: row_matches_def)
  moreover from bareD(1) [OF this] have "r_ID r = i" by simp
  ultimately show ?thesis using that by blast
qed

lemma match_None: "store_matches k S B s db \<Longrightarrow> gm_get (st_requests s) i = None \<longleftrightarrow> gm_get (pg_requests db) i = None"
  using match_get [of k S B s db i] by (auto elim: option.rel_cases)

text \<open>One row (and its chunks) written on both sides, or inserted.\<close>

lemma match_put:
  assumes "store_matches k S B s db" and "row_matches k B' ch' (i, r') (i, c')" and "B \<le> B'"
    and "\<forall>j. j \<noteq> i \<longrightarrow> of_request j ch' = of_request j (pg_request_chunks db)"
  shows "store_matches k S B' (upd_request i r' s) (db\<lparr> pg_request_chunks := ch', pg_requests := gm_put i c' (pg_requests db) \<rparr>)"
proof -
  have "list_all2 (row_matches k B' ch') (gm_put i r' (st_requests s)) (gm_put i c' (pg_requests db))"
  proof (rule all2_put)
    show "list_all2 (row_matches k B (pg_request_chunks db)) (st_requests s) (pg_requests db)" "distinct (map fst (st_requests s))"
      using assms(1) by (simp_all add: store_matches_def)
    show "j = j'" if "row_matches k B (pg_request_chunks db) (j, r) (j', c)" for j j' r c using that by (simp add: row_matches_def)
    show "row_matches k B' ch' (j, r) (j, c)" if "row_matches k B (pg_request_chunks db) (j, r) (j, c)" "j \<noteq> i" for j r c
      using that assms(3,4) by (blast intro: row_matches_mono)
  qed (rule assms(2))
  moreover have "gm_get (gm_put i c' (pg_requests db)) (ch_request_id h) \<noteq> None" if h: "h \<in> set ch'" for h
  proof (cases "ch_request_id h = i")
    case False
    then have "of_request (ch_request_id h) (pg_request_chunks db) = of_request (ch_request_id h) ch'" using assms(4) by simp
    moreover have "h \<in> set (of_request (ch_request_id h) ch')" using h by simp
    ultimately have "h \<in> set (of_request (ch_request_id h) (pg_request_chunks db))" by metis
    then have "h \<in> set (pg_request_chunks db)" by simp
    with assms(1) False show ?thesis by (simp add: store_matches_def)
  qed simp
  ultimately show ?thesis
    using assms(1) by (simp add: store_matches_def tools_match_def machine_owns_def machineProvidesToolLocked_def upd_request_def session_ref_def)
qed

lemma match_row:
  assumes "store_matches k S B s db" and "row_matches k B (pg_request_chunks db) (i, r') (i, c')"
  shows "store_matches k S B (upd_request i r' s) (db\<lparr> pg_requests := gm_put i c' (pg_requests db) \<rparr>)"
  using match_put [OF assms] by simp

text \<open>A row rewritten without touching its stream.\<close>

lemma row_matches_keep:
  assumes "row_matches k B ch (i, r) (i, c)" and "keeps_row r r'" and "bare k r' = bare k (scanRequestRow i c')"
    and "c_stream_results c' = []" and "c_stream_start_seq c' = c_stream_start_seq c" and "c_next_stream_seq c' = c_next_stream_seq c"
    and "on_ticks k r'"
  shows "row_matches k B ch (i, r') (i, c')"
  using assms by (auto simp: row_matches_def keeps_row_def stream_abs_def)

lemma on_ticks_cong: "bare k r = bare k q \<Longrightarrow> on_ticks k r = on_ticks k q"
  using bareD [of k r q] by (simp add: on_ticks_def)

lemma persist_match:
  assumes "codec_ok k" and "store_matches k S B s db" and "gm_get (st_requests s) i = Some r" and "gm_get (pg_requests db) i = Some c"
    and "keeps_row r r'" and "keeps_row (scanRequestRow i c) q'" and "bare k r' = bare k q'" and "on_ticks k r'"
  shows "\<exists>db'. persistRequestInTx k q' db = (db', None) \<and> store_matches k S B (upd_request i r' s) db'"
proof -
  let ?c = "(requestRowArgs k q')\<lparr> c_idempotency_key := c_idempotency_key c \<rparr>"
  have rm: "row_matches k B (pg_request_chunks db) (i, r) (i, c)"
    using match_SomeE [OF assms(2,3)] assms(4) by (metis option.inject)
  have id: "r_ID q' = i" and sess: "r_SessionID q' = c_session_id c" and key: "r_IdempotencyKey q' = null_text (c_idempotency_key c)"
    using assms(6) by (simp_all add: keeps_row_def scanRequestRow_def)
  have "persistRequestInTx k q' db = (db\<lparr> pg_requests := gm_put i ?c (pg_requests db) \<rparr>, None)"
    using assms(4) id sess by (simp add: persistRequestInTx_def)
  moreover have "scanRequestRow i ?c = stored_request k q'"
    using key scan_args [of q' k] by (simp add: id scanRequestRow_def requestRowArgs_def stored_request_def)
  then have "bare k r' = bare k (scanRequestRow i ?c)"
    using bare_stored [OF assms(1), of q'] on_ticks_cong [OF assms(7)] assms(7,8) by simp
  then have "row_matches k B (pg_request_chunks db) (i, r') (i, ?c)"
    using rm assms(5,6,8) by (intro row_matches_keep [OF rm]) (auto simp: keeps_row_def requestRowArgs_def row_matches_def)
  then have "store_matches k S B (upd_request i r' s) (db\<lparr> pg_requests := gm_put i ?c (pg_requests db) \<rparr>)"
    by (rule match_row [OF assms(2)])
  ultimately show ?thesis by blast
qed

section \<open>Fenced writes\<close>

lemma bare_next: "r_NextStreamSeq (bare k r) = r_NextStreamSeq r"
  and bare_updated: "r_UpdatedAt (bare k r) = r_UpdatedAt r"
  by (simp_all add: bare_def)

lemma append_bare:
  assumes "1 \<le> r_StreamStartSeq r" and "r_StreamStartSeq r + int (length (r_StreamResults r)) \<le> r_NextStreamSeq r"
    and "r_NextStreamSeq r + int (length cs) \<le> max_int32"
  shows "bare k (AddStreamChunks now cs r) =
    (bare k r)\<lparr> r_NextStreamSeq := r_NextStreamSeq r + int (length cs), r_UpdatedAt := (if cs = [] then r_UpdatedAt r else now) \<rparr>"
  using assms
proof (induction cs arbitrary: r)
  case Nil
  then show ?case by (cases r) (simp add: bare_def)
next
  case (Cons c cs)
  let ?r = "fst (AddStreamChunk now c r)"
  have e: "EnsureStreamSequenceDefaults r = r"
    using Cons.prems by (simp add: EnsureStreamSequenceDefaults_def Let_def wrap32_id)
  then have n: "r_NextStreamSeq ?r = r_NextStreamSeq r + 1"
    "1 \<le> r_StreamStartSeq ?r \<and> r_StreamStartSeq ?r + int (length (r_StreamResults ?r)) \<le> r_NextStreamSeq ?r"
    using Cons.prems trimmed_props(1) [of "r_StreamResults r @ [c]"]
    by (auto simp: AddStreamChunk_def Let_def trimStreamWindow_eq wrap32_id dest!: suffix_length_le)
  have "bare k ?r = (bare k r)\<lparr> r_NextStreamSeq := r_NextStreamSeq r + 1, r_UpdatedAt := now \<rparr>"
    using Cons.prems by (simp add: AddStreamChunk_def e Let_def trimStreamWindow_eq bare_def wrap32_id)
  moreover have "r_UpdatedAt ?r = now" by (simp add: AddStreamChunk_def Let_def trimStreamWindow_eq)
  ultimately show ?case using Cons.IH [of ?r] Cons.prems n by (simp add: add.assoc)
qed

lemma scan_bare_ok:
  assumes "c_stream_results c = []" and "chunk_log i (c_stream_start_seq c) (c_next_stream_seq c) log ch"
  shows "1 \<le> r_StreamStartSeq (scanRequestRow i c)"
    "r_StreamStartSeq (scanRequestRow i c) + int (length (r_StreamResults (scanRequestRow i c))) \<le> r_NextStreamSeq (scanRequestRow i c)"
  using assms by (simp_all add: chunk_log_def)

lemma append_match:
  assumes "ticks_ok k" and "store_matches k S B s db" and "gm_get (st_requests s) i = Some r" and "gm_get (pg_requests db) i = Some c"
    and "tick k now" and "B + int (length cs) \<le> max_int32"
  shows "\<exists>db' q'. append_body k now cs (scanRequestRow i c) None db = (db', Some q', None) \<and> bare k (AddStreamChunks now cs r) = bare k q'
    \<and> store_matches k S (B + int (length cs)) (upd_request i (AddStreamChunks now cs r) s) db'"
proof -
  let ?r = "AddStreamChunks now cs r" and ?q = "scanRequestRow i c"
  let ?q' = "AddStreamChunks now cs ?q"
  have rm: "row_matches k B (pg_request_chunks db) (i, r) (i, c)"
    using match_SomeE [OF assms(2,3)] assms(4) by (metis option.inject)
  then obtain log where log: "stream_abs log r" "chunk_log i (c_stream_start_seq c) (c_next_stream_seq c) log (pg_request_chunks db)"
    and b: "bare k r = bare k ?q" "c_stream_results c = []" "on_ticks k r" "r_NextStreamSeq r \<le> B" by (auto simp: row_matches_def)
  have n: "c_next_stream_seq c = r_NextStreamSeq r" using bareD(15) [OF b(1)] by simp
  have room: "r_NextStreamSeq r + int (length cs) \<le> max_int32" using assms(6) b(4) by simp
  have sl: "1 \<le> r_StreamStartSeq r" "r_StreamStartSeq r + int (length (r_StreamResults r)) \<le> r_NextStreamSeq r"
    using log(1) stream_abs_length [OF log(1)] by (auto simp: stream_abs_def)
  note ba = append_bare [OF sl room, of k now]
  note bq = append_bare [OF scan_bare_ok [OF b(2) log(2)], of cs k now]
  have u: "r_UpdatedAt r = r_UpdatedAt ?q" using bareD(14) [OF b(1)] .
  have eq: "bare k ?r = bare k ?q'" using ba bq b(1) n room u by simp
  obtain start' kept where a: "append_body k now cs ?q None db =
      (db\<lparr> pg_request_chunks := kept, pg_requests := gm_put i (stream_columns k (?q'\<lparr> r_StreamStartSeq := start' \<rparr>) c) (pg_requests db) \<rparr>,
       Some (?q'\<lparr> r_StreamStartSeq := start', r_StreamResults := drop (nat (start' - 1)) (log @ cs) \<rparr>), None)"
    "chunk_log i start' (r_NextStreamSeq ?q') (log @ cs) kept"
    "\<forall>j. j \<noteq> i \<longrightarrow> of_request j kept = of_request j (pg_request_chunks db)"
    using append_log [OF assms(4) b(2) log(2), of cs k now None] room n by auto
  let ?c = "stream_columns k (?q'\<lparr> r_StreamStartSeq := start' \<rparr>) c"
  have "on_ticks k ?r" using b(3) assms(5) by (rule ticks_append)
  moreover have "bare k ?r = bare k (scanRequestRow i ?c)"
  proof -
    have "on_ticks k ?q'" using \<open>on_ticks k ?r\<close> on_ticks_cong [OF eq] by simp
    then have "kc_time k (r_UpdatedAt ?q') = r_UpdatedAt ?q'" by (simp add: on_ticks_def tick_def)
    then have "bare k (scanRequestRow i ?c) = (bare k ?q)\<lparr> r_NextStreamSeq := r_NextStreamSeq ?q', r_UpdatedAt := r_UpdatedAt ?q' \<rparr>"
      by (simp add: bare_def scanRequestRow_def stream_columns_def)
    also have "\<dots> = bare k ?q'"
    proof -
      have "bare k ?q' = (bare k ?q)\<lparr> r_NextStreamSeq := c_next_stream_seq c + int (length cs), r_UpdatedAt := (if cs = [] then r_UpdatedAt ?q else now) \<rparr>"
        using bq n room by simp
      moreover from arg_cong [OF this, of r_NextStreamSeq] arg_cong [OF this, of r_UpdatedAt]
      have "r_NextStreamSeq ?q' = c_next_stream_seq c + int (length cs)" "r_UpdatedAt ?q' = (if cs = [] then r_UpdatedAt ?q else now)"
        by (simp_all add: bare_next bare_updated)
      ultimately show ?thesis by simp
    qed
    finally show ?thesis using eq by simp
  qed
  moreover have "stream_abs (log @ cs) ?r" using log(1) room by (rule AddStreamChunks_abs)
  moreover have "r_NextStreamSeq ?r \<le> B + int (length cs)" using \<open>stream_abs (log @ cs) ?r\<close> log(1) b(4) by (simp add: stream_abs_def)
  ultimately have "row_matches k (B + int (length cs)) kept (i, ?r) (i, ?c)"
    using a(2) b(2) by (auto simp: row_matches_def stream_columns_def)
  from match_put [OF assms(2) this _ a(3)] have "store_matches k S (B + int (length cs)) (upd_request i ?r s)
      (db\<lparr> pg_request_chunks := kept, pg_requests := gm_put i ?c (pg_requests db) \<rparr>)" by simp
  moreover have "bare k ?r = bare k (?q'\<lparr> r_StreamStartSeq := start', r_StreamResults := drop (nat (start' - 1)) (log @ cs) \<rparr>)"
    using eq by (simp add: bare_def)
  ultimately show ?thesis using a(1) by blast
qed

text \<open>The instants of an operation are whole ticks.\<close>

fun ticking_write :: "pg_codec \<Rightarrow> fenced_op \<Rightarrow> bool" where
  "ticking_write k (FRenew now d) \<longleftrightarrow> tick k now \<and> tick k (now + d)"
| "ticking_write k (FSubmit now v rt meta) \<longleftrightarrow> tick k now"
| "ticking_write k (FAppend now cs) \<longleftrightarrow> tick k now"
| "ticking_write k (FUpdate now st v rt d) \<longleftrightarrow> tick k now \<and> tick k (now + d)"
| "ticking_write k (FRequeue now reason b) \<longleftrightarrow> tick k now \<and> tick k (now + b)"

definition write_load :: "fenced_op \<Rightarrow> int" where
  "write_load w = int (op_load (OFenced w '''' '''' '''' 0))"

lemma op_load_write: "int (op_load (OFenced w sess rid m e)) = write_load w"
  by (cases w) (simp_all add: write_load_def)

definition body_agrees :: "pg_codec \<Rightarrow> string list \<Rightarrow> int \<Rightarrow> store \<Rightarrow> string \<Rightarrow> request st_result \<Rightarrow> pg_db \<times> request option \<times> pg_error option \<Rightarrow> bool" where
  "body_agrees k S B s i x y =
     (case x of Inl e \<Rightarrow> snd (snd y) = Some (PgStore e)
      | Inr r' \<Rightarrow> (\<exists>db' q'. y = (db', Some q', None) \<and> bare k r' = bare k q' \<and> store_matches k S B (upd_request i r' s) db'))"

lemma match_mono: "store_matches k S B s db \<Longrightarrow> B \<le> B' \<Longrightarrow> store_matches k S B' s db"
  unfolding store_matches_def by (auto elim!: list_all2_mono simp: row_matches_def)

lemma persist_agrees:
  assumes "codec_ok k" and "store_matches k S B s db" and "gm_get (st_requests s) i = Some r" and "gm_get (pg_requests db) i = Some c"
    and "keeps_row r r'" and "keeps_row (scanRequestRow i c) q'" and "bare k r' = bare k q'" and "on_ticks k r'" and "B \<le> B'"
  shows "body_agrees k S B' s i (Inr r') (persist_tx k q' None db)"
  using persist_match [OF assms(1-8)] assms(7,9) by (auto simp: body_agrees_def persist_tx_def intro: match_mono)

lemma renew_agrees:
  assumes "ticks_ok k" and "store_matches k S B s db" and "gm_get (st_requests s) i = Some r" and "gm_get (pg_requests db) i = Some c"
    and "tick k now" and "tick k (now + d)" and "renew_row now d r = Inr r'"
  shows "\<exists>q'. renew_row now d (scanRequestRow i c) = Inr q' \<and> bare k r' = bare k q' \<and> store_matches k S B (upd_request i r' s)
     (upd_row i (\<lambda>c. c\<lparr> c_visible_at := kc_time k (r_VisibleAt q'), c_updated_at := kc_time k now \<rparr>) db)"
proof -
  have rm: "row_matches k B (pg_request_chunks db) (i, r) (i, c)"
    using match_SomeE [OF assms(2,3)] assms(4) by (metis option.inject)
  then have b: "bare k r = bare k (scanRequestRow i c)" and "on_ticks k r" "c_stream_results c = []" by (auto simp: row_matches_def)
  have t: "on_ticks k r'" using ticks_renew [OF assms(1) \<open>on_ticks k r\<close> assms(5,6,7)] .
  obtain q' where q: "renew_row now d (scanRequestRow i c) = Inr q'" "bare k r' = bare k q'" "r_VisibleAt q' = r_VisibleAt r'"
    using bare_renew [OF b, of now d] assms(7) by auto
  let ?c = "c\<lparr> c_visible_at := kc_time k (r_VisibleAt q'), c_updated_at := kc_time k now \<rparr>"
  have "q' = (scanRequestRow i c)\<lparr> r_VisibleAt := r_VisibleAt q', r_UpdatedAt := now \<rparr>"
    using q(1) by (auto simp: renew_row_def Let_def split: if_splits)
  moreover have "kc_time k (r_VisibleAt q') = r_VisibleAt q'" "kc_time k now = now" using t q(3) assms(5) by (simp_all add: on_ticks_def tick_def)
  ultimately have "scanRequestRow i ?c = q'" by (simp add: scanRequestRow_def)
  moreover have "keeps_row r r'" using assms(7) by (auto simp: keeps_row_def renew_row_def Let_def split: if_splits)
  ultimately have "row_matches k B (pg_request_chunks db) (i, r') (i, ?c)"
    using q(2) t \<open>c_stream_results c = []\<close> by (intro row_matches_keep [OF rm]) simp_all
  from match_row [OF assms(2) this] q assms(4) show ?thesis by (simp add: upd_row_def)
qed

lemma body_match:
  assumes "ticks_ok k" and "store_matches k S B s db" and "gm_get (st_requests s) i = Some r" and "gm_get (pg_requests db) i = Some c"
    and "ticking_write k w" and "B + write_load w \<le> max_int32"
  shows "body_agrees k S (B + write_load w) s i (fenced_effect w m r) (pg_body k w m (scanRequestRow i c) None db)"
proof -
  let ?q = "scanRequestRow i c"
  have rm: "row_matches k B (pg_request_chunks db) (i, r) (i, c)"
    using match_SomeE [OF assms(2,3)] assms(4) by (metis option.inject)
  then obtain log where log: "chunk_log i (c_stream_start_seq c) (c_next_stream_seq c) log (pg_request_chunks db)"
    and b: "bare k r = bare k ?q" "on_ticks k r" "c_stream_results c = []" by (auto simp: row_matches_def)
  have st: "c_status c = r_Status r" using bareD(4) [OF b(1)] by simp
  have ck: "codec_ok k" using assms(1) by (simp add: ticks_ok_def)
  note pa = persist_agrees [OF ck assms(2,3,4)]
  show ?thesis
  proof (cases w)
    case (FRenew now d)
    show ?thesis
    proof (cases "renew_row now d r")
      case (Inl e)
      then have "renew_row now d ?q = Inl e" using bare_renew [OF b(1), of now d] by simp
      with Inl FRenew st show ?thesis by (simp add: body_agrees_def)
    next
      case (Inr r')
      with renew_agrees [OF assms(1-4) _ _ Inr] FRenew assms(5) st show ?thesis by (auto simp: body_agrees_def write_load_def)
    qed
  next
    case (FSubmit now v rt meta)
    show ?thesis
    proof (cases "r_Status r = Done \<or> r_Status r = Failed")
      case True
      have same: "store_matches k S (B + 1) (upd_request i r s) db" using assms(2,3) by (simp add: upd_request_id match_mono)
      have app: "submit_body k now (VString str) ResultTypeStreaming meta ?q None db = append_body k now [str] ?q None db" for str
        using scan_bare_ok [OF b(3) log] True st log
        by (auto simp: submit_body_def append_body_def AddStreamChunk_def EnsureStreamSequenceDefaults_def Let_def wrap32_id chunk_log_def split: sum.split)
      show ?thesis
      proof (cases "\<exists>str. v = VString str \<and> rt = ResultTypeStreaming")
        case t: True
        then obtain str where "v = VString str" "rt = ResultTypeStreaming" by blast
        moreover have "\<exists>db' q'. append_body k now [str] ?q None db = (db', Some q', None) \<and> bare k (AddStreamChunks now [str] r) = bare k q'
            \<and> store_matches k S (B + 1) (upd_request i (AddStreamChunks now [str] r) s) db'"
          using append_match [OF assms(1-4), of now "[str]"] assms(5,6) FSubmit by (simp add: write_load_def)
        ultimately show ?thesis using FSubmit True app [of str] by (auto simp: body_agrees_def write_load_def)
      next
        case False
        with same FSubmit True st b(1) show ?thesis
          by (cases v) (auto simp: body_agrees_def submit_body_def write_load_def)
      qed
    next
      case False
      then show ?thesis
        using FSubmit st assms(5) pa [OF keeps_rows(4) keeps_rows(4) bare_submit [OF b(1)] ticks_submit [OF b(2)]]
        by (simp add: submit_body_def write_load_def)
    qed
  next
    case (FAppend now cs)
    then show ?thesis using append_match [OF assms(1-4), of now cs] assms(5,6) by (simp add: body_agrees_def write_load_def)
  next
    case (FUpdate now s' v rt d)
    then show ?thesis
      using st assms(5) pa [OF keeps_rows(5) keeps_rows(5) bare_update [OF b(1)] ticks_update [OF b(2)]]
      by (simp add: update_body_def write_load_def body_agrees_def)
  next
    case (FRequeue now reason ba)
    then show ?thesis
      using assms(5) pa [OF keeps_rows(2) keeps_rows(2) bare_requeue [OF b(1)] ticks_requeue [OF b(2)]] by (simp add: write_load_def)
  qed
qed
section \<open>Scans of the request table\<close>

lemma all2_insort:
  "list_all2 R xs ys \<Longrightarrow> R x y \<Longrightarrow> (\<And>a b. R a b \<Longrightarrow> f a = g b) \<Longrightarrow> list_all2 R (insort_key f x xs) (insort_key g y ys)"
  by (induction rule: list_all2_induct) auto

lemma all2_sort: "list_all2 R xs ys \<Longrightarrow> (\<And>a b. R a b \<Longrightarrow> f a = g b) \<Longrightarrow> list_all2 R (sort_key f xs) (sort_key g ys)"
  by (induction rule: list_all2_induct) (auto intro: all2_insort)

lemma all2_filter: "list_all2 R xs ys \<Longrightarrow> (\<And>a b. R a b \<Longrightarrow> P a = Q b) \<Longrightarrow> list_all2 R (filter P xs) (filter Q ys)"
  by (induction rule: list_all2_induct) auto

lemma hd_insort: "hd (insort_key f x xs) = (if xs = [] \<or> f x \<le> f (hd xs) then x else hd xs)"
  by (cases xs) auto

lemma pick_oldest_sort: "pick_oldest P (Some p) rs = Some (hd (sort_key r_CreatedAt (p # filter P rs)))"
proof (induction rs arbitrary: p)
  case (Cons r rs)
  have "hd (insort_key r_CreatedAt r []) = r" for r by simp
  show ?case using Cons [of p] Cons [of r] by (auto simp: hd_insort insort_not_Nil)
qed simp

lemma pick_oldest_first:
  "pick_oldest P None rs = (case sort_key r_CreatedAt (filter P rs) of [] \<Rightarrow> None | r # _ \<Rightarrow> Some r)"
proof (induction rs)
  case (Cons r rs)
  show ?case
  proof (cases "P r")
    case True
    moreover obtain y ys where "sort_key r_CreatedAt (r # filter P rs) = y # ys" by (metis list.exhaust sort_key_simps(2) insort_not_Nil)
    ultimately show ?thesis by (simp only: pick_oldest.simps pick_oldest_sort filter.simps if_True if_False simp_thms option.case list.case list.sel)
  qed (use Cons in simp)
qed simp

text \<open>A request and the row of its own key.\<close>

definition val_matches :: "pg_codec \<Rightarrow> int \<Rightarrow> chunk_row list \<Rightarrow> request \<Rightarrow> (string \<times> request_row) \<Rightarrow> bool" where
  "val_matches k B ch r y \<longleftrightarrow> row_matches k B ch (fst y, r) y"

lemma match_vals:
  assumes "store_matches k S B s db"
  shows "list_all2 (val_matches k B (pg_request_chunks db)) (gm_vals (st_requests s)) (pg_requests db)"
proof -
  have "list_all2 (row_matches k B (pg_request_chunks db)) (st_requests s) (pg_requests db)" using assms by (simp add: store_matches_def)
  then show ?thesis
    by (auto simp: gm_vals_def list_all2_map1 val_matches_def row_matches_def elim!: list_all2_mono)
qed

lemma val_bare: "val_matches k B ch r (i, c) \<Longrightarrow> bare k r = bare k (scanRequestRow i c)"
  by (simp add: val_matches_def row_matches_def)

lemma owned_tools_iff: "n \<in> set (owned_tools sess m s) \<longleftrightarrow> m \<noteq> '''' \<and> machineProvidesToolLocked sess m n s"
  by (auto simp: owned_tools_def machineProvidesToolLocked_def list_ex_iff)

lemma eligible_leasable:
  assumes "val_matches k B ch r (i, c)" and "tools_match s db" and "m \<noteq> ''''" and "0 \<le> now"
  shows "lease_eligible now sess (owned_tools sess m s) names r = leasable now sess m names db c"
proof -
  note f = bareD [OF val_bare [OF assms(1)]]
  show ?thesis
    using assms(2-4) f
    by (auto simp: lease_eligible_def leasable_def owned_tools_iff tools_match_def attempts_exhausted_def backoff_pending_def
        scanRequestRow_def)
qed

end
