(* ===== verification/Pg_Registry.thy ===== *)
theory Pg_Registry
  imports Pg_Requests
begin

text \<open>
  The rest of the PostgreSQL store: \<open>storage/machines.go\<close>, \<open>storage/tools.go\<close>,
  \<open>storage/tasks.go\<close>, \<open>storage/sessions.go\<close> and the audit trail.  The constraints of the schema
  are part of the statements: foreign keys to the session, unique tool names and idempotency
  keys, and the cascade of a deleted session.
\<close>

definition sql_update :: "(string \<Rightarrow> 'r \<Rightarrow> bool) \<Rightarrow> ('r \<Rightarrow> 'r) \<Rightarrow> 'r gomap \<Rightarrow> 'r gomap" where
  "sql_update P f t = map (\<lambda>(i, c). (i, if P i c then f c else c)) t"

definition sql_limit :: "int \<Rightarrow> 'a list \<Rightarrow> 'a list" where
  "sql_limit limit rows = (if limit > 0 then take (nat limit) rows else rows)"

section \<open>Machines\<close>

definition scan_machines :: "(string \<times> machine_row) list \<Rightarrow> machine list" where
  "scan_machines rows = map (\<lambda>(i, c). scan_machine i c) rows"

definition pg_AllMachines :: "pg_db \<Rightarrow> machine list" where
  "pg_AllMachines db = scan_machines (pg_machines db)"

definition pg_ListMachinesBySession :: "string \<Rightarrow> pg_db \<Rightarrow> machine list" where
  "pg_ListMachinesBySession sessionID db = scan_machines (filter (\<lambda>(i, c). mc_session_id c = sessionID) (pg_machines db))"

definition pg_GetMachine :: "string \<Rightarrow> pg_db \<Rightarrow> machine option" where
  "pg_GetMachine machineID db = map_option (scan_machine machineID) (gm_get (pg_machines db) machineID)"

text \<open>On a conflict the age, a bound credential and the drain flag of the row stay.\<close>

definition pg_SaveMachine :: "pg_codec \<Rightarrow> machine \<Rightarrow> pg_db \<Rightarrow> pg_db \<times> unit pg_result" where
  "pg_SaveMachine k machine db =
     (if \<not> session_ref (m_SessionID machine) db then (db, Inl PgForeignKeyViolation)
      else let new = machine_args k machine;
               row = (case gm_get (pg_machines db) (m_ID machine) of
                        None \<Rightarrow> new
                      | Some old \<Rightarrow> new\<lparr> mc_created_at := mc_created_at old,
                          mc_token_hash := (if null_text (mc_token_hash old) = '''' then mc_token_hash new else mc_token_hash old),
                          mc_draining := mc_draining old \<rparr>)
           in (db\<lparr> pg_machines := gm_put (m_ID machine) row (pg_machines db) \<rparr>, Inr ()))"

definition pg_DeleteMachine :: "string \<Rightarrow> pg_db \<Rightarrow> pg_db" where
  "pg_DeleteMachine machineID db = db\<lparr> pg_machines := gm_del machineID (pg_machines db) \<rparr>"

definition pg_TouchMachineLastPing :: "pg_codec \<Rightarrow> string \<Rightarrow> string \<Rightarrow> time \<Rightarrow> pg_db \<Rightarrow> pg_db" where
  "pg_TouchMachineLastPing k sessionID machineID seen db =
     db\<lparr> pg_machines := sql_update (\<lambda>i c. i = machineID \<and> mc_session_id c = sessionID)
           (\<lambda>c. c\<lparr> mc_last_ping_at := kc_time k seen \<rparr>) (pg_machines db) \<rparr>"

definition pg_BindMachineToken :: "string \<Rightarrow> string \<Rightarrow> pg_db \<Rightarrow> pg_db \<times> bool" where
  "pg_BindMachineToken machineID tokenHash db =
     (let free = (\<lambda>i c. i = machineID \<and> null_text (mc_token_hash c) = '''')
      in (db\<lparr> pg_machines := sql_update free (\<lambda>c. c\<lparr> mc_token_hash := nullString tokenHash \<rparr>) (pg_machines db) \<rparr>,
          list_ex (\<lambda>(i, c). free i c) (pg_machines db)))"

definition pg_ListStaleMachines :: "pg_codec \<Rightarrow> time \<Rightarrow> int \<Rightarrow> pg_db \<Rightarrow> machine list" where
  "pg_ListStaleMachines k cutoff limit db =
     scan_machines (sql_limit limit (sort_key (\<lambda>(i, c). mc_last_ping_at c)
       (filter (\<lambda>(i, c). mc_last_ping_at c < kc_time k cutoff) (pg_machines db))))"

text \<open>The captured variables are the collected updates and the session of the machine.\<close>

definition errMachineFresh :: pg_error where "errMachineFresh = PgFailed ''storage: machine heartbeat still valid''"

definition reclaim_machine_tx :: "string \<Rightarrow> time \<Rightarrow> (tool_update list \<times> string) tx_body" where
  "reclaim_machine_tx machineID cutoff c db =
     (case gm_get (pg_machines db) machineID of
        None \<Rightarrow> (db, c, Some ErrNoRows)
      | Some m \<Rightarrow>
          if \<not> mc_last_ping_at m < cutoff then (db, c, Some errMachineFresh)
          else let owned = (\<lambda>i t. tc_machine_id t = Some machineID);
                   updates = map (\<lambda>(i, t). \<lparr> tu_ToolID = i, tu_SessionID = tc_session_id t \<rparr>)
                               (filter (\<lambda>(i, t). owned i t) (pg_tools db))
               in (db\<lparr> pg_tools := sql_update owned (\<lambda>t. t\<lparr> tc_machine_id := None \<rparr>) (pg_tools db),
                       pg_machines := gm_del machineID (pg_machines db) \<rparr>,
                   (fst c @ updates, mc_session_id m), None))"

definition pg_ReclaimMachine ::
  "tx_fate list \<Rightarrow> string \<Rightarrow> time \<Rightarrow> pg_db \<Rightarrow> pg_db \<times> (string \<times> tool_update list) option pg_result" where
  "pg_ReclaimMachine fates machineID cutoff db =
     (case withSerializableTx 0 fates (reclaim_machine_tx machineID cutoff) ([], '''') db of
        (db1, _, Some e) \<Rightarrow> (db1, if e = ErrNoRows \<or> e = errMachineFresh then Inr None else Inl e)
      | (db1, (updates, sessionID), None) \<Rightarrow> (db1, Inr (Some (sessionID, updates))))"

definition pg_SetMachineDraining :: "string \<Rightarrow> string \<Rightarrow> pg_db \<Rightarrow> pg_db" where
  "pg_SetMachineDraining sessionID machineID db =
     db\<lparr> pg_machines := sql_update (\<lambda>i c. i = machineID \<and> mc_session_id c = sessionID) (\<lambda>c. c\<lparr> mc_draining := True \<rparr>) (pg_machines db) \<rparr>"

definition pg_ClearMachineDraining :: "string \<Rightarrow> pg_db \<Rightarrow> pg_db" where
  "pg_ClearMachineDraining machineID db =
     db\<lparr> pg_machines := sql_update (\<lambda>i c. i = machineID) (\<lambda>c. c\<lparr> mc_draining := False \<rparr>) (pg_machines db) \<rparr>"

definition pg_IsMachineDraining :: "string \<Rightarrow> pg_db \<Rightarrow> bool" where
  "pg_IsMachineDraining machineID db = (case gm_get (pg_machines db) machineID of None \<Rightarrow> False | Some c \<Rightarrow> mc_draining c)"

section \<open>Tools\<close>

definition scanToolRows :: "(string \<times> tool_row) list \<Rightarrow> tool list" where
  "scanToolRows rows = map (\<lambda>(i, c). scan_tool i c) rows"

definition pg_AllTools :: "pg_db \<Rightarrow> tool list" where
  "pg_AllTools db = scanToolRows (pg_tools db)"

definition pg_GetToolByName :: "string \<Rightarrow> string \<Rightarrow> pg_db \<Rightarrow> tool option" where
  "pg_GetToolByName sessionID name db =
     (case scanToolRows (filter (\<lambda>(i, c). tc_session_id c = sessionID \<and> tc_name c = name) (pg_tools db)) of
        [] \<Rightarrow> None | t # _ \<Rightarrow> Some t)"

definition pg_ListToolsBySession :: "string \<Rightarrow> pg_db \<Rightarrow> tool list" where
  "pg_ListToolsBySession sessionID db = scanToolRows (filter (\<lambda>(i, c). tc_session_id c = sessionID) (pg_tools db))"

text \<open>\<open>UNIQUE (session_id, name)\<close>.\<close>

definition tool_name_taken :: "string \<Rightarrow> tool_row \<Rightarrow> pg_db \<Rightarrow> bool" where
  "tool_name_taken tid row db =
     list_ex (\<lambda>(i, c). i \<noteq> tid \<and> tc_session_id c = tc_session_id row \<and> tc_name c = tc_name row) (pg_tools db)"

definition pg_SaveTool :: "pg_codec \<Rightarrow> tool \<Rightarrow> pg_db \<Rightarrow> pg_db \<times> unit pg_result" where
  "pg_SaveTool k tool db =
     (let row = tool_args k tool
      in if tool_name_taken (tl_ID tool) row db then (db, Inl PgUniqueViolation)
         else if \<not> session_ref (tl_SessionID tool) db then (db, Inl PgForeignKeyViolation)
         else (db\<lparr> pg_tools := gm_put (tl_ID tool) row (pg_tools db) \<rparr>, Inr ()))"

definition pg_DeleteTool :: "string \<Rightarrow> pg_db \<Rightarrow> pg_db" where
  "pg_DeleteTool toolID db = db\<lparr> pg_tools := gm_del toolID (pg_tools db) \<rparr>"

definition pg_DeleteToolsByMachine :: "string \<Rightarrow> pg_db \<Rightarrow> pg_db \<times> tool_update list" where
  "pg_DeleteToolsByMachine machineID db =
     (db\<lparr> pg_tools := filter (\<lambda>(i, c). tc_machine_id c \<noteq> Some machineID) (pg_tools db) \<rparr>,
      map (\<lambda>(i, c). \<lparr> tu_ToolID = i, tu_SessionID = tc_session_id c \<rparr>)
        (filter (\<lambda>(i, c). tc_machine_id c = Some machineID) (pg_tools db)))"

text \<open>The columns a takeover sets, and the tool the claim reports.\<close>

definition takeover_columns :: "pg_codec \<Rightarrow> tool \<Rightarrow> time \<Rightarrow> tool_row \<Rightarrow> tool_row" where
  "takeover_columns k tool lastPingAt c =
     c\<lparr> tc_machine_id := Some (tl_MachineID tool), tc_description := nullString (tl_Description tool), tc_schema := tl_Schema tool,
        tc_config := kc_object k (tl_Config tool), tc_tags := tl_Tags tool, tc_last_ping_at := kc_time k lastPingAt \<rparr>"

definition owner_alive :: "time \<Rightarrow> string \<Rightarrow> pg_db \<Rightarrow> bool" where
  "owner_alive staleCutoff machineID db =
     (case gm_get (pg_machines db) machineID of None \<Rightarrow> False | Some m \<Rightarrow> \<not> mc_last_ping_at m < staleCutoff)"

text \<open>The captured variables: the tool and the owner it replaces.\<close>

definition claim_tool_tx :: "pg_codec \<Rightarrow> time \<Rightarrow> tool \<Rightarrow> time \<Rightarrow> (tool option \<times> string) tx_body" where
  "claim_tool_tx k now tool staleCutoff c db =
     (case gm_get (pg_machines db) (tl_MachineID tool) of
        None \<Rightarrow> (db, c, Some (PgFailed ''claim tool: machine not registered''))
      | Some m \<Rightarrow>
          if mc_session_id m \<noteq> tl_SessionID tool then (db, c, Some (PgFailed ''claim tool: machine not registered''))
          else if mc_last_ping_at m < staleCutoff then (db, c, Some (PgFailed ''claim tool: machine heartbeat expired''))
          else let createdAt = (if tl_CreatedAt tool = zero_time then now else tl_CreatedAt tool);
                   lastPingAt = (if tl_LastPingAt tool = zero_time then createdAt else tl_LastPingAt tool)
               in case List.find (\<lambda>(i, t). tc_session_id t = tl_SessionID tool \<and> tc_name t = tl_Name tool) (pg_tools db) of
                    Some (tid, old) \<Rightarrow>
                      (let prior = null_text (tc_machine_id old);
                           other = (tc_machine_id old \<noteq> None \<and> prior \<noteq> tl_MachineID tool)
                       in if other \<and> owner_alive staleCutoff prior db then (db, c, Some (PgStore StErrToolOwnershipConflict))
                          else (db\<lparr> pg_tools := gm_put tid (takeover_columns k tool lastPingAt old) (pg_tools db) \<rparr>,
                                (Some (tool\<lparr> tl_ID := tid, tl_CreatedAt := tc_created_at old, tl_LastPingAt := lastPingAt \<rparr>),
                                 if other then prior else snd c), None))
                  | None \<Rightarrow>
                      (let row = (tool_args k tool)\<lparr> tc_created_at := kc_time k createdAt, tc_last_ping_at := kc_time k lastPingAt \<rparr>
                       in if gm_get (pg_tools db) (tl_ID tool) \<noteq> None then (db, c, Some PgUniqueViolation)
                          else if \<not> session_ref (tl_SessionID tool) db then (db, c, Some PgForeignKeyViolation)
                          else (db\<lparr> pg_tools := gm_put (tl_ID tool) row (pg_tools db) \<rparr>,
                                (Some (tool\<lparr> tl_CreatedAt := createdAt, tl_LastPingAt := lastPingAt \<rparr>), snd c), None)))"

definition pg_ClaimToolOwnership ::
  "pg_codec \<Rightarrow> tx_fate list \<Rightarrow> time \<Rightarrow> tool \<Rightarrow> time \<Rightarrow> pg_db \<Rightarrow> pg_db \<times> string \<times> tool pg_result" where
  "pg_ClaimToolOwnership k fates now tool staleCutoff db =
     (case withSerializableTx 0 fates (claim_tool_tx k now tool staleCutoff) (None, '''') db of
        (db1, (_, replaced), Some e) \<Rightarrow> (db1, replaced, Inl e)
      | (db1, (None, replaced), None) \<Rightarrow> (db1, replaced, Inl (PgFailed ''claim tool: no tool returned''))
      | (db1, (Some t, replaced), None) \<Rightarrow> (db1, replaced, Inr t))"

section \<open>Tasks\<close>

definition scan_tasks :: "(string \<times> task_row) list \<Rightarrow> task list" where
  "scan_tasks rows = map (\<lambda>(i, c). scanTaskRow i c) rows"

definition row_terminal :: "task_row \<Rightarrow> bool" where
  "row_terminal c \<longleftrightarrow> kt_status c = TCompleted \<or> kt_status c = TFailed \<or> kt_status c = TCancelled"

definition pg_AllTasks :: "pg_db \<Rightarrow> task list" where
  "pg_AllTasks db = scan_tasks (pg_tasks db)"

definition pg_GetTaskByID :: "string \<Rightarrow> pg_db \<Rightarrow> task option" where
  "pg_GetTaskByID taskID db = map_option (scanTaskRow taskID) (gm_get (pg_tasks db) taskID)"

definition pg_ListTasksBySession :: "string \<Rightarrow> pg_db \<Rightarrow> task list" where
  "pg_ListTasksBySession sessionID db = scan_tasks (filter (\<lambda>(i, c). kt_session_id c = sessionID) (pg_tasks db))"

definition pg_GetTaskByIdempotencyKey :: "string \<Rightarrow> string \<Rightarrow> pg_db \<Rightarrow> task option" where
  "pg_GetTaskByIdempotencyKey sessionID idempotencyKey db =
     (if idempotencyKey = '''' then None
      else map_option (\<lambda>(i, c). scanTaskRow i c)
             (List.find (\<lambda>(i, c). kt_session_id c = sessionID \<and> kt_idempotency_key c = Some idempotencyKey) (pg_tasks db)))"

definition task_key_taken :: "string \<Rightarrow> task_row \<Rightarrow> pg_db \<Rightarrow> bool" where
  "task_key_taken tid row db \<longleftrightarrow> null_text (kt_idempotency_key row) \<noteq> ''''
     \<and> list_ex (\<lambda>(i, c). i \<noteq> tid \<and> kt_session_id c = kt_session_id row \<and> kt_idempotency_key c = kt_idempotency_key row) (pg_tasks db)"

text \<open>A terminal row is not overwritten; the statement does not name the adoption.\<close>

definition pg_SaveTask :: "pg_codec \<Rightarrow> task \<Rightarrow> pg_db \<Rightarrow> pg_db \<times> unit pg_result" where
  "pg_SaveTask k task db =
     (let row = task_args k task
      in case gm_get (pg_tasks db) (tk_ID task) of
           Some old \<Rightarrow>
             if row_terminal old then (db, Inr ())
             else if task_key_taken (tk_ID task) row db then (db, Inl PgUniqueViolation)
             else if \<not> session_ref (tk_SessionID task) db then (db, Inl PgForeignKeyViolation)
             else (db\<lparr> pg_tasks := gm_put (tk_ID task) (row\<lparr> kt_adopted_by := kt_adopted_by old \<rparr>) (pg_tasks db) \<rparr>, Inr ())
         | None \<Rightarrow>
             if task_key_taken (tk_ID task) row db then (db, Inl PgUniqueViolation)
             else if \<not> session_ref (tk_SessionID task) db then (db, Inl PgForeignKeyViolation)
             else (db\<lparr> pg_tasks := gm_put (tk_ID task) row (pg_tasks db) \<rparr>, Inr ()))"

definition pg_DeleteTask :: "string \<Rightarrow> pg_db \<Rightarrow> pg_db" where
  "pg_DeleteTask taskID db = db\<lparr> pg_tasks := gm_del taskID (pg_tasks db) \<rparr>"

definition pg_FindNonTerminalTasks :: "pg_db \<Rightarrow> task list" where
  "pg_FindNonTerminalTasks db = scan_tasks (filter (\<lambda>(i, c). \<not> row_terminal c \<and> \<not> kt_dead_letter c) (pg_tasks db))"

definition pg_FindAdoptableTasks :: "pg_codec \<Rightarrow> time \<Rightarrow> duration \<Rightarrow> int \<Rightarrow> pg_db \<Rightarrow> task list" where
  "pg_FindAdoptableTasks k now leaseTTL limit0 db =
     (let limit = (if limit0 \<le> 0 then 32 else limit0);
          due = (\<lambda>c. case kt_next_attempt_at c of None \<Rightarrow> True | Some t \<Rightarrow> t \<le> kc_time k now);
          free = (\<lambda>c. null_text (kt_adopted_by c) = '''' \<or> kt_updated_at c \<le> kc_time k (now - leaseTTL));
          key = (\<lambda>c. case kt_next_attempt_at c of None \<Rightarrow> kt_created_at c | Some t \<Rightarrow> t)
      in scan_tasks (take (nat limit) (sort_key (\<lambda>(i, c). key c)
           (filter (\<lambda>(i, c). \<not> row_terminal c \<and> \<not> kt_dead_letter c \<and> due c \<and> free c) (pg_tasks db)))))"

definition adopt_tx :: "pg_codec \<Rightarrow> time \<Rightarrow> string \<Rightarrow> string \<Rightarrow> duration \<Rightarrow> task option tx_body" where
  "adopt_tx k now taskID instanceID leaseTTL claimed db =
     (case gm_get (pg_tasks db) taskID of
        None \<Rightarrow> (db, claimed, Some ErrNoRows)
      | Some c \<Rightarrow>
          if kt_dead_letter c \<or> row_terminal c then (db, claimed, None)
          else if null_text (kt_adopted_by c) \<noteq> '''' \<and> kt_updated_at c > now - leaseTTL then (db, claimed, None)
          else let c1 = c\<lparr> kt_adopted_by := Some instanceID, kt_updated_at := kc_time k now \<rparr>
               in (db\<lparr> pg_tasks := gm_put taskID c1 (pg_tasks db) \<rparr>, Some (scanTaskRow taskID c1), None))"

definition pg_ClaimTaskForAdoption ::
  "pg_codec \<Rightarrow> tx_fate list \<Rightarrow> time \<Rightarrow> string \<Rightarrow> string \<Rightarrow> duration \<Rightarrow> pg_db \<Rightarrow> pg_db \<times> task option pg_result" where
  "pg_ClaimTaskForAdoption k fates now taskID instanceID leaseTTL db =
     (case withSerializableTx 0 fates (adopt_tx k now taskID instanceID leaseTTL) None db of
        (db1, claimed, Some e) \<Rightarrow> (db1, if e = ErrNoRows then Inr None else Inl e)
      | (db1, claimed, None) \<Rightarrow> (db1, Inr claimed))"

definition pg_RenewTaskAdoption :: "pg_codec \<Rightarrow> time \<Rightarrow> string \<Rightarrow> string \<Rightarrow> pg_db \<Rightarrow> pg_db \<times> bool" where
  "pg_RenewTaskAdoption k now taskID instanceID db =
     (let mine = (\<lambda>i c. i = taskID \<and> kt_adopted_by c = Some instanceID)
      in (db\<lparr> pg_tasks := sql_update mine (\<lambda>c. c\<lparr> kt_updated_at := kc_time k now \<rparr>) (pg_tasks db) \<rparr>,
          list_ex (\<lambda>(i, c). mine i c) (pg_tasks db)))"

definition pg_ReleaseTaskAdoption :: "pg_codec \<Rightarrow> time \<Rightarrow> string \<Rightarrow> string \<Rightarrow> pg_db \<Rightarrow> pg_db" where
  "pg_ReleaseTaskAdoption k now taskID instanceID db =
     db\<lparr> pg_tasks := sql_update (\<lambda>i c. i = taskID \<and> kt_adopted_by c = Some instanceID)
           (\<lambda>c. c\<lparr> kt_adopted_by := Some '''', kt_updated_at := kc_time k now \<rparr>) (pg_tasks db) \<rparr>"

section \<open>Sessions and keys\<close>

definition pg_AllSessions :: "pg_db \<Rightarrow> session list" where
  "pg_AllSessions db = map (\<lambda>(i, c). scanSessionRow i c) (pg_sessions db)"

definition pg_GetSession :: "string \<Rightarrow> pg_db \<Rightarrow> session option" where
  "pg_GetSession sessionID db = map_option (scanSessionRow sessionID) (gm_get (pg_sessions db) sessionID)"

definition pg_SaveSession :: "pg_codec \<Rightarrow> session \<Rightarrow> pg_db \<Rightarrow> pg_db" where
  "pg_SaveSession k session db = db\<lparr> pg_sessions := gm_put (ss_ID session) (session_args k session) (pg_sessions db) \<rparr>"

definition pg_InsertSessionIfAbsent :: "pg_codec \<Rightarrow> session \<Rightarrow> pg_db \<Rightarrow> pg_db \<times> bool" where
  "pg_InsertSessionIfAbsent k session db =
     (if session_ref (ss_ID session) db then (db, False)
      else (db\<lparr> pg_sessions := gm_put (ss_ID session) (session_args k session) (pg_sessions db) \<rparr>, True))"

text \<open>Every table that refers to the session loses its rows, and the chunks go with their requests.\<close>

definition pg_DeleteSession :: "string \<Rightarrow> pg_db \<Rightarrow> pg_db" where
  "pg_DeleteSession sessionID db =
     (let gone = map fst (filter (\<lambda>(i, c). c_session_id c = sessionID) (pg_requests db))
      in db\<lparr> pg_sessions := gm_del sessionID (pg_sessions db),
             pg_api_keys := filter (\<lambda>(i, c). ac_session_id c \<noteq> sessionID) (pg_api_keys db),
             pg_machines := filter (\<lambda>(i, c). mc_session_id c \<noteq> sessionID) (pg_machines db),
             pg_tools := filter (\<lambda>(i, c). tc_session_id c \<noteq> sessionID) (pg_tools db),
             pg_requests := filter (\<lambda>(i, c). c_session_id c \<noteq> sessionID) (pg_requests db),
             pg_tasks := filter (\<lambda>(i, c). kt_session_id c \<noteq> sessionID) (pg_tasks db),
             pg_user_sessions := filter (\<lambda>(u, s). s \<noteq> sessionID) (pg_user_sessions db),
             pg_request_chunks := filter (\<lambda>c. ch_request_id c \<notin> set gone) (pg_request_chunks db) \<rparr>)"

definition pg_AllUserSessions :: "pg_db \<Rightarrow> string list gomap" where
  "pg_AllUserSessions db =
     foldl (\<lambda>m (u, s). gm_put u ((case gm_get m u of None \<Rightarrow> [] | Some ss \<Rightarrow> ss) @ [s]) m) [] (pg_user_sessions db)"

definition pg_AddUserSession :: "string \<Rightarrow> string \<Rightarrow> pg_db \<Rightarrow> pg_db \<times> unit pg_result" where
  "pg_AddUserSession userID sessionID db =
     (if (userID, sessionID) \<in> set (pg_user_sessions db) then (db, Inr ())
      else if \<not> session_ref sessionID db then (db, Inl PgForeignKeyViolation)
      else (db\<lparr> pg_user_sessions := pg_user_sessions db @ [(userID, sessionID)] \<rparr>, Inr ()))"

definition pg_RemoveUserSession :: "string \<Rightarrow> string \<Rightarrow> pg_db \<Rightarrow> pg_db" where
  "pg_RemoveUserSession userID sessionID db =
     db\<lparr> pg_user_sessions := filter (\<lambda>us. us \<noteq> (userID, sessionID)) (pg_user_sessions db) \<rparr>"

text \<open>One unreadable row fails the whole listing (\<open>None\<close>).\<close>

definition pg_AllApiKeys :: "hash_fun \<Rightarrow> pg_db \<Rightarrow> api_key list option" where
  "pg_AllApiKeys hash db = those (map (\<lambda>(i, c). scanAPIKeyRow hash i c) (pg_api_keys db))"

definition pg_GetAPIKeyByHash :: "hash_fun \<Rightarrow> string \<Rightarrow> pg_db \<Rightarrow> api_key option pg_result" where
  "pg_GetAPIKeyByHash hash keyHash db =
     (case List.find (\<lambda>(i, c). ac_key_hash c = Some keyHash) (pg_api_keys db) of
        None \<Rightarrow> Inr None
      | Some (i, c) \<Rightarrow> (case scanAPIKeyRow hash i c of None \<Rightarrow> Inl (PgFailed ''query api key by hash'') | Some k \<Rightarrow> Inr (Some k)))"

text \<open>The security metadata of the key is filled in before it is written; the session of a stored
  key stays.\<close>

definition pg_SaveApiKey :: "hash_fun \<Rightarrow> pg_codec \<Rightarrow> api_key \<Rightarrow> pg_db \<Rightarrow> pg_db \<times> unit pg_result" where
  "pg_SaveApiKey hash k key0 db =
     (let key = fst (EnsureSecurityMetadata hash key0);
          row = api_key_args k key
      in case gm_get (pg_api_keys db) (k_ID key) of
           Some old \<Rightarrow> (db\<lparr> pg_api_keys := gm_put (k_ID key) (row\<lparr> ac_session_id := ac_session_id old \<rparr>) (pg_api_keys db) \<rparr>, Inr ())
         | None \<Rightarrow> if \<not> session_ref (k_SessionID key) db then (db, Inl PgForeignKeyViolation)
                   else (db\<lparr> pg_api_keys := gm_put (k_ID key) row (pg_api_keys db) \<rparr>, Inr ()))"

definition pg_DeleteApiKey :: "string \<Rightarrow> pg_db \<Rightarrow> pg_db" where
  "pg_DeleteApiKey keyID db = db\<lparr> pg_api_keys := gm_del keyID (pg_api_keys db) \<rparr>"

section \<open>The audit trail\<close>

definition pg_RecordAuditEvent :: "pg_codec \<Rightarrow> audit_event \<Rightarrow> pg_db \<Rightarrow> pg_db" where
  "pg_RecordAuditEvent k event db =
     (let n = pg_audit_seq db + 1
      in db\<lparr> pg_audit_seq := n, pg_audit_events := pg_audit_events db @ [audit_args k n event] \<rparr>)"

text \<open>A filter field compares the column with its value; \<open>NULL\<close> equals nothing.\<close>

definition audit_where :: "audit_filter \<Rightarrow> audit_row \<Rightarrow> bool" where
  "audit_where filt c \<longleftrightarrow>
     (f_SessionID filt \<noteq> '''' \<longrightarrow> ec_session_id c = Some (f_SessionID filt))
     \<and> (f_ActorKeyID filt \<noteq> '''' \<longrightarrow> ec_actor_key_id c = Some (f_ActorKeyID filt))
     \<and> (f_Event filt \<noteq> '''' \<longrightarrow> ec_event c = f_Event filt)"

definition pg_ListAuditEvents :: "audit_filter \<Rightarrow> pg_db \<Rightarrow> audit_event list \<times> int" where
  "pg_ListAuditEvents filt db =
     (let rows = filter (audit_where filt) (pg_audit_events db);
          limit = (if f_Limit filt \<le> 0 then 50 else f_Limit filt);
          offset = (if f_Offset filt < 0 then 0 else f_Offset filt)
      in (map scan_audit (take (nat limit) (drop (nat offset)
            (sort_key (\<lambda>c. - ec_created_at c) (sort_key (\<lambda>c. - ec_id c) rows)))), int (length rows)))"

definition pg_DeleteAuditEventsBefore :: "pg_codec \<Rightarrow> time \<Rightarrow> pg_db \<Rightarrow> pg_db \<times> int" where
  "pg_DeleteAuditEventsBefore k cutoff db =
     (db\<lparr> pg_audit_events := filter (\<lambda>c. \<not> ec_created_at c < kc_time k cutoff) (pg_audit_events db) \<rparr>,
      int (length (filter (\<lambda>c. ec_created_at c < kc_time k cutoff) (pg_audit_events db))))"

end
