(* ===== verification/Pg_Transactions.thy ===== *)
theory Pg_Transactions
  imports Pg_Theorems Pg_Registry
begin

text \<open>
  The retry loop around serializable transactions (\<open>withSerializableTx\<close>, \<open>storage/store.go\<close>): what
  it guarantees of the tables, and what it does not of the variables a closure writes.
\<close>

section \<open>Applied once or not at all\<close>

text \<open>What the other transactions leave after \<open>n\<close> pauses.\<close>

definition left_after :: "nat \<Rightarrow> tx_fate list \<Rightarrow> pg_db \<Rightarrow> pg_db" where
  "left_after n fates db = fold tf_others (take n fates) db"

lemma attempt_cases:
  "attemptSerializableTx fn c db = (db', c', e) \<Longrightarrow> (e = None \<and> fn c db = (db', c', None)) \<or> (e \<noteq> None \<and> db' = db)"
  by (auto simp: attemptSerializableTx_def split: prod.splits option.splits)

lemma tx_outcome:
  assumes "withSerializableTx a fates fn c db = (db', c', e)" and "a < tx_maxAttempts"
  shows "\<exists>n. n \<le> length fates \<and> a + n < tx_maxAttempts \<and>
    ((e = None \<and> (\<exists>c1. fn c1 (left_after n fates db) = (db', c', None))) \<or> (e \<noteq> None \<and> db' = left_after n fates db))"
  using assms
proof (induction fates arbitrary: a c db)
  case Nil
  then show ?case using attempt_cases [of fn c db db' c' e] by (auto simp: left_after_def)
next
  case (Cons f fates)
  obtain c1 failed where cf: "(case tf_abort f of AbortEarly \<Rightarrow> (c, None) | AbortAtCommit \<Rightarrow> snd (attemptSerializableTx fn c db)) = (c1, failed)"
    by fastforce
  show ?case
  proof (cases "failed \<noteq> None \<or> a + 1 \<ge> tx_maxAttempts")
    case True
    with Cons.prems cf show ?thesis by (intro exI [of _ 0]) (auto simp: left_after_def split: if_splits)
  next
    case False
    show ?thesis
    proof (cases "tf_ended f")
      case True
      with Cons.prems cf False show ?thesis by (intro exI [of _ 1]) (auto simp: left_after_def tx_maxAttempts_def)
    next
      case ended: False
      with Cons.prems(1) cf False have w: "withSerializableTx (a + 1) fates fn c1 (tf_others f db) = (db', c', e)" by simp
      obtain n where "n \<le> length fates \<and> a + 1 + n < tx_maxAttempts \<and>
        ((e = None \<and> (\<exists>c1. fn c1 (left_after n fates (tf_others f db)) = (db', c', None)))
          \<or> (e \<noteq> None \<and> db' = left_after n fates (tf_others f db)))"
        using Cons.IH [OF w] False by auto
      then show ?thesis by (intro exI [of _ "Suc n"]) (simp add: left_after_def)
    qed
  qed
qed

text \<open>C7: A transaction of the PostgreSQL store is tried at most four times and takes effect once or
  not at all: when the method succeeds, the tables are what one run of its body makes of what
  the other transactions left; when it fails (a refusal, an error, too many aborts, the end of
  the caller's context), the tables are exactly what the others left.\<close>

theorem transaction_applies_once:
  assumes "withSerializableTx 0 fates fn c db = (db', c', e)"
  shows "\<exists>n. n \<le> length fates \<and> n < tx_maxAttempts \<and>
    ((e = None \<and> (\<exists>c1. fn c1 (left_after n fates db) = (db', c', None))) \<or> (e \<noteq> None \<and> db' = left_after n fates db))"
  using tx_outcome [OF assms] by (simp add: tx_maxAttempts_def)

text \<open>Four aborts in a row, and the conflict is reported.\<close>

lemma four_aborts:
  assumes "tf_abort f = AbortEarly" and "\<not> tf_ended f" and "length fates = 4" and "set fates = {f}"
  shows "withSerializableTx 0 fates fn c db = (left_after 3 fates db, c, Some (PgStore StErrSerializationConflict))"
proof -
  obtain f1 f2 f3 f4 where "fates = [f1, f2, f3, f4]" using assms(3) by (auto simp: numeral_eq_Suc length_Suc_conv)
  with assms(4) have "fates = [f, f, f, f]" by auto
  then show ?thesis using assms(1,2) by (simp add: left_after_def tx_maxAttempts_def numeral_eq_Suc)
qed

theorem transaction_applies_once_witness:
  "\<exists>n. n \<le> length [\<lparr> tf_abort = AbortEarly, tf_ended = False, tf_others = id \<rparr>] \<and> n < tx_maxAttempts
    \<and> (\<exists>c1. insert_tx demo_codec demo_row c1 (left_after n [\<lparr> tf_abort = AbortEarly, tf_ended = False, tf_others = id \<rparr>] demo_db)
         = (demo_db\<lparr> pg_requests := [(''r1'', requestRowArgs demo_codec demo_row)] \<rparr>, (), None))"
proof -
  let ?f = "\<lparr> tf_abort = AbortEarly, tf_ended = False, tf_others = id \<rparr>"
  have "withSerializableTx 0 [?f] (insert_tx demo_codec demo_row) () demo_db
      = (demo_db\<lparr> pg_requests := [(''r1'', requestRowArgs demo_codec demo_row)] \<rparr>, (), None)"
    by (simp add: attemptSerializableTx_def insert_tx_def Let_def demo_db_def migrate_def MaxPendingRequestsPerSession_def gm_get_def gm_put_def
        idempotency_taken_def session_ref_def demo_row_def NewRequest_def tx_maxAttempts_def)
  from transaction_applies_once [OF this] show ?thesis by simp
qed

section \<open>Variables of an aborted attempt\<close>

lemma claim_again:
  assumes "gm_get (pg_requests db) rid = Some c" and "c_status c \<noteq> Pending"
  shows "claim_tx k now sess rid m d x db = (db, x, None)"
  using assms by (simp add: claim_tx_def Let_def)

lemma claim_granted:
  assumes "pg_ClaimRequest k [] now sess rid m d db = (db1, Inr (Some r))"
  shows "\<exists>c. gm_get (pg_requests db) rid = Some c \<and> claim_tx k now sess rid m d x db = (db1, Some r, None)
    \<and> r = grant_lease now d m (scanRequestRow rid c) \<and> db1 = upd_row rid (claim_columns k now d m) db"
  using assms
  by (auto simp: pg_ClaimRequest_def attemptSerializableTx_def claim_tx_def Let_def split: option.splits if_splits)

definition demo_pending_db :: pg_db where
  "demo_pending_db = demo_db\<lparr> pg_requests := [(''r1'', requestRowArgs demo_codec demo_row)] \<rparr>"

text \<open>A claim that was rolled back is reported as granted.  If the commit of a claim is aborted and,
  before the retry, other transactions take the request out of the queue (a cancellation, a
  claim of a concurrent call), the retry finds nothing to claim and succeeds without resetting
  the variable the first attempt wrote: the caller gets a lease under its own name and the
  next epoch, while the tables are exactly what the others left.\<close>

theorem aborted_claim_is_reported:
  assumes "pg_ClaimRequest k [] now sess rid m d db = (db1, Inr (Some r))"
    and "tf_abort f = AbortAtCommit" and "\<not> tf_ended f"
    and "gm_get (pg_requests (tf_others f db)) rid = Some c'" and "c_status c' \<noteq> Pending"
  shows "pg_ClaimRequest k [f] now sess rid m d db = (tf_others f db, Inr (Some r)) \<and> r_Status r = Claimed \<and> r_LeasedBy r = m
    \<and> Some (r_LeaseEpoch r) = map_option (\<lambda>q. wrap64 (r_LeaseEpoch q + 1)) (pg_GetRequest rid db)"
proof -
  obtain c where c: "gm_get (pg_requests db) rid = Some c" "claim_tx k now sess rid m d None db = (db1, Some r, None)"
    "r = grant_lease now d m (scanRequestRow rid c)" using claim_granted [OF assms(1)] by blast
  have "pg_ClaimRequest k [f] now sess rid m d db = (tf_others f db, Inr (Some r))"
    using c(2) assms(2,3) claim_again [OF assms(4,5), of k now sess m d "Some r"]
    by (simp add: pg_ClaimRequest_def attemptSerializableTx_def tx_maxAttempts_def)
  then show ?thesis using c by (simp add: pg_GetRequest_def grant_lease_def)
qed

text \<open>C31: Two replicas can both be told that they adopted a task.  If the commit of an adoption is
  aborted and another replica adopts the task before the retry, the first replica still reports
  success: both get the task, although the table names only the other one.\<close>

theorem aborted_adoption_is_reported:
  assumes "pg_ClaimTaskForAdoption k [] now tid inst ttl db = (db1, Inr (Some t))"
    and "pg_ClaimTaskForAdoption k [] now' tid inst' ttl' db = (db2, Inr (Some t'))"
    and "inst' \<noteq> ''''" and "kc_time k now' > now - ttl"
    and "f = \<lparr> tf_abort = AbortAtCommit, tf_ended = False, tf_others = (\<lambda>x. fst (pg_ClaimTaskForAdoption k [] now' tid inst' ttl' x)) \<rparr>"
  shows "pg_ClaimTaskForAdoption k [f] now tid inst ttl db = (db2, Inr (Some t))
    \<and> map_option kt_adopted_by (gm_get (pg_tasks db2) tid) = Some (Some inst')"
proof -
  obtain c where c: "gm_get (pg_tasks db) tid = Some c" "adopt_tx k now tid inst ttl None db = (db1, Some t, None)"
    using assms(1) by (auto simp: pg_ClaimTaskForAdoption_def attemptSerializableTx_def adopt_tx_def Let_def split: option.splits if_splits)
  have row: "gm_get (pg_tasks db2) tid = Some (c\<lparr> kt_adopted_by := Some inst', kt_updated_at := kc_time k now' \<rparr>)"
    using assms(2) c(1) by (auto simp: pg_ClaimTaskForAdoption_def attemptSerializableTx_def adopt_tx_def Let_def split: if_splits)
  have "adopt_tx k now tid inst ttl (Some t) db2 = (db2, Some t, None)" using row assms(3,4) by (simp add: adopt_tx_def)
  then show ?thesis
    using c(2) assms(2,5) row by (simp add: pg_ClaimTaskForAdoption_def attemptSerializableTx_def tx_maxAttempts_def)
qed

text \<open>The request is cancelled between the two attempts.\<close>

theorem aborted_claim_is_reported_witness:
  "let f = \<lparr> tf_abort = AbortAtCommit, tf_ended = False, tf_others = (\<lambda>x. fst (pg_CancelRequestFenced demo_codec [] 2001 ''s1'' ''r1'' ''stop'' x)) \<rparr>
   in \<exists>db' r. pg_ClaimRequest demo_codec [f] 2000 ''s1'' ''r1'' ''m1'' 60 demo_pending_db = (db', Inr (Some r)) \<and> r_LeasedBy r = ''m1''
     \<and> map_option r_Status (pg_GetRequest ''r1'' db') = Some Cancelled"
proof -
  let ?f = "\<lparr> tf_abort = AbortAtCommit, tf_ended = False, tf_others = (\<lambda>x. fst (pg_CancelRequestFenced demo_codec [] 2001 ''s1'' ''r1'' ''stop'' x)) \<rparr>"
  obtain db1 r where claim: "pg_ClaimRequest demo_codec [] 2000 ''s1'' ''r1'' ''m1'' 60 demo_pending_db = (db1, Inr (Some r))"
    by (simp add: pg_ClaimRequest_def attemptSerializableTx_def claim_tx_def demo_pending_db_def demo_row_def demo_tool_def tool_args_def NewTool_def
        NewRequest_def requestRowArgs_def scanRequestRow_def machine_owns_def gm_get_def nullString_def backoff_pending_def
        attempts_exhausted_def demo_codec_def defaultRequestMaxAttempts_def demo_db_def Let_def)
  obtain c' where row: "gm_get (pg_requests (tf_others ?f demo_pending_db)) ''r1'' = Some c'" "c_status c' = Cancelled"
    by (simp add: pg_CancelRequestFenced_def attemptSerializableTx_def cancel_tx_def selectRequestForUpdate_def demo_pending_db_def demo_row_def
        NewRequest_def requestRowArgs_def scanRequestRow_def gm_get_def gm_put_def persistRequestInTx_def cancel_row_def SetResult_def
        nullString_def demo_codec_def Let_def)
  have "c_status c' \<noteq> Pending" using row(2) by simp
  from aborted_claim_is_reported [OF claim _ _ row(1) this] row show ?thesis by (simp add: pg_GetRequest_def)
qed

definition demo_adoptable_db :: pg_db where
  "demo_adoptable_db = demo_db\<lparr> pg_tasks := [(''k1'', task_args demo_codec (NewTask ''k1'' 1000 ''s1'' ''echo'' ''x''))] \<rparr>"

theorem aborted_adoption_is_reported_witness:
  "\<exists>f db' t. pg_ClaimTaskForAdoption demo_codec [f] 2000 ''k1'' ''replica-a'' 60 demo_adoptable_db = (db', Inr (Some t))
     \<and> map_option kt_adopted_by (gm_get (pg_tasks db') ''k1'') = Some (Some ''replica-b'')"
proof -
  have g: "\<exists>db' t. pg_ClaimTaskForAdoption demo_codec [] 2000 ''k1'' i 60 demo_adoptable_db = (db', Inr (Some t))" for i
    by (simp add: pg_ClaimTaskForAdoption_def attemptSerializableTx_def adopt_tx_def demo_adoptable_db_def task_args_def NewTask_def
        row_terminal_def gm_get_def Let_def)
  obtain db1 t db2 t' where "pg_ClaimTaskForAdoption demo_codec [] 2000 ''k1'' ''replica-a'' 60 demo_adoptable_db = (db1, Inr (Some t))"
    "pg_ClaimTaskForAdoption demo_codec [] 2000 ''k1'' ''replica-b'' 60 demo_adoptable_db = (db2, Inr (Some t'))"
    using g by blast
  from aborted_adoption_is_reported [OF this _ _ refl] show ?thesis by (auto simp: demo_codec_def)
qed

end
