(* ===== verification/Pg_Schema.thy ===== *)
theory Pg_Schema
  imports Pg_Transactions Mem_Registry
begin

text \<open>
  The constraints of the schema (\<open>migrations.go\<close>) as an invariant of the tables, and every
  writing method of the PostgreSQL store as a step: whatever the methods do, every row belongs
  to a session that exists, every chunk to a request, and no unique index is violated.
\<close>

section \<open>Tables with constraints\<close>

text \<open>A table with a primary key, a foreign key to the sessions and one unique key (\<open>None\<close>: the row
  is not in the index).\<close>

definition table_ok :: "('r \<Rightarrow> string) \<Rightarrow> ('r \<Rightarrow> (string \<times> string) option) \<Rightarrow> session_row gomap \<Rightarrow> 'r gomap \<Rightarrow> bool" where
  "table_ok sess key ss t \<longleftrightarrow> gm_wf t \<and> (\<forall>i c. gm_get t i = Some c \<longrightarrow> gm_get ss (sess c) \<noteq> None)
     \<and> (\<forall>i c j d. gm_get t i = Some c \<longrightarrow> gm_get t j = Some d \<longrightarrow> key c \<noteq> None \<longrightarrow> key c = key d \<longrightarrow> i = j)"

definition no_key :: "'r \<Rightarrow> (string \<times> string) option" where
  "no_key c = None"

definition tool_key :: "tool_row \<Rightarrow> (string \<times> string) option" where
  "tool_key c = Some (tc_session_id c, tc_name c)"

definition request_key :: "request_row \<Rightarrow> (string \<times> string) option" where
  "request_key c = (if null_text (c_idempotency_key c) = '''' then None else Some (c_session_id c, null_text (c_idempotency_key c)))"

definition task_key :: "task_row \<Rightarrow> (string \<times> string) option" where
  "task_key c = (if null_text (kt_idempotency_key c) = '''' then None else Some (kt_session_id c, null_text (kt_idempotency_key c)))"

definition chunks_ok :: "request_row gomap \<Rightarrow> chunk_row list \<Rightarrow> bool" where
  "chunks_ok t ch \<longleftrightarrow> (\<forall>h \<in> set ch. gm_get t (ch_request_id h) \<noteq> None) \<and> distinct (map (\<lambda>h. (ch_request_id h, ch_seq h)) ch)"

definition schema_ok :: "pg_db \<Rightarrow> bool" where
  "schema_ok db \<longleftrightarrow> gm_wf (pg_sessions db)
     \<and> table_ok ac_session_id no_key (pg_sessions db) (pg_api_keys db)
     \<and> table_ok mc_session_id no_key (pg_sessions db) (pg_machines db)
     \<and> table_ok tc_session_id tool_key (pg_sessions db) (pg_tools db)
     \<and> table_ok c_session_id request_key (pg_sessions db) (pg_requests db)
     \<and> table_ok kt_session_id task_key (pg_sessions db) (pg_tasks db)
     \<and> (\<forall>us \<in> set (pg_user_sessions db). gm_get (pg_sessions db) (snd us) \<noteq> None) \<and> distinct (pg_user_sessions db)
     \<and> chunks_ok (pg_requests db) (pg_request_chunks db)"

lemma table_wf: "table_ok sess key ss t \<Longrightarrow> gm_wf t"
  by (simp add: table_ok_def)

lemma table_put:
  assumes "table_ok sess key ss t" and "gm_get ss (sess c) \<noteq> None"
    and "\<And>j d. gm_get t j = Some d \<Longrightarrow> j \<noteq> i \<Longrightarrow> key c \<noteq> None \<Longrightarrow> key d \<noteq> key c"
  shows "table_ok sess key ss (gm_put i c t)"
  using assms unfolding table_ok_def by (auto; metis)

text \<open>Rewriting a row without moving it to another session or key.\<close>

lemma table_rewrite:
  assumes "table_ok sess key ss t" and "gm_get t i = Some c" and "sess c' = sess c" and "key c' = key c"
  shows "table_ok sess key ss (gm_put i c' t)"
proof (rule table_put [OF assms(1)])
  show "gm_get ss (sess c') \<noteq> None" using assms by (auto simp: table_ok_def)
  show "key d \<noteq> key c'" if "gm_get t j = Some d" "j \<noteq> i" "key c' \<noteq> None" for j d
    using that assms unfolding table_ok_def by metis
qed

lemma table_sub:
  assumes "table_ok sess key ss t" and "gm_wf t'" and "\<And>i c. gm_get t' i = Some c \<Longrightarrow> gm_get t i = Some c \<and> gm_get ss' (sess c) \<noteq> None"
  shows "table_ok sess key ss' t'"
  using assms unfolding table_ok_def by (auto; metis)

lemma table_del: "table_ok sess key ss t \<Longrightarrow> table_ok sess key ss (gm_del i t)"
  by (rule table_sub) (auto simp: table_ok_def split: if_splits)

lemma table_filter: "table_ok sess key ss t \<Longrightarrow> table_ok sess key ss (filter P t)"
  by (rule table_sub) (auto simp: table_ok_def gm_wf_filter gm_get_filter split: option.splits if_splits)

lemma sql_update_get: "gm_get (sql_update P f t) i = map_option (\<lambda>c. if P i c then f c else c) (gm_get t i)"
  by (induction t) (auto simp: sql_update_def gm_get_def)

lemma sql_update_keys: "map fst (sql_update P f t) = map fst t"
  by (induction t) (auto simp: sql_update_def)

lemma table_update:
  assumes "table_ok sess key ss t" and "\<And>c. sess (f c) = sess c" and "\<And>c. key (f c) = key c"
  shows "table_ok sess key ss (sql_update P f t)"
  unfolding table_ok_def sql_update_keys sql_update_get
  using assms unfolding table_ok_def by (auto split: if_splits; metis)

lemma table_sessions:
  assumes "table_ok sess key ss t" and "\<And>x. gm_get ss x \<noteq> None \<Longrightarrow> gm_get ss' x \<noteq> None"
  shows "table_ok sess key ss' t"
  using assms unfolding table_ok_def by metis

text \<open>The rows of a session that is deleted go with it.\<close>

lemma table_cascade:
  assumes "table_ok sess key ss t"
  shows "table_ok sess key (gm_del x ss) (filter (\<lambda>(i, c). sess c \<noteq> x) t)"
  using assms by (rule table_sub) (use assms in \<open>auto simp: table_ok_def gm_wf_filter gm_get_filter split: option.splits if_splits\<close>)

lemma chunks_mono: "chunks_ok t ch \<Longrightarrow> (\<And>i. gm_get t i \<noteq> None \<Longrightarrow> gm_get t' i \<noteq> None) \<Longrightarrow> chunks_ok t' ch"
  by (auto simp: chunks_ok_def)

lemma chunks_put [simp]: "chunks_ok t ch \<Longrightarrow> chunks_ok (gm_put i c t) ch"
  by (rule chunks_mono) auto

lemma chunks_filter: "chunks_ok t ch \<Longrightarrow> chunks_ok t (filter P ch)"
  by (auto simp: chunks_ok_def distinct_map_filter)

text \<open>The chunks of the removed requests go with them.\<close>

lemma chunks_cascade:
  assumes "chunks_ok t ch" and "gm_wf t"
  shows "chunks_ok (filter (\<lambda>(i, c). \<not> gone i c) t) (filter (\<lambda>h. ch_request_id h \<notin> set (map fst (filter (\<lambda>(i, c). gone i c) t))) ch)"
proof -
  have "gm_get (filter (\<lambda>(i, c). \<not> gone i c) t) (ch_request_id h) \<noteq> None"
    if h: "h \<in> set ch" "ch_request_id h \<notin> set (map fst (filter (\<lambda>(i, c). gone i c) t))" for h
  proof -
    obtain c where c: "gm_get t (ch_request_id h) = Some c" using assms(1) h(1) by (auto simp: chunks_ok_def)
    then have "\<not> gone (ch_request_id h) c" using h(2) assms(2) by (force simp: gm_get_in)
    with c assms(2) show ?thesis by (simp add: gm_get_filter)
  qed
  then show ?thesis using assms(1) by (auto simp: chunks_ok_def distinct_map_filter)
qed

lemma insert_chunks_ok:
  assumes "insert_chunks rid seq now cs rs = Inr rs'" and "chunks_ok t rs" and "gm_get t rid \<noteq> None"
  shows "chunks_ok t rs'"
  using assms
proof (induction rid seq now cs rs rule: insert_chunks.induct)
  case (2 rid seq now c cs rs)
  have "chunks_ok t (rs @ [\<lparr> ch_request_id = rid, ch_seq = seq, ch_chunk = c, ch_created_at = now \<rparr>])"
    if "\<not> list_ex (\<lambda>r. ch_request_id r = rid \<and> ch_seq r = seq) rs"
    using that "2.prems" by (auto simp: chunks_ok_def list_ex_iff)
  with 2 show ?case by (auto split: if_splits)
qed simp

section \<open>The requests\<close>

lemma schema_requests:
  assumes "schema_ok db" and "table_ok c_session_id request_key (pg_sessions db) t" and "chunks_ok t ch"
  shows "schema_ok (db\<lparr> pg_requests := t, pg_request_chunks := ch \<rparr>)"
  using assms by (simp add: schema_ok_def)

lemma schema_request_rows:
  assumes "schema_ok db" and "table_ok c_session_id request_key (pg_sessions db) t" and "chunks_ok t (pg_request_chunks db)"
  shows "schema_ok (db\<lparr> pg_requests := t \<rparr>)"
  using assms by (simp add: schema_ok_def)

lemma schema_parts:
  assumes "schema_ok db"
  shows "table_ok c_session_id request_key (pg_sessions db) (pg_requests db)" "chunks_ok (pg_requests db) (pg_request_chunks db)"
    "gm_wf (pg_requests db)" "table_ok tc_session_id tool_key (pg_sessions db) (pg_tools db)"
    "table_ok kt_session_id task_key (pg_sessions db) (pg_tasks db)"
    "table_ok mc_session_id no_key (pg_sessions db) (pg_machines db)" "table_ok ac_session_id no_key (pg_sessions db) (pg_api_keys db)"
  using assms by (simp_all add: schema_ok_def table_wf [of c_session_id request_key "pg_sessions db"])

lemma upd_row_schema:
  assumes "schema_ok db" and "\<And>c. c_session_id (f c) = c_session_id c" and "\<And>c. c_idempotency_key (f c) = c_idempotency_key c"
  shows "schema_ok (upd_row i f db)"
proof (cases "gm_get (pg_requests db) i")
  case (Some c)
  then show ?thesis
    using assms schema_parts [OF assms(1)]
    by (auto simp: upd_row_def request_key_def intro!: schema_request_rows table_rewrite [of _ _ _ _ i c])
qed (use assms in \<open>simp add: upd_row_def\<close>)

lemma put_request_schema:
  assumes "schema_ok db" and "session_ref (c_session_id c) db" and "\<not> idempotency_taken i c db"
  shows "schema_ok (db\<lparr> pg_requests := gm_put i c (pg_requests db) \<rparr>)"
proof (rule schema_request_rows [OF assms(1)])
  show "table_ok c_session_id request_key (pg_sessions db) (gm_put i c (pg_requests db))"
  proof (rule table_put [OF schema_parts(1) [OF assms(1)]])
    show "gm_get (pg_sessions db) (c_session_id c) \<noteq> None" using assms(2) by (simp add: session_ref_def)
    show "request_key d \<noteq> request_key c" if "gm_get (pg_requests db) j = Some d" "j \<noteq> i" "request_key c \<noteq> None" for j d
    proof
      assume e: "request_key d = request_key c"
      have "(j, d) \<in> set (pg_requests db)" using that(1) by (rule gm_get_SomeD)
      moreover have "null_text (c_idempotency_key c) \<noteq> ''''" "c_session_id d = c_session_id c" "null_text (c_idempotency_key d) = null_text (c_idempotency_key c)"
        using e that(3) by (auto simp: request_key_def split: if_splits)
      moreover from this have "c_idempotency_key d = c_idempotency_key c" by (cases "c_idempotency_key d"; cases "c_idempotency_key c") auto
      ultimately show False using assms(3) that(2) by (auto simp: idempotency_taken_def list_ex_iff)
    qed
  qed
  show "chunks_ok (gm_put i c (pg_requests db)) (pg_request_chunks db)" using schema_parts(2) [OF assms(1)] by simp
qed

lemma persist_schema:
  assumes "schema_ok db" and "gm_get (pg_requests db) (r_ID q) = Some c" and "r_SessionID q = c_session_id c"
  shows "schema_ok (fst (persistRequestInTx k q db))"
  using assms schema_parts [OF assms(1)]
  by (auto simp: persistRequestInTx_def request_key_def requestRowArgs_def intro!: schema_request_rows table_rewrite [of _ _ _ _ _ c])

text \<open>One attempt of a transaction whose body keeps the constraints.\<close>

lemma attempt_schema: "schema_ok db \<Longrightarrow> schema_ok (fst (fn c db)) \<Longrightarrow> schema_ok (fst (attemptSerializableTx fn c db))"
  by (cases "fn c db") (auto simp: attemptSerializableTx_def split: option.split)

lemma save_request_schema: "schema_ok db \<Longrightarrow> schema_ok (fst (pg_SaveRequest k r db))"
  using put_request_schema [of db "requestRowArgs k r" "r_ID r"] by (simp add: pg_SaveRequest_def Let_def requestRowArgs_def)

lemma insert_request_schema:
  assumes "schema_ok db"
  shows "schema_ok (fst (pg_InsertRequest k [] r db))"
proof -
  have "schema_ok (fst (insert_tx k r () db))"
    using put_request_schema [of db "requestRowArgs k r" "r_ID r"] assms by (simp add: insert_tx_def Let_def requestRowArgs_def)
  from attempt_schema [OF assms, where fn = "insert_tx k r" and c = "()", OF this] show ?thesis by (simp add: pg_InsertRequest_def split_beta split: option.split)
qed

lemma lease_schema:
  assumes "schema_ok db"
  shows "schema_ok (fst (pg_LeasePendingRequest k [] locked dbnow now sess m names d db))"
proof -
  have "schema_ok (upd_row i (claim_columns k now d m) db)" for i
    using assms by (rule upd_row_schema) (simp_all add: claim_columns_def)
  then have "schema_ok (fst (lease_tx k locked dbnow now sess m names d None db))"
    using assms by (simp add: lease_tx_def split: list.split)
  from attempt_schema [OF assms, where fn = "lease_tx k locked dbnow now sess m names d" and c = "None", OF this] show ?thesis by (simp add: pg_LeasePendingRequest_def split_beta split: option.split)
qed

lemma claim_schema:
  assumes "schema_ok db"
  shows "schema_ok (fst (pg_ClaimRequest k [] now sess i m d db))"
proof -
  have "schema_ok (upd_row i (claim_columns k now d m) db)" for i
    using assms by (rule upd_row_schema) (simp_all add: claim_columns_def)
  then have "schema_ok (fst (claim_tx k now sess i m d None db))"
    using assms by (simp add: claim_tx_def Let_def split: option.split)
  from attempt_schema [OF assms, where fn = "claim_tx k now sess i m d" and c = "None", OF this] show ?thesis by (simp add: pg_ClaimRequest_def split_beta split: option.split)
qed

lemma reclaim_schema:
  assumes "schema_ok db"
  shows "schema_ok (fst (pg_ReclaimExpiredRequest k [] i now d ma b db))"
proof -
  have "schema_ok (fst (persistRequestInTx k (reclaim_row now ma b (scanRequestRow i c)) db))" if "gm_get (pg_requests db) i = Some c" for c
    using persist_schema [OF assms, of "reclaim_row now ma b (scanRequestRow i c)" c] that by (simp add: reclaim_row_def Let_def)
  then have "schema_ok (fst (reclaim_tx k i now ma b None db))"
    using assms by (auto simp: reclaim_tx_def Let_def split_beta split: option.split)
  from attempt_schema [OF assms, where fn = "reclaim_tx k i now ma b" and c = "None", OF this] show ?thesis by (simp add: pg_ReclaimExpiredRequest_def split_beta split: option.split)
qed

lemma cancel_schema:
  assumes "schema_ok db"
  shows "schema_ok (fst (pg_CancelRequestFenced k [] now sess i msg db))"
proof -
  have "schema_ok (fst (persistRequestInTx k (cancel_row now msg (scanRequestRow i c)) db))" if "gm_get (pg_requests db) i = Some c" for c
    using persist_schema [OF assms, of "cancel_row now msg (scanRequestRow i c)" c] that by (simp add: cancel_row_def SetResult_def)
  then have "schema_ok (fst (cancel_tx k now sess i msg (None, False) db))"
    using assms by (auto simp: cancel_tx_def selectRequestForUpdate_def Let_def split_beta split: option.split)
  from attempt_schema [OF assms, where fn = "cancel_tx k now sess i msg" and c = "(None, False)", OF this] show ?thesis by (simp add: pg_CancelRequestFenced_def split_beta split: option.split)
qed

lemma sweep_schema:
  assumes "schema_ok db"
  shows "schema_ok (fst (pg_DeleteTerminalRequestsBefore k cutoff db))"
  using assms schema_parts [OF assms]
    chunks_cascade [of "pg_requests db" "pg_request_chunks db" "\<lambda>i c. c_updated_at c < kc_time k cutoff \<and> (c_status c = Done \<or> c_status c = Failed)"]
  by (simp add: pg_DeleteTerminalRequestsBefore_def Let_def schema_requests table_filter)

lemma append_schema:
  assumes "schema_ok db" and "chunks_ok (pg_requests db) rs"
  shows "schema_ok (fst (finish_append k r rs out db))"
proof -
  obtain kept start where e: "enforceChunkWindow (r_ID r) (r_NextStreamSeq r) rs = (kept, start)" by fastforce
  have "kept = filter (\<lambda>h. h \<in> set kept) rs" using e by (auto simp: enforceChunkWindow_def Let_def intro: filter_cong)
  then have "chunks_ok (pg_requests db) kept" using chunks_filter [OF assms(2), of "\<lambda>h. h \<in> set kept"] by simp
  then have "schema_ok (db\<lparr> pg_request_chunks := kept \<rparr>)" using assms(1) by (simp add: schema_ok_def)
  then have "schema_ok (upd_row (r_ID r) (stream_columns k q) (db\<lparr> pg_request_chunks := kept \<rparr>))" for q
    by (rule upd_row_schema) (simp_all add: stream_columns_def)
  then show ?thesis by (simp add: finish_append_def e Let_def split: sum.split)
qed

lemma body_schema:
  assumes "schema_ok db" and "gm_get (pg_requests db) i = Some c"
  shows "schema_ok (fst (pg_body k w m (scanRequestRow i c) out db))"
proof -
  let ?q = "scanRequestRow i c"
  note ps = persist_schema [OF assms(1), of _ c k]
  have app: "schema_ok (fst (finish_append k r rs out db))" if "insert_chunks i seq t cs (pg_request_chunks db) = Inr rs" for r rs seq t cs
    using append_schema [OF assms(1)] insert_chunks_ok [OF that schema_parts(2) [OF assms(1)]] assms(2) by simp
  have pt: "schema_ok (fst (persist_tx k q out db))" if "r_ID q = i" "r_SessionID q = c_session_id c" for q
    using ps [of q] that assms(2) by (simp add: persist_tx_def split_beta split: option.split)
  show ?thesis
  proof (cases w)
    case (FRenew now d)
    have "schema_ok (upd_row i (\<lambda>c. c\<lparr> c_visible_at := kc_time k v, c_updated_at := kc_time k now \<rparr>) db)" for v
      using assms(1) by (rule upd_row_schema) simp_all
    then show ?thesis using FRenew assms(1) by (simp split: sum.split)
  next
    case (FSubmit now v rt meta)
    have "schema_ok (fst (persist_tx k (submit_row now v rt meta ?q) out db))" by (rule pt) simp_all
    then show ?thesis using FSubmit assms(1) app by (auto simp: submit_body_def split_beta Let_def simp del: insert_chunks.simps split: go_value.split sum.split)
  next
    case (FAppend now cs)
    then show ?thesis using assms(1) app by (auto simp: append_body_def Let_def split: sum.split)
  next
    case (FUpdate now st v rt d)
    have "schema_ok (fst (persist_tx k (update_row now m st v rt d ?q) out db))"
      by (rule pt) (use update_row_grant [of ?q now m st v rt d] in \<open>simp_all add: same_grant_def\<close>)
    then show ?thesis using FUpdate assms(1) by (simp add: update_body_def)
  next
    case (FRequeue now reason b)
    have "schema_ok (fst (persist_tx k (requeue_row now reason b ?q) out db))" by (rule pt) (simp_all add: requeue_row_def)
    then show ?thesis using FRequeue by simp
  qed
qed

lemma write_schema:
  assumes "schema_ok db"
  shows "schema_ok (fst (pg_write k [] w sess i m e db))"
proof (cases "gm_get (pg_requests db) i")
  case (Some c)
  then show ?thesis using assms body_schema [OF assms Some, of k w m None] by (auto simp: pg_write_eq Let_def split_beta split: option.split)
qed (use assms in \<open>simp add: pg_write_eq\<close>)

section \<open>Machines, tools, tasks\<close>

lemma schema_machines: "schema_ok db \<Longrightarrow> table_ok mc_session_id no_key (pg_sessions db) t \<Longrightarrow> schema_ok (db\<lparr> pg_machines := t \<rparr>)"
  and schema_tools: "schema_ok db \<Longrightarrow> table_ok tc_session_id tool_key (pg_sessions db) t' \<Longrightarrow> schema_ok (db\<lparr> pg_tools := t' \<rparr>)"
  and schema_tasks: "schema_ok db \<Longrightarrow> table_ok kt_session_id task_key (pg_sessions db) t'' \<Longrightarrow> schema_ok (db\<lparr> pg_tasks := t'' \<rparr>)"
  and schema_keys: "schema_ok db \<Longrightarrow> table_ok ac_session_id no_key (pg_sessions db) t''' \<Longrightarrow> schema_ok (db\<lparr> pg_api_keys := t''' \<rparr>)"
  by (simp_all add: schema_ok_def)

lemma save_machine_schema: "schema_ok db \<Longrightarrow> schema_ok (fst (pg_SaveMachine k m db))"
  using schema_parts(6) [of db]
  by (auto simp: pg_SaveMachine_def Let_def session_ref_def machine_args_def no_key_def split: option.split intro!: schema_machines table_put)

lemma machine_update_schema:
  "schema_ok db \<Longrightarrow> (\<And>c. mc_session_id (f c) = mc_session_id c) \<Longrightarrow> schema_ok (db\<lparr> pg_machines := sql_update P f (pg_machines db) \<rparr>)"
  using schema_parts(6) [of db] by (intro schema_machines table_update) (simp_all add: no_key_def)

lemma reclaim_machine_schema:
  assumes "schema_ok db"
  shows "schema_ok (fst (pg_ReclaimMachine [] i cutoff db))"
proof -
  have "schema_ok (db\<lparr> pg_tools := sql_update P (\<lambda>t. t\<lparr> tc_machine_id := None \<rparr>) (pg_tools db), pg_machines := gm_del i (pg_machines db) \<rparr>)" for P
    using assms schema_parts [OF assms] table_update [OF schema_parts(4) [OF assms], of "\<lambda>t. t\<lparr> tc_machine_id := None \<rparr>" P]
      table_del [OF schema_parts(6) [OF assms], of i]
    by (simp add: schema_ok_def tool_key_def)
  then have "schema_ok (fst (reclaim_machine_tx i cutoff ([], '''') db))"
    using assms by (simp add: reclaim_machine_tx_def Let_def split: option.split)
  from attempt_schema [OF assms, where fn = "reclaim_machine_tx i cutoff" and c = "([], '''')", OF this]
  show ?thesis by (simp add: pg_ReclaimMachine_def split_beta split: option.split)
qed

lemma put_tool_schema:
  assumes "schema_ok db" and "session_ref (tc_session_id c) db" and "\<not> tool_name_taken i c db"
  shows "schema_ok (db\<lparr> pg_tools := gm_put i c (pg_tools db) \<rparr>)"
proof (rule schema_tools [OF assms(1)], rule table_put [OF schema_parts(4) [OF assms(1)]])
  show "gm_get (pg_sessions db) (tc_session_id c) \<noteq> None" using assms(2) by (simp add: session_ref_def)
  show "tool_key d \<noteq> tool_key c" if "gm_get (pg_tools db) j = Some d" "j \<noteq> i" for j d
    using that assms(3) gm_get_SomeD [OF that(1)] by (auto simp: tool_key_def tool_name_taken_def list_ex_iff)
qed

lemma save_tool_schema: "schema_ok db \<Longrightarrow> schema_ok (fst (pg_SaveTool k t db))"
  using put_tool_schema [of db "tool_args k t" "tl_ID t"] by (simp add: pg_SaveTool_def Let_def tool_args_def)

lemma claim_tool_schema:
  assumes "schema_ok db"
  shows "schema_ok (fst (pg_ClaimToolOwnership k [] now t cutoff db))"
proof -
  let ?find = "List.find (\<lambda>(i, c). tc_session_id c = tl_SessionID t \<and> tc_name c = tl_Name t) (pg_tools db)"
  have "schema_ok (db\<lparr> pg_tools := gm_put i (takeover_columns k t p c) (pg_tools db) \<rparr>)" if "?find = Some (i, c)" for i c p
  proof -
    have "(i, c) \<in> set (pg_tools db)" using that by (auto simp: find_Some_iff) (metis nth_mem)
    then have "gm_get (pg_tools db) i = Some c" using table_wf [OF schema_parts(4) [OF assms]] by (simp add: gm_get_in)
    then show ?thesis
      using schema_parts(4) [OF assms] by (intro schema_tools [OF assms] table_rewrite [of _ _ _ _ i c]) (simp_all add: takeover_columns_def tool_key_def)
  qed
  moreover have "schema_ok (db\<lparr> pg_tools := gm_put (tl_ID t) ((tool_args k t)\<lparr> tc_created_at := x, tc_last_ping_at := y \<rparr>) (pg_tools db) \<rparr>)"
    if "?find = None" "session_ref (tl_SessionID t) db" for x y
    using that by (intro put_tool_schema [OF assms]) (auto simp: tool_args_def tool_name_taken_def list_ex_iff find_None_iff)
  ultimately have "schema_ok (fst (claim_tool_tx k now t cutoff (None, '''') db))"
    using assms by (auto simp: claim_tool_tx_def Let_def split: option.split prod.split)
  from attempt_schema [OF assms, where fn = "claim_tool_tx k now t cutoff" and c = "(None, '''')", OF this]
  show ?thesis by (simp add: pg_ClaimToolOwnership_def split_beta split: option.split)
qed

lemma put_task_schema:
  assumes "schema_ok db" and "session_ref (kt_session_id c) db" and "\<not> task_key_taken i c db"
  shows "schema_ok (db\<lparr> pg_tasks := gm_put i c (pg_tasks db) \<rparr>)"
proof (rule schema_tasks [OF assms(1)], rule table_put [OF schema_parts(5) [OF assms(1)]])
  show "gm_get (pg_sessions db) (kt_session_id c) \<noteq> None" using assms(2) by (simp add: session_ref_def)
  show "task_key d \<noteq> task_key c" if "gm_get (pg_tasks db) j = Some d" "j \<noteq> i" "task_key c \<noteq> None" for j d
  proof
    assume e: "task_key d = task_key c"
    moreover have "null_text (kt_idempotency_key c) \<noteq> ''''" "kt_session_id d = kt_session_id c" "null_text (kt_idempotency_key d) = null_text (kt_idempotency_key c)"
      using e that(3) by (auto simp: task_key_def split: if_splits)
    moreover from this have "kt_idempotency_key d = kt_idempotency_key c" by (cases "kt_idempotency_key d"; cases "kt_idempotency_key c") auto
    ultimately show False using assms(3) that(2) gm_get_SomeD [OF that(1)] by (auto simp: task_key_taken_def list_ex_iff)
  qed
qed

lemma save_task_schema:
  assumes "schema_ok db"
  shows "schema_ok (fst (pg_SaveTask k t db))"
proof -
  have "schema_ok (db\<lparr> pg_tasks := gm_put (tk_ID t) ((task_args k t)\<lparr> kt_adopted_by := a \<rparr>) (pg_tasks db) \<rparr>)"
    if "\<not> task_key_taken (tk_ID t) (task_args k t) db" "session_ref (tk_SessionID t) db" for a
    using that by (intro put_task_schema [OF assms]) (simp_all add: task_args_def task_key_taken_def)
  moreover have "(task_args k t)\<lparr> kt_adopted_by := None \<rparr> = task_args k t" by (simp add: task_args_def)
  ultimately show ?thesis using assms by (auto simp: pg_SaveTask_def Let_def split: option.split) metis
qed

lemma adopt_schema:
  assumes "schema_ok db"
  shows "schema_ok (fst (pg_ClaimTaskForAdoption k [] now i inst ttl db))"
proof -
  have "schema_ok (db\<lparr> pg_tasks := gm_put i (c\<lparr> kt_adopted_by := a, kt_updated_at := u \<rparr>) (pg_tasks db) \<rparr>)"
    if "gm_get (pg_tasks db) i = Some c" for c a u
    using that schema_parts(5) [OF assms] by (intro schema_tasks [OF assms] table_rewrite [of _ _ _ _ i c]) (simp_all add: task_key_def)
  then have "schema_ok (fst (adopt_tx k now i inst ttl None db))"
    using assms by (auto simp: adopt_tx_def Let_def split: option.split)
  from attempt_schema [OF assms, where fn = "adopt_tx k now i inst ttl" and c = None, OF this]
  show ?thesis by (simp add: pg_ClaimTaskForAdoption_def split_beta split: option.split)
qed

lemma task_update_schema:
  "schema_ok db \<Longrightarrow> (\<And>c. kt_session_id (f c) = kt_session_id c) \<Longrightarrow> (\<And>c. kt_idempotency_key (f c) = kt_idempotency_key c)
     \<Longrightarrow> schema_ok (db\<lparr> pg_tasks := sql_update P f (pg_tasks db) \<rparr>)"
  using schema_parts(5) [of db] by (intro schema_tasks table_update) (simp_all add: task_key_def)

section \<open>Sessions and keys\<close>

lemma put_session_schema: "schema_ok db \<Longrightarrow> schema_ok (db\<lparr> pg_sessions := gm_put i c (pg_sessions db) \<rparr>)"
  by (auto simp: schema_ok_def intro: table_sessions)

lemma delete_session_schema:
  assumes "schema_ok db"
  shows "schema_ok (pg_DeleteSession x db)"
  using assms schema_parts [OF assms] table_cascade [OF schema_parts(1) [OF assms], of x] table_cascade [OF schema_parts(4) [OF assms], of x]
    table_cascade [OF schema_parts(5) [OF assms], of x] table_cascade [OF schema_parts(6) [OF assms], of x]
    table_cascade [OF schema_parts(7) [OF assms], of x]
    chunks_cascade [of "pg_requests db" "pg_request_chunks db" "\<lambda>i c. c_session_id c = x"]
  by (auto simp: pg_DeleteSession_def Let_def schema_ok_def)

lemma save_key_schema: "schema_ok db \<Longrightarrow> schema_ok (fst (pg_SaveApiKey hash k key db))"
proof -
  assume s: "schema_ok db"
  let ?key = "fst (EnsureSecurityMetadata hash key)"
  have "schema_ok (db\<lparr> pg_api_keys := gm_put i c (pg_api_keys db) \<rparr>)" if "gm_get (pg_sessions db) (ac_session_id c) \<noteq> None" for i c
    using that s schema_parts(7) [OF s] by (intro schema_keys table_put) (simp_all add: no_key_def)
  moreover have "gm_get (pg_sessions db) (ac_session_id old) \<noteq> None" if "gm_get (pg_api_keys db) i = Some old" for i old
    using that schema_parts(7) [OF s] by (auto simp: table_ok_def)
  ultimately show ?thesis
    using s by (auto simp: pg_SaveApiKey_def Let_def session_ref_def api_key_args_def split: option.split)
qed
section \<open>Every write is a step that keeps the schema\<close>

text \<open>The writing methods, with any arguments.  An attempt that the database aborts changes nothing,
  so it is enough to take the transactions that run through.\<close>

inductive pg_step :: "pg_db \<Rightarrow> pg_db \<Rightarrow> bool" where
  save_request: "pg_step db (fst (pg_SaveRequest k r db))"
| insert_request: "pg_step db (fst (pg_InsertRequest k [] r db))"
| mark_running: "pg_step db (pg_MarkRequestRunning k now i m d db)"
| sweep_requests: "pg_step db (fst (pg_DeleteTerminalRequestsBefore k cutoff db))"
| lease: "pg_step db (fst (pg_LeasePendingRequest k [] locked dbnow now sess m names d db))"
| claim: "pg_step db (fst (pg_ClaimRequest k [] now sess i m d db))"
| reclaim: "pg_step db (fst (pg_ReclaimExpiredRequest k [] i now d ma b db))"
| fenced: "pg_step db (fst (pg_write k [] w sess i m e db))"
| cancel: "pg_step db (fst (pg_CancelRequestFenced k [] now sess i msg db))"
| save_machine: "pg_step db (fst (pg_SaveMachine k mach db))"
| delete_machine: "pg_step db (pg_DeleteMachine i db)"
| touch_machine: "pg_step db (pg_TouchMachineLastPing k sess i seen db)"
| bind_token: "pg_step db (fst (pg_BindMachineToken i h db))"
| reclaim_machine: "pg_step db (fst (pg_ReclaimMachine [] i cutoff db))"
| set_draining: "pg_step db (pg_SetMachineDraining sess i db)"
| clear_draining: "pg_step db (pg_ClearMachineDraining i db)"
| save_tool: "pg_step db (fst (pg_SaveTool k t db))"
| delete_tool: "pg_step db (pg_DeleteTool i db)"
| delete_tools: "pg_step db (fst (pg_DeleteToolsByMachine m db))"
| claim_tool: "pg_step db (fst (pg_ClaimToolOwnership k [] now t cutoff db))"
| save_task: "pg_step db (fst (pg_SaveTask k tk db))"
| delete_task: "pg_step db (pg_DeleteTask i db)"
| adopt: "pg_step db (fst (pg_ClaimTaskForAdoption k [] now i inst ttl db))"
| renew_adoption: "pg_step db (fst (pg_RenewTaskAdoption k now i inst db))"
| release_adoption: "pg_step db (pg_ReleaseTaskAdoption k now i inst db)"
| save_session: "pg_step db (pg_SaveSession k ses db)"
| insert_session: "pg_step db (fst (pg_InsertSessionIfAbsent k ses db))"
| delete_session: "pg_step db (pg_DeleteSession i db)"
| add_user: "pg_step db (fst (pg_AddUserSession u i db))"
| remove_user: "pg_step db (pg_RemoveUserSession u i db)"
| save_key: "pg_step db (fst (pg_SaveApiKey hash k key db))"
| delete_key: "pg_step db (pg_DeleteApiKey i db)"
| record_audit: "pg_step db (pg_RecordAuditEvent k ev db)"
| sweep_audit: "pg_step db (fst (pg_DeleteAuditEventsBefore k cutoff db))"

lemma schema_step: "pg_step db db' \<Longrightarrow> schema_ok db \<Longrightarrow> schema_ok db'"
proof (induction rule: pg_step.induct)
  case (mark_running db k now i m d)
  then show ?case unfolding pg_MarkRequestRunning_def by (rule upd_row_schema) simp_all
next
  case (delete_machine db i)
  then show ?case using schema_parts(6) [of db] by (simp add: pg_DeleteMachine_def schema_machines table_del)
next
  case (bind_token db i h)
  then show ?case by (simp add: pg_BindMachineToken_def Let_def machine_update_schema)
next
  case (delete_tool db i)
  then show ?case using schema_parts(4) [of db] by (simp add: pg_DeleteTool_def schema_tools table_del)
next
  case (delete_tools db m)
  then show ?case using schema_parts(4) [of db] by (simp add: pg_DeleteToolsByMachine_def schema_tools table_filter)
next
  case (delete_task db i)
  then show ?case using schema_parts(5) [of db] by (simp add: pg_DeleteTask_def schema_tasks table_del)
next
  case (renew_adoption db k now i inst)
  then show ?case by (simp add: pg_RenewTaskAdoption_def Let_def task_update_schema)
next
  case (insert_session db k ses)
  then show ?case by (simp add: pg_InsertSessionIfAbsent_def put_session_schema)
next
  case (add_user db u i)
  then show ?case by (auto simp: pg_AddUserSession_def session_ref_def schema_ok_def)
next
  case (remove_user db u i)
  then show ?case by (auto simp: pg_RemoveUserSession_def schema_ok_def)
next
  case (delete_key db i)
  then show ?case using schema_parts(7) [of db] by (simp add: pg_DeleteApiKey_def schema_keys table_del)
next
  case (record_audit db k ev)
  then show ?case by (simp add: pg_RecordAuditEvent_def Let_def schema_ok_def)
next
  case (sweep_audit db k cutoff)
  then show ?case by (simp add: pg_DeleteAuditEventsBefore_def schema_ok_def)
qed (simp_all add: save_request_schema insert_request_schema sweep_schema lease_schema claim_schema reclaim_schema write_schema cancel_schema
      save_machine_schema pg_TouchMachineLastPing_def machine_update_schema reclaim_machine_schema pg_SetMachineDraining_def
      pg_ClearMachineDraining_def save_tool_schema claim_tool_schema save_task_schema adopt_schema pg_ReleaseTaskAdoption_def task_update_schema
      pg_SaveSession_def put_session_schema delete_session_schema save_key_schema)

interpretation schema: kept_by_steps pg_step schema_ok
  by unfold_locales (rule schema_step)

lemma schema_migrate: "schema_ok migrate"
  by (simp add: schema_ok_def migrate_def table_ok_def chunks_ok_def)

text \<open>C6: Whatever the methods of the PostgreSQL store do to a freshly migrated database, the tables
  are well formed: keys are unique, every key, machine, tool, request, task and membership
  belongs to a session that exists, every chunk to a request that exists and to one position of
  its stream, and within a session a tool name and an idempotency key belong to one row.\<close>

theorem schema_always_ok:
  assumes "pg_step\<^sup>*\<^sup>* migrate db"
  shows "schema_ok db"
  using schema.kept_run [OF assms schema_migrate] .

theorem schema_always_ok_witness:
  "schema_ok (fst (pg_InsertRequest demo_codec [] demo_row
     (pg_SaveSession demo_codec \<lparr> ss_ID = ''s1'', ss_Name = '''', ss_Description = '''', ss_Namespace = '''', ss_CreatedAt = 1, ss_CreatedBy = ''u'' \<rparr> migrate)))"
proof (rule schema_always_ok, rule rtranclp.rtrancl_into_rtrancl)
  show "pg_step\<^sup>*\<^sup>* migrate (pg_SaveSession demo_codec
      \<lparr> ss_ID = ''s1'', ss_Name = '''', ss_Description = '''', ss_Namespace = '''', ss_CreatedAt = 1, ss_CreatedBy = ''u'' \<rparr> migrate)"
    by (intro r_into_rtranclp pg_step.save_session)
qed (rule pg_step.insert_request)

section \<open>Deleting a session\<close>

text \<open>The foreign keys cascade, while the in-memory store keeps the requests, tasks, tools and
  machines of a deleted session.\<close>

lemma delete_session_cascades:
  assumes "schema_ok db"
  shows "pg_GetRequest i (pg_DeleteSession x db) = (case pg_GetRequest i db of None \<Rightarrow> None | Some r \<Rightarrow> if r_SessionID r = x then None else Some r)"
    and "mem_GetRequest i (mem_DeleteSession x s) = mem_GetRequest i s"
  using schema_parts(3) [OF assms]
  by (auto simp: pg_GetRequest_def pg_DeleteSession_def Let_def gm_get_filter mem_GetRequest_def mem_DeleteSession_def split: option.split)

end
