(* ===== verification/Mcp_Server.thy ===== *)
theory Mcp_Server
  imports Grpc_Serve
begin

text \<open>
  The MCP facade (\<open>pkg/mcp\<close>): JSON-RPC over HTTP in front of the gRPC services.  The backend is the
  argument \<open>rpc\<close>: a call with its metadata takes the state of the backend to a new one and a
  response; \<open>serve\<close> is one.  Decoding and encoding of JSON text are arguments, the decoded
  values are \<open>json\<close>; a key of an object is spelled as the protocol spells it, and a number that is
  not whole is only known to be so.  Texts of error messages, except those of tasks, and the
  rendering of times are left out.
\<close>

section \<open>protocol.go\<close>

datatype json =
    JNull | JBool bool | JWhole int | JFraction | JStr string | JArr "json list" | JObj "(string \<times> json) list"

definition ProtocolVersion :: string where "ProtocolVersion = ''2026-07-28''"
definition DefaultLegacyProtocolVersion :: string where "DefaultLegacyProtocolVersion = ''2025-06-18''"
definition LegacyProtocolVersions :: "string list" where
  "LegacyProtocolVersions = [''2025-03-26'', ''2025-06-18'', ''2025-11-25'']"

definition CodeParseError :: int where "CodeParseError = -32700"
definition CodeInvalidRequest :: int where "CodeInvalidRequest = -32600"
definition CodeMethodNotFound :: int where "CodeMethodNotFound = -32601"
definition CodeInvalidParams :: int where "CodeInvalidParams = -32602"
definition CodeInternalError :: int where "CodeInternalError = -32603"
definition CodeUnsupportedProtocolVersion :: int where "CodeUnsupportedProtocolVersion = -32022"
definition CodeMissingRequiredCapability :: int where "CodeMissingRequiredCapability = -32021"

datatype error_data = NoData | VersionData string | TaskIdData string

record mcp_error =
  me_Code :: int
  me_Data :: error_data

definition mcp_err :: "int \<Rightarrow> mcp_error" where
  "mcp_err code = \<lparr> me_Code = code, me_Data = NoData \<rparr>"

text \<open>An absent id is the empty text, absent parameters are \<open>None\<close>.\<close>

record mcp_request =
  mq_JSONRPC :: string
  mq_ID :: string
  mq_Method :: string
  mq_Params :: "json option"

definition IsNotification :: "mcp_request \<Rightarrow> bool" where
  "IsNotification r \<longleftrightarrow> mq_ID r = '''' \<or> mq_ID r = ''null''"

text \<open>Decoding a field of an object into a string, a map or a raw value: \<open>null\<close> and a missing field
  leave the zero value, a value of another type is an error (\<open>None\<close>).\<close>

definition jfield :: "string \<Rightarrow> json \<Rightarrow> json" where
  "jfield k j = (case j of JObj kvs \<Rightarrow> (case map_of kvs k of None \<Rightarrow> JNull | Some v \<Rightarrow> v) | _ \<Rightarrow> JNull)"

definition as_string :: "json \<Rightarrow> string option" where
  "as_string j = (case j of JStr s \<Rightarrow> Some s | JNull \<Rightarrow> Some '''' | _ \<Rightarrow> None)"

definition as_map :: "json \<Rightarrow> (string \<times> json) list option option" where
  "as_map j = (case j of JObj m \<Rightarrow> Some (Some m) | JNull \<Rightarrow> Some None | _ \<Rightarrow> None)"

definition is_object :: "json \<Rightarrow> bool" where
  "is_object j = (case j of JObj _ \<Rightarrow> True | JNull \<Rightarrow> True | _ \<Rightarrow> False)"

text \<open>The \<open>_meta\<close> object: \<open>None\<close> when decoding fails, \<open>Some None\<close> when it is absent.\<close>

definition base_meta :: "json \<Rightarrow> (string \<times> json) list option option" where
  "base_meta j = (if is_object j then as_map (jfield ''_meta'' j) else None)"

record request_meta =
  rm_protocolVersion :: string
  rm_capabilities :: "(string \<times> json) list"
  rm_sessionID :: string
  rm_timeoutSeconds :: int
  rm_lastSeq :: int
  rm_hasLastSeq :: bool
  rm_hasTimeout :: bool

definition no_meta :: request_meta where
  "no_meta = \<lparr> rm_protocolVersion = '''', rm_capabilities = [], rm_sessionID = '''', rm_timeoutSeconds = 0, rm_lastSeq = 0,
     rm_hasLastSeq = False, rm_hasTimeout = False \<rparr>"

definition unsupportedVersionError :: "string \<Rightarrow> mcp_error" where
  "unsupportedVersionError requested = \<lparr> me_Code = CodeUnsupportedProtocolVersion, me_Data = VersionData requested \<rparr>"

definition meta_timeout :: "(string \<times> json) list \<Rightarrow> int option option" where
  "meta_timeout m =
     (case map_of m ''dev.toolplane/timeout_seconds'' of
        None \<Rightarrow> Some None
      | Some (JWhole n) \<Rightarrow> if n \<le> 0 \<or> n > max_int32 then None else Some (Some n)
      | Some _ \<Rightarrow> None)"

definition meta_last_seq :: "(string \<times> json) list \<Rightarrow> int option option" where
  "meta_last_seq m =
     (case map_of m ''dev.toolplane/last_seq'' of
        None \<Rightarrow> Some None
      | Some (JWhole n) \<Rightarrow> if n < 0 \<or> n > max_int32 then None else Some (Some n)
      | Some _ \<Rightarrow> None)"

definition meta_text :: "string \<Rightarrow> (string \<times> json) list \<Rightarrow> string" where
  "meta_text k m = (case map_of m k of Some (JStr s) \<Rightarrow> s | _ \<Rightarrow> '''')"

definition parseRequestMeta :: "json option \<Rightarrow> mcp_error + request_meta" where
  "parseRequestMeta params =
     (case (case params of None \<Rightarrow> Some None | Some j \<Rightarrow> base_meta j) of
        None \<Rightarrow> Inl (mcp_err CodeInvalidParams)
      | Some None \<Rightarrow> Inl (mcp_err CodeInvalidRequest)
      | Some (Some m) \<Rightarrow>
          (let version = meta_text ''io.modelcontextprotocol/protocolVersion'' m
           in if version = '''' then Inl (mcp_err CodeInvalidRequest)
              else if version \<noteq> ProtocolVersion then Inl (unsupportedVersionError version)
              else case map_of m ''io.modelcontextprotocol/clientCapabilities'' of
                     Some (JObj caps) \<Rightarrow>
                       (case meta_timeout m of
                          None \<Rightarrow> Inl (mcp_err CodeInvalidParams)
                        | Some timeout \<Rightarrow>
                            (case meta_last_seq m of
                               None \<Rightarrow> Inl (mcp_err CodeInvalidParams)
                             | Some cursor \<Rightarrow>
                                 Inr \<lparr> rm_protocolVersion = version, rm_capabilities = caps,
                                       rm_sessionID = meta_text ''dev.toolplane/session_id'' m,
                                       rm_timeoutSeconds = (case timeout of None \<Rightarrow> 0 | Some n \<Rightarrow> n),
                                       rm_lastSeq = (case cursor of None \<Rightarrow> 0 | Some n \<Rightarrow> n),
                                       rm_hasLastSeq = (cursor \<noteq> None), rm_hasTimeout = (timeout \<noteq> None) \<rparr>))
                   | _ \<Rightarrow> Inl (mcp_err CodeInvalidRequest)))"

definition clientSupportsTasks :: "request_meta \<Rightarrow> bool" where
  "clientSupportsTasks m =
     (case map_of (rm_capabilities m) ''extensions'' of
        Some (JObj exts) \<Rightarrow> map_of exts ''io.modelcontextprotocol/tasks'' \<noteq> None
      | _ \<Rightarrow> False)"

definition has2026Meta :: "json option \<Rightarrow> bool" where
  "has2026Meta params =
     (case params of None \<Rightarrow> False
      | Some j \<Rightarrow> (case base_meta j of Some (Some _) \<Rightarrow> True | _ \<Rightarrow> False))"

section \<open>tasks.go\<close>

datatype task_state = TaskWorking | TaskCompleted | TaskFailed | TaskCancelled

definition requestCancelledError :: string where "requestCancelledError = ''Request was cancelled''"

definition requestTaskStatus :: "proto_request \<Rightarrow> task_state" where
  "requestTaskStatus request =
     (case pr_Status request of
        REQUEST_STATUS_DONE \<Rightarrow> TaskCompleted
      | REQUEST_STATUS_CANCELLED \<Rightarrow> TaskCancelled
      | REQUEST_STATUS_FAILED \<Rightarrow> if pr_Error request = requestCancelledError then TaskCancelled else TaskFailed
      | _ \<Rightarrow> TaskWorking)"

definition isTerminalStatus :: "task_state \<Rightarrow> bool" where
  "isTerminalStatus st \<longleftrightarrow> st = TaskCompleted \<or> st = TaskFailed \<or> st = TaskCancelled"

fun firstNonEmpty :: "string list \<Rightarrow> string" where
  "firstNonEmpty [] = ''''"
| "firstNonEmpty (v # vs) = (if TrimSpace v \<noteq> '''' then v else firstNonEmpty vs)"

definition statusMessageForRequest :: "proto_request \<Rightarrow> string" where
  "statusMessageForRequest request =
     (case pr_Status request of
        REQUEST_STATUS_PENDING \<Rightarrow> ''queued for execution''
      | REQUEST_STATUS_CLAIMED \<Rightarrow> ''executing''
      | REQUEST_STATUS_RUNNING \<Rightarrow> ''executing''
      | REQUEST_STATUS_FAILED \<Rightarrow> firstNonEmpty [pr_Error request, pr_ResultType request]
      | _ \<Rightarrow> '''')"

definition maxRenderedTextBytes :: nat where "maxRenderedTextBytes = 256 * 1024"

definition truncation_marker :: string where
  "truncation_marker = CHR 0x0A # ''... [output truncated at 262144 bytes; use tasks/get paging to re-read] ...''"

definition capRenderedText :: "string \<Rightarrow> string" where
  "capRenderedText text =
     (if length text > maxRenderedTextBytes then take maxRenderedTextBytes text @ truncation_marker else text)"

text \<open>A text block is its text.  \<open>parse\<close> decodes a JSON document.\<close>

record chunk_meta =
  km_RequestId :: string
  km_StartSeq :: int
  km_NextSeq :: int
  km_Chunks :: "string list"

record call_result =
  ct_ResultType :: bool
  ct_Content :: "string list"
  ct_Structured :: "json option"
  ct_IsError :: bool
  ct_TaskId :: "string option"
  ct_Chunks :: "chunk_meta option"

definition parseJSONValue :: "(string \<Rightarrow> json option) \<Rightarrow> string \<Rightarrow> json option" where
  "parseJSONValue parse raw =
     (let s = TrimSpace raw
      in if s = '''' then None else case parse s of Some JNull \<Rightarrow> None | v \<Rightarrow> v)"

definition status_String :: "proto_request_status \<Rightarrow> string" where
  "status_String st =
     (case st of REQUEST_STATUS_UNSPECIFIED \<Rightarrow> ''REQUEST_STATUS_UNSPECIFIED'' | REQUEST_STATUS_PENDING \<Rightarrow> ''REQUEST_STATUS_PENDING''
      | REQUEST_STATUS_CLAIMED \<Rightarrow> ''REQUEST_STATUS_CLAIMED'' | REQUEST_STATUS_RUNNING \<Rightarrow> ''REQUEST_STATUS_RUNNING''
      | REQUEST_STATUS_DONE \<Rightarrow> ''REQUEST_STATUS_DONE'' | REQUEST_STATUS_FAILED \<Rightarrow> ''REQUEST_STATUS_FAILED''
      | REQUEST_STATUS_CANCELLED \<Rightarrow> ''REQUEST_STATUS_CANCELLED'')"

definition callToolResultFromRequest :: "(string \<Rightarrow> json option) \<Rightarrow> proto_request \<Rightarrow> call_result" where
  "callToolResultFromRequest parse request =
     (let base = \<lparr> ct_ResultType = True, ct_Content = [], ct_Structured = None, ct_IsError = False, ct_TaskId = None, ct_Chunks = None \<rparr>
      in if pr_Status request = REQUEST_STATUS_DONE
         then base\<lparr> ct_Content := (let text = TrimSpace (pr_Result request) in if text \<noteq> '''' then [capRenderedText text] else []),
                    ct_Structured := parseJSONValue parse (pr_Result request) \<rparr>
         else base\<lparr> ct_Content := [''tool call failed: '' @ firstNonEmpty [pr_Error request, ''tool call '' @ status_String (pr_Status request)]],
                    ct_IsError := True \<rparr>)"

record task_payload =
  tp_IsTask :: bool
  tp_TaskID :: string
  tp_Status :: task_state
  tp_StatusMessage :: string
  tp_CreatedAt :: "time option"
  tp_LastUpdatedAt :: "time option"
  tp_PollIntervalMs :: int
  tp_Result :: "call_result option"
  tp_Error :: "(mcp_error \<times> string) option"
  tp_Meta :: "chunk_meta option"

definition taskPollIntervalMs :: int where "taskPollIntervalMs = 500"

definition baseTaskPayload :: "proto_request \<Rightarrow> task_payload" where
  "baseTaskPayload request =
     \<lparr> tp_IsTask = False, tp_TaskID = pr_Id request, tp_Status = requestTaskStatus request,
       tp_StatusMessage = statusMessageForRequest request, tp_CreatedAt = pr_CreatedAt request, tp_LastUpdatedAt = pr_UpdatedAt request,
       tp_PollIntervalMs = taskPollIntervalMs, tp_Result = None, tp_Error = None, tp_Meta = None \<rparr>"

definition createTaskResult :: "proto_request \<Rightarrow> task_payload" where
  "createTaskResult request = (baseTaskPayload request)\<lparr> tp_IsTask := True \<rparr>"

definition detailedTask :: "(string \<Rightarrow> json option) \<Rightarrow> proto_request \<Rightarrow> task_payload" where
  "detailedTask parse request =
     (let payload = baseTaskPayload request
      in case tp_Status payload of
           TaskCompleted \<Rightarrow> payload\<lparr> tp_Result := Some (callToolResultFromRequest parse request) \<rparr>
         | TaskFailed \<Rightarrow> payload\<lparr> tp_Error := Some (\<lparr> me_Code = CodeInternalError, me_Data = TaskIdData (pr_Id request) \<rparr>,
                                    firstNonEmpty [pr_Error request, ''tool execution failed'']) \<rparr>
         | _ \<Rightarrow> payload)"
section \<open>tracectx.go\<close>

text \<open>\<open>strings.Split\<close> at one character.\<close>

fun split_at :: "char \<Rightarrow> string \<Rightarrow> string list" where
  "split_at c [] = [[]]"
| "split_at c (x # xs) = (if x = c then [] # split_at c xs else case split_at c xs of f # fs \<Rightarrow> (x # f) # fs | [] \<Rightarrow> [[x]])"

definition isHex :: "string \<Rightarrow> bool" where
  "isHex s \<longleftrightarrow> s \<noteq> '''' \<and> list_all (\<lambda>c. c \<in> set ''0123456789abcdefABCDEF'') s"

definition allZero :: "string \<Rightarrow> bool" where
  "allZero s \<longleftrightarrow> list_all (\<lambda>c. c = CHR ''0'') s"

definition parseTraceparent :: "string \<Rightarrow> string" where
  "parseTraceparent value =
     (let header = TrimSpace value
      in case (if header = '''' then [] else split_at (CHR ''-'') header) of
           version # traceID # parentID # flags # extra \<Rightarrow>
             if length version \<noteq> 2 \<or> \<not> isHex version \<or> ToLower version = ''ff'' then ''''
             else if version = ''00'' \<and> extra \<noteq> [] then ''''
             else if length traceID \<noteq> 32 \<or> \<not> isHex traceID \<or> allZero traceID then ''''
             else if length parentID \<noteq> 16 \<or> \<not> isHex parentID \<or> allZero parentID then ''''
             else if length flags \<noteq> 2 \<or> \<not> isHex flags then ''''
             else header
         | _ \<Rightarrow> '''')"

definition parseTracestate :: "string \<Rightarrow> string" where
  "parseTracestate value =
     (let header = TrimSpace value; members = split_at (CHR '','') header
      in if header = '''' then ''''
         else if length members > 32 then ''''
         else if list_ex (\<lambda>m. let t = TrimSpace m in t = '''' \<or> CHR ''='' \<notin> set t) members then ''''
         else header)"

text \<open>The headers of the HTTP request the facade reads, an absent header being empty, and the body, \<open>None\<close> when
  reading it fails.\<close>

record http_request =
  hr_Authorization :: string
  hr_APIKey :: string
  hr_MachineToken :: string
  hr_Traceparent :: string
  hr_Tracestate :: string
  hr_Body :: "string option"

definition traceMetadata :: "http_request \<Rightarrow> metadata" where
  "traceMetadata r =
     (let tp = parseTraceparent (hr_Traceparent r); ts = parseTracestate (hr_Tracestate r)
      in if tp = '''' then []
         else if ts = '''' then [(''traceparent'', [tp])]
         else [(''traceparent'', [tp]), (''tracestate'', [ts])])"

section \<open>server.go\<close>

definition sessionCacheTTL :: duration where "sessionCacheTTL = 600 * Second"
definition sessionCacheMaxEntry :: nat where "sessionCacheMaxEntry = 1024"
definition maxTrackedCalls :: nat where "maxTrackedCalls = 4096"
definition maxRequestBodyBytes :: nat where "maxRequestBodyBytes = 4 * 1024 * 1024"

record cached_session =
  cs_sessionID :: string
  cs_lastUsed :: time

record tracked_call =
  tc_sessionID :: string
  tc_requestID :: string

record mcp_server =
  ms_syncTimeout :: duration
  ms_pollInterval :: duration
  ms_defaultUserID :: string
  ms_allowSessionAutoProvision :: bool
  ms_sessionByKey :: "cached_session gomap"
  ms_trackedCalls :: "tracked_call gomap"
  ms_trackedOrder :: "string list"

datatype mcp_option = WithSyncTimeout duration | WithPollInterval duration | WithDefaultUserID string | WithSessionAutoProvision bool

fun apply_option :: "mcp_option \<Rightarrow> mcp_server \<Rightarrow> mcp_server" where
  "apply_option (WithSyncTimeout d) s = (if d > 0 then s\<lparr> ms_syncTimeout := d \<rparr> else s)"
| "apply_option (WithPollInterval d) s = (if d > 0 then s\<lparr> ms_pollInterval := d \<rparr> else s)"
| "apply_option (WithDefaultUserID u) s = (if TrimSpace u \<noteq> '''' then s\<lparr> ms_defaultUserID := u \<rparr> else s)"
| "apply_option (WithSessionAutoProvision b) s = s\<lparr> ms_allowSessionAutoProvision := b \<rparr>"

definition mcp_NewServer :: "mcp_option list \<Rightarrow> mcp_server" where
  "mcp_NewServer opts =
     fold apply_option opts
       \<lparr> ms_syncTimeout = 60 * Second, ms_pollInterval = 250000000,
         ms_defaultUserID = ''mcp-gateway'', ms_allowSessionAutoProvision = True,
         ms_sessionByKey = [], ms_trackedCalls = [], ms_trackedOrder = [] \<rparr>"

definition authMetadata :: "http_request \<Rightarrow> metadata" where
  "authMetadata r =
     (if hr_Authorization r \<noteq> '''' then [(''authorization'', [hr_Authorization r])] else [])
     @ (if hr_APIKey r \<noteq> '''' then [(''api_key'', [hr_APIKey r])] else [])
     @ (if hr_MachineToken r \<noteq> '''' then [(''x-toolplane-machine-token'', [hr_MachineToken r])] else [])
     @ traceMetadata r"

text \<open>\<open>hash\<close> is the hexadecimal SHA-256 digest.\<close>

definition apiKeyForCache :: "hash_fun \<Rightarrow> http_request \<Rightarrow> string" where
  "apiKeyForCache hash r =
     (let credential = (if hr_APIKey r \<noteq> '''' then hr_APIKey r else hr_Authorization r)
      in if credential = '''' then ''<anonymous>'' else hash credential)"

type_synonym 'g backend = "metadata \<Rightarrow> rpc_call \<Rightarrow> 'g \<Rightarrow> 'g \<times> response"

text \<open>Eviction of the least recently used binding, among equals the first the iteration meets.\<close>

fun oldest_binding :: "(string \<times> time) option \<Rightarrow> (string \<times> cached_session) list \<Rightarrow> (string \<times> time) option" where
  "oldest_binding best [] = best"
| "oldest_binding best ((key, entry) # es) =
     (case best of
        None \<Rightarrow> oldest_binding (Some (key, cs_lastUsed entry)) es
      | Some (k, t) \<Rightarrow> if k = '''' \<or> cs_lastUsed entry < t then oldest_binding (Some (key, cs_lastUsed entry)) es
                        else oldest_binding best es)"

definition bind_session :: "time \<Rightarrow> string \<Rightarrow> string \<Rightarrow> cached_session gomap \<Rightarrow> cached_session gomap" where
  "bind_session now apiKey sid m =
     (let m1 = (if length m \<ge> sessionCacheMaxEntry
                then (case oldest_binding None m of None \<Rightarrow> gm_del '''' m | Some (k, _) \<Rightarrow> gm_del k m) else m)
      in gm_put apiKey \<lparr> cs_sessionID = sid, cs_lastUsed = now \<rparr> m1)"

text \<open>A new session for the key.  The error of a resolution is \<open>True\<close> for a request that is not bound to
  a session.\<close>

definition provision ::
  "'g backend \<Rightarrow> time \<Rightarrow> metadata \<Rightarrow> string \<Rightarrow> mcp_server \<Rightarrow> 'g \<Rightarrow> (mcp_server \<times> 'g) \<times> (bool + string)" where
  "provision rpc now md apiKey s g =
     (case rpc md (SessionCall (CreateSessionRpc (ms_defaultUserID s) ''mcp-gateway'' ''Auto-provisioned by toolplane-mcp-gateway'' '''' ''mcp'')) g of
        (g1, SessionReply ses) \<Rightarrow>
          ((s\<lparr> ms_sessionByKey := bind_session now apiKey (ps_Id ses) (ms_sessionByKey s) \<rparr>, g1), Inr (ps_Id ses))
      | (g1, _) \<Rightarrow> ((s, g1), Inl False))"

definition resolveSession ::
  "'g backend \<Rightarrow> time \<Rightarrow> metadata \<Rightarrow> request_meta \<Rightarrow> string \<Rightarrow> mcp_server \<times> 'g \<Rightarrow> (mcp_server \<times> 'g) \<times> (bool + string)" where
  "resolveSession rpc now md meta apiKey sg =
     (case sg of (s, g) \<Rightarrow>
        if rm_sessionID meta \<noteq> '''' then ((s, g), Inr (rm_sessionID meta))
        else if \<not> ms_allowSessionAutoProvision s then ((s, g), Inl True)
        else (let cached = gm_get (ms_sessionByKey s) apiKey
              in case cached of
                   Some c \<Rightarrow>
                     if now - cs_lastUsed c < sessionCacheTTL
                     then ((s\<lparr> ms_sessionByKey := gm_put apiKey (c\<lparr> cs_lastUsed := now \<rparr>) (ms_sessionByKey s) \<rparr>, g), Inr (cs_sessionID c))
                     else provision rpc now md apiKey (s\<lparr> ms_sessionByKey := gm_del apiKey (ms_sessionByKey s) \<rparr>) g
                 | None \<Rightarrow> provision rpc now md apiKey s g))"
section \<open>tools.go\<close>

definition normalizeJSONRPCID :: "string \<Rightarrow> string" where
  "normalizeJSONRPCID raw = TrimSpace raw"

definition deriveCallIdempotencyKey :: "hash_fun \<Rightarrow> string \<Rightarrow> string \<Rightarrow> string \<Rightarrow> string" where
  "deriveCallIdempotencyKey hash jsonrpcID toolName input =
     ''mcp:'' @ normalizeJSONRPCID jsonrpcID @ '':'' @ toolName @ '':'' @ take 16 (hash input)"

definition trackingKey :: "hash_fun \<Rightarrow> string \<Rightarrow> string \<Rightarrow> string" where
  "trackingKey hash apiKey jsonrpcID =
     (let i = normalizeJSONRPCID jsonrpcID in if i = '''' then '''' else take 16 (hash apiKey) @ '':'' @ i)"

definition trackCall :: "hash_fun \<Rightarrow> string \<Rightarrow> string \<Rightarrow> string \<Rightarrow> string \<Rightarrow> mcp_server \<Rightarrow> mcp_server" where
  "trackCall hash apiKey sessionID jsonrpcID requestID s =
     (let key = trackingKey hash apiKey jsonrpcID
      in if key = '''' \<or> requestID = '''' then s
         else let isnew = (gm_get (ms_trackedCalls s) key = None);
                  s1 = (if isnew \<and> length (ms_trackedCalls s) \<ge> maxTrackedCalls
                        then s\<lparr> ms_trackedCalls := gm_del (hd (ms_trackedOrder s)) (ms_trackedCalls s),
                                ms_trackedOrder := tl (ms_trackedOrder s) \<rparr> else s);
                  s2 = (if isnew then s1\<lparr> ms_trackedOrder := ms_trackedOrder s1 @ [key] \<rparr> else s1)
              in s2\<lparr> ms_trackedCalls := gm_put key \<lparr> tc_sessionID = sessionID, tc_requestID = requestID \<rparr> (ms_trackedCalls s2) \<rparr>)"

definition trackedCallFor :: "hash_fun \<Rightarrow> string \<Rightarrow> string \<Rightarrow> mcp_server \<Rightarrow> string \<times> string" where
  "trackedCallFor hash apiKey jsonrpcID s =
     (case gm_get (ms_trackedCalls s) (trackingKey hash apiKey jsonrpcID) of
        None \<Rightarrow> ('''', '''') | Some c \<Rightarrow> (tc_sessionID c, tc_requestID c))"

text \<open>\<open>None\<close> is a panic: the text \<open>null\<close> decodes to a nil map, which is then assigned to.\<close>

definition normalizeToolSchema :: "(string \<Rightarrow> json option) \<Rightarrow> string \<Rightarrow> json option" where
  "normalizeToolSchema parse schemaText =
     (let fallback = JObj [(''type'', JStr ''object''), (''properties'', JObj [])];
          text = TrimSpace schemaText
      in if text = '''' then Some fallback
         else case parse text of
                Some (JObj m) \<Rightarrow>
                  (case map_of m ''type'' of
                     Some t \<Rightarrow>
                       if t = JNull \<or> t = JStr ''object'' then Some (JObj (AList.update ''type'' (JStr ''object'') m))
                       else Some (JObj [(''type'', JStr ''object''), (''properties'', JObj [(''input'', JObj m)]),
                                        (''required'', JArr [JStr ''input''])])
                   | None \<Rightarrow> Some (JObj (AList.update ''type'' (JStr ''object'') m)))
              | Some JNull \<Rightarrow> None
              | _ \<Rightarrow> Some fallback)"

text \<open>An entry of the tool list: name, schema, and a description unless it is blank.\<close>

type_synonym tool_entry = "string \<times> json \<times> string option"

definition tool_entry :: "(string \<Rightarrow> json option) \<Rightarrow> proto_tool \<Rightarrow> tool_entry option" where
  "tool_entry parse t =
     map_option (\<lambda>sc. (pt_Name t, sc, if TrimSpace (pt_Description t) \<noteq> '''' then Some (pt_Description t) else None))
       (normalizeToolSchema parse (pt_Schema t))"

datatype mcp_result =
    Discover "string list" | Pong | ToolList bool "tool_entry list" | TaskResult task_payload | CallResult call_result | Ack | Initialized string

text \<open>The outcome of a handler; a panic ends the connection without an answer.\<close>

datatype mcp_outcome = McpOk mcp_result | McpErr mcp_error | McpPanic

definition session_error :: "bool \<Rightarrow> mcp_outcome" where
  "session_error unbound = McpErr (mcp_err (if unbound then CodeInvalidParams else CodeInternalError))"

definition backendError :: mcp_outcome where
  "backendError = McpErr (mcp_err CodeInternalError)"

definition list_tools ::
  "'g backend \<Rightarrow> (string \<Rightarrow> json option) \<Rightarrow> time \<Rightarrow> metadata \<Rightarrow> bool \<Rightarrow> request_meta \<Rightarrow> string \<Rightarrow> mcp_server \<times> 'g
     \<Rightarrow> (mcp_server \<times> 'g) \<times> mcp_outcome" where
  "list_tools rpc parse now md modern meta apiKey sg =
     (case resolveSession rpc now md meta apiKey sg of
        (sg1, Inl unbound) \<Rightarrow> (sg1, session_error unbound)
      | ((s1, g1), Inr sessionID) \<Rightarrow>
          (case rpc md (ToolCall (ListToolsRpc sessionID)) g1 of
             (g2, ToolsReply ts) \<Rightarrow>
               ((s1, g2), case those (map (tool_entry parse) ts) of None \<Rightarrow> McpPanic | Some es \<Rightarrow> McpOk (ToolList modern es))
           | (g2, _) \<Rightarrow> ((s1, g2), backendError)))"

definition handleToolsList where
  "handleToolsList rpc parse now md meta apiKey sg = list_tools rpc parse now md True meta apiKey sg"

definition handleLegacyToolsList where
  "handleLegacyToolsList rpc parse now md apiKey sg = list_tools rpc parse now md False no_meta apiKey sg"

definition read_window :: "'g backend \<Rightarrow> metadata \<Rightarrow> string \<Rightarrow> string \<Rightarrow> 'g \<Rightarrow> 'g \<times> chunk_window option" where
  "read_window rpc md sessionID requestID g =
     (case rpc md (RequestCall (GetRequestChunksRpc sessionID requestID)) g of
        (g1, ChunksReply w) \<Rightarrow> (g1, Some w) | (g1, _) \<Rightarrow> (g1, None))"

definition hasTextContent :: "string list \<Rightarrow> bool" where
  "hasTextContent content = list_ex (\<lambda>t. TrimSpace t \<noteq> '''') content"

fun join_lines :: "string list \<Rightarrow> string" where
  "join_lines [] = ''''"
| "join_lines [c] = c"
| "join_lines (c # cs) = c @ [CHR 0x0A] @ join_lines cs"

definition buildSyncCallToolResult ::
  "'g backend \<Rightarrow> (string \<Rightarrow> json option) \<Rightarrow> metadata \<Rightarrow> string \<Rightarrow> proto_request \<Rightarrow> 'g \<Rightarrow> 'g \<times> call_result" where
  "buildSyncCallToolResult rpc parse md sessionID request g =
     (let result = callToolResultFromRequest parse request;
          (g1, window) = read_window rpc md sessionID (pr_Id request) g;
          result1 = (case window of
             Some w \<Rightarrow> if \<not> hasTextContent (ct_Content result) \<and> w_Chunks w \<noteq> []
                       then result\<lparr> ct_Content := [capRenderedText (join_lines (w_Chunks w))] \<rparr> else result
           | None \<Rightarrow> result)
      in (g1, result1\<lparr> ct_TaskId := Some (pr_Id request),
            ct_Chunks := map_option (\<lambda>w. \<lparr> km_RequestId = pr_Id request, km_StartSeq = w_StartSeq w, km_NextSeq = w_NextSeq w,
              km_Chunks = w_Chunks w \<rparr>) window \<rparr>))"

text \<open>The wait of a synchronous call: each round has its time and what happens to the backend before
  its poll; no further round means that the caller has gone.\<close>

fun sync_rounds ::
  "'g backend \<Rightarrow> (string \<Rightarrow> json option) \<Rightarrow> metadata \<Rightarrow> time \<Rightarrow> string \<Rightarrow> string \<Rightarrow> (time \<times> ('g \<Rightarrow> 'g)) list \<Rightarrow> 'g \<Rightarrow> 'g \<times> mcp_outcome" where
  "sync_rounds rpc parse md deadline sessionID requestID [] g =
     (g, McpErr \<lparr> me_Code = CodeInternalError, me_Data = TaskIdData requestID \<rparr>)"
| "sync_rounds rpc parse md deadline sessionID requestID ((now, before) # rs) g =
     (case rpc md (RequestCall (GetRequestRpc sessionID requestID)) (before g) of
        (g1, RequestReply request) \<Rightarrow>
          if isTerminalStatus (requestTaskStatus request)
          then (let (g2, r) = buildSyncCallToolResult rpc parse md sessionID request g1 in (g2, McpOk (CallResult r)))
          else if now > deadline then (g1, McpErr \<lparr> me_Code = CodeInternalError, me_Data = TaskIdData requestID \<rparr>)
          else sync_rounds rpc parse md deadline sessionID requestID rs g1
      | (g1, _) \<Rightarrow> (g1, backendError))"

definition awaitSyncResult where
  "awaitSyncResult rpc parse md start sessionID requestID rs s g =
     (let (g1, out) = sync_rounds rpc parse md (start + ms_syncTimeout s) sessionID requestID ((start, \<lambda>g. g) # rs) g
      in ((s, g1), out))"

text \<open>The common part of both \<open>tools/call\<close> handlers up to the created request.  \<open>marshal\<close> encodes the
  arguments; missing arguments are \<open>null\<close>.\<close>

definition call_params :: "json option \<Rightarrow> (string \<times> json) option" where
  "call_params params =
     (case params of
        None \<Rightarrow> None
      | Some j \<Rightarrow>
          if \<not> is_object j then None
          else case (as_string (jfield ''name'' j), as_map (jfield ''arguments'' j)) of
                 (Some n, Some a) \<Rightarrow> Some (n, case a of None \<Rightarrow> JNull | Some m \<Rightarrow> JObj m)
               | _ \<Rightarrow> None)"

definition create_call ::
  "'g backend \<Rightarrow> hash_fun \<Rightarrow> (json \<Rightarrow> string option) \<Rightarrow> time \<Rightarrow> metadata \<Rightarrow> mcp_request \<Rightarrow> request_meta \<Rightarrow> string \<Rightarrow> mcp_server \<times> 'g
     \<Rightarrow> (mcp_server \<times> 'g) \<times> (mcp_outcome + string \<times> proto_request)" where
  "create_call rpc hash marshal now md req meta apiKey sg =
     (case call_params (mq_Params req) of
        None \<Rightarrow> (sg, Inl (McpErr (mcp_err CodeInvalidParams)))
      | Some (name, arguments) \<Rightarrow>
          if TrimSpace name = '''' then (sg, Inl (McpErr (mcp_err CodeInvalidParams)))
          else case resolveSession rpc now md meta apiKey sg of
                 (sg1, Inl unbound) \<Rightarrow> (sg1, Inl (session_error unbound))
               | ((s1, g1), Inr sessionID) \<Rightarrow>
                   (case marshal arguments of
                      None \<Rightarrow> ((s1, g1), Inl (McpErr (mcp_err CodeInvalidParams)))
                    | Some input \<Rightarrow>
                        (case rpc md (RequestCall (CreateRequestRpc sessionID name input (rm_timeoutSeconds meta)
                                 (deriveCallIdempotencyKey hash (mq_ID req) name input))) g1 of
                           (g2, RequestReply request) \<Rightarrow>
                             ((trackCall hash apiKey sessionID (mq_ID req) (pr_Id request) s1, g2), Inr (sessionID, request))
                         | (g2, _) \<Rightarrow> ((s1, g2), Inl backendError))))"

definition handleToolsCall where
  "handleToolsCall rpc hash parse marshal now rs md req meta apiKey sg =
     (case create_call rpc hash marshal now md req meta apiKey sg of
        (sg1, Inl out) \<Rightarrow> (sg1, out)
      | ((s1, g1), Inr (sessionID, request)) \<Rightarrow>
          if clientSupportsTasks meta then ((s1, g1), McpOk (TaskResult (createTaskResult request)))
          else awaitSyncResult rpc parse md now sessionID (pr_Id request) rs s1 g1)"

definition strip_result :: "mcp_outcome \<Rightarrow> mcp_outcome" where
  "strip_result out =
     (case out of
        McpOk (CallResult r) \<Rightarrow> McpOk (CallResult (r\<lparr> ct_ResultType := False, ct_TaskId := None, ct_Chunks := None \<rparr>))
      | _ \<Rightarrow> out)"

definition handleLegacyToolsCall where
  "handleLegacyToolsCall rpc hash parse marshal now rs md req apiKey sg =
     (case create_call rpc hash marshal now md req no_meta apiKey sg of
        (sg1, Inl out) \<Rightarrow> (sg1, out)
      | ((s1, g1), Inr (sessionID, request)) \<Rightarrow>
          (let (sg2, out) = awaitSyncResult rpc parse md now sessionID (pr_Id request) rs s1 g1 in (sg2, strip_result out)))"

text \<open>The id of the call to stop is the raw text of \<open>requestId\<close>, \<open>raw\<close> of the value.\<close>

definition handleCancelledNotification ::
  "'g backend \<Rightarrow> hash_fun \<Rightarrow> (json \<Rightarrow> string) \<Rightarrow> metadata \<Rightarrow> mcp_request \<Rightarrow> string \<Rightarrow> mcp_server \<Rightarrow> 'g \<Rightarrow> 'g" where
  "handleCancelledNotification rpc hash raw md req callerCredential s g =
     (if (case mq_Params req of None \<Rightarrow> False | Some j \<Rightarrow> \<not> is_object j) then g
      else let requestId = (case mq_Params req of
                Some (JObj kvs) \<Rightarrow> (case map_of kvs ''requestId'' of None \<Rightarrow> '''' | Some v \<Rightarrow> raw v)
              | _ \<Rightarrow> '''');
               (sessionID, requestID) = trackedCallFor hash callerCredential requestId s
           in if requestID = '''' then g
              else fst (rpc md (RequestCall (CancelRequestRpc sessionID requestID)) g))"
definition handleDiscover :: mcp_outcome where
  "handleDiscover = McpOk (Discover [ProtocolVersion])"

section \<open>server.go: tasks and routing\<close>

text \<open>\<open>tasks/get\<close> and \<open>tasks/cancel\<close> read the task id, resolve the session and look the request up.\<close>

definition task_id_param :: "json option \<Rightarrow> string option" where
  "task_id_param params =
     (case params of None \<Rightarrow> None | Some j \<Rightarrow> if is_object j then as_string (jfield ''taskId'' j) else None)"

definition find_task ::
  "'g backend \<Rightarrow> time \<Rightarrow> metadata \<Rightarrow> mcp_request \<Rightarrow> request_meta \<Rightarrow> string \<Rightarrow> mcp_server \<times> 'g
     \<Rightarrow> (mcp_server \<times> 'g) \<times> (mcp_outcome + string \<times> string \<times> proto_request)" where
  "find_task rpc now md req meta apiKey sg =
     (case task_id_param (mq_Params req) of
        None \<Rightarrow> (sg, Inl (McpErr (mcp_err CodeInvalidParams)))
      | Some taskID \<Rightarrow>
          if TrimSpace taskID = '''' then (sg, Inl (McpErr (mcp_err CodeInvalidParams)))
          else case resolveSession rpc now md meta apiKey sg of
                 (sg1, Inl unbound) \<Rightarrow> (sg1, Inl (session_error unbound))
               | ((s1, g1), Inr sessionID) \<Rightarrow>
                   (case rpc md (RequestCall (GetRequestRpc sessionID taskID)) g1 of
                      (g2, RequestReply request) \<Rightarrow> ((s1, g2), Inr (sessionID, taskID, request))
                    | (g2, Status (code, _, _)) \<Rightarrow>
                        ((s1, g2), Inl (if code = CodeNotFound then McpErr (mcp_err CodeInvalidParams) else backendError))
                    | (g2, _) \<Rightarrow> ((s1, g2), Inl backendError)))"

text \<open>The window after the cursor: the sequence number of its first chunk and its chunks.\<close>

definition slice_window :: "int \<Rightarrow> chunk_window \<Rightarrow> int \<times> string list" where
  "slice_window lastSeq w =
     (let startSeq = w_StartSeq w; chunks = w_Chunks w
      in if lastSeq > startSeq
         then (let skip = nat (lastSeq - startSeq)
               in if skip \<ge> length chunks then (w_NextSeq w, []) else (lastSeq, List.drop skip chunks))
         else (startSeq, chunks))"

definition readChunkWindow ::
  "'g backend \<Rightarrow> metadata \<Rightarrow> string \<Rightarrow> string \<Rightarrow> request_meta \<Rightarrow> 'g \<Rightarrow> 'g \<times> chunk_meta option" where
  "readChunkWindow rpc md sessionID requestID meta g =
     (let (g1, window) = read_window rpc md sessionID requestID g;
          lastSeq = (if rm_hasLastSeq meta then rm_lastSeq meta else 0)
      in (g1, map_option (\<lambda>w. let (startSeq, chunks) = slice_window lastSeq w
               in \<lparr> km_RequestId = requestID, km_StartSeq = startSeq, km_NextSeq = w_NextSeq w, km_Chunks = chunks \<rparr>) window))"

definition handleTasksGet where
  "handleTasksGet rpc parse now md req meta apiKey sg =
     (case find_task rpc now md req meta apiKey sg of
        (sg1, Inl out) \<Rightarrow> (sg1, out)
      | ((s1, g1), Inr (sessionID, taskID, request)) \<Rightarrow>
          (let payload = detailedTask parse request
           in if isTerminalStatus (tp_Status payload) then ((s1, g1), McpOk (TaskResult payload))
              else (let (g2, chunksMeta) = readChunkWindow rpc md sessionID (pr_Id request) meta g1
                    in ((s1, g2), McpOk (TaskResult (payload\<lparr> tp_Meta := chunksMeta \<rparr>))))))"

definition handleTasksCancel where
  "handleTasksCancel rpc now md req meta apiKey sg =
     (case find_task rpc now md req meta apiKey sg of
        (sg1, Inl out) \<Rightarrow> (sg1, out)
      | ((s1, g1), Inr (sessionID, taskID, request)) \<Rightarrow>
          if isTerminalStatus (requestTaskStatus request) then ((s1, g1), McpOk Ack)
          else case rpc md (RequestCall (CancelRequestRpc sessionID taskID)) g1 of
                 (g2, Success _) \<Rightarrow> ((s1, g2), McpOk Ack)
               | (g2, _) \<Rightarrow> ((s1, g2), backendError))"

definition handleInitialize :: "json option \<Rightarrow> mcp_outcome" where
  "handleInitialize params =
     (let j = (case params of None \<Rightarrow> JNull | Some j \<Rightarrow> j); info = jfield ''clientInfo'' j
      in case as_string (jfield ''protocolVersion'' j) of
           Some requested \<Rightarrow>
             if is_object j \<and> as_map (jfield ''capabilities'' j) \<noteq> None \<and> is_object info
                \<and> as_string (jfield ''name'' info) \<noteq> None \<and> as_string (jfield ''version'' info) \<noteq> None
             then McpOk (Initialized (if TrimSpace requested \<in> set LegacyProtocolVersions then TrimSpace requested
                                      else DefaultLegacyProtocolVersion))
             else McpErr (mcp_err CodeInvalidParams)
         | None \<Rightarrow> McpErr (mcp_err CodeInvalidParams))"

text \<open>What the facade takes from outside for one HTTP request: the backend, the SHA-256 digest, the JSON
  decoder and encoder, the raw text of a decoded value, the clock, and the rounds of a wait.\<close>

record 'g mcp_env =
  mv_rpc :: "'g backend"
  mv_hash :: hash_fun
  mv_parse :: "string \<Rightarrow> json option"
  mv_marshal :: "json \<Rightarrow> string option"
  mv_decode :: "string \<Rightarrow> mcp_request option"
  mv_raw :: "json \<Rightarrow> string"
  mv_now :: time
  mv_rounds :: "(time \<times> ('g \<Rightarrow> 'g)) list"

definition unknown_method :: mcp_outcome where
  "unknown_method = McpErr (mcp_err CodeMethodNotFound)"

definition dispatchLegacy ::
  "'g mcp_env \<Rightarrow> metadata \<Rightarrow> mcp_request \<Rightarrow> string \<Rightarrow> mcp_server \<times> 'g \<Rightarrow> (mcp_server \<times> 'g) \<times> mcp_outcome" where
  "dispatchLegacy v md req apiKey sg =
     (let method = mq_Method req
      in if method = ''initialize'' then (sg, handleInitialize (mq_Params req))
         else if method = ''ping'' then (sg, McpOk Pong)
         else if method = ''tools/list'' then handleLegacyToolsList (mv_rpc v) (mv_parse v) (mv_now v) md apiKey sg
         else if method = ''tools/call''
         then handleLegacyToolsCall (mv_rpc v) (mv_hash v) (mv_parse v) (mv_marshal v) (mv_now v) (mv_rounds v) md req apiKey sg
         else (sg, unknown_method))"

definition route ::
  "'g mcp_env \<Rightarrow> metadata \<Rightarrow> mcp_request \<Rightarrow> request_meta \<Rightarrow> string \<Rightarrow> mcp_server \<times> 'g \<Rightarrow> (mcp_server \<times> 'g) \<times> mcp_outcome" where
  "route v md req meta apiKey sg =
     (let method = mq_Method req
      in if method = ''server/discover'' then (sg, handleDiscover)
         else if method = ''ping'' then (sg, McpOk Pong)
         else if method = ''tools/list'' then handleToolsList (mv_rpc v) (mv_parse v) (mv_now v) md meta apiKey sg
         else if method = ''tools/call''
         then handleToolsCall (mv_rpc v) (mv_hash v) (mv_parse v) (mv_marshal v) (mv_now v) (mv_rounds v) md req meta apiKey sg
         else if method = ''tasks/get'' then handleTasksGet (mv_rpc v) (mv_parse v) (mv_now v) md req meta apiKey sg
         else if method = ''tasks/cancel'' then handleTasksCancel (mv_rpc v) (mv_now v) md req meta apiKey sg
         else (sg, unknown_method))"

definition mcp_dispatch ::
  "'g mcp_env \<Rightarrow> metadata \<Rightarrow> mcp_request \<Rightarrow> string \<Rightarrow> mcp_server \<times> 'g \<Rightarrow> (mcp_server \<times> 'g) \<times> mcp_outcome" where
  "mcp_dispatch v md req apiKey sg =
     (if \<not> has2026Meta (mq_Params req) then dispatchLegacy v md req apiKey sg
      else case parseRequestMeta (mq_Params req) of
             Inl e \<Rightarrow> (sg, McpErr e)
           | Inr meta \<Rightarrow> route v md req meta apiKey sg)"

text \<open>The HTTP answer: status, the id of the JSON-RPC response (empty for \<open>null\<close>) and its content; a
  notification is only accepted, and after a panic the connection is closed.\<close>

datatype http_reply = Answer int string mcp_outcome | Accepted | Aborted

definition http_status :: "mcp_outcome \<Rightarrow> int" where
  "http_status out =
     (case out of
        McpErr e \<Rightarrow> if me_Code e \<in> {CodeParseError, CodeInvalidRequest, CodeUnsupportedProtocolVersion, CodeMissingRequiredCapability}
                    then 400 else 200
      | _ \<Rightarrow> 200)"

definition serveMCP :: "'g mcp_env \<Rightarrow> http_request \<Rightarrow> mcp_server \<times> 'g \<Rightarrow> (mcp_server \<times> 'g) \<times> http_reply" where
  "serveMCP v r sg =
     (case hr_Body r of
        None \<Rightarrow> (sg, Answer 400 '''' (McpErr (mcp_err CodeInvalidRequest)))
      | Some body \<Rightarrow>
          if length body > maxRequestBodyBytes then (sg, Answer 413 '''' (McpErr (mcp_err CodeInvalidRequest)))
          else (case mv_decode v body of
                 None \<Rightarrow> (sg, Answer 400 '''' (McpErr (mcp_err CodeParseError)))
               | Some req \<Rightarrow>
                   if mq_JSONRPC req \<noteq> ''2.0'' then (sg, Answer 400 (mq_ID req) (McpErr (mcp_err CodeInvalidRequest)))
                   else if IsNotification req
                   then ((if mq_Method req = ''notifications/cancelled''
                          then (fst sg, handleCancelledNotification (mv_rpc v) (mv_hash v) (mv_raw v) (authMetadata r) req
                                          (apiKeyForCache (mv_hash v) r) (fst sg) (snd sg))
                          else sg), Accepted)
                   else (case mcp_dispatch v (authMetadata r) req (apiKeyForCache (mv_hash v) r) sg of
                           (sg1, McpPanic) \<Rightarrow> (sg1, Aborted)
                         | (sg1, out) \<Rightarrow> (sg1, Answer (http_status out) (mq_ID req) out))))"

end
