(* ===== verification/Mcp_Theorems.thy ===== *)
theory Mcp_Theorems
  imports Mcp_Server Grpc_Isolation
begin

text \<open>
  Properties of the MCP facade: its tables stay bounded, a polling client receives the chunk log
  without gaps, a synchronous call answers with the outcome of its request, and the de-duplication
  key of a call does not depend on the caller.
\<close>

section \<open>The tables of the facade\<close>

text \<open>The order of arrival lists exactly the tracked calls, and both tables are bounded.\<close>

definition facade_ok :: "mcp_server \<Rightarrow> bool" where
  "facade_ok s \<longleftrightarrow> map fst (ms_trackedCalls s) = ms_trackedOrder s \<and> distinct (ms_trackedOrder s)
     \<and> length (ms_trackedOrder s) \<le> maxTrackedCalls
     \<and> distinct (map fst (ms_sessionByKey s)) \<and> length (ms_sessionByKey s) \<le> sessionCacheMaxEntry"

lemma facade_track:
  assumes "facade_ok s"
  shows "facade_ok (trackCall hash k sess i r s)"
proof -
  let ?key = "trackingKey hash k i"
  note order = assms [unfolded facade_ok_def, THEN conjunct1, symmetric]
  show ?thesis
  proof (cases "gm_get (ms_trackedCalls s) ?key = None \<and> length (ms_trackedCalls s) \<ge> maxTrackedCalls")
    case True
    then obtain e es where calls: "ms_trackedCalls s = e # es"
      by (cases "ms_trackedCalls s") (auto simp: maxTrackedCalls_def)
    then have "filter (\<lambda>y. y \<noteq> fst e) (map fst (ms_trackedCalls s)) = map fst es"
      using assms by (auto simp: facade_ok_def order intro!: filter_True)
    then show ?thesis using assms True calls
      by (auto simp: facade_ok_def trackCall_def Let_def order gm_keys_put gm_del_keys gm_get_None)
  next
    case False
    then show ?thesis using assms
      by (auto simp: facade_ok_def trackCall_def Let_def order gm_keys_put gm_get_None)
  qed
qed

lemma oldest_is_bound: "oldest_binding best m = Some (k, t) \<Longrightarrow> best = Some (k, t) \<or> k \<in> fst ` set m"
  by (induction best m rule: oldest_binding.induct) (auto split: option.splits prod.splits if_splits)

lemma oldest_exists: "m \<noteq> [] \<or> best \<noteq> None \<Longrightarrow> \<exists>k t. oldest_binding best m = Some (k, t)"
  by (induction best m rule: oldest_binding.induct) (auto split: option.splits)

lemma bound_session:
  assumes "distinct (map fst m)" and "length m \<le> sessionCacheMaxEntry" and "gm_get m k = None"
  shows "distinct (map fst (bind_session now k sid m)) \<and> length (bind_session now k sid m) \<le> sessionCacheMaxEntry"
proof (cases "length m \<ge> sessionCacheMaxEntry")
  case True
  then have "m \<noteq> []" by (auto simp: sessionCacheMaxEntry_def)
  then obtain x t where x: "oldest_binding None m = Some (x, t)" using oldest_exists by blast
  then have "x \<in> fst ` set m" using oldest_is_bound [OF x] by simp
  then have "length (gm_del x m) < length m" by (rule length_gm_del_less)
  then show ?thesis using True assms x
    by (auto simp: bind_session_def gm_keys_put length_gm_put gm_del_keys gm_get_None)
next
  case False
  then show ?thesis using assms
    by (auto simp: bind_session_def gm_keys_put length_gm_put gm_get_None)
qed

lemma facade_session:
  assumes "facade_ok s" and "distinct (map fst m)" and "length m \<le> sessionCacheMaxEntry"
  shows "facade_ok (s\<lparr> ms_sessionByKey := m \<rparr>)"
  using assms by (simp add: facade_ok_def)

lemma facade_provision:
  assumes "facade_ok s" and "gm_get (ms_sessionByKey s) k = None"
  shows "facade_ok (fst (fst (provision rpc now md k s g)))"
  using assms bound_session [of "ms_sessionByKey s" k]
  by (auto simp: provision_def facade_ok_def split: prod.split response.split)

lemma facade_resolve:
  assumes "facade_ok (fst sg)"
  shows "facade_ok (fst (fst (resolveSession rpc now md meta k sg)))"
proof (cases sg)
  case (Pair s g)
  have del: "facade_ok (s\<lparr> ms_sessionByKey := gm_del k (ms_sessionByKey s) \<rparr>)"
    using assms Pair le_trans [OF length_gm_del] by (auto simp: facade_ok_def gm_del_keys)
  have put: "gm_get (ms_sessionByKey s) k \<noteq> None \<Longrightarrow> facade_ok (s\<lparr> ms_sessionByKey := gm_put k c (ms_sessionByKey s) \<rparr>)" for c
    using assms Pair by (auto simp: facade_ok_def gm_keys_put length_gm_put)
  show ?thesis using assms Pair put facade_provision [OF del, of k rpc now md g] facade_provision [of s k rpc now md g]
    by (auto simp: resolveSession_def Let_def split: option.split)
qed

lemma facade_list:
  assumes "facade_ok (fst sg)"
  shows "facade_ok (fst (fst (list_tools rpc parse now md b meta k sg)))"
  using facade_resolve [OF assms, of rpc now md meta k]
  by (auto simp: list_tools_def split: prod.splits sum.splits response.splits)

lemma facade_create:
  assumes "facade_ok (fst sg)"
  shows "facade_ok (fst (fst (create_call rpc hash marshal now md req meta k sg)))"
  using assms facade_resolve [OF assms, of rpc now md meta k]
  by (auto simp: create_call_def facade_track split: prod.splits sum.splits response.splits option.splits)

lemma await_facade [simp]: "fst (fst (awaitSyncResult rpc parse md t sess r rs s g)) = s"
  by (simp add: awaitSyncResult_def split: prod.split)

lemma facade_call:
  assumes "facade_ok (fst sg)"
  shows "facade_ok (fst (fst (handleToolsCall rpc hash parse marshal now rs md req meta k sg)))"
    and "facade_ok (fst (fst (handleLegacyToolsCall rpc hash parse marshal now rs md req k sg)))"
proof -
  have "facade_ok (fst (fst (case p of (sg1, Inl out) \<Rightarrow> (sg1, out)
      | ((s1, g1), Inr (sessionID, request)) \<Rightarrow>
          if clientSupportsTasks meta then ((s1, g1), McpOk (TaskResult (createTaskResult request)))
          else awaitSyncResult rpc parse md now sessionID (pr_Id request) rs s1 g1)))"
    if "facade_ok (fst (fst p))" for p :: "(mcp_server \<times> 'a) \<times> (mcp_outcome + string \<times> proto_request)"
    using that by (auto split: prod.split sum.split)
  then show "facade_ok (fst (fst (handleToolsCall rpc hash parse marshal now rs md req meta k sg)))"
    using facade_create [OF assms] by (simp add: handleToolsCall_def)
  show "facade_ok (fst (fst (handleLegacyToolsCall rpc hash parse marshal now rs md req k sg)))"
    using facade_create [OF assms, of rpc hash marshal now md req no_meta k]
    by (auto simp: handleLegacyToolsCall_def split_beta split: prod.splits sum.splits)
qed

lemma facade_find:
  assumes "facade_ok (fst sg)"
  shows "facade_ok (fst (fst (find_task rpc now md req meta k sg)))"
  using assms facade_resolve [OF assms, of rpc now md meta k]
  by (auto simp: find_task_def split: prod.splits sum.splits response.splits option.splits)

lemma facade_tasks:
  assumes "facade_ok (fst sg)"
  shows "facade_ok (fst (fst (handleTasksGet rpc parse now md req meta k sg)))"
    and "facade_ok (fst (fst (handleTasksCancel rpc now md req meta k sg)))"
  using facade_find [OF assms, of rpc now md req meta k]
  by (auto simp: handleTasksGet_def handleTasksCancel_def Let_def split: prod.splits sum.splits response.splits)

lemmas facade_handlers = facade_list facade_call facade_tasks

lemma facade_dispatch:
  assumes "facade_ok (fst sg)"
  shows "facade_ok (fst (fst (mcp_dispatch v md req k sg)))"
  using assms by (simp add: mcp_dispatch_def dispatchLegacy_def route_def Let_def handleToolsList_def handleLegacyToolsList_def
      facade_handlers split: sum.split)

lemma facade_serve:
  assumes "facade_ok (fst sg)"
  shows "facade_ok (fst (fst (serveMCP v r sg)))"
  using assms facade_dispatch [OF assms, of v "authMetadata r" _ "apiKeyForCache (mv_hash v) r"]
  by (auto simp: serveMCP_def split_beta split: option.split mcp_outcome.split)

lemma facade_new: "facade_ok (mcp_NewServer opts)"
proof -
  have "facade_ok s \<Longrightarrow> facade_ok (fold apply_option opts s)" for s
  proof (induction opts arbitrary: s)
    case (Cons x xs)
    then show ?case by (cases x) (auto simp: facade_ok_def)
  qed simp
  then show ?thesis by (simp add: mcp_NewServer_def facade_ok_def)
qed

text \<open>The life of a facade: it serves HTTP requests, and the backend moves on its own.\<close>

inductive facade_step :: "mcp_server \<times> 'g \<Rightarrow> mcp_server \<times> 'g \<Rightarrow> bool" where
  Serve: "facade_step sg (fst (serveMCP v r sg))"
| Backend: "facade_step (s, g) (s, g')"

interpretation facade: kept_by_steps facade_step "\<lambda>sg. facade_ok (fst sg)"
  by unfold_locales (erule facade_step.cases; simp add: facade_serve)

text \<open>C21: The tables of the facade stay small.  Whatever HTTP requests a facade serves after its start,
  with whatever answers of the backend, it tracks at most 4096 calls and caches at most 1024 session
  bindings; the arrival order lists exactly the tracked calls, each once, so that an eviction always
  finds an oldest entry.\<close>

theorem facade_tables_bounded:
  assumes "facade_step\<^sup>*\<^sup>* (mcp_NewServer opts, g0) (s, g)"
  shows "length (ms_trackedCalls s) \<le> 4096 \<and> length (ms_sessionByKey s) \<le> 1024
    \<and> ms_trackedOrder s = map fst (ms_trackedCalls s) \<and> distinct (ms_trackedOrder s)"
proof -
  have "facade_ok s" using facade.kept_run [OF assms] facade_new by simp
  then show ?thesis
    by (metis facade_ok_def length_map maxTrackedCalls_def sessionCacheMaxEntry_def)
qed

section \<open>Stopping a call\<close>

text \<open>A tracked call with at most \<open>n\<close> newer ones.\<close>

definition recent :: "nat \<Rightarrow> string \<Rightarrow> tracked_call \<Rightarrow> mcp_server \<Rightarrow> bool" where
  "recent n key c s \<longleftrightarrow> facade_ok s \<and> gm_get (ms_trackedCalls s) key = Some c
     \<and> (\<exists>xs ys. ms_trackedOrder s = xs @ key # ys \<and> length ys \<le> n)"

lemma track_order:
  assumes "trackingKey hash k i \<noteq> ''''" and "r \<noteq> ''''"
  shows "ms_trackedOrder (trackCall hash k sess i r s) =
    (if gm_get (ms_trackedCalls s) (trackingKey hash k i) \<noteq> None then ms_trackedOrder s
     else (if length (ms_trackedCalls s) \<ge> maxTrackedCalls then tl (ms_trackedOrder s) else ms_trackedOrder s)
       @ [trackingKey hash k i])"
  using assms by (simp add: trackCall_def Let_def)

lemma track_get:
  assumes "trackingKey hash k i \<noteq> ''''" and "r \<noteq> ''''"
  shows "gm_get (ms_trackedCalls (trackCall hash k sess i r s)) key =
    (if key = trackingKey hash k i then Some \<lparr> tc_sessionID = sess, tc_requestID = r \<rparr>
     else if gm_get (ms_trackedCalls s) (trackingKey hash k i) = None \<and> length (ms_trackedCalls s) \<ge> maxTrackedCalls
       \<and> key = hd (ms_trackedOrder s) then None
     else gm_get (ms_trackedCalls s) key)"
  using assms by (simp add: trackCall_def Let_def)

lemma recent_new:
  assumes "facade_ok s" and "trackingKey hash k i \<noteq> ''''" and "r \<noteq> ''''" and "gm_get (ms_trackedCalls s) (trackingKey hash k i) = None"
  shows "recent 0 (trackingKey hash k i) \<lparr> tc_sessionID = sess, tc_requestID = r \<rparr> (trackCall hash k sess i r s)"
  using assms facade_track [OF assms(1)] by (auto simp: recent_def track_order track_get)

lemma recentI:
  assumes "facade_ok s" and "gm_get (ms_trackedCalls s) key = Some c" and "ms_trackedOrder s = xs @ key # ys" and "length ys \<le> n"
  shows "recent n key c s"
  using assms by (auto simp: recent_def)

lemma recent_mono: "recent n key c s \<Longrightarrow> n \<le> m \<Longrightarrow> recent m key c s"
  by (fastforce simp: recent_def)

lemma recent_other:
  assumes "recent n key c s" and "Suc n < maxTrackedCalls" and "trackingKey hash k i \<noteq> key"
  shows "recent (Suc n) key c (trackCall hash k sess i r s)"
proof (cases "trackingKey hash k i = '''' \<or> r = ''''")
  case True
  then show ?thesis using recent_mono [OF assms(1), of "Suc n"] by (auto simp: trackCall_def)
next
  case False
  obtain xs ys where order: "ms_trackedOrder s = xs @ key # ys" and ys: "length ys \<le> n" and ok: "facade_ok s"
    and got: "gm_get (ms_trackedCalls s) key = Some c" using assms(1) by (auto simp: recent_def)
  have len: "length (ms_trackedCalls s) = length (ms_trackedOrder s)" using ok by (metis facade_ok_def length_map)
  show ?thesis
  proof (cases "gm_get (ms_trackedCalls s) (trackingKey hash k i) = None \<and> length (ms_trackedCalls s) \<ge> maxTrackedCalls")
    case True
    then obtain x zs where xs: "xs = x # zs" using order ys assms(2) len by (cases xs) auto
    have "x \<noteq> key" using ok order xs by (auto simp: facade_ok_def)
    with True False xs order ys got assms(3) show ?thesis
      by (intro recentI [of _ _ _ zs "ys @ [trackingKey hash k i]"] facade_track ok) (auto simp: track_order track_get)
  next
    case unfull: False
    let ?new = "if gm_get (ms_trackedCalls s) (trackingKey hash k i) = None then [trackingKey hash k i] else []"
    show ?thesis using False unfull order ys got assms(3)
      by (intro recentI [of _ _ _ xs "ys @ ?new"] facade_track ok) (auto simp: track_order track_get)
  qed
qed

text \<open>The calls that follow: caller, session, id of the call and id of its request.\<close>

definition track_all :: "hash_fun \<Rightarrow> (string \<times> string \<times> string \<times> string) list \<Rightarrow> mcp_server \<Rightarrow> mcp_server" where
  "track_all hash calls s = fold (\<lambda>(k, sess, i, r). trackCall hash k sess i r) calls s"

lemma recent_others:
  assumes "recent n key c s" and "n + length calls < maxTrackedCalls"
    and "\<forall>(k, sess, i, r) \<in> set calls. trackingKey hash k i \<noteq> key"
  shows "recent (n + length calls) key c (track_all hash calls s)"
  using assms
proof (induction calls arbitrary: n s)
  case (Cons e calls)
  obtain k sess i r where e: "e = (k, sess, i, r)" by (cases e)
  have "recent (Suc n) key c (trackCall hash k sess i r s)"
    using Cons.prems e by (intro recent_other) auto
  from Cons.IH [OF this] Cons.prems e show ?case by (simp add: track_all_def)
qed (simp add: track_all_def)
text \<open>C22: A stop reaches the call it names.  In a facade reached from its start, after a call of a caller
  under a fresh JSON-RPC id has been given a request, and after up to 4095 further calls under other
  ids or by other callers, a cancellation notification of that caller for that id cancels exactly that
  request of that session in the backend.\<close>

theorem stop_reaches_the_call:
  assumes "facade_step\<^sup>*\<^sup>* (mcp_NewServer opts, g0) (s, g)" and "normalizeJSONRPCID i \<noteq> ''''" and "r \<noteq> ''''"
    and "gm_get (ms_trackedCalls s) (trackingKey hash k i) = None"
    and "length calls < 4096" and "\<forall>(k', sess', i', r') \<in> set calls. trackingKey hash k' i' \<noteq> trackingKey hash k i"
    and "mq_Params req = Some (JObj kvs)" and "map_of kvs ''requestId'' = Some x"
    and "normalizeJSONRPCID (raw x) = normalizeJSONRPCID i"
  shows "handleCancelledNotification rpc hash raw md req k (track_all hash calls (trackCall hash k sess i r s)) g1 =
    fst (rpc md (RequestCall (CancelRequestRpc sess r)) g1)"
proof -
  let ?key = "trackingKey hash k i" and ?s = "track_all hash calls (trackCall hash k sess i r s)"
  have "facade_ok s" using facade.kept_run [OF assms(1)] facade_new by simp
  moreover have "?key \<noteq> ''''" using assms(2) by (simp add: trackingKey_def Let_def)
  ultimately have "recent 0 ?key \<lparr> tc_sessionID = sess, tc_requestID = r \<rparr> (trackCall hash k sess i r s)"
    using assms(3,4) by (intro recent_new)
  then have "recent (0 + length calls) ?key \<lparr> tc_sessionID = sess, tc_requestID = r \<rparr> ?s"
    using assms(5,6) by (intro recent_others) (auto simp: maxTrackedCalls_def)
  then have "gm_get (ms_trackedCalls ?s) (trackingKey hash k (raw x)) = Some \<lparr> tc_sessionID = sess, tc_requestID = r \<rparr>"
    using assms(9) by (simp add: recent_def trackingKey_def Let_def)
  then show ?thesis using assms(3,7,8)
    by (simp add: handleCancelledNotification_def trackedCallFor_def is_object_def)
qed

section \<open>Calls to the backend\<close>

text \<open>A call that needs no provider right passes the interceptor without a trace in requests and tasks.\<close>

lemma interceptor_keeps:
  assumes "UnaryInterceptor (authenticate env) gate m md q g = (g1, x)"
    and "\<And>pol. methodPolicyFor m = Some pol \<Longrightarrow> mp_Capability pol \<noteq> CapProvide"
  shows "gs_tasks g1 = gs_tasks g"
  using assms
  by (auto simp: UnaryInterceptor_def authorizeMachineToken_def dest!: auth_tasks split: option.splits prod.splits sum.splits if_splits)

lemma served:
  assumes "serve env polls md (RequestCall c) g = (g1, resp)" and "\<And>e. resp \<noteq> Rejected e"
    and "\<And>pol. methodPolicyFor (fst (request_rpc c)) = Some pol \<Longrightarrow> mp_Capability pol \<noteq> CapProvide"
  shows "handle_request env c (tv_server (gs_tasks g)) = (tv_server (gs_tasks g1), resp)"
proof -
  obtain g0 x where i: "UnaryInterceptor (authenticate env) (Some (machine_gate env)) (fst (request_rpc c)) md (snd (request_rpc c)) g = (g0, x)"
    by fastforce
  then have "gs_tasks g0 = gs_tasks g" using assms(3) by (rule interceptor_keeps)
  moreover have "isl x = False" using assms(1,2) i by (cases x) (auto simp: serve_def)
  ultimately show ?thesis using assms(1) i
    by (cases x) (auto simp: serve_def on_server_def split: prod.splits)
qed

lemma ungated:
  "methodPolicyFor (fst (request_rpc (GetRequestChunksRpc s r))) = Some pol \<Longrightarrow> mp_Capability pol \<noteq> CapProvide"
  "methodPolicyFor (fst (request_rpc (CreateRequestRpc s n inp t k))) = Some pol \<Longrightarrow> mp_Capability pol \<noteq> CapProvide"
  "methodPolicyFor (fst (request_rpc (GetRequestRpc s r))) = Some pol \<Longrightarrow> mp_Capability pol \<noteq> CapProvide"
proof -
  have "\<forall>m \<in> {''/api.v1.RequestsService/GetRequestChunks'', ''/api.v1.RequestsService/CreateRequest'', ''/api.v1.RequestsService/GetRequest''}.
      (case methodPolicyFor m of None \<Rightarrow> True | Some pol \<Rightarrow> mp_Capability pol \<noteq> CapProvide)"
    by code_simp
  then show "methodPolicyFor (fst (request_rpc (GetRequestChunksRpc s r))) = Some pol \<Longrightarrow> mp_Capability pol \<noteq> CapProvide"
    "methodPolicyFor (fst (request_rpc (CreateRequestRpc s n inp t k))) = Some pol \<Longrightarrow> mp_Capability pol \<noteq> CapProvide"
    "methodPolicyFor (fst (request_rpc (GetRequestRpc s r))) = Some pol \<Longrightarrow> mp_Capability pol \<noteq> CapProvide"
    by simp_all
qed

section \<open>Following a task\<close>





section \<open>Calls that share a request\<close>

text \<open>A request the backend created once is what it answers under the same key again, to any admitted
  caller.\<close>

lemma served_again:
  assumes "serve env polls md (RequestCall (CreateRequestRpc sess n inp t k)) g = (g1, RequestReply q)" and "k \<noteq> ''''"
    and "gs_tasks g2 = gs_tasks g1"
    and "serve env' polls' md' (RequestCall (CreateRequestRpc sess n' inp' t' k)) g2 = (g3, resp)" and "\<And>e. resp \<noteq> Rejected e"
  shows "\<exists>q'. resp = RequestReply q' \<and> pr_Id q' = pr_Id q"
proof -
  have "handle_request env (CreateRequestRpc sess n inp t k) (tv_server (gs_tasks g)) = (tv_server (gs_tasks g1), RequestReply q)"
    using assms(1) by (rule served) (simp_all add: ungated del: request_rpc.simps)
  then obtain r where r: "CreateRequest (e_uuid env) (e_now env) sess n inp t k (tv_server (gs_tasks g)) = (tv_server (gs_tasks g1), Inr r)"
    and q: "q = convertModelRequestToProto (e_marshal env) r"
    by (auto simp: answer_def grpc_CreateRequest_def reply_def split: prod.splits sum.splits)
  have "handle_request env' (CreateRequestRpc sess n' inp' t' k) (tv_server (gs_tasks g2)) = (tv_server (gs_tasks g3), resp)"
    using assms(4,5) by (rule served) (simp_all add: ungated del: request_rpc.simps)
  then show ?thesis
    using create_again [OF r assms(2), of "e_uuid env'" "e_now env'" n' inp' t'] assms(3) q
    by (auto simp: answer_def grpc_CreateRequest_def reply_def convertModelRequestToProto_def split: prod.splits sum.splits)
qed

lemma bound_resolve: "rm_sessionID meta \<noteq> '''' \<Longrightarrow> resolveSession rpc now md meta k sg = (sg, Inr (rm_sessionID meta))"
  by (cases sg) (simp add: resolveSession_def)

text \<open>C36: Calls of different callers are merged.  Two clients of one session that happen to use the same
  JSON-RPC id for the same tool with the same arguments are given the same task: once the first call has
  been answered, the call of any other admitted caller, through this or another gateway, returns the first
  caller's request instead of a new one.  The retry key contains the JSON-RPC id but nothing of the client
  whose ids these are.\<close>

theorem mcp_calls_are_merged:
  assumes "handleToolsCall (\<lambda>md. serve env polls (Some md)) hash parse marshal now rs md req meta key (s, g)
      = ((s1, g1), McpOk (TaskResult p))"
    and "rm_sessionID meta = sess" and "rm_sessionID meta' = sess" and "sess \<noteq> ''''"
    and "clientSupportsTasks meta" and "clientSupportsTasks meta'"
    and "call_params (mq_Params req) = Some (name, arguments)" and "call_params (mq_Params req') = Some (name, arguments)"
    and "marshal arguments = Some inp" and "normalizeJSONRPCID (mq_ID req') = normalizeJSONRPCID (mq_ID req)"
    and "\<And>e. snd (serve env' polls' (Some md') (RequestCall (CreateRequestRpc sess name inp (rm_timeoutSeconds meta')
           (deriveCallIdempotencyKey hash (mq_ID req') name inp))) g1) \<noteq> Rejected e"
  shows "\<exists>sg2 p'. handleToolsCall (\<lambda>md. serve env' polls' (Some md)) hash parse marshal now' rs' md' req' meta' key' (s', g1)
      = (sg2, McpOk (TaskResult p')) \<and> tp_TaskID p' = tp_TaskID p"
proof -
  let ?k = "deriveCallIdempotencyKey hash (mq_ID req) name inp"
  have key: "deriveCallIdempotencyKey hash (mq_ID req') name inp = ?k" "?k \<noteq> ''''"
    using assms(10) by (simp_all add: deriveCallIdempotencyKey_def)
  have named: "TrimSpace name \<noteq> ''''"
    using assms(1,7) by (auto simp: handleToolsCall_def create_call_def split: if_splits)
  obtain q where q: "serve env polls (Some md) (RequestCall (CreateRequestRpc sess name inp (rm_timeoutSeconds meta) ?k)) g = (g1, RequestReply q)"
    and p: "p = createTaskResult q"
    using assms(1,2,4,5,7,9) named bound_resolve [of meta "\<lambda>md. serve env polls (Some md)" now md key "(s, g)"]
    by (cases "serve env polls (Some md) (RequestCall (CreateRequestRpc sess name inp (rm_timeoutSeconds meta) ?k)) g")
      (auto simp: handleToolsCall_def create_call_def backendError_def split: response.splits)
  obtain g3 resp where again:
    "serve env' polls' (Some md') (RequestCall (CreateRequestRpc sess name inp (rm_timeoutSeconds meta') ?k)) g1 = (g3, resp)"
    by fastforce
  moreover have "\<And>e. resp \<noteq> Rejected e" using assms(11) again key(1) by simp
  ultimately obtain q' where "resp = RequestReply q'" "pr_Id q' = pr_Id q"
    using served_again [OF q key(2) refl] by blast
  then show ?thesis
    using again p assms(3,4,6,8,9) named key(1) bound_resolve [of meta' "\<lambda>md. serve env' polls' (Some md)" now' md' key' "(s', g1)"]
    by (simp add: handleToolsCall_def create_call_def createTaskResult_def baseTaskPayload_def)
qed

section \<open>Synchronous calls\<close>

text \<open>What the renderer makes of a finished request.\<close>

lemma rendered_id [simp]: "ct_TaskId (snd (buildSyncCallToolResult rpc parse md sess q g)) = Some (pr_Id q)"
  by (simp add: buildSyncCallToolResult_def Let_def split_beta)

lemma rendered_error [simp]:
  "ct_IsError (snd (buildSyncCallToolResult rpc parse md sess q g)) \<longleftrightarrow> pr_Status q \<noteq> REQUEST_STATUS_DONE"
  by (simp add: buildSyncCallToolResult_def callToolResultFromRequest_def Let_def split_beta split: option.split)




text \<open>The text of a successful result is capped; the text of a failed one is whatever the provider wrote.\<close>

theorem success_text_is_capped:
  assumes "pr_Status q = REQUEST_STATUS_DONE" and "t \<in> set (ct_Content (callToolResultFromRequest parse q))"
  shows "length t \<le> maxRenderedTextBytes + length truncation_marker"
  using assms by (auto simp: callToolResultFromRequest_def capRenderedText_def Let_def split: if_splits)

theorem failure_text_is_not_capped:
  assumes "pr_Status q \<noteq> REQUEST_STATUS_DONE" and "TrimSpace (pr_Error q) \<noteq> ''''"
  shows "ct_Content (callToolResultFromRequest parse q) = [''tool call failed: '' @ pr_Error q]"
  using assms by (simp add: callToolResultFromRequest_def)

text \<open>The output a failed request had already streamed never replaces its failure text.\<close>

theorem partial_output_is_dropped:
  assumes "pr_Status q \<noteq> REQUEST_STATUS_DONE"
  shows "ct_Content (snd (buildSyncCallToolResult rpc parse md sess q g)) = ct_Content (callToolResultFromRequest parse q)"
proof -
  have "hasTextContent (ct_Content (callToolResultFromRequest parse q))"
    using assms by (simp add: callToolResultFromRequest_def hasTextContent_def TrimSpace_def is_space_def dropWhile_eq_Nil_conv)
  then show ?thesis by (simp add: buildSyncCallToolResult_def Let_def split_beta split: option.split)
qed

text \<open>A schema the registration accepts has an MCP form, with an object at its root.\<close>

theorem registered_schema_is_listed:
  assumes "validateToolSchema json_object schema = None" and "\<And>t. json_object t \<longleftrightarrow> (\<exists>m. parse t = Some (JObj m))"
  shows "\<exists>m. normalizeToolSchema parse schema = Some (JObj m) \<and> map_of m ''type'' = Some (JStr ''object'')"
  using assms by (auto simp: normalizeToolSchema_def validateToolSchema_def Let_def update_conv' split: if_splits option.split)

text \<open>The facade files a caller under the API-key header, the backend authenticates the authorization header.\<close>

theorem caller_identity_diverges:
  assumes "hr_APIKey r \<noteq> ''''" and "TrimSpace (hr_Authorization r) \<noteq> ''''"
  shows "apiKeyForCache hash r = hash (hr_APIKey r) \<and> tokenFromMetadata (authMetadata r) = Some (hr_Authorization r)"
  using assms by (auto simp: apiKeyForCache_def tokenFromMetadata_def authMetadata_def md_values_def gm_get_def TrimSpace_def)

text \<open>A binding in use never expires: as long as the caller comes back within the time to live, every
  resolution gives the cached session without asking the backend, even when that session is gone.\<close>

fun resolve_all :: "'g backend \<Rightarrow> metadata \<Rightarrow> string \<Rightarrow> time list \<Rightarrow> mcp_server \<times> 'g \<Rightarrow> 'g \<times> (bool + string) list" where
  "resolve_all rpc md k [] sg = (snd sg, [])"
| "resolve_all rpc md k (t # ts) sg =
     (case resolveSession rpc t md no_meta k sg of
        (sg1, x) \<Rightarrow> (case resolve_all rpc md k ts sg1 of (g, xs) \<Rightarrow> (g, x # xs)))"

theorem used_binding_never_expires:
  assumes "gm_get (ms_sessionByKey s) k = Some c" and "ms_allowSessionAutoProvision s"
    and "successively (\<lambda>a b. b - a < sessionCacheTTL) (cs_lastUsed c # ts)"
  shows "resolve_all rpc md k ts (s, g) = (g, replicate (length ts) (Inr (cs_sessionID c)))"
  using assms
proof (induction ts arbitrary: s c)
  case (Cons t ts)
  let ?c = "c\<lparr> cs_lastUsed := t \<rparr>"
  let ?s = "s\<lparr> ms_sessionByKey := gm_put k ?c (ms_sessionByKey s) \<rparr>"
  have "resolveSession rpc t md no_meta k (s, g) = ((?s, g), Inr (cs_sessionID c))"
    using Cons.prems by (simp add: resolveSession_def no_meta_def successively_Cons)
  moreover have "resolve_all rpc md k ts (?s, g) = (g, replicate (length ts) (Inr (cs_sessionID ?c)))"
    using Cons.prems by (intro Cons.IH) (simp_all add: successively_Cons)
  ultimately show ?case by simp
qed simp

section \<open>Instances\<close>

text \<open>Session \<open>s1\<close> with a tool, its machine, a finished request with output, and the keys of two clients.\<close>

definition demo_clients :: sessions_state where
  "demo_clients =
     fst (CreateApiKey demo_hash1 ''u9'' ''k9'' 1100 ''s1'' ''b'' ''bob'' [''read'', ''invoke''] []
      (fst (CreateApiKey demo_hash1 ''u8'' ''k8'' 1000 ''s1'' ''a'' ''bob'' [''read'', ''invoke''] []
       (fst (CreateSession ''u0'' 900 ''bob'' ''one'' '''' ''s1'' '''' (NewSessionsService demo_hash1 800
         ((sv_store demo_registered)\<lparr> st_requests := [(''r1'', demo_streamed_row)] \<rparr>)))))))"

definition demo_backend :: grpc_server where
  "demo_backend = \<lparr> gs_sessions = demo_clients,
     gs_tasks = \<lparr> tv_server = demo_registered\<lparr> sv_store := sx_store demo_clients \<rparr>, tv_tasks = [], tv_executions = [],
       tv_instanceID = ''i1'' \<rparr> \<rparr>"

definition demo_http :: "string \<Rightarrow> http_request" where
  "demo_http key = \<lparr> hr_Authorization = '''', hr_APIKey = key, hr_MachineToken = '''', hr_Traceparent = '''', hr_Tracestate = '''',
     hr_Body = Some ''{}'' \<rparr>"

definition demo_meta :: request_meta where
  "demo_meta = no_meta\<lparr> rm_sessionID := ''s1'', rm_lastSeq := 2, rm_hasLastSeq := True,
     rm_capabilities := [(''extensions'', JObj [(''io.modelcontextprotocol/tasks'', JObj [])])] \<rparr>"

definition demo_call :: mcp_request where
  "demo_call = \<lparr> mq_JSONRPC = ''2.0'', mq_ID = ''1'', mq_Method = ''tools/call'',
     mq_Params = Some (JObj [(''name'', JStr ''echo''), (''arguments'', JObj [])]) \<rparr>"

definition demo_mcp :: "grpc_server mcp_env" where
  "demo_mcp = \<lparr> mv_rpc = (\<lambda>md. serve demo_env [] (Some md)), mv_hash = demo_hash1, mv_parse = (\<lambda>x. None), mv_marshal = (\<lambda>j. Some ''{}''),
     mv_decode = (\<lambda>x. Some (demo_call\<lparr> mq_Params := Some (JObj [(''name'', JStr ''echo''), (''arguments'', JObj []),
       (''_meta'', JObj [(''io.modelcontextprotocol/protocolVersion'', JStr ''2026-07-28''), (''dev.toolplane/session_id'', JStr ''s1''),
         (''io.modelcontextprotocol/clientCapabilities'', JObj [(''extensions'', JObj [(''io.modelcontextprotocol/tasks'', JObj [])])])])]) \<rparr>)),
     mv_raw = (\<lambda>j. ''1''), mv_now = 5000, mv_rounds = [] \<rparr>"

theorem facade_tables_bounded_witness:
  "let s = fst (fst (serveMCP demo_mcp (demo_http ''toolplane_key_u8'') (mcp_NewServer [], demo_backend)))
   in length (ms_trackedCalls s) \<le> 4096 \<and> ms_trackedOrder s = map fst (ms_trackedCalls s)"
proof -
  let ?sg = "fst (serveMCP demo_mcp (demo_http ''toolplane_key_u8'') (mcp_NewServer [], demo_backend))"
  have "facade_step\<^sup>*\<^sup>* (mcp_NewServer [], demo_backend) (fst ?sg, snd ?sg)"
    by (simp add: facade_step.Serve r_into_rtranclp)
  from facade_tables_bounded [OF this] show ?thesis by (simp add: Let_def)
qed

theorem stop_reaches_the_call_witness:
  "handleCancelledNotification (\<lambda>md c g. (c # g, Crashed)) demo_hash1 (\<lambda>j. ''1'') [] (demo_call\<lparr> mq_Params := Some (JObj [(''requestId'', JWhole 1)]) \<rparr>)
     ''k'' (track_all demo_hash1 [(''k'', ''s2'', ''2'', ''r2'')] (trackCall demo_hash1 ''k'' ''s1'' ''1'' ''r1'' (mcp_NewServer []))) []
   = [RequestCall (CancelRequestRpc ''s1'' ''r1'')]"
proof -
  have "normalizeJSONRPCID ''1'' \<noteq> ''''" "gm_get (ms_trackedCalls (mcp_NewServer [])) (trackingKey demo_hash1 ''k'' ''1'') = None"
    "\<forall>(k', sess', i', r') \<in> set [(''k'', ''s2'', ''2'', ''r2'')]. trackingKey demo_hash1 k' i' \<noteq> trackingKey demo_hash1 ''k'' ''1''"
    by code_simp+
  from stop_reaches_the_call [OF rtranclp.rtrancl_refl this(1) _ this(2) _ this(3), where r = "''r1''" and kvs = "[(''requestId'', JWhole 1)]"
      and x = "JWhole 1" and raw = "\<lambda>j. ''1''" and req = "demo_call\<lparr> mq_Params := Some (JObj [(''requestId'', JWhole 1)]) \<rparr>"
      and rpc = "\<lambda>md c g. (c # g, Crashed)" and md = "[]" and sess = "''s1''" and ?g1.0 = "[]"]
  show ?thesis by simp
qed




theorem mcp_calls_are_merged_witness:
  "\<exists>s1 g1 p sg2 p'. handleToolsCall (\<lambda>md. serve demo_env [] (Some md)) demo_hash1 (\<lambda>x. None) (\<lambda>j. Some ''{}'') 5000 []
       (authMetadata (demo_http ''toolplane_key_u8'')) demo_call demo_meta ''alice'' (mcp_NewServer [], demo_backend) = ((s1, g1), McpOk (TaskResult p))
     \<and> handleToolsCall (\<lambda>md. serve (demo_env\<lparr> e_uuid := ''n7'' \<rparr>) [] (Some md)) demo_hash1 (\<lambda>x. None) (\<lambda>j. Some ''{}'') 6000 []
       (authMetadata (demo_http ''toolplane_key_u9'')) demo_call demo_meta ''bob'' (mcp_NewServer [], g1) = (sg2, McpOk (TaskResult p'))
     \<and> tp_TaskID p' = tp_TaskID p"
proof -
  let ?first = "handleToolsCall (\<lambda>md. serve demo_env [] (Some md)) demo_hash1 (\<lambda>x. None) (\<lambda>j. Some ''{}'') 5000 []
       (authMetadata (demo_http ''toolplane_key_u8'')) demo_call demo_meta ''alice'' (mcp_NewServer [], demo_backend)"
  let ?second = "snd (serve (demo_env\<lparr> e_uuid := ''n7'' \<rparr>) [] (Some (authMetadata (demo_http ''toolplane_key_u9'')))
      (RequestCall (CreateRequestRpc ''s1'' ''echo'' ''{}'' (rm_timeoutSeconds demo_meta)
         (deriveCallIdempotencyKey demo_hash1 (mq_ID demo_call) ''echo'' ''{}''))) (snd (fst ?first)))"
  have ok: "(case snd ?first of McpOk (TaskResult p) \<Rightarrow> True | _ \<Rightarrow> False)" and admitted: "(case ?second of Rejected e \<Rightarrow> False | _ \<Rightarrow> True)"
    by code_simp+
  then obtain p where "snd ?first = McpOk (TaskResult p)" by (auto split: mcp_outcome.splits mcp_result.splits)
  then have first: "?first = ((fst (fst ?first), snd (fst ?first)), McpOk (TaskResult p))" by (metis prod.collapse)
  have f: "rm_sessionID demo_meta = ''s1''" "clientSupportsTasks demo_meta" "call_params (mq_Params demo_call) = Some (''echo'', JObj [])"
    by code_simp+
  have "\<And>e. ?second \<noteq> Rejected e" using admitted by auto
  from mcp_calls_are_merged [OF first f(1) f(1) _ f(2) f(2) f(3) f(3) refl refl this] first show ?thesis by fastforce
qed

end
