(* ===== verification/Gateway_Control.thy ===== *)
theory Gateway_Control
  imports Mcp_Server Complex_Main "HOL-Library.Multiset"
begin

text \<open>
  The controls in front of the two HTTP gateways (\<open>internal/gateway\<close>, \<open>internal/mcpgateway\<close>): configuration,
  allowed origins, rate limits, concurrency limit and circuit breaker, deadlines.  The token bucket
  (\<open>golang.org/x/time/rate\<close>) and the breaker (\<open>sony/gobreaker\<close>) are arguments; environment variables are read
  by the argument \<open>getenv\<close>.  Log lines and message texts are left out.
\<close>

section \<open>config.go\<close>

datatype config_error = BadEnvMode | InsecureBackendInProduction | OriginsRequired | AnyOriginInProduction | NoOrigin

record proxy_config =
  pc_environment :: string
  pc_allowAnyOrigin :: bool
  pc_allowedOrigins :: "string list"
  pc_allowInsecureBackend :: bool
  pc_backendTLSServerName :: string
  pc_backendTLSCAFile :: string
  pc_trustedProxy :: bool

definition normalizedEnvValue :: "string \<Rightarrow> string \<Rightarrow> string" where
  "normalizedEnvValue v fallback = (let t = TrimSpace (ToLower v) in if t = '''' then fallback else t)"

definition boolEnv :: "(string \<Rightarrow> string) \<Rightarrow> string \<Rightarrow> bool \<Rightarrow> bool" where
  "boolEnv getenv key fallback =
     (let v = TrimSpace (ToLower (getenv key))
      in if v \<in> {''1'', ''true'', ''yes'', ''on''} then True
         else if v \<in> {''0'', ''false'', ''no'', ''off''} then False else fallback)"

text \<open>The loop over the listed origins: the outcome may be decided by a wildcard.\<close>

fun collect_origins :: "proxy_config \<Rightarrow> string list \<Rightarrow> config_error + proxy_config" where
  "collect_origins cfg [] =
     (if pc_allowedOrigins cfg = [] \<and> \<not> pc_allowAnyOrigin cfg then Inl NoOrigin else Inr cfg)"
| "collect_origins cfg (origin # rest) =
     (let t = TrimSpace origin
      in if t = '''' then collect_origins cfg rest
         else if t = ''*''
         then (if pc_environment cfg = ''production'' then Inl AnyOriginInProduction
               else Inr (cfg\<lparr> pc_allowAnyOrigin := True, pc_allowedOrigins := [] \<rparr>))
         else collect_origins (cfg\<lparr> pc_allowedOrigins := List.insert t (pc_allowedOrigins cfg) \<rparr>) rest)"

definition load_config :: "string \<Rightarrow> (string \<Rightarrow> string) \<Rightarrow> config_error + proxy_config" where
  "load_config pre getenv =
     (let environment = normalizedEnvValue (getenv ''TOOLPLANE_ENV_MODE'') ''development'';
          insecure = boolEnv getenv (pre @ ''ALLOW_INSECURE_BACKEND'') (environment \<noteq> ''production'');
          rawOrigins = TrimSpace (getenv (pre @ ''ALLOWED_ORIGINS''));
          cfg = \<lparr> pc_environment = environment, pc_allowAnyOrigin = False, pc_allowedOrigins = [], pc_allowInsecureBackend = insecure,
            pc_backendTLSServerName = TrimSpace (getenv (pre @ ''BACKEND_TLS_SERVER_NAME'')),
            pc_backendTLSCAFile = TrimSpace (getenv (pre @ ''BACKEND_TLS_CA_FILE'')),
            pc_trustedProxy = boolEnv getenv ''TOOLPLANE_TRUSTED_PROXY'' False \<rparr>
      in if environment \<notin> {''development'', ''test'', ''production''} then Inl BadEnvMode
         else if environment = ''production'' \<and> insecure then Inl InsecureBackendInProduction
         else if rawOrigins = ''''
         then (if environment = ''development'' \<or> environment = ''test'' then Inr (cfg\<lparr> pc_allowAnyOrigin := True \<rparr>)
               else Inl OriginsRequired)
         else collect_origins cfg (split_at (CHR '','') rawOrigins))"

definition loadProxyConfig :: "(string \<Rightarrow> string) \<Rightarrow> config_error + proxy_config" where
  "loadProxyConfig getenv = load_config ''TOOLPLANE_PROXY_'' getenv"

definition loadGatewayConfig :: "(string \<Rightarrow> string) \<Rightarrow> config_error + proxy_config" where
  "loadGatewayConfig getenv = load_config ''TOOLPLANE_MCP_'' getenv"

definition matchOrigin :: "string \<Rightarrow> proxy_config \<Rightarrow> string \<times> bool" where
  "matchOrigin origin cfg =
     (if pc_allowAnyOrigin cfg then (''*'', True) else (origin, origin \<in> set (pc_allowedOrigins cfg)))"

text \<open>The start of a gateway: it serves TLS with both files, refuses to start with one, and in production
  without TLS it needs a declared proxy.\<close>

datatype start_error = ConfigError config_error | HalfTLS | PlaintextInProduction

definition start_gateway :: "(config_error + proxy_config) \<Rightarrow> string \<Rightarrow> string \<Rightarrow> start_error + proxy_config \<times> bool" where
  "start_gateway loaded certFile keyFile =
     (case loaded of
        Inl e \<Rightarrow> Inl (ConfigError e)
      | Inr cfg \<Rightarrow>
          (let serveTLS = (certFile \<noteq> '''' \<or> keyFile \<noteq> '''')
           in if serveTLS \<and> (certFile = '''' \<or> keyFile = '''') then Inl HalfTLS
              else if pc_environment cfg = ''production'' \<and> \<not> serveTLS \<and> \<not> pc_trustedProxy cfg then Inl PlaintextInProduction
              else Inr (cfg, serveTLS)))"

section \<open>The request as the gateways read it\<close>

record gateway_request = http_request +
  gr_Method :: string
  gr_Path :: string
  gr_Origin :: string
  gr_MetadataKey :: string
  gr_ForwardedFor :: string
  gr_RemoteAddr :: string

datatype cors_result = OriginForbidden | Preflight string | Forward string

text \<open>The allowed origin sent back, empty when the header is not set.\<close>

definition corsMiddleware :: "proxy_config \<Rightarrow> gateway_request \<Rightarrow> cors_result" where
  "corsMiddleware cfg r =
     (let origin = TrimSpace (gr_Origin r);
          decision = (if origin \<noteq> '''' then matchOrigin origin cfg
                      else (if pc_allowAnyOrigin cfg then ''*'' else '''', True))
      in if \<not> snd decision then OriginForbidden
         else if gr_Method r = ''OPTIONS'' then Preflight (fst decision) else Forward (fst decision))"

text \<open>\<open>net.SplitHostPort\<close>, the host only; \<open>None\<close> is its error.\<close>

definition last_colon :: "string \<Rightarrow> nat option" where
  "last_colon s = (if CHR '':'' \<in> set s then Some (length s - 1 - length (takeWhile (\<lambda>c. c \<noteq> CHR '':'') (rev s))) else None)"

definition SplitHost :: "string \<Rightarrow> string option" where
  "SplitHost s =
     (case last_colon s of
        None \<Rightarrow> None
      | Some i \<Rightarrow>
          if s \<noteq> '''' \<and> hd s = CHR ''[''
          then (let e = length (takeWhile (\<lambda>c. c \<noteq> CHR '']'') s)
                in if e \<ge> length s \<or> e + 1 \<noteq> i then None
                   else if CHR ''['' \<in> set (drop 1 s) \<or> CHR '']'' \<in> set (drop (e + 1) s) then None
                   else Some (take (e - 1) (drop 1 s)))
          else if CHR '':'' \<in> set (take i s) \<or> CHR ''['' \<in> set s \<or> CHR '']'' \<in> set s then None
          else Some (take i s))"

definition extractClientIP :: "gateway_request \<Rightarrow> bool \<Rightarrow> string" where
  "extractClientIP r trustForwardedFor =
     (if trustForwardedFor \<and> gr_ForwardedFor r \<noteq> '''' then TrimSpace (hd (split_at (CHR '','') (gr_ForwardedFor r)))
      else case SplitHost (gr_RemoteAddr r) of Some host \<Rightarrow> host | None \<Rightarrow> gr_RemoteAddr r)"

text \<open>\<open>hash\<close> is the hexadecimal digest; the first eight bytes are sixteen digits.\<close>

definition hashClientSecret :: "hash_fun \<Rightarrow> string \<Rightarrow> string" where
  "hashClientSecret hash secret = (if secret = '''' then '''' else take 16 (hash secret))"

definition extractAPIKey :: "gateway_request \<Rightarrow> string" where
  "extractAPIKey r =
     (if gr_MetadataKey r \<noteq> '''' then gr_MetadataKey r
      else if hr_APIKey r \<noteq> '''' then hr_APIKey r
      else let auth = hr_Authorization r; scheme = takeWhile (\<lambda>c. c \<noteq> CHR '' '') auth
           in if CHR '' '' \<in> set auth \<and> ToLower scheme = ''bearer'' then TrimSpace (drop (length scheme + 1) auth) else '''')"

definition gatewayAPIKey :: "gateway_request \<Rightarrow> string" where
  "gatewayAPIKey r =
     (if hr_APIKey r \<noteq> '''' then hr_APIKey r
      else let auth = TrimSpace (hr_Authorization r)
           in TrimSpace (if take 7 auth = ''Bearer '' then drop 7 auth else auth))"
section \<open>rate_limiter.go\<close>

text \<open>The token bucket: a new one for a rate and a burst, taking one token, and the delay until a token would
  be there, found by a reservation that is cancelled again (\<open>None\<close> when there never will be).\<close>

record 'l bucket_ops =
  bo_NewLimiter :: "rat \<Rightarrow> int \<Rightarrow> 'l"
  bo_AllowN :: "time \<Rightarrow> 'l \<Rightarrow> 'l \<times> bool"
  bo_Delay :: "time \<Rightarrow> 'l \<Rightarrow> 'l \<times> duration option"

record 'l client_limiter =
  cl_limiter :: 'l
  cl_lastSeen :: time

record 'l keyed_limiter =
  kl_limit :: rat
  kl_burst :: int
  kl_ttl :: duration
  kl_entries :: "'l client_limiter gomap"

definition maxKeyedEntries :: nat where "maxKeyedEntries = 65536"

definition newKeyedLimiter :: "rat \<Rightarrow> int \<Rightarrow> duration \<Rightarrow> 'l keyed_limiter" where
  "newKeyedLimiter limit burst ttl = \<lparr> kl_limit = limit, kl_burst = burst, kl_ttl = ttl, kl_entries = [] \<rparr>"

definition put_bucket :: "string \<Rightarrow> 'l \<Rightarrow> time \<Rightarrow> 'l keyed_limiter \<Rightarrow> 'l keyed_limiter" where
  "put_bucket key l now kl = kl\<lparr> kl_entries := gm_put key \<lparr> cl_limiter = l, cl_lastSeen = now \<rparr> (kl_entries kl) \<rparr>"

definition take_token :: "'l bucket_ops \<Rightarrow> string \<Rightarrow> time \<Rightarrow> 'l \<Rightarrow> 'l keyed_limiter \<Rightarrow> 'l keyed_limiter \<times> bool \<times> duration" where
  "take_token ops key now l kl =
     (case bo_AllowN ops now l of
        (l1, True) \<Rightarrow> (put_bucket key l1 now kl, True, 0)
      | (l1, False) \<Rightarrow>
          (case bo_Delay ops now l1 of
             (l2, None) \<Rightarrow> (put_bucket key l2 now kl, False, kl_ttl kl)
           | (l2, Some delay) \<Rightarrow> (put_bucket key l2 now kl, False, if delay < Second then Second else delay)))"

definition keyed_allow :: "'l bucket_ops \<Rightarrow> string \<Rightarrow> time \<Rightarrow> 'l keyed_limiter \<Rightarrow> 'l keyed_limiter \<times> bool \<times> duration" where
  "keyed_allow ops key now kl =
     (if key = '''' then (kl, True, 0)
      else case gm_get (kl_entries kl) key of
             Some entry \<Rightarrow> take_token ops key now (cl_limiter entry) kl
           | None \<Rightarrow>
               if length (kl_entries kl) \<ge> maxKeyedEntries then (kl, False, kl_ttl kl)
               else take_token ops key now (bo_NewLimiter ops (kl_limit kl) (kl_burst kl)) kl)"

definition keyed_cleanup :: "time \<Rightarrow> 'l keyed_limiter \<Rightarrow> 'l keyed_limiter" where
  "keyed_cleanup now kl = kl\<lparr> kl_entries := gm_prune (\<lambda>e. cl_lastSeen e < now - kl_ttl kl) (kl_entries kl) \<rparr>"

datatype throttle_reason =
    ThrottleReasonNone | ThrottleReasonAPIRate | ThrottleReasonIPRate | ThrottleReasonConcurrency
  | ThrottleReasonCircuitOpen | ThrottleReasonCircuitProbe | ThrottleReasonUnknown

record 'l rate_limiter_manager =
  rl_api :: "'l keyed_limiter option"
  rl_ip :: "'l keyed_limiter option"
  rl_totalRejected :: int

definition limiter_for :: "rat \<Rightarrow> int \<Rightarrow> duration \<Rightarrow> 'l keyed_limiter option" where
  "limiter_for rate burst ttl = (if rate > 0 \<and> burst > 0 then Some (newKeyedLimiter rate burst ttl) else None)"

definition NewRateLimiterManager :: "rat \<Rightarrow> int \<Rightarrow> rat \<Rightarrow> int \<Rightarrow> 'l rate_limiter_manager option" where
  "NewRateLimiterManager apiRate apiBurst ipRate ipBurst =
     (if (apiRate \<le> 0 \<or> apiBurst \<le> 0) \<and> (ipRate \<le> 0 \<or> ipBurst \<le> 0) then None
      else Some \<lparr> rl_api = limiter_for apiRate apiBurst (600 * Second), rl_ip = limiter_for ipRate ipBurst (600 * Second),
                  rl_totalRejected = 0 \<rparr>)"

text \<open>One tick of the sweep.\<close>

definition manager_cleanup :: "time \<Rightarrow> 'l rate_limiter_manager \<Rightarrow> 'l rate_limiter_manager" where
  "manager_cleanup now m =
     m\<lparr> rl_api := map_option (keyed_cleanup now) (rl_api m), rl_ip := map_option (keyed_cleanup now) (rl_ip m) \<rparr>"

definition manager_ip ::
  "'l bucket_ops \<Rightarrow> string \<Rightarrow> time \<Rightarrow> duration \<Rightarrow> 'l rate_limiter_manager \<Rightarrow> 'l rate_limiter_manager \<times> bool \<times> duration \<times> throttle_reason" where
  "manager_ip ops ip now wait m =
     (case rl_ip m of
        Some kl \<Rightarrow>
          if ip = '''' then (m, True, wait, ThrottleReasonNone)
          else (case keyed_allow ops ip now kl of
                  (kl1, True, _) \<Rightarrow> (m\<lparr> rl_ip := Some kl1 \<rparr>, True, wait, ThrottleReasonNone)
                | (kl1, False, delay) \<Rightarrow>
                    (m\<lparr> rl_ip := Some kl1, rl_totalRejected := rl_totalRejected m + 1 \<rparr>, False,
                     if delay > wait then delay else wait, ThrottleReasonIPRate))
      | None \<Rightarrow> (m, True, wait, ThrottleReasonNone))"

definition manager_Allow ::
  "'l bucket_ops \<Rightarrow> string \<Rightarrow> string \<Rightarrow> time \<Rightarrow> 'l rate_limiter_manager \<Rightarrow> 'l rate_limiter_manager \<times> bool \<times> duration \<times> throttle_reason" where
  "manager_Allow ops apiKey ip now m =
     (case rl_api m of
        Some kl \<Rightarrow>
          if apiKey = '''' then manager_ip ops ip now 0 m
          else (case keyed_allow ops apiKey now kl of
                  (kl1, True, delay) \<Rightarrow> manager_ip ops ip now delay (m\<lparr> rl_api := Some kl1 \<rparr>)
                | (kl1, False, delay) \<Rightarrow>
                    (m\<lparr> rl_api := Some kl1, rl_totalRejected := rl_totalRejected m + 1 \<rparr>, False, delay, ThrottleReasonAPIRate))
      | None \<Rightarrow> manager_ip ops ip now 0 m)"

section \<open>circuit_breaker.go\<close>

datatype breaker_state = StateClosed | StateHalfOpen | StateOpen

datatype begin_error = TooManyConcurrent | ErrOpenState | ErrTooManyRequests

text \<open>The two-step breaker: admission gives a token or an error, and a token is closed with the outcome and the
  test that decides on tripping, given the failures in a row; both may change the state, and every change is
  reported.\<close>

record 'b breaker_ops =
  br_Allow :: "time \<Rightarrow> 'b \<Rightarrow> 'b \<times> breaker_state list \<times> (begin_error + int)"
  br_Done :: "(int \<Rightarrow> bool) \<Rightarrow> time \<Rightarrow> int \<Rightarrow> bool \<Rightarrow> 'b \<Rightarrow> 'b \<times> breaker_state list"

record 'b breaker_manager =
  bm_breaker :: 'b
  bm_maxConcurrent :: int
  bm_sawSuccess :: bool
  bm_openTimeout :: duration
  bm_state :: breaker_state
  bm_stateChanged :: time
  bm_inflight :: int
  bm_totalRejected :: int
  bm_totalAccepted :: int

text \<open>\<open>newBreaker\<close> builds the breaker from the number of probes in the half-open state.\<close>

definition halfOpenProbes :: "int \<Rightarrow> int" where
  "halfOpenProbes maxConcurrent = min (max 1 (maxConcurrent div 10)) 4294967295"

definition NewCircuitBreakerManager :: "(int \<Rightarrow> 'b) \<Rightarrow> time \<Rightarrow> int \<Rightarrow> 'b breaker_manager" where
  "NewCircuitBreakerManager newBreaker now maxConcurrent =
     (let n = (if maxConcurrent \<le> 0 then 1 else maxConcurrent)
      in \<lparr> bm_breaker = newBreaker (halfOpenProbes n), bm_maxConcurrent = n, bm_sawSuccess = False, bm_openTimeout = 30 * Second,
           bm_state = StateClosed, bm_stateChanged = now, bm_inflight = 0, bm_totalRejected = 0, bm_totalAccepted = 0 \<rparr>)"

definition onStateChange :: "time \<Rightarrow> breaker_state \<Rightarrow> 'b breaker_manager \<Rightarrow> 'b breaker_manager" where
  "onStateChange now to m = m\<lparr> bm_state := to, bm_stateChanged := now \<rparr>"

definition ReadyToTrip :: "'b breaker_manager \<Rightarrow> int \<Rightarrow> bool" where
  "ReadyToTrip m consecutiveFailures \<longleftrightarrow> bm_sawSuccess m \<and> consecutiveFailures \<ge> 5"

definition retryAfter :: "time \<Rightarrow> 'b breaker_manager \<Rightarrow> duration" where
  "retryAfter now m =
     (if bm_state m \<noteq> StateOpen then 0
      else let remaining = bm_openTimeout m - (now - bm_stateChanged m) in if remaining < Second then Second else remaining)"

text \<open>The atomic sections of \<open>Begin\<close>: counting the caller in, turning it away, asking the breaker.\<close>

definition begin_enter :: "'b breaker_manager \<Rightarrow> 'b breaker_manager" where
  "begin_enter m = m\<lparr> bm_inflight := bm_inflight m + 1 \<rparr>"

definition begin_reject :: "'b breaker_manager \<Rightarrow> 'b breaker_manager" where
  "begin_reject m = m\<lparr> bm_inflight := bm_inflight m - 1, bm_totalRejected := bm_totalRejected m + 1 \<rparr>"

definition begin_allow :: "'b breaker_ops \<Rightarrow> time \<Rightarrow> 'b breaker_manager \<Rightarrow> 'b breaker_manager \<times> (begin_error + int)" where
  "begin_allow ops now m =
     (case br_Allow ops now (bm_breaker m) of
        (b, changes, res) \<Rightarrow>
          (let m1 = fold (onStateChange now) changes (m\<lparr> bm_breaker := b \<rparr>)
           in case res of
                Inl e \<Rightarrow> (begin_reject m1, Inl e)
              | Inr token \<Rightarrow> (m1\<lparr> bm_totalAccepted := bm_totalAccepted m1 + 1 \<rparr>, Inr token)))"

text \<open>\<open>Begin\<close> without interference: the token, or the wait and the error.\<close>

definition Begin :: "'b breaker_ops \<Rightarrow> time \<Rightarrow> 'b breaker_manager \<Rightarrow> 'b breaker_manager \<times> (duration \<times> begin_error + int)" where
  "Begin ops now m =
     (let m1 = begin_enter m
      in if bm_maxConcurrent m > 0 \<and> bm_inflight m1 > bm_maxConcurrent m then (begin_reject m1, Inl (Second, TooManyConcurrent))
         else case begin_allow ops now m1 of
                (m2, Inr token) \<Rightarrow> (m2, Inr token)
              | (m2, Inl e) \<Rightarrow>
                  (let wait = retryAfter now m2
                   in (m2, Inl (if wait = 0 \<and> e = ErrTooManyRequests then 5 * Second else wait, e))))"

definition breaker_done :: "'b breaker_ops \<Rightarrow> time \<Rightarrow> int \<Rightarrow> bool \<Rightarrow> 'b breaker_manager \<Rightarrow> 'b breaker_manager" where
  "breaker_done ops now token success m =
     (case br_Done ops (ReadyToTrip m) now token success (bm_breaker m) of
        (b, changes) \<Rightarrow>
          (let m1 = fold (onStateChange now) changes (m\<lparr> bm_breaker := b \<rparr>)
           in if success then m1\<lparr> bm_sawSuccess := True \<rparr> else m1))"

definition release :: "'b breaker_manager \<Rightarrow> 'b breaker_manager" where
  "release m = m\<lparr> bm_inflight := bm_inflight m - 1 \<rparr>"

definition IsOpen :: "'b breaker_manager \<Rightarrow> bool" where
  "IsOpen m \<longleftrightarrow> bm_state m = StateOpen"
section \<open>throttle_metrics.go\<close>

record throttle_tracker =
  tt_apiRate :: int
  tt_ipRate :: int
  tt_concurrency :: int
  tt_circuitOpen :: int
  tt_circuitProbe :: int
  tt_unknown :: int
  tt_total :: int

definition NewThrottleTracker :: throttle_tracker where
  "NewThrottleTracker = \<lparr> tt_apiRate = 0, tt_ipRate = 0, tt_concurrency = 0, tt_circuitOpen = 0, tt_circuitProbe = 0, tt_unknown = 0,
     tt_total = 0 \<rparr>"

definition throttle_Record :: "throttle_reason \<Rightarrow> throttle_tracker \<Rightarrow> throttle_tracker" where
  "throttle_Record reason t =
     (let t1 = (case reason of
          ThrottleReasonAPIRate \<Rightarrow> t\<lparr> tt_apiRate := tt_apiRate t + 1 \<rparr>
        | ThrottleReasonIPRate \<Rightarrow> t\<lparr> tt_ipRate := tt_ipRate t + 1 \<rparr>
        | ThrottleReasonConcurrency \<Rightarrow> t\<lparr> tt_concurrency := tt_concurrency t + 1 \<rparr>
        | ThrottleReasonCircuitOpen \<Rightarrow> t\<lparr> tt_circuitOpen := tt_circuitOpen t + 1 \<rparr>
        | ThrottleReasonCircuitProbe \<Rightarrow> t\<lparr> tt_circuitProbe := tt_circuitProbe t + 1 \<rparr>
        | _ \<Rightarrow> t\<lparr> tt_unknown := tt_unknown t + 1 \<rparr>)
      in t1\<lparr> tt_total := tt_total t1 + 1 \<rparr>)"

text \<open>The header in whole seconds, rounded up.\<close>

definition retry_after_seconds :: "duration \<Rightarrow> int" where
  "retry_after_seconds wait =
     (let w = (if wait \<le> 0 then Second else wait); s = - ((- w) div Second) in if s < 1 then 1 else s)"

section \<open>gateway.go\<close>

text \<open>The controls of the proxy in front of the handler \<open>next\<close>, which gives the status it wrote, or
  \<open>None\<close> when it panics.  A throttled request is answered 429 with the seconds to wait.\<close>

record ('l, 'b) proxy_state =
  px_breaker :: "'b breaker_manager"
  px_limiter :: "'l rate_limiter_manager option"
  px_tracker :: throttle_tracker

datatype proxy_reply = NoContent | Throttled int | Replied int | Panicked

definition begin_reason :: "begin_error \<Rightarrow> throttle_reason" where
  "begin_reason e = (case e of TooManyConcurrent \<Rightarrow> ThrottleReasonConcurrency | ErrOpenState \<Rightarrow> ThrottleReasonCircuitOpen
     | ErrTooManyRequests \<Rightarrow> ThrottleReasonCircuitProbe)"

definition backend_success :: "int \<Rightarrow> bool" where
  "backend_success status \<longleftrightarrow> status \<noteq> 502 \<and> status \<noteq> 503 \<and> status \<noteq> 504"

definition forward_request ::
  "'b breaker_ops \<Rightarrow> time \<Rightarrow> time \<Rightarrow> ('s \<Rightarrow> 's \<times> int option) \<Rightarrow> ('l, 'b) proxy_state \<Rightarrow> 's \<Rightarrow> ('l, 'b) proxy_state \<times> 's \<times> proxy_reply" where
  "forward_request br now finish next px s =
     (case Begin br now (px_breaker px) of
        (m1, Inl (wait, e)) \<Rightarrow>
          (px\<lparr> px_breaker := m1, px_tracker := throttle_Record (begin_reason e) (px_tracker px) \<rparr>, s, Throttled (retry_after_seconds wait))
      | (m1, Inr token) \<Rightarrow>
          (case next s of
             (s1, None) \<Rightarrow> (px\<lparr> px_breaker := release (breaker_done br finish token False m1) \<rparr>, s1, Panicked)
           | (s1, Some status) \<Rightarrow>
               (px\<lparr> px_breaker := release (breaker_done br finish token (backend_success status) m1) \<rparr>, s1, Replied status)))"

definition proxyControlMiddleware ::
  "'l bucket_ops \<Rightarrow> 'b breaker_ops \<Rightarrow> hash_fun \<Rightarrow> proxy_config \<Rightarrow> time \<Rightarrow> time \<Rightarrow> ('s \<Rightarrow> 's \<times> int option) \<Rightarrow> gateway_request
     \<Rightarrow> ('l, 'b) proxy_state \<Rightarrow> 's \<Rightarrow> ('l, 'b) proxy_state \<times> 's \<times> proxy_reply" where
  "proxyControlMiddleware lops br hash cfg now finish next r px s =
     (if gr_Method r = ''OPTIONS'' then (px, s, NoContent)
      else let apiKey = hashClientSecret hash (extractAPIKey r); clientIP = extractClientIP r (pc_trustedProxy cfg)
           in case px_limiter px of
                None \<Rightarrow> forward_request br now finish next px s
              | Some rlm \<Rightarrow>
                  (case manager_Allow lops apiKey clientIP now rlm of
                     (rlm1, True, _, _) \<Rightarrow> forward_request br now finish next (px\<lparr> px_limiter := Some rlm1 \<rparr>) s
                   | (rlm1, False, wait, reason) \<Rightarrow>
                       (px\<lparr> px_limiter := Some rlm1, px_tracker := throttle_Record reason (px_tracker px) \<rparr>, s,
                        Throttled (retry_after_seconds wait))))"

text \<open>Health is degraded while the breaker is open.\<close>

definition buildHealthResponse :: "'b breaker_manager option \<Rightarrow> string \<times> int" where
  "buildHealthResponse breaker =
     (case breaker of Some m \<Rightarrow> if IsOpen m then (''degraded'', 503) else (''ok'', 200) | None \<Rightarrow> (''ok'', 200))"

definition proxyUnaryDeadline :: duration where "proxyUnaryDeadline = 30 * Second"
definition waitMethodBackstop :: duration where "waitMethodBackstop = 3600 * Second + 30 * Second"

definition waitMethods :: "string list" where
  "waitMethods = [''/api.v1.ToolService/InvokeTool'', ''/api.v1.ToolService/ExecuteTool'']"

definition unaryDeadline :: "string \<Rightarrow> duration" where
  "unaryDeadline meth = (if meth \<in> set waitMethods then waitMethodBackstop else proxyUnaryDeadline)"

text \<open>The deadline of a backend call made at \<open>now\<close>; one the caller brought wins.\<close>

definition unaryDeadlineInterceptor :: "time option \<Rightarrow> time \<Rightarrow> string \<Rightarrow> time" where
  "unaryDeadlineInterceptor deadline now meth = (case deadline of Some d \<Rightarrow> d | None \<Rightarrow> now + unaryDeadline meth)"

section \<open>mcpgateway/rate\_limit.go\<close>

record 'l gateway_keyed_limiter =
  gk_limit :: rat
  gk_burst :: int
  gk_entries :: "'l client_limiter gomap"

definition newGatewayKeyedLimiter :: "rat \<Rightarrow> int \<Rightarrow> 'l gateway_keyed_limiter" where
  "newGatewayKeyedLimiter limit burst = \<lparr> gk_limit = limit, gk_burst = burst, gk_entries = [] \<rparr>"

definition gateway_allow :: "'l bucket_ops \<Rightarrow> string \<Rightarrow> time \<Rightarrow> 'l gateway_keyed_limiter \<Rightarrow> 'l gateway_keyed_limiter \<times> bool" where
  "gateway_allow ops key now kl =
     (if key = '''' then (kl, True)
      else let es = (if length (gk_entries kl) > 4096
                     then gm_prune (\<lambda>e. cl_lastSeen e < now - 600 * Second) (gk_entries kl) else gk_entries kl);
               l = (case gm_get es key of Some e \<Rightarrow> cl_limiter e | None \<Rightarrow> bo_NewLimiter ops (gk_limit kl) (gk_burst kl));
               (l1, ok) = bo_AllowN ops now l
           in (kl\<lparr> gk_entries := gm_put key \<lparr> cl_limiter = l1, cl_lastSeen = now \<rparr> es \<rparr>, ok))"

record 'l gateway_rate_limiter =
  gl_api :: "'l gateway_keyed_limiter option"
  gl_ip :: "'l gateway_keyed_limiter option"

definition newGatewayRateLimiter :: "rat \<Rightarrow> int \<Rightarrow> rat \<Rightarrow> int \<Rightarrow> 'l gateway_rate_limiter option" where
  "newGatewayRateLimiter apiRate apiBurst ipRate ipBurst =
     (let api = (if apiRate > 0 \<and> apiBurst > 0 then Some (newGatewayKeyedLimiter apiRate apiBurst) else None);
          ip = (if ipRate > 0 \<and> ipBurst > 0 then Some (newGatewayKeyedLimiter ipRate ipBurst) else None)
      in if Option.is_none api \<and> Option.is_none ip then None else Some \<lparr> gl_api = api, gl_ip = ip \<rparr>)"

definition limit_one ::
  "'l bucket_ops \<Rightarrow> string \<Rightarrow> time \<Rightarrow> 'l gateway_keyed_limiter option \<Rightarrow> 'l gateway_keyed_limiter option \<times> bool" where
  "limit_one ops key now l =
     (case l of None \<Rightarrow> (None, True) | Some kl \<Rightarrow> (case gateway_allow ops key now kl of (kl1, ok) \<Rightarrow> (Some kl1, ok)))"

text \<open>The decision of the middleware: the API key first, then the address.\<close>

definition gatewayRateLimitMiddleware ::
  "'l bucket_ops \<Rightarrow> hash_fun \<Rightarrow> bool \<Rightarrow> time \<Rightarrow> gateway_request \<Rightarrow> 'l gateway_rate_limiter \<Rightarrow> 'l gateway_rate_limiter \<times> bool" where
  "gatewayRateLimitMiddleware ops hash trustForwardedFor now r g =
     (case limit_one ops (hashClientSecret hash (gatewayAPIKey r)) now (gl_api g) of
        (api, False) \<Rightarrow> (g\<lparr> gl_api := api \<rparr>, False)
      | (api, True) \<Rightarrow>
          (case limit_one ops (extractClientIP r trustForwardedFor) now (gl_ip g) of
             (ip, ok) \<Rightarrow> (g\<lparr> gl_api := api, gl_ip := ip \<rparr>, ok)))"

text \<open>The MCP gateway: origin, rate limit, facade.  A request the limit refuses is
  answered 429.\<close>

datatype gateway_reply = OriginRefused | PreflightDone | RateLimited | NotRouted | Served http_reply

text \<open>The only route of the facade.\<close>

definition mcp_Handler :: "'g mcp_env \<Rightarrow> gateway_request \<Rightarrow> mcp_server \<times> 'g \<Rightarrow> (mcp_server \<times> 'g) \<times> gateway_reply" where
  "mcp_Handler v r sg =
     (if gr_Method r = ''POST'' \<and> gr_Path r = ''/mcp''
      then (case serveMCP v (http_request.truncate r) sg of (sg1, rep) \<Rightarrow> (sg1, Served rep)) else (sg, NotRouted))"

definition mcp_gateway ::
  "'l bucket_ops \<Rightarrow> proxy_config \<Rightarrow> 'g mcp_env \<Rightarrow> gateway_request \<Rightarrow> 'l gateway_rate_limiter option \<times> mcp_server \<times> 'g
     \<Rightarrow> ('l gateway_rate_limiter option \<times> mcp_server \<times> 'g) \<times> gateway_reply" where
  "mcp_gateway ops cfg v r st =
     (case corsMiddleware cfg r of
        OriginForbidden \<Rightarrow> (st, OriginRefused)
      | Preflight _ \<Rightarrow> (st, PreflightDone)
      | Forward _ \<Rightarrow>
          (case st of
             (None, sg) \<Rightarrow> (case mcp_Handler v r sg of (sg1, rep) \<Rightarrow> ((None, sg1), rep))
           | (Some g, sg) \<Rightarrow>
               (case gatewayRateLimitMiddleware ops (mv_hash v) (pc_trustedProxy cfg) (mv_now v) r g of
                  (g1, False) \<Rightarrow> ((Some g1, sg), RateLimited)
                | (g1, True) \<Rightarrow> (case mcp_Handler v r sg of (sg1, rep) \<Rightarrow> ((Some g1, sg1), rep)))))"

definition start_facade :: "proxy_config \<Rightarrow> duration \<Rightarrow> duration \<Rightarrow> string \<Rightarrow> mcp_server" where
  "start_facade cfg syncTimeout pollInterval userID =
     mcp_NewServer [WithSyncTimeout syncTimeout, WithPollInterval pollInterval, WithDefaultUserID userID,
       WithSessionAutoProvision (pc_environment cfg \<noteq> ''production'')]"

end
