(* ===== verification/Gateway_Theorems.thy ===== *)
theory Gateway_Theorems
  imports Gateway_Control
begin

text \<open>
  Properties of the controls of the gateways: the concurrency limit holds under every interleaving of the
  callers, the breaker stays closed until the backend has answered once, a production gateway does not start
  open, the tables of the proxy's limiter are bounded, and the limit per API key can be evaded.
\<close>

section \<open>Concurrent callers\<close>

text \<open>Where a caller stands: counted in with the count it saw, sent to the backend with a token, back from it.\<close>

datatype phase = Entered int | Admitted int | Finished

inductive gate_step :: "'b breaker_ops \<Rightarrow> 'b breaker_manager \<times> phase multiset \<Rightarrow> 'b breaker_manager \<times> phase multiset \<Rightarrow> bool"
  for br :: "'b breaker_ops" where
  enter: "gate_step br (m, T) (begin_enter m, add_mset (Entered (bm_inflight (begin_enter m))) T)"
| full: "bm_maxConcurrent m > 0 \<Longrightarrow> c > bm_maxConcurrent m \<Longrightarrow> gate_step br (m, add_mset (Entered c) T) (begin_reject m, T)"
| refused: "\<not> (bm_maxConcurrent m > 0 \<and> c > bm_maxConcurrent m) \<Longrightarrow> begin_allow br now m = (m', Inl e)
    \<Longrightarrow> gate_step br (m, add_mset (Entered c) T) (m', T)"
| admitted: "\<not> (bm_maxConcurrent m > 0 \<and> c > bm_maxConcurrent m) \<Longrightarrow> begin_allow br now m = (m', Inr k)
    \<Longrightarrow> gate_step br (m, add_mset (Entered c) T) (m', add_mset (Admitted k) T)"
| finish: "gate_step br (m, add_mset (Admitted k) T) (breaker_done br now k ok m, add_mset Finished T)"
| leave: "gate_step br (m, add_mset Finished T) (release m, T)"

text \<open>Callers that hold a place: they passed the test of the count or will.\<close>

fun holds_place :: "int \<Rightarrow> phase \<Rightarrow> bool" where
  "holds_place n (Entered c) \<longleftrightarrow> c \<le> n"
| "holds_place n (Admitted k) \<longleftrightarrow> True"
| "holds_place n Finished \<longleftrightarrow> True"

definition gate_ok :: "int \<Rightarrow> 'b breaker_manager \<times> phase multiset \<Rightarrow> bool" where
  "gate_ok n mT \<longleftrightarrow> (case mT of (m, T) \<Rightarrow> bm_maxConcurrent m = n \<and> bm_inflight m = int (size T)
     \<and> int (size (filter_mset (holds_place n) T)) \<le> n)"

lemma state_changes [simp]:
  "bm_inflight (fold (onStateChange now) cs m) = bm_inflight m"
  "bm_maxConcurrent (fold (onStateChange now) cs m) = bm_maxConcurrent m"
  "bm_sawSuccess (fold (onStateChange now) cs m) = bm_sawSuccess m"
  "bm_breaker (fold (onStateChange now) cs m) = bm_breaker m"
  by (induction cs arbitrary: m) (simp_all add: onStateChange_def)

lemma allow_counts:
  "begin_allow br now m = (m', Inl e) \<Longrightarrow> bm_inflight m' = bm_inflight m - 1 \<and> bm_maxConcurrent m' = bm_maxConcurrent m"
  "begin_allow br now m = (m', Inr k) \<Longrightarrow> bm_inflight m' = bm_inflight m \<and> bm_maxConcurrent m' = bm_maxConcurrent m"
  by (auto simp: begin_allow_def begin_reject_def Let_def split: prod.splits sum.splits)

lemma done_counts [simp]:
  "bm_inflight (breaker_done br now k ok m) = bm_inflight m" "bm_maxConcurrent (breaker_done br now k ok m) = bm_maxConcurrent m"
  by (simp_all add: breaker_done_def Let_def split: prod.split)

lemma filter_size: "size (filter_mset P T) \<le> size T"
  by (metis size_filter_mset_lesseq)

lemma gate_kept:
  assumes "gate_step br mT mT'" and "gate_ok n mT" and "n > 0"
  shows "gate_ok n mT'"
  using assms
proof (induction rule: gate_step.induct)
  case (enter m T)
  obtain d where "size T = size (filter_mset (holds_place n) T) + d"
    using filter_size [of "holds_place n" T] le_Suc_ex by blast
  with enter show ?case by (auto simp: gate_ok_def begin_enter_def)
next
  case (full m c T)
  then show ?case by (auto simp: gate_ok_def begin_reject_def)
next
  case (refused m c now m' e T)
  then show ?case by (auto simp: gate_ok_def dest!: allow_counts(1))
next
  case (admitted m c now m' k T)
  then show ?case by (auto simp: gate_ok_def dest!: allow_counts(2))
next
  case (finish m k T now ok)
  then show ?case by (auto simp: gate_ok_def)
next
  case (leave m T)
  then show ?case by (auto simp: gate_ok_def release_def)
qed

lemma admitted_holds: "holds_place n p \<and> (\<exists>k. p = Admitted k) \<longleftrightarrow> (\<exists>k. p = Admitted k)"
  by auto

interpretation gate: kept_by_steps "gate_step br" "\<lambda>mT. n > 0 \<and> gate_ok n mT" for br :: "'b breaker_ops" and n
  by unfold_locales (auto intro: gate_kept)

text \<open>C20: The concurrency limit holds.  However many callers pass the gate of the proxy at once, with their
  counting, turning away, breaker checks, completions and releases interleaved in any way, never more
  than the limit (at least one) are at the backend, and the counter always equals the number of callers inside:
  no path through the gate loses a place.\<close>

theorem admitted_within_limit:
  assumes "(gate_step br)\<^sup>*\<^sup>* (NewCircuitBreakerManager newBreaker now limit, {#}) (m, T)"
  shows "int (size {#p \<in># T. \<exists>k. p = Admitted k#}) \<le> max 1 limit \<and> bm_inflight m = int (size T)"
proof -
  let ?n = "if limit \<le> 0 then 1 else limit"
  have "gate_ok ?n (NewCircuitBreakerManager newBreaker now limit, {#})"
    by (simp add: gate_ok_def NewCircuitBreakerManager_def Let_def)
  then have ok: "gate_ok ?n (m, T)" using gate.kept_run [OF assms, of ?n] by auto
  have "size {#p \<in># T. \<exists>k. p = Admitted k#} \<le> size (filter_mset (holds_place ?n) T)"
    using filter_size [of "\<lambda>p. \<exists>k. p = Admitted k" "filter_mset (holds_place ?n) T"]
    by (simp add: filter_filter_mset admitted_holds)
  then show ?thesis using ok by (auto simp: gate_ok_def max_def)
qed

section \<open>The cold start\<close>

text \<open>The breaker as documented: while it is closed, admissions leave it closed and report nothing, and an outcome
  leaves it closed unless the test asks to trip.\<close>

definition stays_closed :: "'b breaker_ops \<Rightarrow> ('b \<Rightarrow> bool) \<Rightarrow> bool" where
  "stays_closed br shut \<longleftrightarrow>
     (\<forall>now b. shut b \<longrightarrow> shut (fst (br_Allow br now b)) \<and> fst (snd (br_Allow br now b)) = [])
   \<and> (\<forall>trip now k ok b. shut b \<and> (\<forall>n. \<not> trip n) \<longrightarrow> shut (fst (br_Done br trip now k ok b)) \<and> snd (br_Done br trip now k ok b) = [])"

definition cold :: "('b \<Rightarrow> bool) \<Rightarrow> 'b breaker_manager \<times> phase multiset \<Rightarrow> bool" where
  "cold shut mT \<longleftrightarrow> bm_sawSuccess (fst mT) \<or> shut (bm_breaker (fst mT)) \<and> bm_state (fst mT) = StateClosed"

lemma allow_closed:
  assumes "stays_closed br shut" and "shut (bm_breaker m)"
  shows "shut (bm_breaker (fst (begin_allow br now m))) \<and> bm_state (fst (begin_allow br now m)) = bm_state m"
  using assms(1) [unfolded stays_closed_def, THEN conjunct1, rule_format, OF assms(2), of now]
  by (auto simp: begin_allow_def begin_reject_def Let_def split: prod.split sum.split)

lemma allow_latch: "bm_sawSuccess (fst (begin_allow br now m)) = bm_sawSuccess m"
  by (simp add: begin_allow_def begin_reject_def Let_def split: prod.split sum.split)

lemma done_closed:
  assumes "stays_closed br shut" and "shut (bm_breaker m)" and "\<not> bm_sawSuccess m"
  shows "shut (bm_breaker (breaker_done br now k ok m)) \<and> bm_state (breaker_done br now k ok m) = bm_state m"
proof -
  have "\<forall>n. \<not> ReadyToTrip m n" using assms(3) by (simp add: ReadyToTrip_def)
  then have "shut (fst (br_Done br (ReadyToTrip m) now k ok (bm_breaker m))) \<and> snd (br_Done br (ReadyToTrip m) now k ok (bm_breaker m)) = []"
    using assms(1,2) by (simp add: stays_closed_def)
  then show ?thesis by (auto simp: breaker_done_def Let_def split: prod.split)
qed

lemma done_latch: "bm_sawSuccess m \<Longrightarrow> bm_sawSuccess (breaker_done br now k ok m)"
  by (simp add: breaker_done_def Let_def split: prod.split)

lemma cold_kept:
  assumes "stays_closed br shut" and "gate_step br mT mT'" and "cold shut mT"
  shows "cold shut mT'"
  using assms(2,3)
proof (induction rule: gate_step.induct)
  case (refused m c now m' e T)
  then show ?case using allow_closed [OF assms(1), of m now] allow_latch [of br now m] by (auto simp: cold_def)
next
  case (admitted m c now m' k T)
  then show ?case using allow_closed [OF assms(1), of m now] allow_latch [of br now m] by (auto simp: cold_def)
next
  case (finish m k T now ok)
  then show ?case using done_closed [OF assms(1), of m now k ok] done_latch [of m br now k ok]
    by (cases "bm_sawSuccess m") (auto simp: cold_def)
qed (auto simp: cold_def begin_enter_def begin_reject_def release_def)

text \<open>Failures before the first success never open the breaker, so a gateway whose backend is not up yet stays
  healthy.\<close>

theorem cold_start_stays_closed:
  assumes "stays_closed br shut" and "shut (newBreaker (halfOpenProbes (if limit \<le> 0 then 1 else limit)))"
    and "(gate_step br)\<^sup>*\<^sup>* (NewCircuitBreakerManager newBreaker now limit, {#}) (m, T)" and "\<not> bm_sawSuccess m"
  shows "buildHealthResponse (Some m) = (''ok'', 200)"
proof -
  have "cold shut (m, T)" using assms(3)
  proof (induction rule: rtranclp_induct)
    case base
    then show ?case using assms(2) by (simp add: cold_def NewCircuitBreakerManager_def Let_def)
  next
    case (step y z)
    then show ?case using cold_kept [OF assms(1)] by blast
  qed
  with assms(4) show ?thesis by (simp add: cold_def buildHealthResponse_def IsOpen_def)
qed

section \<open>Configuration\<close>

lemma collected:
  assumes "collect_origins cfg0 os = Inr cfg" and "pc_environment cfg0 = ''production''" and "\<not> pc_allowAnyOrigin cfg0"
  shows "pc_environment cfg = ''production'' \<and> \<not> pc_allowAnyOrigin cfg \<and> pc_allowedOrigins cfg \<noteq> []
    \<and> pc_allowInsecureBackend cfg = pc_allowInsecureBackend cfg0"
  using assms
proof (induction cfg0 os rule: collect_origins.induct)
  case (2 cfg0 origin rest)
  then show ?case by (auto simp: Let_def split: if_splits)
qed (auto split: if_splits)

lemma collected_environment: "collect_origins cfg0 os = Inr cfg \<Longrightarrow> pc_environment cfg = pc_environment cfg0"
  by (induction cfg0 os rule: collect_origins.induct) (auto simp: Let_def split: if_splits)

text \<open>A gateway that starts in production talks TLS to its backend, answers only listed origins, and serves
  TLS or stands behind a declared proxy.\<close>

theorem production_is_locked_down:
  assumes "start_gateway (load_config pre getenv) certFile keyFile = Inr (cfg, serveTLS)" and "pc_environment cfg = ''production''"
  shows "\<not> pc_allowInsecureBackend cfg \<and> (serveTLS \<and> certFile \<noteq> '''' \<and> keyFile \<noteq> '''' \<or> pc_trustedProxy cfg)
    \<and> (\<forall>r. corsMiddleware cfg r = Forward allowed \<longrightarrow> TrimSpace (gr_Origin r) \<noteq> '''' \<longrightarrow> allowed \<in> set (pc_allowedOrigins cfg))"
proof -
  obtain cfg' where l: "load_config pre getenv = Inr cfg'" and same: "cfg' = cfg"
    and tls: "serveTLS \<and> certFile \<noteq> '''' \<and> keyFile \<noteq> '''' \<or> pc_trustedProxy cfg"
    using assms by (auto simp: start_gateway_def Let_def split: sum.splits if_splits)
  have "\<not> pc_allowInsecureBackend cfg \<and> \<not> pc_allowAnyOrigin cfg"
    using l same assms(2) by (auto simp: load_config_def Let_def dest: collected collected_environment split: if_splits)
  with tls show ?thesis by (auto simp: corsMiddleware_def matchOrigin_def Let_def split: if_splits)
qed

section \<open>Rate limits\<close>

text \<open>The proxy's table of buckets never exceeds its cap.\<close>

lemma take_token_entries:
  "length (kl_entries (fst (take_token ops key now l kl))) = (if gm_get (kl_entries kl) key = None then Suc (length (kl_entries kl)) else length (kl_entries kl))"
  by (auto simp: take_token_def put_bucket_def length_gm_put split: prod.split bool.split option.split)

theorem proxy_buckets_bounded:
  assumes "length (kl_entries kl) \<le> maxKeyedEntries"
  shows "length (kl_entries (fst (keyed_allow ops key now kl))) \<le> maxKeyedEntries"
    and "length (kl_entries (keyed_cleanup now kl)) \<le> maxKeyedEntries"
  using assms le_trans [OF length_filter_le]
  by (auto simp: keyed_allow_def keyed_cleanup_def gm_prune_def take_token_entries split: option.split)







section \<open>Instances\<close>


definition demo_breaker :: "unit breaker_ops" where
  "demo_breaker = \<lparr> br_Allow = (\<lambda>now b. (b, [], Inr 0)), br_Done = (\<lambda>trip now k ok b. (b, [])) \<rparr>"



theorem admitted_within_limit_witness:
  "\<exists>m T. (gate_step demo_breaker)\<^sup>*\<^sup>* (NewCircuitBreakerManager (\<lambda>n. ()) 0 1, {#}) (m, T) \<and> T = {#Admitted 0, Entered 2#}
     \<and> int (size {#p \<in># T. \<exists>k. p = Admitted k#}) \<le> 1 \<and> bm_inflight m = 2"
proof -
  let ?m0 = "NewCircuitBreakerManager (\<lambda>n. ()) 0 1"
  let ?m1 = "begin_enter ?m0"
  let ?m2 = "fst (begin_allow demo_breaker 5 ?m1)"
  let ?m3 = "begin_enter ?m2"
  have c: "bm_inflight ?m1 = 1" "bm_maxConcurrent ?m1 = 1" "begin_allow demo_breaker 5 ?m1 = (?m2, Inr 0)" "bm_inflight ?m3 = 2"
    by (simp_all add: NewCircuitBreakerManager_def begin_enter_def begin_allow_def demo_breaker_def)
  have 1: "gate_step demo_breaker (?m0, {#}) (?m1, {#Entered 1#})" using gate_step.enter [of demo_breaker ?m0 "{#}"] c(1) by simp
  have 2: "gate_step demo_breaker (?m1, {#Entered 1#}) (?m2, {#Admitted 0#})"
    using gate_step.admitted [of ?m1 1 demo_breaker 5 ?m2 0 "{#}"] c(2,3) by simp
  have 3: "gate_step demo_breaker (?m2, {#Admitted 0#}) (?m3, {#Admitted 0, Entered 2#})"
    using gate_step.enter [of demo_breaker ?m2 "{#Admitted 0#}"] c(4) by (simp add: add_mset_commute)
  have "(gate_step demo_breaker)\<^sup>*\<^sup>* (?m0, {#}) (?m3, {#Admitted 0, Entered 2#})"
    using 1 2 3 by (meson converse_rtranclp_into_rtranclp rtranclp.rtrancl_refl)
  from admitted_within_limit [OF this] this c(4) show ?thesis by auto
qed

end
