(* ===== verification/Client_Go.thy ===== *)
theory Client_Go
  imports Grpc_Isolation
begin

text \<open>
  The Go client (\<open>clients/go-client/client\<close>): the client and its connection, the calls it makes and
  how it reports their failures.  The generated stubs are the argument \<open>stub\<close>: a call with its
  context takes the state of the backend to a new one and a reply or an error.  The gRPC library is
  an argument too, where it matters: \<open>conv\<close> is the status \<open>status.FromError\<close> gives an error that
  has none, and the states of a connection being dialled are a list.  Logging is left out.
\<close>

section \<open>errors.go\<close>

datatype status_code =
    StOK | StCanceled | StUnknown | StInvalidArgument | StDeadlineExceeded | StNotFound | StAlreadyExists
  | StPermissionDenied | StResourceExhausted | StFailedPrecondition | StAborted | StOutOfRange | StUnimplemented
  | StInternal | StUnavailable | StDataLoss | StUnauthenticated

text \<open>A status with the reasons of its \<open>ErrorInfo\<close> details; an error of a call has a status or only a text.\<close>

record rpc_status =
  se_Code :: status_code
  se_Message :: string
  se_Reasons :: "string list"

datatype call_error = StatusErr rpc_status | TextErr string

type_synonym status_conv = "string \<Rightarrow> rpc_status"

definition status_FromError :: "status_conv \<Rightarrow> call_error \<Rightarrow> rpc_status" where
  "status_FromError conv err = (case err of StatusErr st \<Rightarrow> st | TextErr s \<Rightarrow> conv s)"

record client_Error =
  ce_Op :: string
  ce_RequestID :: string
  ce_Code :: status_code
  ce_Message :: string
  ce_Reason :: string
  ce_Retryable :: bool
  ce_cause :: "call_error option"

definition Error_Error :: "client_Error \<Rightarrow> string" where
  "Error_Error e =
     (if ce_RequestID e \<noteq> '''' then ce_Op e @ '' '' @ ce_RequestID e @ '': '' @ ce_Message e
      else ce_Op e @ '': '' @ ce_Message e)"

definition GRPCStatus :: "client_Error \<Rightarrow> rpc_status" where
  "GRPCStatus e = \<lparr> se_Code = ce_Code e, se_Message = ce_Message e, se_Reasons = [] \<rparr>"

datatype sentinel =
    IsNotFound | IsInvalidArgument | IsFailedPrecondition | IsResourceExhausted | IsUnauthenticated
  | IsPermissionDenied | IsAlreadyExists | IsDeadlineExceeded | IsUnavailable

definition Error_Is :: "client_Error \<Rightarrow> sentinel \<Rightarrow> bool" where
  "Error_Is e target =
     (case target of
        IsNotFound \<Rightarrow> ce_Code e = StNotFound
      | IsInvalidArgument \<Rightarrow> ce_Code e = StInvalidArgument \<or> ce_Code e = StOutOfRange
      | IsFailedPrecondition \<Rightarrow> ce_Code e = StFailedPrecondition \<or> ce_Code e = StAborted
      | IsResourceExhausted \<Rightarrow> ce_Code e = StResourceExhausted
      | IsUnauthenticated \<Rightarrow> ce_Code e = StUnauthenticated
      | IsPermissionDenied \<Rightarrow> ce_Code e = StPermissionDenied
      | IsAlreadyExists \<Rightarrow> ce_Code e = StAlreadyExists
      | IsDeadlineExceeded \<Rightarrow> ce_Code e = StDeadlineExceeded
      | IsUnavailable \<Rightarrow> ce_Code e = StUnavailable)"

definition IsRetryableCode :: "status_code \<Rightarrow> bool" where
  "IsRetryableCode code \<longleftrightarrow> code = StUnavailable \<or> code = StResourceExhausted"

definition reasonFromStatus :: "rpc_status \<Rightarrow> string" where
  "reasonFromStatus st = (case se_Reasons st of [] \<Rightarrow> '''' | r # rs \<Rightarrow> r)"

text \<open>What a method returns as its error: a text, the error of a call as it came, a typed error, or a
  text wrapped around another error.\<close>

datatype client_err = Plain string | Call call_error | Typed client_Error | Wrapped string client_err

definition FromGRPC :: "status_conv \<Rightarrow> string \<Rightarrow> string \<Rightarrow> call_error option \<Rightarrow> client_err option" where
  "FromGRPC conv op requestID err =
     (case err of
        None \<Rightarrow> None
      | Some e \<Rightarrow>
          (let st = status_FromError conv e
           in Some (Typed \<lparr> ce_Op = op, ce_RequestID = requestID, ce_Code = se_Code st, ce_Message = se_Message st,
                ce_Reason = reasonFromStatus st, ce_Retryable = IsRetryableCode (se_Code st), ce_cause = Some e \<rparr>)))"

abbreviation typed_failure :: "status_conv \<Rightarrow> string \<Rightarrow> string \<Rightarrow> call_error \<Rightarrow> client_err" where
  "typed_failure conv op requestID err \<equiv> the (FromGRPC conv op requestID (Some err))"

definition local_Error :: "string \<Rightarrow> string \<Rightarrow> status_code \<Rightarrow> string \<Rightarrow> client_err" where
  "local_Error op requestID code msg =
     Typed \<lparr> ce_Op = op, ce_RequestID = requestID, ce_Code = code, ce_Message = msg, ce_Reason = '''', ce_Retryable = False,
       ce_cause = None \<rparr>"

text \<open>\<open>errors.Is\<close> against a sentinel follows the wrapped errors.\<close>

fun errors_Is :: "client_err \<Rightarrow> sentinel \<Rightarrow> bool" where
  "errors_Is (Typed e) target = Error_Is e target"
| "errors_Is (Wrapped t e) target = errors_Is e target"
| "errors_Is (Plain t) target = False"
| "errors_Is (Call e) target = False"

section \<open>The client\<close>

definition defaultGRPCConnectTimeout :: duration where "defaultGRPCConnectTimeout = 10 * Second"
definition defaultGRPCCallTimeout :: duration where "defaultGRPCCallTimeout = 5 * Second"
definition defaultGRPCExecutionTimeout :: duration where "defaultGRPCExecutionTimeout = 30 * Second"

definition ProtocolGRPC :: string where "ProtocolGRPC = ''grpc''"

record tls_config =
  tls_Enabled :: bool
  tls_CACertPath :: string
  tls_ServerName :: string

text \<open>A stub or connection is represented by whether it is set.\<close>

record client =
  cl_protocol :: string
  cl_serverHost :: string
  cl_serverPort :: int
  cl_sessionID :: string
  cl_machineID :: string
  cl_userID :: string
  cl_apiKey :: string
  cl_tlsConfig :: tls_config
  cl_executionTimeout :: duration
  cl_grpcConn :: bool
  cl_toolClient :: bool
  cl_sessionClient :: bool
  cl_machineClient :: bool
  cl_requestsClient :: bool
  cl_tasksClient :: bool

section \<open>tls.go\<close>

datatype client_option = WithExecutionTimeout duration | WithGRPCTLS string string | WithGRPCTLSConfig tls_config

definition normalized_tls :: "tls_config \<Rightarrow> tls_config" where
  "normalized_tls cfg =
     \<lparr> tls_Enabled = (tls_Enabled cfg \<or> TrimSpace (tls_CACertPath cfg) \<noteq> '''' \<or> TrimSpace (tls_ServerName cfg) \<noteq> ''''),
       tls_CACertPath = TrimSpace (tls_CACertPath cfg), tls_ServerName = TrimSpace (tls_ServerName cfg) \<rparr>"

fun client_apply_option :: "client_option \<Rightarrow> client \<Rightarrow> client" where
  "client_apply_option (WithExecutionTimeout d) c = (if d > 0 then c\<lparr> cl_executionTimeout := d \<rparr> else c)"
| "client_apply_option (WithGRPCTLS ca name) c =
     c\<lparr> cl_tlsConfig := normalized_tls \<lparr> tls_Enabled = True, tls_CACertPath = ca, tls_ServerName = name \<rparr> \<rparr>"
| "client_apply_option (WithGRPCTLSConfig cfg) c = c\<lparr> cl_tlsConfig := normalized_tls cfg \<rparr>"

text \<open>\<open>readFile\<close> reads a file or fails with a text; \<open>hasCerts\<close> says whether a PEM text has certificates.\<close>

datatype transport = Insecure | Tls string "string option"

definition transportCredentials ::
  "(string \<Rightarrow> string + string) \<Rightarrow> (string \<Rightarrow> bool) \<Rightarrow> tls_config \<Rightarrow> client_err + transport" where
  "transportCredentials readFile hasCerts cfg =
     (if \<not> tls_Enabled cfg then Inr Insecure
      else if tls_CACertPath cfg \<noteq> ''''
      then (case readFile (tls_CACertPath cfg) of
              Inl err \<Rightarrow> Inl (Wrapped ''read gRPC TLS CA certificate'' (Plain err))
            | Inr pem \<Rightarrow> if \<not> hasCerts pem then Inl (Plain ''parse gRPC TLS CA certificate: no certificates found'')
                         else Inr (Tls (tls_ServerName cfg) (Some pem)))
      else Inr (Tls (tls_ServerName cfg) None))"

section \<open>Construction\<close>

fun apply_options :: "client_option option list \<Rightarrow> client \<Rightarrow> client" where
  "apply_options [] c = c"
| "apply_options (None # os) c = apply_options os c"
| "apply_options (Some opt # os) c = apply_options os (client_apply_option opt c)"

definition NewToolplaneClient ::
  "string \<Rightarrow> string \<Rightarrow> int \<Rightarrow> string \<Rightarrow> string \<Rightarrow> string \<Rightarrow> client_option option list \<Rightarrow> client_err + client" where
  "NewToolplaneClient protocol serverHost serverPort sessionID userID apiKey opts =
     (if protocol \<noteq> ProtocolGRPC then Inl (Plain (''unsupported protocol: '' @ protocol))
      else Inr (apply_options opts
        \<lparr> cl_protocol = protocol, cl_serverHost = serverHost, cl_serverPort = serverPort, cl_sessionID = sessionID,
          cl_machineID = '''', cl_userID = userID, cl_apiKey = apiKey,
          cl_tlsConfig = \<lparr> tls_Enabled = False, tls_CACertPath = '''', tls_ServerName = '''' \<rparr>,
          cl_executionTimeout = defaultGRPCExecutionTimeout, cl_grpcConn = False, cl_toolClient = False, cl_sessionClient = False,
          cl_machineClient = False, cl_requestsClient = False, cl_tasksClient = False \<rparr>))"

section \<open>Contexts\<close>

text \<open>A context: the time left until its deadline, if it has one, and the outgoing metadata.\<close>

record call_ctx =
  cx_Deadline :: "duration option"
  cx_Metadata :: metadata

definition ctx_Background :: call_ctx where
  "ctx_Background = \<lparr> cx_Deadline = None, cx_Metadata = [] \<rparr>"

definition AppendToOutgoingContext :: "string \<Rightarrow> string \<Rightarrow> call_ctx \<Rightarrow> call_ctx" where
  "AppendToOutgoingContext key v ctx =
     ctx\<lparr> cx_Metadata := gm_put key (md_values key (cx_Metadata ctx) @ [v]) (cx_Metadata ctx) \<rparr>"

definition grpcContext :: "client \<Rightarrow> call_ctx \<Rightarrow> duration \<Rightarrow> call_ctx" where
  "grpcContext c parent timeout =
     (let ctx = (if cx_Deadline parent = None \<and> timeout > 0 then parent\<lparr> cx_Deadline := Some timeout \<rparr> else parent)
      in if cl_apiKey c \<noteq> '''' then AppendToOutgoingContext ''api_key'' (cl_apiKey c) ctx else ctx)"

definition executionContext :: "client \<Rightarrow> call_ctx \<Rightarrow> call_ctx" where
  "executionContext c parent =
     (if cx_Deadline parent \<noteq> None then parent
      else let timeout = (if cl_executionTimeout c \<le> 0 then defaultGRPCExecutionTimeout else cl_executionTimeout c)
           in parent\<lparr> cx_Deadline := Some timeout \<rparr>)"

section \<open>Calls\<close>

type_synonym 'g stub = "call_ctx \<Rightarrow> rpc_call \<Rightarrow> 'g \<Rightarrow> 'g \<times> (call_error + response)"
type_synonym 'a client_result = "client_err + 'a"

text \<open>The replies of the stubs have the type of their method; another reply does not decode.\<close>

definition undecodable :: call_error where
  "undecodable = StatusErr \<lparr> se_Code = StInternal, se_Message = ''failed to unmarshal the received message'', se_Reasons = [] \<rparr>"

definition invoke ::
  "'g stub \<Rightarrow> call_ctx \<Rightarrow> rpc_call \<Rightarrow> (response \<Rightarrow> 'a option) \<Rightarrow> 'g \<Rightarrow> 'g \<times> (call_error + 'a)" where
  "invoke stub ctx call decode g =
     (case stub ctx call g of
        (g1, Inl err) \<Rightarrow> (g1, Inl err)
      | (g1, Inr r) \<Rightarrow> (g1, case decode r of None \<Rightarrow> Inl undecodable | Some a \<Rightarrow> Inr a))"

text \<open>A method that returns the error of its call as it came.\<close>

definition unary ::
  "'g stub \<Rightarrow> client \<Rightarrow> rpc_call \<Rightarrow> (response \<Rightarrow> 'a option) \<Rightarrow> 'g \<Rightarrow> 'g \<times> 'a client_result" where
  "unary stub c call decode g =
     (case invoke stub (grpcContext c ctx_Background defaultGRPCCallTimeout) call decode g of
        (g1, Inl err) \<Rightarrow> (g1, Inl (Call err)) | (g1, Inr a) \<Rightarrow> (g1, Inr a))"

definition as_tool :: "response \<Rightarrow> proto_tool option" where "as_tool r = (case r of ToolReply a \<Rightarrow> Some a | _ \<Rightarrow> None)"
definition as_tools :: "response \<Rightarrow> proto_tool list option" where "as_tools r = (case r of ToolsReply a \<Rightarrow> Some a | _ \<Rightarrow> None)"
definition as_health :: "response \<Rightarrow> string option" where "as_health r = (case r of HealthReply (st, _, _) \<Rightarrow> Some st | _ \<Rightarrow> None)"
definition as_execute :: "response \<Rightarrow> execute_response option" where "as_execute r = (case r of ExecuteReply a \<Rightarrow> Some a | _ \<Rightarrow> None)"
definition as_session :: "response \<Rightarrow> proto_session option" where "as_session r = (case r of SessionReply a \<Rightarrow> Some a | _ \<Rightarrow> None)"
definition as_sessions :: "response \<Rightarrow> proto_session list option" where "as_sessions r = (case r of SessionsReply a \<Rightarrow> Some a | _ \<Rightarrow> None)"
definition as_key :: "response \<Rightarrow> proto_api_key option" where "as_key r = (case r of KeyReply a \<Rightarrow> Some a | _ \<Rightarrow> None)"
definition as_keys :: "response \<Rightarrow> proto_api_key list option" where "as_keys r = (case r of KeysReply a \<Rightarrow> Some a | _ \<Rightarrow> None)"
definition as_machine :: "response \<Rightarrow> proto_machine option" where "as_machine r = (case r of MachineReply a \<Rightarrow> Some a | _ \<Rightarrow> None)"
definition as_machines :: "response \<Rightarrow> proto_machine list option" where "as_machines r = (case r of MachinesReply a \<Rightarrow> Some a | _ \<Rightarrow> None)"
definition as_request :: "response \<Rightarrow> proto_request option" where "as_request r = (case r of RequestReply a \<Rightarrow> Some a | _ \<Rightarrow> None)"
definition as_request_page :: "response \<Rightarrow> (proto_request list \<times> list_page) option" where
  "as_request_page r = (case r of RequestPage a \<Rightarrow> Some a | _ \<Rightarrow> None)"
definition as_task :: "response \<Rightarrow> proto_task option" where "as_task r = (case r of TaskReply a \<Rightarrow> Some a | _ \<Rightarrow> None)"
definition as_tasks :: "response \<Rightarrow> proto_task list option" where "as_tasks r = (case r of TasksReply a \<Rightarrow> Some a | _ \<Rightarrow> None)"
definition as_success :: "response \<Rightarrow> bool option" where "as_success r = (case r of Success b \<Rightarrow> Some b | _ \<Rightarrow> None)"
section \<open>Guards\<close>

definition ensureGRPCConnected :: "client \<Rightarrow> client_err option" where
  "ensureGRPCConnected c =
     (if cl_protocol c \<noteq> ProtocolGRPC then Some (Plain ''operation only supported with gRPC protocol'')
      else if \<not> cl_grpcConn c \<or> \<not> cl_toolClient c \<or> \<not> cl_sessionClient c \<or> \<not> cl_machineClient c \<or> \<not> cl_requestsClient c
      then Some (Plain ''gRPC client is not connected'') else None)"

definition ensureTasksClientConnected :: "client \<Rightarrow> client_err option" where
  "ensureTasksClientConnected c =
     (if cl_protocol c \<noteq> ProtocolGRPC then Some (Plain ''operation only supported with gRPC protocol'')
      else if \<not> cl_grpcConn c \<or> \<not> cl_tasksClient c then Some (Plain ''gRPC tasks client is not connected'') else None)"

definition requireSessionID :: "client \<Rightarrow> string \<Rightarrow> client_err + string" where
  "requireSessionID c operation =
     (if cl_sessionID c = '''' then Inl (Plain (operation @ '' requires a session ID'')) else Inr (cl_sessionID c))"

definition resolveMachineID :: "client \<Rightarrow> string \<Rightarrow> string \<Rightarrow> client_err + string" where
  "resolveMachineID c operation machineID =
     (if machineID \<noteq> '''' then Inr machineID
      else if cl_machineID c \<noteq> '''' then Inr (cl_machineID c)
      else Inl (Plain (operation @ '' requires a machine ID or a registered machine'')))"

text \<open>The checks at the start of a method: the protocol, the connection, and for most the session.\<close>

definition protocol_guard :: "client \<Rightarrow> string \<Rightarrow> client_err option" where
  "protocol_guard c operation =
     (if cl_protocol c \<noteq> ProtocolGRPC then Some (Plain (operation @ '' only supported with gRPC protocol'')) else None)"

definition connected :: "client \<Rightarrow> string \<Rightarrow> ('g \<Rightarrow> 'g \<times> 'a client_result) \<Rightarrow> 'g \<Rightarrow> 'g \<times> 'a client_result" where
  "connected c operation body g =
     (case protocol_guard c operation of
        Some e \<Rightarrow> (g, Inl e)
      | None \<Rightarrow> (case ensureGRPCConnected c of Some e \<Rightarrow> (g, Inl e) | None \<Rightarrow> body g))"

definition in_session :: "client \<Rightarrow> string \<Rightarrow> (string \<Rightarrow> 'g \<Rightarrow> 'g \<times> 'a client_result) \<Rightarrow> 'g \<Rightarrow> 'g \<times> 'a client_result" where
  "in_session c operation body =
     connected c operation (\<lambda>g. case requireSessionID c operation of Inl e \<Rightarrow> (g, Inl e) | Inr sessionID \<Rightarrow> body sessionID g)"

definition in_tasks :: "client \<Rightarrow> string \<Rightarrow> (string \<Rightarrow> 'g \<Rightarrow> 'g \<times> 'a client_result) \<Rightarrow> 'g \<Rightarrow> 'g \<times> 'a client_result" where
  "in_tasks c operation body g =
     (case protocol_guard c operation of
        Some e \<Rightarrow> (g, Inl e)
      | None \<Rightarrow>
          (case ensureTasksClientConnected c of
             Some e \<Rightarrow> (g, Inl e)
           | None \<Rightarrow> (case requireSessionID c operation of Inl e \<Rightarrow> (g, Inl e) | Inr sessionID \<Rightarrow> body sessionID g)))"

section \<open>Connecting\<close>

datatype conn_state = Idle | Connecting | Ready | TransientFailure | Shutdown

text \<open>The world a dial meets: the certificate files, whether the connection can be created, and for
  each look at the connection its state and whether it changed before the context ended.\<close>

record dial_world =
  dw_readFile :: "string \<Rightarrow> string + string"
  dw_hasCerts :: "string \<Rightarrow> bool"
  dw_newClient :: "string option"
  dw_rounds :: "(conn_state \<times> bool) list"
  dw_ctxErr :: "string option"

definition dial_expired :: "dial_world \<Rightarrow> client_err" where
  "dial_expired w =
     (case dw_ctxErr w of Some e \<Rightarrow> Call (TextErr e) | None \<Rightarrow> Plain ''timed out waiting for gRPC connection to become ready'')"

fun dial_loop :: "dial_world \<Rightarrow> (conn_state \<times> bool) list \<Rightarrow> client_err option" where
  "dial_loop w [] = Some (dial_expired w)"
| "dial_loop w ((state, changed) # rounds) =
     (case state of
        Ready \<Rightarrow> None
      | Shutdown \<Rightarrow> Some (Plain ''gRPC connection shut down before becoming ready'')
      | _ \<Rightarrow> if changed then dial_loop w rounds else Some (dial_expired w))"

definition dialGRPCWithCredentials :: "dial_world \<Rightarrow> client_err option" where
  "dialGRPCWithCredentials w =
     (case dw_newClient w of Some e \<Rightarrow> Some (Call (TextErr e)) | None \<Rightarrow> dial_loop w (dw_rounds w))"

definition set_stubs :: "bool \<Rightarrow> client \<Rightarrow> client" where
  "set_stubs b c =
     c\<lparr> cl_grpcConn := b, cl_toolClient := b, cl_sessionClient := b, cl_machineClient := b, cl_requestsClient := b, cl_tasksClient := b \<rparr>"

definition connectGRPC :: "'g stub \<Rightarrow> dial_world \<Rightarrow> client \<times> 'g \<Rightarrow> (client \<times> 'g) \<times> unit client_result" where
  "connectGRPC stub w cg =
     (case cg of (c, g) \<Rightarrow>
        (case transportCredentials (dw_readFile w) (dw_hasCerts w) (cl_tlsConfig c) of
           Inl e \<Rightarrow> ((c, g), Inl (Wrapped ''failed to configure gRPC transport'' e))
         | Inr _ \<Rightarrow>
             (case dialGRPCWithCredentials w of
                Some e \<Rightarrow> ((c, g), Inl (Wrapped ''failed to dial gRPC server'' e))
              | None \<Rightarrow>
                  (let c1 = set_stubs True c
                   in case unary stub c1 (ToolCall HealthCheckRpc) as_health g of
                        (g1, Inl e) \<Rightarrow> ((set_stubs False c1, g1), Inl (Wrapped ''gRPC health check failed'' e))
                      | (g1, Inr _) \<Rightarrow> ((c1, g1), Inr ())))))"

definition client_Connect :: "'g stub \<Rightarrow> dial_world \<Rightarrow> client \<times> 'g \<Rightarrow> (client \<times> 'g) \<times> unit client_result" where
  "client_Connect stub w cg =
     (if cl_protocol (fst cg) \<noteq> ProtocolGRPC then (cg, Inl (Plain (''unsupported protocol: '' @ cl_protocol (fst cg))))
      else connectGRPC stub w cg)"

text \<open>\<open>closed\<close> is the error of closing the connection, if any.\<close>

definition client_Disconnect :: "'g stub \<Rightarrow> string option \<Rightarrow> client \<times> 'g \<Rightarrow> (client \<times> 'g) \<times> unit client_result" where
  "client_Disconnect stub closed cg =
     (case cg of (c, g) \<Rightarrow>
        if cl_protocol c \<noteq> ProtocolGRPC then ((c, g), Inr ())
        else if \<not> cl_grpcConn c then ((c, g), Inr ())
        else (let (g1, disconnectErr) =
                    (if cl_machineClient c \<and> cl_sessionID c \<noteq> '''' \<and> cl_machineID c \<noteq> ''''
                     then (case unary stub c (MachineCall (UnregisterMachineRpc (cl_sessionID c) (cl_machineID c))) as_success g of
                             (g1, Inl e) \<Rightarrow> (g1, Some (Wrapped (''failed to unregister machine '' @ cl_machineID c) e))
                           | (g1, Inr _) \<Rightarrow> (g1, None))
                     else (g, None));
                  err = (case (closed, disconnectErr) of
                           (Some e, None) \<Rightarrow> Some (Wrapped ''failed to close gRPC connection'' (Plain e)) | _ \<Rightarrow> disconnectErr)
              in (((set_stubs False c)\<lparr> cl_machineID := '''' \<rparr>, g1), case err of None \<Rightarrow> Inr () | Some e \<Rightarrow> Inl e)))"

definition client_Ping :: "'g stub \<Rightarrow> client \<Rightarrow> 'g \<Rightarrow> 'g \<times> string client_result" where
  "client_Ping stub c g =
     (case ensureGRPCConnected c of
        Some e \<Rightarrow> (g, Inl e) | None \<Rightarrow> unary stub c (ToolCall HealthCheckRpc) as_health g)"

section \<open>Executing\<close>

text \<open>Each round of the wait is what happens in the backend until the next tick; after the last one the
  context ends with the error \<open>ended\<close>.\<close>

fun wait_loop ::
  "'g stub \<Rightarrow> status_conv \<Rightarrow> client \<Rightarrow> call_ctx \<Rightarrow> string \<Rightarrow> string \<Rightarrow> ('g \<Rightarrow> 'g) list \<Rightarrow> 'g \<Rightarrow> 'g \<times> proto_request client_result" where
  "wait_loop stub conv c execCtx requestID ended rounds g =
     (case invoke stub (grpcContext c execCtx defaultGRPCCallTimeout)
             (RequestCall (GetRequestRpc (cl_sessionID c) requestID)) as_request g of
        (g1, Inl err) \<Rightarrow> (g1, Inl (typed_failure conv ''get request'' requestID err))
      | (g1, Inr request) \<Rightarrow>
          (case pr_Status request of
             REQUEST_STATUS_DONE \<Rightarrow> (g1, Inr request)
           | REQUEST_STATUS_CANCELLED \<Rightarrow>
               (g1, Inl (local_Error ''execute tool'' requestID StCanceled ''tool execution was cancelled''))
           | REQUEST_STATUS_FAILED \<Rightarrow>
               (g1, Inl (local_Error ''execute tool'' requestID StInternal
                  (if pr_Error request = '''' then ''tool execution failed'' else pr_Error request)))
           | _ \<Rightarrow> (case rounds of
                    [] \<Rightarrow> (g1, Inl (typed_failure conv ''wait for request'' requestID (TextErr ended)))
                  | between # rest \<Rightarrow> wait_loop stub conv c execCtx requestID ended rest (between g1))))"

definition waitForRequestCompletion ::
  "'g stub \<Rightarrow> status_conv \<Rightarrow> client \<Rightarrow> call_ctx \<Rightarrow> string \<Rightarrow> string \<Rightarrow> ('g \<Rightarrow> 'g) list \<Rightarrow> 'g \<Rightarrow> 'g \<times> proto_request client_result" where
  "waitForRequestCompletion stub conv c ctx requestID ended rounds g =
     (case ensureGRPCConnected c of
        Some e \<Rightarrow> (g, Inl e)
      | None \<Rightarrow> wait_loop stub conv c (executionContext c ctx) requestID ended rounds g)"

text \<open>The wait the server is asked for, for timeouts of less than \<open>4194304\<close> seconds, whose number of
  seconds is an exact floating-point number.\<close>

definition wait_seconds :: "client \<Rightarrow> int" where
  "wait_seconds c = (let waitSeconds = cl_executionTimeout c div Second - 2 in if waitSeconds < 1 then 1 else waitSeconds)"

definition is_terminal_reply :: "proto_request_status \<Rightarrow> bool" where
  "is_terminal_reply st \<longleftrightarrow> st = REQUEST_STATUS_DONE \<or> st = REQUEST_STATUS_CANCELLED \<or> st = REQUEST_STATUS_FAILED"

text \<open>\<open>params\<close> is the outcome of encoding the parameters.\<close>

definition executeToolGRPC ::
  "'g stub \<Rightarrow> status_conv \<Rightarrow> client \<Rightarrow> call_ctx \<Rightarrow> string \<Rightarrow> string + string \<Rightarrow> string \<Rightarrow> string \<Rightarrow> ('g \<Rightarrow> 'g) list
     \<Rightarrow> 'g \<Rightarrow> 'g \<times> proto_request client_result" where
  "executeToolGRPC stub conv c ctx toolName params idempotencyKey ended rounds g =
     (case ensureGRPCConnected c of
        Some e \<Rightarrow> (g, Inl e)
      | None \<Rightarrow>
          (case params of
             Inl err \<Rightarrow> (g, Inl (Wrapped ''failed to marshal parameters'' (Plain err)))
           | Inr paramsJSON \<Rightarrow>
               (case invoke stub (executionContext c ctx)
                       (ToolCall (InvokeToolRpc (cl_sessionID c) toolName paramsJSON 0 idempotencyKey (wait_seconds c))) as_execute g of
                  (g1, Inl err) \<Rightarrow> (g1, Inl (typed_failure conv ''execute tool'' '''' err))
                | (g1, Inr resp) \<Rightarrow>
                    if er_Error resp \<noteq> '''' then (g1, Inl (Plain (''tool execution error: '' @ er_Error resp)))
                    else if er_RequestId resp = '''' then (g1, Inl (Plain ''tool execution did not return a request ID''))
                    else if is_terminal_reply (er_Status resp)
                    then (case invoke stub (grpcContext c ctx defaultGRPCCallTimeout)
                                 (RequestCall (GetRequestRpc (cl_sessionID c) (er_RequestId resp))) as_request g1 of
                            (g2, Inl err) \<Rightarrow> (g2, Inl (typed_failure conv ''fetch request'' (er_RequestId resp) err))
                          | (g2, Inr full) \<Rightarrow> (g2, Inr full))
                    else waitForRequestCompletion stub conv c ctx (er_RequestId resp) ended rounds g1)))"

definition ExecuteToolWithKey ::
  "'g stub \<Rightarrow> status_conv \<Rightarrow> client \<Rightarrow> call_ctx \<Rightarrow> string \<Rightarrow> string + string \<Rightarrow> string \<Rightarrow> string \<Rightarrow> ('g \<Rightarrow> 'g) list
     \<Rightarrow> 'g \<Rightarrow> 'g \<times> proto_request client_result" where
  "ExecuteToolWithKey stub conv c ctx toolName params idempotencyKey ended rounds g =
     (case protocol_guard c ''tool execution'' of
        Some e \<Rightarrow> (g, Inl e) | None \<Rightarrow> executeToolGRPC stub conv c ctx toolName params idempotencyKey ended rounds g)"

definition client_ExecuteTool ::
  "'g stub \<Rightarrow> status_conv \<Rightarrow> client \<Rightarrow> call_ctx \<Rightarrow> string \<Rightarrow> string + string \<Rightarrow> string \<Rightarrow> ('g \<Rightarrow> 'g) list
     \<Rightarrow> 'g \<Rightarrow> 'g \<times> proto_request client_result" where
  "client_ExecuteTool stub conv c ctx toolName params ended rounds g =
     ExecuteToolWithKey stub conv c ctx toolName params '''' ended rounds g"
section \<open>Streams\<close>

text \<open>Opening a stream gives an error or the messages \<open>Recv\<close> will return, after which it returns the end
  of the input.  The callback sees the chunks so far, the new one last, and may fail.\<close>

datatype stream_call = ResumeStreamRpc string int | StreamExecuteToolRpc string string string

type_synonym 'g stream_stub = "call_ctx \<Rightarrow> stream_call \<Rightarrow> 'g \<Rightarrow> 'g \<times> (call_error + (call_error + stream_chunk) list)"
type_synonym on_chunk = "(stream_chunk list \<Rightarrow> client_err option) option"

fun recv_loop ::
  "(call_error \<Rightarrow> client_err) \<Rightarrow> (string \<Rightarrow> client_err) \<Rightarrow> on_chunk \<Rightarrow> stream_chunk list \<Rightarrow> (call_error + stream_chunk) list
     \<Rightarrow> stream_chunk list \<times> client_err option" where
  "recv_loop broken failed onChunk chunks [] = (chunks, Some (broken (TextErr ''EOF'')))"
| "recv_loop broken failed onChunk chunks (Inl recvErr # ms) = (chunks, Some (broken recvErr))"
| "recv_loop broken failed onChunk chunks (Inr chunk # ms) =
     (let chunks1 = chunks @ [chunk]
      in case (case onChunk of None \<Rightarrow> None | Some f \<Rightarrow> f chunks1) of
           Some callbackErr \<Rightarrow> (chunks1, Some callbackErr)
         | None \<Rightarrow>
             if ec_IsFinal chunk
             then (if ec_Error chunk \<noteq> '''' then (chunks1, Some (failed (ec_Error chunk))) else (chunks1, None))
             else recv_loop broken failed onChunk chunks1 ms)"

definition client_ResumeStream ::
  "'g stream_stub \<Rightarrow> status_conv \<Rightarrow> client \<Rightarrow> call_ctx \<Rightarrow> string \<Rightarrow> int \<Rightarrow> on_chunk \<Rightarrow> 'g \<Rightarrow> 'g \<times> stream_chunk list \<times> client_err option" where
  "client_ResumeStream sstub conv c ctx requestID lastSeq onChunk g =
     (case ensureGRPCConnected c of
        Some e \<Rightarrow> (g, [], Some e)
      | None \<Rightarrow>
          (case sstub (executionContext c ctx) (ResumeStreamRpc requestID lastSeq) g of
             (g1, Inl err) \<Rightarrow> (g1, [], Some (typed_failure conv ''resume stream'' requestID err))
           | (g1, Inr ms) \<Rightarrow>
               (g1, recv_loop (typed_failure conv ''resume stream chunk'' requestID)
                      (local_Error ''resume stream'' requestID StInternal) onChunk [] ms)))"

definition client_StreamExecuteTool ::
  "'g stream_stub \<Rightarrow> status_conv \<Rightarrow> client \<Rightarrow> call_ctx \<Rightarrow> string \<Rightarrow> string + string \<Rightarrow> on_chunk \<Rightarrow> 'g
     \<Rightarrow> 'g \<times> stream_chunk list \<times> client_err option" where
  "client_StreamExecuteTool sstub conv c ctx toolName params onChunk g =
     (case ensureGRPCConnected c of
        Some e \<Rightarrow> (g, [], Some e)
      | None \<Rightarrow>
          (case params of
             Inl err \<Rightarrow> (g, [], Some (Wrapped ''failed to marshal parameters'' (Plain err)))
           | Inr paramsJSON \<Rightarrow>
               (case sstub (executionContext c ctx) (StreamExecuteToolRpc (cl_sessionID c) toolName paramsJSON) g of
                  (g1, Inl err) \<Rightarrow> (g1, [], Some (typed_failure conv ''start execution stream'' '''' err))
                | (g1, Inr ms) \<Rightarrow>
                    (g1, recv_loop (typed_failure conv ''receive stream chunk'' '''')
                           (\<lambda>e. Plain (''stream execution failed: '' @ e)) onChunk [] ms))))"

section \<open>Tools\<close>

definition client_RegisterTool ::
  "'g stub \<Rightarrow> client \<Rightarrow> string \<Rightarrow> string \<Rightarrow> string \<Rightarrow> string gomap \<Rightarrow> string list \<Rightarrow> 'g \<Rightarrow> 'g \<times> proto_tool client_result" where
  "client_RegisterTool stub c name description schema config tags =
     connected c ''tool registration''
       (unary stub c (ToolCall (RegisterToolRpc (cl_sessionID c) (cl_machineID c) name description schema config tags)) as_tool)"

definition client_ListTools :: "'g stub \<Rightarrow> client \<Rightarrow> 'g \<Rightarrow> 'g \<times> proto_tool list client_result" where
  "client_ListTools stub c =
     connected c ''tool listing'' (unary stub c (ToolCall (ListToolsRpc (cl_sessionID c))) as_tools)"

definition client_GetToolByID :: "'g stub \<Rightarrow> client \<Rightarrow> string \<Rightarrow> 'g \<Rightarrow> 'g \<times> proto_tool client_result" where
  "client_GetToolByID stub c toolID =
     in_session c ''tool lookup'' (\<lambda>sessionID. unary stub c (ToolCall (GetToolRpc sessionID toolID '''')) as_tool)"

definition client_GetToolByName :: "'g stub \<Rightarrow> client \<Rightarrow> string \<Rightarrow> 'g \<Rightarrow> 'g \<times> proto_tool client_result" where
  "client_GetToolByName stub c toolName =
     in_session c ''tool lookup'' (\<lambda>sessionID. unary stub c (ToolCall (GetToolRpc sessionID '''' toolName)) as_tool)"

definition client_DeleteTool :: "'g stub \<Rightarrow> client \<Rightarrow> string \<Rightarrow> 'g \<Rightarrow> 'g \<times> bool client_result" where
  "client_DeleteTool stub c toolID =
     in_session c ''tool deletion'' (\<lambda>sessionID. unary stub c (ToolCall (DeleteToolRpc sessionID toolID '''')) as_success)"

section \<open>Sessions and keys\<close>

text \<open>\<open>uuid\<close> is a fresh identifier.\<close>

definition client_CreateSession ::
  "'g stub \<Rightarrow> string \<Rightarrow> string \<Rightarrow> string \<Rightarrow> string \<Rightarrow> client \<times> 'g \<Rightarrow> (client \<times> 'g) \<times> proto_session client_result" where
  "client_CreateSession stub uuid name description namespace cg =
     (case cg of (c, g) \<Rightarrow>
        (let sessionID = (if cl_sessionID c = '''' then uuid else cl_sessionID c)
         in case connected c ''session creation''
                   (unary stub c (SessionCall (CreateSessionRpc (cl_userID c) name description sessionID namespace)) as_session) g of
              (g1, Inl e) \<Rightarrow> ((c, g1), Inl e)
            | (g1, Inr session) \<Rightarrow> ((c\<lparr> cl_sessionID := ps_Id session \<rparr>, g1), Inr session)))"

definition client_GetSession :: "'g stub \<Rightarrow> client \<Rightarrow> 'g \<Rightarrow> 'g \<times> proto_session client_result" where
  "client_GetSession stub c =
     connected c ''session retrieval'' (unary stub c (SessionCall (GetSessionRpc (cl_sessionID c))) as_session)"

definition client_ListSessions :: "'g stub \<Rightarrow> client \<Rightarrow> 'g \<Rightarrow> 'g \<times> proto_session list client_result" where
  "client_ListSessions stub c =
     connected c ''session listing'' (unary stub c (SessionCall (ListSessionsRpc (cl_userID c))) as_sessions)"

definition client_UpdateSession ::
  "'g stub \<Rightarrow> client \<Rightarrow> string \<Rightarrow> string \<Rightarrow> string \<Rightarrow> 'g \<Rightarrow> 'g \<times> proto_session client_result" where
  "client_UpdateSession stub c name description namespace =
     in_session c ''session update''
       (\<lambda>sessionID. unary stub c (SessionCall (UpdateSessionRpc sessionID name description namespace)) as_session)"

definition client_CreateAPIKey :: "'g stub \<Rightarrow> client \<Rightarrow> string \<Rightarrow> string list \<Rightarrow> 'g \<Rightarrow> 'g \<times> proto_api_key client_result" where
  "client_CreateAPIKey stub c name capabilities g =
     (case protocol_guard c ''api key creation'' of
        Some e \<Rightarrow> (g, Inl e)
      | None \<Rightarrow>
          if \<not> list_ex (\<lambda>capability. TrimSpace capability \<noteq> '''') capabilities
          then (g, Inl (Plain ''CreateAPIKey requires an explicit non-empty capabilities list''))
          else in_session c ''api key creation''
                 (\<lambda>sessionID. unary stub c (SessionCall (CreateApiKeyRpc sessionID name capabilities [])) as_key) g)"

definition client_ListAPIKeys :: "'g stub \<Rightarrow> client \<Rightarrow> 'g \<Rightarrow> 'g \<times> proto_api_key list client_result" where
  "client_ListAPIKeys stub c =
     in_session c ''api key listing'' (\<lambda>sessionID. unary stub c (SessionCall (ListApiKeysRpc sessionID)) as_keys)"

definition client_RevokeAPIKey :: "'g stub \<Rightarrow> client \<Rightarrow> string \<Rightarrow> 'g \<Rightarrow> 'g \<times> bool client_result" where
  "client_RevokeAPIKey stub c keyID =
     in_session c ''api key revocation'' (\<lambda>sessionID. unary stub c (SessionCall (RevokeApiKeyRpc sessionID keyID)) as_success)"

section \<open>Machines\<close>

definition client_RegisterMachine ::
  "'g stub \<Rightarrow> string \<Rightarrow> string \<Rightarrow> string \<Rightarrow> (string \<times> tool_request) list \<Rightarrow> client \<times> 'g
     \<Rightarrow> (client \<times> 'g) \<times> proto_machine client_result" where
  "client_RegisterMachine stub uuid machineID sdkVersion tools cg =
     (case cg of (c, g) \<Rightarrow>
        (let mid = (if machineID = '''' then uuid else machineID)
         in case connected c ''machine registration''
                   (unary stub c (MachineCall (RegisterMachineRpc (cl_sessionID c) mid sdkVersion ''go'' tools)) as_machine) g of
              (g1, Inl e) \<Rightarrow> ((c, g1), Inl e)
            | (g1, Inr machine) \<Rightarrow> ((c\<lparr> cl_machineID := pm_Id machine \<rparr>, g1), Inr machine)))"

definition client_ListMachines :: "'g stub \<Rightarrow> client \<Rightarrow> 'g \<Rightarrow> 'g \<times> proto_machine list client_result" where
  "client_ListMachines stub c =
     in_session c ''machine listing'' (\<lambda>sessionID. unary stub c (MachineCall (ListMachinesRpc sessionID)) as_machines)"

definition client_GetMachine :: "'g stub \<Rightarrow> client \<Rightarrow> string \<Rightarrow> 'g \<Rightarrow> 'g \<times> proto_machine client_result" where
  "client_GetMachine stub c machineID =
     in_session c ''machine retrieval'' (\<lambda>sessionID. unary stub c (MachineCall (GetMachineRpc sessionID machineID)) as_machine)"

text \<open>Unregistering and draining: the call names the resolved machine; the client forgets its own machine
  when the reply is positive.\<close>

definition client_UnregisterMachine ::
  "'g stub \<Rightarrow> string \<Rightarrow> client \<times> 'g \<Rightarrow> (client \<times> 'g) \<times> bool client_result" where
  "client_UnregisterMachine stub machineID cg =
     (case cg of (c, g) \<Rightarrow>
        (case in_session c ''machine unregistration''
                (\<lambda>sessionID g. case resolveMachineID c ''machine unregistration'' machineID of
                   Inl e \<Rightarrow> (g, Inl e)
                 | Inr resolved \<Rightarrow>
                     apsnd (map_sum id (Pair resolved)) (unary stub c (MachineCall (UnregisterMachineRpc sessionID resolved)) as_success g)) g of
           (g1, Inl e) \<Rightarrow> ((c, g1), Inl e)
         | (g1, Inr (resolved, success)) \<Rightarrow>
             ((if success \<and> resolved = cl_machineID c then c\<lparr> cl_machineID := '''' \<rparr> else c, g1), Inr success)))"

definition client_DrainMachine ::
  "'g stub \<Rightarrow> string \<Rightarrow> client \<times> 'g \<Rightarrow> (client \<times> 'g) \<times> bool client_result" where
  "client_DrainMachine stub machineID cg =
     (case cg of (c, g) \<Rightarrow>
        (case in_session c ''machine drain''
                (\<lambda>sessionID g. case resolveMachineID c ''machine drain'' machineID of
                   Inl e \<Rightarrow> (g, Inl e)
                 | Inr resolved \<Rightarrow>
                     apsnd (map_sum id (Pair resolved)) (unary stub c (MachineCall (DrainMachineRpc sessionID resolved)) as_success g)) g of
           (g1, Inl e) \<Rightarrow> ((c, g1), Inl e)
         | (g1, Inr (resolved, drained)) \<Rightarrow>
             ((if drained \<and> resolved = cl_machineID c then c\<lparr> cl_machineID := '''' \<rparr> else c, g1), Inr drained)))"

section \<open>Requests and tasks\<close>

definition client_CreateRequest :: "'g stub \<Rightarrow> client \<Rightarrow> string \<Rightarrow> string \<Rightarrow> 'g \<Rightarrow> 'g \<times> proto_request client_result" where
  "client_CreateRequest stub c toolName input =
     in_session c ''request creation''
       (\<lambda>sessionID. unary stub c (RequestCall (CreateRequestRpc sessionID toolName input 0 '''')) as_request)"

definition client_GetRequest :: "'g stub \<Rightarrow> client \<Rightarrow> string \<Rightarrow> 'g \<Rightarrow> 'g \<times> proto_request client_result" where
  "client_GetRequest stub c requestID =
     in_session c ''request retrieval'' (\<lambda>sessionID. unary stub c (RequestCall (GetRequestRpc sessionID requestID)) as_request)"

definition requestStatusForWire :: "string \<Rightarrow> proto_request_status" where
  "requestStatusForWire status =
     (let name = ToLower (TrimSpace status)
      in if name = ''pending'' then REQUEST_STATUS_PENDING
         else if name = ''claimed'' then REQUEST_STATUS_CLAIMED
         else if name = ''running'' then REQUEST_STATUS_RUNNING
         else if name = ''done'' then REQUEST_STATUS_DONE
         else if name = ''failure'' \<or> name = ''failed'' then REQUEST_STATUS_FAILED
         else if name = ''cancelled'' then REQUEST_STATUS_CANCELLED
         else REQUEST_STATUS_UNSPECIFIED)"

definition client_ListRequests ::
  "'g stub \<Rightarrow> client \<Rightarrow> string \<Rightarrow> string \<Rightarrow> int \<Rightarrow> string \<Rightarrow> 'g \<Rightarrow> 'g \<times> (proto_request list \<times> list_page) client_result" where
  "client_ListRequests stub c status toolName limit pageToken =
     in_session c ''request listing''
       (\<lambda>sessionID. unary stub c (RequestCall (ListRequestsRpc sessionID (requestStatusForWire status) toolName limit pageToken)) as_request_page)"

definition client_CancelRequest :: "'g stub \<Rightarrow> client \<Rightarrow> string \<Rightarrow> 'g \<Rightarrow> 'g \<times> bool client_result" where
  "client_CancelRequest stub c requestID =
     in_session c ''request cancellation'' (\<lambda>sessionID. unary stub c (RequestCall (CancelRequestRpc sessionID requestID)) as_success)"

definition client_CreateTask :: "'g stub \<Rightarrow> client \<Rightarrow> string \<Rightarrow> string \<Rightarrow> 'g \<Rightarrow> 'g \<times> proto_task client_result" where
  "client_CreateTask stub c toolName input =
     in_tasks c ''task creation'' (\<lambda>sessionID. unary stub c (TaskCall (CreateTaskRpc sessionID toolName input '''')) as_task)"

definition client_GetTask :: "'g stub \<Rightarrow> client \<Rightarrow> string \<Rightarrow> 'g \<Rightarrow> 'g \<times> proto_task client_result" where
  "client_GetTask stub c taskID =
     in_tasks c ''task retrieval'' (\<lambda>sessionID. unary stub c (TaskCall (GetTaskRpc sessionID taskID)) as_task)"

definition client_ListTasks :: "'g stub \<Rightarrow> client \<Rightarrow> 'g \<Rightarrow> 'g \<times> proto_task list client_result" where
  "client_ListTasks stub c =
     in_tasks c ''task listing'' (\<lambda>sessionID. unary stub c (TaskCall (ListTasksRpc sessionID)) as_tasks)"

definition client_CancelTask :: "'g stub \<Rightarrow> client \<Rightarrow> string \<Rightarrow> 'g \<Rightarrow> 'g \<times> bool client_result" where
  "client_CancelTask stub c taskID =
     in_tasks c ''task cancellation'' (\<lambda>sessionID. unary stub c (TaskCall (CancelTaskRpc sessionID taskID)) as_success)"

end
