(* ===== verification/Client_Theorems.thy ===== *)
theory Client_Theorems
  imports Client_Go
begin

text \<open>
  Properties of the Go client, on its own and composed with a replica: when its connection fields
  agree, what its streams return, which of its calls carry the credentials the server asks for, and
  how failures reach the caller.
\<close>

section \<open>A replica behind the stubs\<close>

text \<open>The status a client sees: a rejection or a status of the handler with its code and reason; a
  crashed handler takes the connection down.  \<open>msg\<close> gives the messages.\<close>

fun wire_code :: "grpc_code \<Rightarrow> status_code" where
  "wire_code CodeNotFound = StNotFound"
| "wire_code CodeAlreadyExists = StAlreadyExists"
| "wire_code CodeInvalidArgument = StInvalidArgument"
| "wire_code CodePermissionDenied = StPermissionDenied"
| "wire_code CodeFailedPrecondition = StFailedPrecondition"
| "wire_code CodeCanceled = StCanceled"
| "wire_code CodeResourceExhausted = StResourceExhausted"
| "wire_code CodeUnavailable = StUnavailable"
| "wire_code CodeOutOfRange = StOutOfRange"
| "wire_code CodeDeadlineExceeded = StDeadlineExceeded"
| "wire_code CodeInternal = StInternal"

definition auth_code :: "auth_error \<Rightarrow> status_code" where
  "auth_code e = (case e of Unauthenticated \<Rightarrow> StUnauthenticated | PermissionDenied \<Rightarrow> StPermissionDenied)"

definition wire_reply :: "(response \<Rightarrow> string) \<Rightarrow> response \<Rightarrow> call_error + response" where
  "wire_reply msg r =
     (case r of
        Rejected e \<Rightarrow> Inl (StatusErr \<lparr> se_Code = auth_code e, se_Message = msg r, se_Reasons = [] \<rparr>)
      | Status (code, reason, _) \<Rightarrow>
          Inl (StatusErr \<lparr> se_Code = wire_code code, se_Message = msg r,
            se_Reasons = (case reason of None \<Rightarrow> [] | Some s \<Rightarrow> [s]) \<rparr>)
      | Crashed \<Rightarrow> Inl (StatusErr \<lparr> se_Code = StUnavailable, se_Message = msg r, se_Reasons = [] \<rparr>)
      | _ \<Rightarrow> Inr r)"

definition served :: "grpc_env \<Rightarrow> time list \<Rightarrow> (response \<Rightarrow> string) \<Rightarrow> grpc_server stub" where
  "served env polls msg ctx call g =
     (case serve env polls (Some (cx_Metadata ctx)) call g of (g1, r) \<Rightarrow> (g1, wire_reply msg r))"

lemma served_rejection:
  assumes "serve env polls (Some (cx_Metadata ctx)) call g = (g1, Rejected e)"
  shows "invoke (served env polls msg) ctx call decode g
    = (g1, Inl (StatusErr \<lparr> se_Code = auth_code e, se_Message = msg (Rejected e), se_Reasons = [] \<rparr>))"
  using assms by (simp add: invoke_def served_def wire_reply_def)

text \<open>The metadata of a call: the key, when there is one, and never a machine token.\<close>

lemma own_metadata:
  "cx_Metadata (grpcContext c ctx_Background d) = (if cl_apiKey c = '''' then [] else [(''api_key'', [cl_apiKey c])])"
  by (simp add: grpcContext_def ctx_Background_def AppendToOutgoingContext_def md_values_def gm_put_def Let_def)

lemma no_machine_token: "MachineTokenFromContext (Some (cx_Metadata (grpcContext c ctx_Background d))) = ''''"
  by (simp add: own_metadata MachineTokenFromContext_def md_values_def gm_get_def)

lemma execution_metadata [simp]: "cx_Metadata (executionContext c ctx) = cx_Metadata ctx"
  by (simp add: executionContext_def Let_def)

section \<open>Execution without credentials\<close>

lemma tokenless_is_rejected:
  assumes "tokenFromMetadata md = None" and "methodPolicyFor (fst (rpc_of call)) = Some pol" and "\<not> mp_Public pol"
  shows "serve env polls (Some md) call g = (g, Rejected Unauthenticated)"
  using assms by (simp add: serve_def UnaryInterceptor_def authenticateRequest_def)

text \<open>C38: The client executes tools without its key.  The context of an execution does not carry the
  configured key: unless the caller has put a credential into the context himself, every execution
  against a replica fails as unauthenticated and leaves the replica as it was, and both execution streams
  are refused; while the other calls of the same client carry the key as their credential.\<close>

theorem execution_omits_the_key:
  assumes "ensureGRPCConnected c = None" and "tokenFromMetadata (cx_Metadata ctx) = None"
    and "TrimSpace (cl_apiKey c) \<noteq> ''''"
  shows "(\<exists>e. executeToolGRPC (served env polls msg) conv c ctx tool (Inr js) key ended rounds g = (g, Inl (Typed e))
       \<and> ce_Code e = StUnauthenticated \<and> \<not> ce_Retryable e)
    \<and> StreamInterceptor (authenticate env) ''/api.v1.ToolService/StreamExecuteTool''
         (Some (cx_Metadata (executionContext c ctx))) g = (g, Inl Unauthenticated)
    \<and> StreamInterceptor (authenticate env) ''/api.v1.ToolService/ResumeStream''
         (Some (cx_Metadata (executionContext c ctx))) g = (g, Inl Unauthenticated)
    \<and> tokenFromMetadata (cx_Metadata (grpcContext c ctx_Background d)) = Some (cl_apiKey c)"
proof -
  let ?call = "ToolCall (InvokeToolRpc (cl_sessionID c) tool js 0 key (wait_seconds c))"
  have "serve env polls (Some (cx_Metadata (executionContext c ctx))) ?call g = (g, Rejected Unauthenticated)"
    by (rule tokenless_is_rejected [of _ _ "policy CapInvoke True False False"])
      (simp_all add: assms(2) served_policies policy_def)
  from served_rejection [OF this, of msg as_execute]
  have e: "\<exists>e. executeToolGRPC (served env polls msg) conv c ctx tool (Inr js) key ended rounds g = (g, Inl (Typed e))
       \<and> ce_Code e = StUnauthenticated \<and> \<not> ce_Retryable e"
    by (simp add: executeToolGRPC_def assms(1) FromGRPC_def status_FromError_def Let_def auth_code_def IsRetryableCode_def)
  have p: "\<not> mp_Public pol" if "methodPolicyFor ''/api.v1.ToolService/StreamExecuteTool'' = Some pol
      \<or> methodPolicyFor ''/api.v1.ToolService/ResumeStream'' = Some pol" for pol
    using that by (auto simp: methodPolicyFor_def methodPolicies_def gm_get_def policy_def)
  have "cl_apiKey c \<noteq> ''''" using assms(3) by (auto simp: TrimSpace_def)
  then have "tokenFromMetadata (cx_Metadata (grpcContext c ctx_Background d)) = Some (cl_apiKey c)"
    using assms(3) by (simp add: own_metadata tokenFromMetadata_def md_values_def gm_get_def)
  with e p show ?thesis
    by (auto simp: StreamInterceptor_def authenticateRequest_def assms(2) split: option.split)
qed
section \<open>Provider calls without a machine token\<close>

text \<open>The machine has a credential, in the cache of the replica or else in the store.\<close>

definition credential_bound :: "grpc_server \<Rightarrow> string \<Rightarrow> string \<Rightarrow> bool" where
  "credential_bound g s m \<longleftrightarrow> m \<noteq> '''' \<and>
     (case gm_get2 (sv_machines (tv_server (gs_tasks g))) s m of
        Some mc \<Rightarrow> m_TokenHash mc \<noteq> ''''
      | None \<Rightarrow> (case mem_GetMachine m (gs_store g) of Some mc \<Rightarrow> m_SessionID mc = s \<and> m_TokenHash mc \<noteq> '''' | None \<Rightarrow> False))"

lemma gate_refuses:
  assumes "credential_bound g s m"
  shows "\<exists>g1 e. machine_gate env s m '''' g = (g1, Inl e) \<and> gs_store g1 = gs_store g \<and> credential_bound g1 s m"
  using assms
  by (auto simp: credential_bound_def machine_gate_def on_server_def AuthorizeMachineToken_def MatchesMachineToken_def Let_def
      gs_server gm_get2_put2 split: option.splits)

lemma provider_refused:
  assumes "credential_bound g s m" and "MachineTokenFromContext (Some md) = ''''"
    and "rpc_of call = (meth, message (Some s) u (Some m) t)" and "methodPolicyFor meth = Some (policy CapProvide b b' False)"
  shows "\<exists>g1 e. serve env polls (Some md) call g = (g1, Rejected e) \<and> gs_store g1 = gs_store g \<and> credential_bound g1 s m"
proof -
  obtain g1 x where a: "authenticateRequest (authenticate env) (Some md) g = (g1, x)" by fastforce
  have t: "gs_tasks g1 = gs_tasks g" by (rule auth_tasks [OF a])
  have b: "gs_store g1 = gs_store g" "credential_bound g1 s m"
    using assms(1) unfolding credential_bound_def gs_store_def t by simp_all
  show ?thesis
  proof (cases x)
    case (Inl e)
    with a b show ?thesis by (simp add: serve_def UnaryInterceptor_def assms(3,4) policy_def)
  next
    case (Inr p)
    have mode: "p_Mode p = AuthModeSessionKey" using session_mode [of env "Some md" g p] a Inr by simp
    have m: "m \<noteq> ''''" using assms(1) by (simp add: credential_bound_def)
    from gate_refuses [OF b(2)] obtain g2 e where
      g: "machine_gate env s m '''' g1 = (g2, Inl e)" "gs_store g2 = gs_store g1" "credential_bound g2 s m" by blast
    have c: "authorizeMachineToken (Some (machine_gate env)) (Some md) p (message (Some s) u (Some m) t) (policy CapProvide b b' False) g1
        = (g2, Some PermissionDenied)"
      using m by (simp add: authorizeMachineToken_def policy_def mode message_def assms(2) g(1))
    show ?thesis
      using a Inr b c g by (simp add: serve_def UnaryInterceptor_def assms(3,4) policy_def split: option.split)
  qed
qed

lemma provider_call_fails:
  assumes "credential_bound g s m" and "rpc_of call = (meth, message (Some s) u (Some m) t)"
    and "methodPolicyFor meth = Some (policy CapProvide b b' False)"
  shows "\<exists>g1 e. unary (served env polls msg) c call decode g = (g1, Inl e) \<and> gs_store g1 = gs_store g"
proof -
  let ?ctx = "grpcContext c ctx_Background defaultGRPCCallTimeout"
  from provider_refused [OF assms(1) no_machine_token assms(2,3), of env polls c defaultGRPCCallTimeout] obtain g1 e where
    "serve env polls (Some (cx_Metadata ?ctx)) call g = (g1, Rejected e)" "gs_store g1 = gs_store g" by blast
  then show ?thesis using served_rejection [of env polls ?ctx call g g1 e msg decode] by (simp add: unary_def)
qed
text \<open>Nothing the tool service does touches machines.\<close>

definition machines_of :: "server \<Rightarrow> machine gomap gomap \<times> machine gomap" where
  "machines_of sv = (sv_machines sv, st_machines (sv_store sv))"

lemma machines_cacheTool: "machines_of (cacheTool s t sv) = machines_of sv"
  by (simp add: machines_of_def cacheTool_def Let_def)

lemma machines_DeleteTool: "machines_of (fst (DeleteTool s i sv)) = machines_of sv"
  by (auto simp: machines_of_def DeleteTool_def mem_DeleteTool_def Let_def split: option.split prod.split sum.split)

lemma machines_ClaimToolOwnership: "st_machines (fst (mem_ClaimToolOwnership t stale st)) = st_machines st"
  by (auto simp: mem_ClaimToolOwnership_def mem_SaveTool_def Let_def split: option.split prod.split)

lemma machines_RegisterTool: "machines_of (fst (RegisterTool js u now s m n d sc c t sv)) = machines_of sv"
  using machines_ClaimToolOwnership [of "NewTool u now s m n d sc c t" "now - machineHeartbeatTTL" "sv_store sv"]
  by (auto simp: machines_of_def RegisterTool_def cacheTool_def Let_def split: option.split prod.split)
lemma machines_fold_cache: "machines_of (fold (cacheTool s) ts sv) = machines_of sv"
  by (induction ts arbitrary: sv) (simp_all add: machines_cacheTool)

lemma machines_delete_dropped: "machines_of (delete_dropped s ns ts sv) = machines_of sv"
  by (induction s ns ts sv rule: delete_dropped.induct) (simp_all add: machines_DeleteTool)

lemma machines_register_tools: "machines_of (register_tools js now s m ts sv) = machines_of sv"
  by (induction js now s m ts sv rule: register_tools.induct) (simp_all add: machines_RegisterTool)

lemma machines_reconcile: "machines_of (reconcileMachineTools js now s m ts sv) = machines_of sv"
  by (simp add: reconcileMachineTools_def ToolsByMachine_def machines_register_tools machines_delete_dropped
      machines_fold_cache Let_def)

lemma machines_tracking:
  "machines_of (TrackMachine s m sv) = machines_of sv"
  "machines_of (setMachineCapacity s m n sv) = machines_of sv"
  by (simp_all add: machines_of_def TrackMachine_def setMachineCapacity_def ensureCapacityLocked_def Let_def split: option.split)

text \<open>A registration without a token succeeds only for a new machine, which then has a credential.\<close>

lemma fresh_registration:
  assumes "RegisterMachine hash js u1 u2 now s m v l ip ts '''' sv = (sv', Inr machine)"
  shows "machine = NewMachine hash u1 u2 now s m v l ip"
    and "gm_get2 (sv_machines sv') s (m_ID machine) = Some (machine\<lparr> m_Token := '''' \<rparr>)"
    and "\<exists>row. mem_GetMachine (m_ID machine) (sv_store sv') = Some row \<and> m_SessionID row = s"
proof -
  let ?n = "NewMachine hash u1 u2 now s m v l ip"
  let ?sv0 = "sv\<lparr> sv_machines := gm_ensure s [] (sv_machines sv) \<rparr>"
  have r: "resolve_machine hash u1 u2 now s m v l ip '''' ?sv0 = (?sv0, Inr machine)" and n: "machine = ?n"
    using assms by (auto simp: RegisterMachine_def resolve_machine_def MatchesMachineToken_def Let_def
        split: if_splits option.splits prod.splits sum.splits)
  show "machine = ?n" by (rule n)
  let ?sv2 = "?sv0\<lparr> sv_machines := gm_put2 s (m_ID machine) (machine\<lparr> m_Token := '''' \<rparr>) (sv_machines ?sv0) \<rparr>"
  let ?sv3 = "setMachineCapacity s (m_ID machine) maxMachineConcurrentRequests ?sv2"
  have "sv' = (let sv5 = TrackMachine s (m_ID machine) (?sv3\<lparr> sv_store := mem_SaveMachine machine (sv_store ?sv3) \<rparr>)
      in if ts = [] then sv5 else reconcileMachineTools js now s (m_ID machine) ts sv5)"
    using assms r by (auto simp: RegisterMachine_def Let_def split: if_splits)
  then have "machines_of sv' = machines_of (?sv3\<lparr> sv_store := mem_SaveMachine machine (sv_store ?sv3) \<rparr>)"
    by (simp add: machines_reconcile machines_tracking Let_def)
  moreover have "machines_of ?sv3 = machines_of ?sv2" by (rule machines_tracking(2))
  ultimately have m: "sv_machines sv' = sv_machines ?sv2" "st_machines (sv_store sv') = st_machines (mem_SaveMachine machine (sv_store ?sv3))"
    by (simp_all add: machines_of_def)
  show "gm_get2 (sv_machines sv') s (m_ID machine) = Some (machine\<lparr> m_Token := '''' \<rparr>)" by (simp add: m gm_get2_put2)
  have "m_SessionID machine = s" by (simp add: n NewMachine_def Let_def)
  then show "\<exists>row. mem_GetMachine (m_ID machine) (sv_store sv') = Some row \<and> m_SessionID row = s"
    by (simp add: mem_GetMachine_def m(2) mem_SaveMachine_def cloneMachine_def Let_def split: option.split)
qed
lemma served_registration:
  assumes "client_RegisterMachine (served env polls msg) u mid v tools (c, g) = ((c1, g1), Inr machine)"
    and "e_hash env (''toolplane_machine_'' @ e_uuid2 env) \<noteq> ''''" and "mid \<noteq> '''' \<or> u \<noteq> ''''"
  shows "c1 = c\<lparr> cl_machineID := pm_Id machine \<rparr>" and "ensureGRPCConnected c = None"
    and "credential_bound g1 (cl_sessionID c) (pm_Id machine)"
    and "\<exists>row. mem_GetMachine (pm_Id machine) (gs_store g1) = Some row \<and> m_SessionID row = cl_sessionID c"
proof -
  let ?mid = "if mid = '''' then u else mid" and ?md = "Some (cx_Metadata (grpcContext c ctx_Background defaultGRPCCallTimeout))"
  let ?call = "MachineCall (RegisterMachineRpc (cl_sessionID c) ?mid v ''go'' tools)"
  have c: "ensureGRPCConnected c = None" "c1 = c\<lparr> cl_machineID := pm_Id machine \<rparr>"
    and u: "unary (served env polls msg) c ?call as_machine g = (g1, Inr machine)"
    using assms(1) by (auto simp: client_RegisterMachine_def connected_def Let_def split: prod.splits sum.splits option.splits)
  then show "c1 = c\<lparr> cl_machineID := pm_Id machine \<rparr>" and "ensureGRPCConnected c = None" by simp_all
  have "serve env polls ?md ?call g = (g1, MachineReply machine)"
    using u by (auto simp: unary_def invoke_def served_def wire_reply_def as_machine_def
        split: prod.splits sum.splits option.splits response.splits)
  then obtain g0 p where h: "handle env polls ?md (Some p) ?call g0 = (g1, MachineReply machine)"
    by (auto simp: serve_def split: prod.splits sum.splits)
  then obtain sv' mc where r: "RegisterMachine (e_hash env) (e_json_object env) (e_uuid env) (e_uuid2 env) (e_now env) (cl_sessionID c) ?mid v ''go''
      ''127.0.0.1'' (map (\<lambda>(u, t). (u, requested_tool t)) tools) '''' (tv_server (gs_tasks g0)) = (sv', Inr mc)"
    and g1: "tv_server (gs_tasks g1) = sv'" and mc: "pm_Id machine = m_ID mc"
    by (auto simp: on_server_def grpc_RegisterMachine_def no_machine_token answer_def reply_def convertModelMachineToProto_def
        split: prod.splits sum.splits)
  note f = fresh_registration [OF r]
  have "m_ID mc \<noteq> ''''" using assms(3) by (auto simp: f(1) NewMachine_def Let_def)
  moreover have "m_TokenHash mc \<noteq> ''''" using assms(2) by (simp add: f(1) NewMachine_def Let_def)
  ultimately show "credential_bound g1 (cl_sessionID c) (pm_Id machine)" using f(2) by (simp add: credential_bound_def g1 mc)
  show "\<exists>row. mem_GetMachine (pm_Id machine) (gs_store g1) = Some row \<and> m_SessionID row = cl_sessionID c"
    using f(3) by (simp add: gs_server g1 mc)
qed

text \<open>C39: The client cannot give up its machine.  Registering binds a credential the client never
  presents: after a successful registration with a replica, unregistering and draining the machine
  fail, and so does disconnecting, which forgets the machine on the client while its row stays in
  the store.\<close>

theorem client_strands_its_machine:
  assumes "client_RegisterMachine (served env polls msg) u mid v tools (c, g) = ((c1, g1), Inr machine)"
    and "e_hash env (''toolplane_machine_'' @ e_uuid2 env) \<noteq> ''''" and "mid \<noteq> '''' \<or> u \<noteq> ''''" and "cl_sessionID c \<noteq> ''''"
  shows "(\<exists>g2 e. client_UnregisterMachine (served env' polls' msg) '''' (c1, g1) = ((c1, g2), Inl e))
    \<and> (\<exists>g2 e. client_DrainMachine (served env' polls' msg) '''' (c1, g1) = ((c1, g2), Inl e))
    \<and> (\<exists>c2 g2 e row. client_Disconnect (served env' polls' msg) closed (c1, g1) = ((c2, g2), Inl e) \<and> cl_machineID c2 = ''''
        \<and> mem_GetMachine (pm_Id machine) (gs_store g2) = Some row \<and> m_SessionID row = cl_sessionID c)"
proof -
  note s = served_registration [OF assms(1-3)]
  have id: "pm_Id machine \<noteq> ''''" using s(3) by (simp add: credential_bound_def)
  have con: "ensureGRPCConnected c1 = None" "cl_sessionID c1 = cl_sessionID c" "cl_machineID c1 = pm_Id machine"
    using s(2) by (simp_all add: s(1) ensureGRPCConnected_def split: if_splits)
  then have flags: "cl_protocol c1 = ProtocolGRPC" "cl_grpcConn c1" "cl_machineClient c1"
    by (simp_all add: ensureGRPCConnected_def split: if_splits)
  have un: "\<exists>g2 e. unary (served env' polls' msg) c1 (MachineCall (UnregisterMachineRpc (cl_sessionID c) (pm_Id machine))) as_success g1
      = (g2, Inl e) \<and> gs_store g2 = gs_store g1"
    by (rule provider_call_fails [OF s(3)]) (simp, rule served_policies)
  have dr: "\<exists>g2 e. unary (served env' polls' msg) c1 (MachineCall (DrainMachineRpc (cl_sessionID c) (pm_Id machine))) as_success g1
      = (g2, Inl e) \<and> gs_store g2 = gs_store g1"
    by (rule provider_call_fails [OF s(3)]) (simp, rule served_policies)
  note m = in_session_def connected_def protocol_guard_def requireSessionID_def resolveMachineID_def con flags assms(4) id
  have "\<exists>g2 e. client_UnregisterMachine (served env' polls' msg) '''' (c1, g1) = ((c1, g2), Inl e)"
    using un by (auto simp: client_UnregisterMachine_def m)
  moreover have "\<exists>g2 e. client_DrainMachine (served env' polls' msg) '''' (c1, g1) = ((c1, g2), Inl e)"
    using dr by (auto simp: client_DrainMachine_def m)
  moreover have "\<exists>c2 g2 e row. client_Disconnect (served env' polls' msg) closed (c1, g1) = ((c2, g2), Inl e) \<and> cl_machineID c2 = ''''
        \<and> mem_GetMachine (pm_Id machine) (gs_store g2) = Some row \<and> m_SessionID row = cl_sessionID c"
    using un s(4) by (auto simp: client_Disconnect_def con flags assms(4) id Let_def split: option.split)
  ultimately show ?thesis by blast
qed
section \<open>How failures reach the caller\<close>

text \<open>A rejection whose result is not a JSON object with an error text leaves a failed request without
  one.\<close>

definition silent_rejection :: "request \<Rightarrow> bool" where
  "silent_rejection r \<longleftrightarrow> (\<exists>now result meta req. rejection_message ResultTypeRejection result = ''''
     \<and> r = submit_row now result ResultTypeRejection meta req)"

lemma silent_row: "silent_rejection r \<Longrightarrow> r_Status r = Failed \<and> r_Error r = ''''"
  by (auto simp: silent_rejection_def submit_row_def SetResult_def Let_def)

text \<open>C40: A failed execution can pass for a successful one.  When a provider rejects a call with a plain
  text, the client returns the failed request without an error if it ended within the wait of the
  server, but reports a failure for the same request if it had to poll for it; the final message of
  a stream of such a request ends it without an error too.\<close>

theorem rejection_passes_for_success:
  assumes "ensureGRPCConnected c = None" and "silent_rejection fin" and "rid \<noteq> ''''"
    and "stub (executionContext c ctx) (ToolCall (InvokeToolRpc (cl_sessionID c) tool js 0 key (wait_seconds c))) g
      = (g1, Inr (ExecuteReply (execute_reply env rid fin)))"
    and "\<And>ctx. stub ctx (RequestCall (GetRequestRpc (cl_sessionID c) rid)) g1
      = (g2, Inr (RequestReply (convertModelRequestToProto marshal fin)))"
  shows "executeToolGRPC stub conv c ctx tool (Inr js) key ended rounds g = (g2, Inr (convertModelRequestToProto marshal fin))
    \<and> pr_Status (convertModelRequestToProto marshal fin) = REQUEST_STATUS_FAILED
    \<and> waitForRequestCompletion stub conv c ctx rid ended rounds g1
        = (g2, Inl (local_Error ''execute tool'' rid StInternal ''tool execution failed''))
    \<and> (sn_Error sn = r_Error fin \<longrightarrow>
        recv_loop broken failed None [] [Inr (final_message render sn)] = ([final_message render sn], None))"
proof -
  have f: "r_Status fin = Failed" "r_Error fin = ''''" using silent_row [OF assms(2)] by simp_all
  have p: "pr_Status (convertModelRequestToProto marshal fin) = REQUEST_STATUS_FAILED" "pr_Error (convertModelRequestToProto marshal fin) = ''''"
    by (simp_all add: convertModelRequestToProto_def protoRequestStatus_def f)
  have e: "er_Error (execute_reply env rid fin) = ''''" "er_RequestId (execute_reply env rid fin) = rid"
    "er_Status (execute_reply env rid fin) = REQUEST_STATUS_FAILED"
    by (simp_all add: execute_reply_def f protoRequestStatus_def)
  note i = invoke_def as_execute_def as_request_def
  have "executeToolGRPC stub conv c ctx tool (Inr js) key ended rounds g = (g2, Inr (convertModelRequestToProto marshal fin))"
    by (simp add: executeToolGRPC_def assms(1,3,4,5) i e is_terminal_reply_def)
  moreover have "waitForRequestCompletion stub conv c ctx rid ended rounds g1
      = (g2, Inl (local_Error ''execute tool'' rid StInternal ''tool execution failed''))"
    by (simp add: waitForRequestCompletion_def assms(1,5) i p)
  ultimately show ?thesis using p f by (simp add: final_message_def)
qed

text \<open>The methods of the control plane return the error of the call as it came, so it matches none of the
  sentinels of \<open>errors.go\<close>, whatever the server said.\<close>

lemma unary_untyped: "unary stub c call decode g = (g1, Inl e) \<Longrightarrow> \<not> errors_Is e target"
  by (auto simp: unary_def split: prod.splits sum.splits)

lemmas guard_defs = in_session_def in_tasks_def connected_def protocol_guard_def ensureGRPCConnected_def
  ensureTasksClientConnected_def requireSessionID_def

lemma guarded_untyped:
  "connected c op (unary stub c call decode) g = (g1, Inl e) \<Longrightarrow> \<not> errors_Is e target"
  "in_session c op (\<lambda>s. unary stub c (for_session s) decode) g = (g1, Inl e) \<Longrightarrow> \<not> errors_Is e target"
  "in_tasks c op (\<lambda>s. unary stub c (for_session s) decode) g = (g1, Inl e) \<Longrightarrow> \<not> errors_Is e target"
  by (auto simp: guard_defs dest: unary_untyped split: option.splits sum.splits if_splits)

theorem control_errors_match_no_sentinel:
  "(client_GetToolByID stub c i g = (g1, Inl e) \<longrightarrow> \<not> errors_Is e target)
   \<and> (client_DeleteTool stub c i g = (g1, Inl e) \<longrightarrow> \<not> errors_Is e target)
   \<and> (client_GetSession stub c g = (g1, Inl e) \<longrightarrow> \<not> errors_Is e target)
   \<and> (client_RevokeAPIKey stub c i g = (g1, Inl e) \<longrightarrow> \<not> errors_Is e target)
   \<and> (client_GetMachine stub c i g = (g1, Inl e) \<longrightarrow> \<not> errors_Is e target)
   \<and> (client_GetRequest stub c i g = (g1, Inl e) \<longrightarrow> \<not> errors_Is e target)
   \<and> (client_CancelRequest stub c i g = (g1, Inl e) \<longrightarrow> \<not> errors_Is e target)
   \<and> (client_GetTask stub c i g = (g1, Inl e) \<longrightarrow> \<not> errors_Is e target)"
  unfolding client_GetToolByID_def client_DeleteTool_def client_GetSession_def client_RevokeAPIKey_def client_GetMachine_def
    client_GetRequest_def client_CancelRequest_def client_GetTask_def
  by (intro conjI impI; erule guarded_untyped)
text \<open>The documented behaviour of \<open>status.FromError\<close> on an error without a status.\<close>

definition converts_as_documented :: "status_conv \<Rightarrow> bool" where
  "converts_as_documented conv \<longleftrightarrow> (\<forall>s. conv s = \<lparr> se_Code = StUnknown, se_Message = s, se_Reasons = [] \<rparr>)"

text \<open>A wait that runs out of time: the error that ends it has no status, so that the caller gets an error
  of unknown code that does not match the deadline sentinel.\<close>

theorem wait_timeout_is_unknown:
  assumes "converts_as_documented conv" and "ensureGRPCConnected c = None"
    and "\<And>ctx g. \<exists>g1 r. stub ctx (RequestCall (GetRequestRpc (cl_sessionID c) rid)) g = (g1, Inr (RequestReply r))
      \<and> \<not> is_terminal_reply (pr_Status r)"
  shows "\<exists>g1 e. waitForRequestCompletion stub conv c ctx rid ''context deadline exceeded'' rounds g = (g1, Inl (Typed e))
    \<and> ce_Code e = StUnknown \<and> ce_Message e = ''context deadline exceeded'' \<and> \<not> errors_Is (Typed e) IsDeadlineExceeded"
proof -
  have "\<exists>g1 e. wait_loop stub conv c ctx' rid ''context deadline exceeded'' rounds g = (g1, Inl (Typed e))
    \<and> ce_Code e = StUnknown \<and> ce_Message e = ''context deadline exceeded''" for ctx'
  proof (induction rounds arbitrary: g)
    case Nil
    from assms(3) obtain g1 r where
      "stub (grpcContext c ctx' defaultGRPCCallTimeout) (RequestCall (GetRequestRpc (cl_sessionID c) rid)) g = (g1, Inr (RequestReply r))"
      "\<not> is_terminal_reply (pr_Status r)" by blast
    then show ?case using assms(1)
      by (simp add: invoke_def as_request_def is_terminal_reply_def FromGRPC_def status_FromError_def converts_as_documented_def Let_def
          split: proto_request_status.split)
  next
    case (Cons between rest)
    from assms(3) obtain g1 r where
      "stub (grpcContext c ctx' defaultGRPCCallTimeout) (RequestCall (GetRequestRpc (cl_sessionID c) rid)) g = (g1, Inr (RequestReply r))"
      "\<not> is_terminal_reply (pr_Status r)" by blast
    then have "wait_loop stub conv c ctx' rid ''context deadline exceeded'' (between # rest) g
        = wait_loop stub conv c ctx' rid ''context deadline exceeded'' rest (between g1)"
      by (subst wait_loop.simps)
        (simp add: invoke_def as_request_def is_terminal_reply_def del: wait_loop.simps split: proto_request_status.split)
    then show ?case using Cons.IH by simp
  qed
  then show ?thesis by (fastforce simp: waitForRequestCompletion_def assms(2) Error_Is_def)
qed

text \<open>A stream returns without an error exactly when its messages have a final one without an error, and
  then it returns the chunks up to it, each once and in order; with an error it returns an initial part.\<close>

theorem stream_is_returned_whole:
  "(recv_loop broken failed None chunks ms = (out, None)) =
     (\<exists>pre last rest. ms = map Inr pre @ Inr last # rest \<and> out = chunks @ pre @ [last]
       \<and> list_all (\<lambda>x. \<not> ec_IsFinal x) pre \<and> ec_IsFinal last \<and> ec_Error last = '''')"
proof (induction ms arbitrary: chunks)
  case Nil
  show ?case by simp
next
  case (Cons m ms)
  show ?case
  proof (cases m)
    case (Inl e)
    then show ?thesis by (auto simp: Cons_eq_append_conv map_eq_Cons_conv)
  next
    case (Inr x)
    show ?thesis
    proof (cases "ec_IsFinal x")
      case True
      have "(\<exists>pre last rest. m # ms = map Inr pre @ Inr last # rest \<and> out = chunks @ pre @ [last]
          \<and> list_all (\<lambda>x. \<not> ec_IsFinal x) pre \<and> ec_IsFinal last \<and> ec_Error last = '''')
        = (ec_Error x = '''' \<and> out = chunks @ [x])" (is "?L = ?R")
      proof
        assume ?L
        then show ?R using True Inr by (auto simp: Cons_eq_append_conv Cons_eq_map_conv)
      next
        assume r: ?R
        then have "m # ms = map Inr [] @ Inr x # ms \<and> out = chunks @ [] @ [x] \<and> list_all (\<lambda>x. \<not> ec_IsFinal x) []" using Inr by simp
        then show ?L using True r by blast
      qed
      then show ?thesis using True Inr by (auto simp: Let_def)
    next
      case False
      have "(\<exists>pre last rest. m # ms = map Inr pre @ Inr last # rest \<and> out = chunks @ pre @ [last]
          \<and> list_all (\<lambda>x. \<not> ec_IsFinal x) pre \<and> ec_IsFinal last \<and> ec_Error last = '''')
        = (\<exists>pre last rest. ms = map Inr pre @ Inr last # rest \<and> out = (chunks @ [x]) @ pre @ [last]
          \<and> list_all (\<lambda>x. \<not> ec_IsFinal x) pre \<and> ec_IsFinal last \<and> ec_Error last = '''')" (is "?L = ?R")
      proof
        assume ?L
        then show ?R using False Inr by (auto simp: Cons_eq_append_conv Cons_eq_map_conv)
      next
        assume ?R
        then obtain pre last rest where r: "ms = map Inr pre @ Inr last # rest" "out = (chunks @ [x]) @ pre @ [last]"
          "list_all (\<lambda>x. \<not> ec_IsFinal x) pre" "ec_IsFinal last" "ec_Error last = ''''" by blast
        then have "m # ms = map Inr (x # pre) @ Inr last # rest \<and> out = chunks @ (x # pre) @ [last]
          \<and> list_all (\<lambda>x. \<not> ec_IsFinal x) (x # pre)" using False Inr by simp
        then show ?L using r(4,5) by blast
      qed
      then show ?thesis using False Inr Cons.IH [of "chunks @ [x]"] by simp
    qed
  qed
qed

section \<open>The connection\<close>

definition stubs_agree :: "client \<Rightarrow> bool" where
  "stubs_agree c \<longleftrightarrow> cl_protocol c = ProtocolGRPC \<and> cl_toolClient c = cl_grpcConn c \<and> cl_sessionClient c = cl_grpcConn c
     \<and> cl_machineClient c = cl_grpcConn c \<and> cl_requestsClient c = cl_grpcConn c \<and> cl_tasksClient c = cl_grpcConn c"

text \<open>The methods that change the client; the others change only the backend, as anyone may.\<close>

inductive client_step :: "'g stub \<Rightarrow> client \<times> 'g \<Rightarrow> client \<times> 'g \<Rightarrow> bool" for stub where
  Connects: "client_step stub cg (fst (client_Connect stub w cg))"
| Disconnects: "client_step stub cg (fst (client_Disconnect stub closed cg))"
| Creates: "client_step stub cg (fst (client_CreateSession stub u n d ns cg))"
| Registers: "client_step stub cg (fst (client_RegisterMachine stub u m v ts cg))"
| Unregisters: "client_step stub cg (fst (client_UnregisterMachine stub m cg))"
| Drains: "client_step stub cg (fst (client_DrainMachine stub m cg))"
| Others: "client_step stub (c, g) (c, g')"

lemma agree_simps [simp]:
  "stubs_agree (c\<lparr> cl_machineID := m \<rparr>) = stubs_agree c" "stubs_agree (c\<lparr> cl_sessionID := s \<rparr>) = stubs_agree c"
  "stubs_agree (set_stubs b c) = (cl_protocol c = ProtocolGRPC)" "cl_protocol (set_stubs b c) = cl_protocol c"
  by (simp_all add: stubs_agree_def set_stubs_def)

lemma agree_protocol: "stubs_agree c \<Longrightarrow> cl_protocol c = ProtocolGRPC"
  by (simp add: stubs_agree_def)

interpretation connection: kept_by_steps "client_step stub" "\<lambda>cg. stubs_agree (fst cg)" for stub :: "'g stub"
proof
  fix s t :: "client \<times> 'g"
  assume "client_step stub s t" and a: "stubs_agree (fst s)"
  then show "stubs_agree (fst t)"
  proof cases
    case (Connects w)
    then show ?thesis using a agree_protocol [OF a]
      by (auto simp: client_Connect_def connectGRPC_def Let_def split: prod.split sum.split option.split)
  next
    case (Disconnects closed)
    then show ?thesis using a agree_protocol [OF a]
      by (auto simp: client_Disconnect_def Let_def split: prod.split)
  next
    case (Creates u n d ns)
    then show ?thesis using a by (auto simp: client_CreateSession_def Let_def split: prod.split sum.split)
  next
    case (Registers u m v ts)
    then show ?thesis using a by (auto simp: client_RegisterMachine_def Let_def split: prod.split sum.split)
  next
    case (Unregisters m)
    then show ?thesis using a by (auto simp: client_UnregisterMachine_def split: prod.split sum.split)
  next
    case (Drains m)
    then show ?thesis using a by (auto simp: client_DrainMachine_def split: prod.split sum.split)
  qed (use a in simp)
qed

text \<open>However a client is used, either all of its stubs are set or none is: a call passes the guard of the
  task methods exactly when it passes the guard of the others.\<close>

theorem guards_agree:
  assumes "NewToolplaneClient protocol host port sess user key opts = Inr c" and "(client_step stub)\<^sup>*\<^sup>* (c, g) (c', g')"
  shows "(ensureTasksClientConnected c' = None) = (ensureGRPCConnected c' = None)"
proof -
  have "stubs_agree (apply_options os x) = stubs_agree x" for os x
  proof (induction os x rule: apply_options.induct)
    case (3 opt os x)
    then show ?case by (cases opt) (simp_all add: stubs_agree_def)
  qed simp_all
  moreover obtain x where "c = apply_options opts x" "stubs_agree x"
  proof (rule that)
    show "c = apply_options opts \<lparr> cl_protocol = protocol, cl_serverHost = host, cl_serverPort = port, cl_sessionID = sess,
      cl_machineID = '''', cl_userID = user, cl_apiKey = key,
      cl_tlsConfig = \<lparr> tls_Enabled = False, tls_CACertPath = '''', tls_ServerName = '''' \<rparr>,
      cl_executionTimeout = defaultGRPCExecutionTimeout, cl_grpcConn = False, cl_toolClient = False, cl_sessionClient = False,
      cl_machineClient = False, cl_requestsClient = False, cl_tasksClient = False \<rparr>" (is "c = apply_options opts ?x")
      using assms(1) by (simp add: NewToolplaneClient_def split: if_splits)
    show "stubs_agree ?x" using assms(1) by (simp add: NewToolplaneClient_def stubs_agree_def split: if_splits)
  qed
  ultimately have "stubs_agree c" by simp
  then have "stubs_agree c'" using connection.kept_run [OF assms(2)] by simp
  then show ?thesis by (auto simp: stubs_agree_def ensureTasksClientConnected_def ensureGRPCConnected_def)
qed
text \<open>Deleting a tool is a provider call that names no machine, which no session key may make: the tool
  stays, whatever key the client has.\<close>

theorem client_cannot_delete_tools:
  assumes "ensureGRPCConnected c = None" and "cl_sessionID c \<noteq> ''''"
  shows "\<exists>g1 e. client_DeleteTool (served env polls msg) c i g = (g1, Inl (Call (StatusErr e)))
    \<and> se_Code e \<in> {StUnauthenticated, StPermissionDenied} \<and> gs_store g1 = gs_store g"
proof -
  let ?ctx = "grpcContext c ctx_Background defaultGRPCCallTimeout" and ?call = "ToolCall (DeleteToolRpc (cl_sessionID c) i '''')"
  obtain g1 x where a: "authenticateRequest (authenticate env) (Some (cx_Metadata ?ctx)) g = (g1, x)" by fastforce
  have t: "gs_store g1 = gs_store g" using auth_tasks [OF a] by (simp add: gs_store_def)
  have m: "p_Mode p = AuthModeSessionKey" if "x = Inr p" for p
    using session_mode [of env "Some (cx_Metadata ?ctx)" g p] a that by simp
  have "\<exists>e. serve env polls (Some (cx_Metadata ?ctx)) ?call g = (g1, Rejected e)"
    using a m by (cases x) (auto simp: serve_def UnaryInterceptor_def served_policies policy_def authorizeMachineToken_def message_def
        split: option.split)
  then obtain e where "serve env polls (Some (cx_Metadata ?ctx)) ?call g = (g1, Rejected e)" by blast
  from served_rejection [OF this, of msg as_success] show ?thesis using assms t
    by (cases e) (simp_all add: client_DeleteTool_def guard_defs unary_def auth_code_def ensureGRPCConnected_def split: if_splits)
qed

section \<open>A client of the second tenant\<close>

definition demo_client :: client where
  "demo_client = (case NewToolplaneClient ''grpc'' ''localhost'' 9001 ''s2'' ''bob'' demo_token [Some (WithExecutionTimeout (20 * Second))] of
     Inr c \<Rightarrow> set_stubs True c | Inl e \<Rightarrow> undefined)"
definition demo_conv :: status_conv where
  "demo_conv s = \<lparr> se_Code = StUnknown, se_Message = s, se_Reasons = [] \<rparr>"

abbreviation demo_stub :: "grpc_server stub" where "demo_stub \<equiv> served demo_env [] (\<lambda>r. ''refused'')"

theorem execution_omits_the_key_witness:
  "(\<exists>e. executeToolGRPC demo_stub demo_conv demo_client ctx_Background ''echo'' (Inr ''{}'') '''' ''context deadline exceeded'' [] demo_replica
       = (demo_replica, Inl (Typed e)) \<and> ce_Code e = StUnauthenticated)
    \<and> tokenFromMetadata (cx_Metadata (grpcContext demo_client ctx_Background 0)) = Some demo_token"
proof -
  have c: "ensureGRPCConnected demo_client = None" "tokenFromMetadata (cx_Metadata ctx_Background) = None"
    "TrimSpace (cl_apiKey demo_client) \<noteq> ''''" "cl_apiKey demo_client = demo_token" by code_simp+
  from execution_omits_the_key [OF c(1-3), of demo_env "[]" "\<lambda>r. ''refused''" demo_conv] show ?thesis unfolding c(4) by blast
qed

theorem client_strands_its_machine_witness:
  "\<exists>c1 g1 machine c2 g2 e row. client_RegisterMachine demo_stub ''w1'' '''' ''1.0'' [] (demo_client, demo_replica) = ((c1, g1), Inr machine)
    \<and> client_Disconnect demo_stub None (c1, g1) = ((c2, g2), Inl e)
    \<and> mem_GetMachine (pm_Id machine) (gs_store g2) = Some row \<and> m_SessionID row = ''s2''"
proof -
  let ?r = "client_RegisterMachine demo_stub ''w1'' '''' ''1.0'' [] (demo_client, demo_replica)"
  have "\<not> isl (snd ?r)" by code_simp
  then obtain c1 g1 machine where r: "?r = ((c1, g1), Inr machine)" by (metis isl_def prod.collapse sum.exhaust)
  have h: "e_hash demo_env (''toolplane_machine_'' @ e_uuid2 demo_env) \<noteq> ''''" "cl_sessionID demo_client \<noteq> ''''"
    "cl_sessionID demo_client = ''s2''" by code_simp+
  from client_strands_its_machine [OF r h(1) _ h(2), of demo_env "[]" None] r show ?thesis unfolding h(3) by blast
qed

definition demo_rejected :: request where
  "demo_rejected = submit_row 2010 (VString ''unknown tool'') ResultTypeRejection None (grant_lease 2000 60 ''m1'' demo_row)"

definition demo_failing_stub :: "unit stub" where
  "demo_failing_stub ctx call g =
     (case call of RequestCall _ \<Rightarrow> ((), Inr (RequestReply (convertModelRequestToProto (\<lambda>v. None) demo_rejected)))
      | _ \<Rightarrow> ((), Inr (ExecuteReply (execute_reply demo_env ''r1'' demo_rejected))))"

theorem rejection_passes_for_success_witness:
  "\<exists>full. executeToolGRPC demo_failing_stub demo_conv demo_client ctx_Background ''echo'' (Inr ''{}'') '''' ''context deadline exceeded'' [] ()
      = ((), Inr full) \<and> pr_Status full = REQUEST_STATUS_FAILED
    \<and> isl (snd (waitForRequestCompletion demo_failing_stub demo_conv demo_client ctx_Background ''r1'' ''context deadline exceeded'' [] ()))"
proof -
  have c: "ensureGRPCConnected demo_client = None" by code_simp
  have "rejection_message ResultTypeRejection (VString ''unknown tool'') = ''''" by (simp add: rejection_message_def)
  then have s: "silent_rejection demo_rejected" unfolding silent_rejection_def demo_rejected_def by blast
  have i: "''r1'' \<noteq> ''''" by simp
  from rejection_passes_for_success [OF c s i, of demo_failing_stub ctx_Background "''echo''" "''{}''" "''''" "()" "()" demo_env "()" "\<lambda>v. None"
      demo_conv "''context deadline exceeded''" "[]"]
  show ?thesis by (auto simp: demo_failing_stub_def)
qed

end
