(* ===== verification/Server_Start.thy ===== *)
theory Server_Start
  imports Gateway_Control Grpc_Isolation
begin

text \<open>
  How a server comes up (\<open>internal/server\<close>, \<open>internal/auth/auth_static.go\<close> and the opening of the store in
  \<open>storage/store.go\<close>): the configuration file, the environment contract, the choice of the store, of the
  authenticator and of the transport, and the calls the running server admits.  The environment is
  a map; decoding YAML, reading files, the database and the network are arguments.  Texts of errors, log
  lines, metrics and the draining of connections are left out.
\<close>

type_synonym environ = "string gomap"

definition Getenv :: "environ \<Rightarrow> string \<Rightarrow> string" where
  "Getenv env key = (case gm_get env key of None \<Rightarrow> '''' | Some v \<Rightarrow> v)"

definition Setenv :: "string \<Rightarrow> string \<Rightarrow> environ \<Rightarrow> environ" where
  "Setenv key v env = gm_put key v env"

section \<open>Expanding variables\<close>

text \<open>\<open>os.ExpandEnv\<close>: the name after a dollar sign and the number of characters it takes.\<close>

definition isShellSpecialVar :: "char \<Rightarrow> bool" where
  "isShellSpecialVar c \<longleftrightarrow> c \<in> set ''*#$@!?-0123456789''"

definition isAlphaNum :: "char \<Rightarrow> bool" where
  "isAlphaNum c \<longleftrightarrow> c \<in> set ''_0123456789abcdefghijklmnopqrstuvwxyzABCDEFGHIJKLMNOPQRSTUVWXYZ''"

definition getShellName :: "string \<Rightarrow> string \<times> nat" where
  "getShellName s =
     (case s of
        [] \<Rightarrow> ('''', 0)
      | c # cs \<Rightarrow>
          if c = CHR ''{''
          then (if length s > 2 \<and> isShellSpecialVar (cs ! 0) \<and> cs ! 1 = CHR ''}'' then ([cs ! 0], 3)
                else if CHR ''}'' \<in> set cs
                then (let name = takeWhile (\<lambda>d. d \<noteq> CHR ''}'') cs in (name, length name + 2))
                else ('''', 1))
          else if isShellSpecialVar c then ([c], 1)
          else (let name = takeWhile isAlphaNum s in (name, length name)))"

function (sequential) ExpandEnv :: "environ \<Rightarrow> string \<Rightarrow> string" where
  "ExpandEnv env [] = []"
| "ExpandEnv env [c] = [c]"
| "ExpandEnv env (c # d # cs) =
     (if c \<noteq> CHR ''$'' then c # ExpandEnv env (d # cs)
      else let (name, w) = getShellName (d # cs)
           in if name = '''' then (if w > 0 then ExpandEnv env (drop w (d # cs)) else c # ExpandEnv env (d # cs))
              else Getenv env name @ ExpandEnv env (drop w (d # cs)))"
  by pat_completeness auto
termination
  by (relation "measure (\<lambda>(env, s). length s)") auto

section \<open>configfile.go\<close>

record config_file =
  yf_Env :: string
  yf_AuthMode :: string
  yf_AuthFixedAPIKey :: string
  yf_AuthDebug :: bool
  yf_StorageMode :: string
  yf_DatabaseURL :: string
  yf_DatabaseURLFile :: string
  yf_Port :: int
  yf_MetricsListen :: string
  yf_TLSCertFile :: string
  yf_TLSKeyFile :: string

record file_settings =
  fs_Port :: int
  fs_MetricsListen :: string
  fs_Provenance :: "string gomap"

definition envContract :: "(string \<times> (config_file \<Rightarrow> string)) list" where
  "envContract =
     [(''TOOLPLANE_ENV_MODE'', yf_Env),
      (''TOOLPLANE_AUTH_MODE'', yf_AuthMode),
      (''TOOLPLANE_AUTH_FIXED_API_KEY'', yf_AuthFixedAPIKey),
      (''TOOLPLANE_AUTH_DEBUG'', \<lambda>c. if yf_AuthDebug c then ''true'' else ''false''),
      (''TOOLPLANE_STORAGE_MODE'', yf_StorageMode),
      (''TOOLPLANE_DATABASE_URL'', yf_DatabaseURL),
      (''TOOLPLANE_SERVER_TLS_CERT_FILE'', yf_TLSCertFile),
      (''TOOLPLANE_SERVER_TLS_KEY_FILE'', yf_TLSKeyFile)]"

text \<open>One application, on the environment and the provenance.\<close>

definition apply_setting :: "string \<Rightarrow> string \<Rightarrow> string \<Rightarrow> environ \<times> string gomap \<Rightarrow> environ \<times> string gomap" where
  "apply_setting envVar v source ep =
     (case ep of (env, prov) \<Rightarrow>
        if v = '''' then (env, prov)
        else if Getenv env envVar \<noteq> '''' then (env, gm_put envVar ''env'' prov)
        else (Setenv envVar v env, gm_put envVar source prov))"

fun apply_contract :: "config_file \<Rightarrow> (string \<times> (config_file \<Rightarrow> string)) list \<Rightarrow> environ \<times> string gomap \<Rightarrow> environ \<times> string gomap" where
  "apply_contract cfg [] ep = ep"
| "apply_contract cfg ((envVar, v) # rest) ep =
     apply_contract cfg rest (apply_setting envVar (ExpandEnv (fst ep) (v cfg)) ''file'' ep)"

datatype file_error = ReadConfigFailed | BadConfigFile | ReadSecretFailed | EmptySecret

definition readSecretFile :: "(string \<Rightarrow> string option) \<Rightarrow> string \<Rightarrow> file_error + string" where
  "readSecretFile readFile path =
     (case readFile path of
        None \<Rightarrow> Inl ReadSecretFailed
      | Some raw \<Rightarrow> (let v = TrimSpace raw in if v = '''' then Inl EmptySecret else Inr v))"

text \<open>\<open>decode\<close> decodes the YAML text, an empty document being all zero values.\<close>

definition ApplyConfigFile ::
  "(string \<Rightarrow> string option) \<Rightarrow> (string \<Rightarrow> config_file option) \<Rightarrow> string \<Rightarrow> environ \<Rightarrow> environ \<times> (file_error + file_settings)" where
  "ApplyConfigFile readFile decode path env =
     (case readFile path of
        None \<Rightarrow> (env, Inl ReadConfigFailed)
      | Some raw \<Rightarrow>
          (case decode raw of
             None \<Rightarrow> (env, Inl BadConfigFile)
           | Some cfg \<Rightarrow>
               (let (env1, prov) = apply_contract cfg envContract (env, []);
                    finish = (\<lambda>(env2, prov2). (env2, Inr \<lparr> fs_Port = (if yf_Port cfg \<noteq> 0 then yf_Port cfg else 0),
                       fs_MetricsListen = (if yf_MetricsListen cfg \<noteq> '''' then ExpandEnv env2 (yf_MetricsListen cfg) else ''''),
                       fs_Provenance = prov2 \<rparr>))
                in if yf_DatabaseURLFile cfg \<noteq> '''' \<and> Getenv env1 ''TOOLPLANE_DATABASE_URL'' = ''''
                   then (case readSecretFile readFile (ExpandEnv env1 (yf_DatabaseURLFile cfg)) of
                           Inl e \<Rightarrow> (env1, Inl e)
                         | Inr secret \<Rightarrow> finish (apply_setting ''TOOLPLANE_DATABASE_URL'' secret (''file:'' @ yf_DatabaseURLFile cfg) (env1, prov)))
                   else finish (env1, prov))))"
section \<open>config.go\<close>

text \<open>The helpers \<open>normalizedEnvValue\<close> and \<open>boolEnv\<close> have the same text as those of the gateway.\<close>

record server_config =
  sg_environment :: string
  sg_authMode :: string
  sg_authDebug :: bool
  sg_fixedAPIKey :: string
  sg_storageMode :: string
  sg_databaseURL :: string

datatype server_config_error =
    BadServerEnvMode | DisabledInProduction | DisabledNeedsOptIn | FixedNeedsKey | FixedInProduction | PostgresAuthNeedsStore
  | BadAuthMode | BadStorageMode | PostgresNeedsURL | ProductionNeedsPostgres

definition effectiveStorageMode :: "server_config \<Rightarrow> string" where
  "effectiveStorageMode cfg = (if sg_storageMode cfg = '''' \<and> sg_databaseURL cfg \<noteq> '''' then ''postgres'' else sg_storageMode cfg)"

definition auth_mode_error :: "environ \<Rightarrow> server_config \<Rightarrow> server_config_error option" where
  "auth_mode_error env cfg =
     (if sg_authMode cfg = ''disabled''
      then (if sg_environment cfg = ''production'' then Some DisabledInProduction
            else if \<not> boolEnv (Getenv env) ''TOOLPLANE_ALLOW_INSECURE_DEV'' False then Some DisabledNeedsOptIn else None)
      else if sg_authMode cfg = ''fixed''
      then (if sg_fixedAPIKey cfg = '''' then Some FixedNeedsKey
            else if sg_environment cfg = ''production'' then Some FixedInProduction else None)
      else if sg_authMode cfg = ''postgres''
      then (if effectiveStorageMode cfg \<noteq> ''postgres'' \<or> sg_databaseURL cfg = '''' then Some PostgresAuthNeedsStore else None)
      else Some BadAuthMode)"

definition env_config :: "environ \<Rightarrow> server_config" where
  "env_config env =
     \<lparr> sg_environment = normalizedEnvValue (Getenv env ''TOOLPLANE_ENV_MODE'') ''development'',
       sg_authMode = normalizedEnvValue (Getenv env ''TOOLPLANE_AUTH_MODE'') ''disabled'',
       sg_authDebug = boolEnv (Getenv env) ''TOOLPLANE_AUTH_DEBUG'' False,
       sg_fixedAPIKey = TrimSpace (Getenv env ''TOOLPLANE_AUTH_FIXED_API_KEY''),
       sg_storageMode = normalizedEnvValue (Getenv env ''TOOLPLANE_STORAGE_MODE'') '''',
       sg_databaseURL = TrimSpace (Getenv env ''TOOLPLANE_DATABASE_URL'') \<rparr>"

definition loadServerConfig :: "environ \<Rightarrow> server_config_error + server_config" where
  "loadServerConfig env =
     (let cfg = env_config env; mode = effectiveStorageMode cfg
      in if sg_environment cfg \<notin> {''development'', ''test'', ''production''} then Inl BadServerEnvMode
         else case auth_mode_error env cfg of
                Some e \<Rightarrow> Inl e
              | None \<Rightarrow>
                  if mode \<notin> {'''', ''memory'', ''in-memory'', ''inmemory'', ''postgres''} then Inl BadStorageMode
                  else if mode = ''postgres'' \<and> sg_databaseURL cfg = '''' then Inl PostgresNeedsURL
                  else if sg_environment cfg = ''production'' \<and> mode \<noteq> ''postgres'' then Inl ProductionNeedsPostgres
                  else Inr cfg)"

section \<open>tls.go\<close>

datatype transport_error = TlsRequired | TlsIncomplete

definition validateGRPCTLSSettings :: "string \<Rightarrow> string \<Rightarrow> string \<Rightarrow> bool \<Rightarrow> transport_error option" where
  "validateGRPCTLSSettings environment0 certFile0 keyFile0 trustedTransport =
     (let environment = TrimSpace (ToLower environment0); certFile = TrimSpace certFile0; keyFile = TrimSpace keyFile0
      in if certFile = '''' \<and> keyFile = ''''
         then (if environment = ''production'' \<and> \<not> trustedTransport then Some TlsRequired else None)
         else if certFile = '''' \<or> keyFile = '''' then Some TlsIncomplete else None)"

definition trustedTransportDeclared :: "environ \<Rightarrow> bool" where
  "trustedTransportDeclared env = boolEnv (Getenv env) ''TOOLPLANE_SERVER_TRUSTED_TRANSPORT'' False"

text \<open>The summary, or \<open>None\<close> when the pair of files cannot be loaded.\<close>

definition grpcServerTransport :: "(string \<Rightarrow> string \<Rightarrow> bool) \<Rightarrow> string \<Rightarrow> string \<Rightarrow> string option" where
  "grpcServerTransport loads certFile0 keyFile0 =
     (let certFile = TrimSpace certFile0; keyFile = TrimSpace keyFile0
      in if certFile = '''' \<and> keyFile = '''' then Some ''plaintext''
         else if loads certFile keyFile then Some ''tls'' else None)"

definition ValidateConfig :: "environ \<Rightarrow> (server_config_error + transport_error) option" where
  "ValidateConfig env =
     (case loadServerConfig env of
        Inl e \<Rightarrow> Some (Inl e)
      | Inr cfg \<Rightarrow>
          map_option Inr (validateGRPCTLSSettings (sg_environment cfg) (TrimSpace (Getenv env ''TOOLPLANE_SERVER_TLS_CERT_FILE''))
            (TrimSpace (Getenv env ''TOOLPLANE_SERVER_TLS_KEY_FILE'')) (trustedTransportDeclared env)))"

section \<open>The store\<close>

text \<open>\<open>storage/store.go\<close>: the environment of the connection pool and the opening of the store.\<close>

definition intEnv :: "environ \<Rightarrow> string \<Rightarrow> int \<Rightarrow> int" where
  "intEnv env name fallback =
     (let raw = TrimSpace (Getenv env name)
      in if raw = '''' then fallback
         else case Atoi raw of None \<Rightarrow> fallback | Some v \<Rightarrow> if v \<le> 0 then fallback else v)"

definition durationEnv :: "(string \<Rightarrow> duration option) \<Rightarrow> environ \<Rightarrow> string \<Rightarrow> duration \<Rightarrow> duration" where
  "durationEnv parse env name fallback =
     (let raw = TrimSpace (Getenv env name)
      in if raw = '''' then fallback
         else case parse raw of None \<Rightarrow> fallback | Some d \<Rightarrow> if d \<le> 0 then fallback else d)"

record pool_settings =
  ps_maxOpenConns :: int
  ps_maxIdleConns :: int
  ps_connMaxIdleTime :: duration
  ps_connMaxLifetime :: duration

datatype open_error = ErrConfigMissing | ErrExplicitInMemoryMode | OpenNeedsURL | UnsupportedStorageMode | OpenFailed | PingFailed | MigrateFailed

text \<open>The outside world at start-up: the parser of durations, the database, the certificate files and the
  listening socket.\<close>

record start_world =
  sw_parseDuration :: "string \<Rightarrow> duration option"
  sw_opens :: bool
  sw_pings :: bool
  sw_migrates :: bool
  sw_loadsTLS :: "string \<Rightarrow> string \<Rightarrow> bool"
  sw_listens :: bool

definition OpenFromEnv :: "start_world \<Rightarrow> environ \<Rightarrow> open_error + pool_settings" where
  "OpenFromEnv w env =
     (let mode0 = TrimSpace (ToLower (Getenv env ''TOOLPLANE_STORAGE_MODE'')); dsn = TrimSpace (Getenv env ''TOOLPLANE_DATABASE_URL'')
      in if mode0 = '''' \<and> dsn = '''' then Inl ErrConfigMissing
         else let mode = (if mode0 = '''' then ''postgres'' else mode0)
           in if mode \<in> {''memory'', ''in-memory'', ''inmemory''} then Inl ErrExplicitInMemoryMode
              else if mode \<noteq> ''postgres'' then Inl UnsupportedStorageMode
              else if dsn = '''' then Inl OpenNeedsURL
              else if \<not> sw_opens w then Inl OpenFailed
              else if \<not> sw_pings w then Inl PingFailed
              else if \<not> sw_migrates w then Inl MigrateFailed
              else Inr \<lparr> ps_maxOpenConns = intEnv env ''TOOLPLANE_DB_MAX_OPEN_CONNS'' 25,
                         ps_maxIdleConns = intEnv env ''TOOLPLANE_DB_MAX_IDLE_CONNS'' 25,
                         ps_connMaxIdleTime = durationEnv (sw_parseDuration w) env ''TOOLPLANE_DB_CONN_MAX_IDLE_TIME'' (5 * 60 * Second),
                         ps_connMaxLifetime = durationEnv (sw_parseDuration w) env ''TOOLPLANE_DB_CONN_MAX_LIFETIME'' (60 * 60 * Second) \<rparr>)"

section \<open>Authenticators\<close>

record fixed_validator =
  fv_expected :: string
  fv_debug :: bool

definition NewFixedAPIKeyValidator :: "string \<Rightarrow> bool \<Rightarrow> fixed_validator" where
  "NewFixedAPIKeyValidator expected debug = \<lparr> fv_expected = normalizeToken expected, fv_debug = debug \<rparr>"

definition fixed_Authenticate :: "fixed_validator \<Rightarrow> 's authenticator" where
  "fixed_Authenticate v token s =
     (let provided = normalizeToken token
      in (s, if provided = fv_expected v
             then Inr \<lparr> p_Mode = AuthModeFixed, p_SessionID = '''', p_UserID = '''', p_KeyID = '''',
                        p_Capabilities = DefaultAPIKeyCapabilities, p_AllowedTools = [], p_TokenPreview = redactToken provided \<rparr>
             else Inl ErrOther))"

text \<open>The authenticator, \<open>None\<close> for none; the outer error is an unsupported mode.\<close>

definition buildAuthenticator :: "server_config \<Rightarrow> 's authenticator option \<Rightarrow> unit + 's authenticator option" where
  "buildAuthenticator cfg postgresAuthenticate =
     (if sg_authMode cfg = ''disabled'' then Inr None
      else if sg_authMode cfg = ''fixed''
      then Inr (Some (fixed_Authenticate (NewFixedAPIKeyValidator (sg_fixedAPIKey cfg) (sg_authDebug cfg))))
      else if sg_authMode cfg = ''postgres''
      then (case postgresAuthenticate of None \<Rightarrow> Inl () | Some a \<Rightarrow> Inr (Some a))
      else Inl ())"

definition AnonymousUnaryInterceptor :: "'s \<Rightarrow> 's \<times> (auth_error + auth_principal)" where
  "AnonymousUnaryInterceptor s = (s, Inr anonymousPrincipal)"

section \<open>server.go\<close>

record server_options =
  so_Port :: int
  so_EnableTrace :: bool
  so_MetricsListen :: string
  so_MigrateOnly :: bool
  so_TLSCertFile :: string
  so_TLSKeyFile :: string

definition DefaultOptions :: server_options where
  "DefaultOptions = \<lparr> so_Port = 9001, so_EnableTrace = False, so_MetricsListen = ''127.0.0.1:0'', so_MigrateOnly = False,
     so_TLSCertFile = '''', so_TLSKeyFile = '''' \<rparr>"

record server_setup =
  su_config :: server_config
  su_postgres :: bool
  su_authenticates :: bool
  su_tls :: bool

datatype boot = Exit int | Serving server_setup

text \<open>Start-up until the server accepts calls; \<open>keyAuthenticator\<close> is the one over the session service.\<close>

definition RunContext :: "start_world \<Rightarrow> 's authenticator \<Rightarrow> server_options \<Rightarrow> environ \<Rightarrow> boot" where
  "RunContext w keyAuthenticator opts env =
     (case loadServerConfig env of
        Inl e \<Rightarrow> Exit 1
      | Inr cfg \<Rightarrow>
          if \<not> so_MigrateOnly opts \<and> validateGRPCTLSSettings (sg_environment cfg) (so_TLSCertFile opts) (so_TLSKeyFile opts)
                                       (trustedTransportDeclared env) \<noteq> None
          then Exit 1
          else case (case OpenFromEnv w env of Inr pool \<Rightarrow> Some True | Inl ErrExplicitInMemoryMode \<Rightarrow> Some False | Inl e \<Rightarrow> None) of
                 None \<Rightarrow> Exit 1
               | Some postgres \<Rightarrow>
                   if so_MigrateOnly opts then (if postgres then Exit 0 else Exit 1)
                   else (case buildAuthenticator cfg (Some keyAuthenticator) of
                           Inl _ \<Rightarrow> Exit 1
                         | Inr a \<Rightarrow>
                             if \<not> sw_listens w then Exit 1
                             else (case grpcServerTransport (sw_loadsTLS w) (so_TLSCertFile opts) (so_TLSKeyFile opts) of
                                     None \<Rightarrow> Exit 1
                                   | Some transport \<Rightarrow>
                                       Serving \<lparr> su_config = cfg, su_postgres = postgres, su_authenticates = (a \<noteq> None),
                                                 su_tls = (transport = ''tls'') \<rparr>)))"

text \<open>A call to the running server.\<close>

definition admit ::
  "server_setup \<Rightarrow> grpc_env \<Rightarrow> string \<Rightarrow> metadata option \<Rightarrow> rpc_message \<Rightarrow> grpc_server \<Rightarrow> grpc_server \<times> (auth_error + auth_principal)" where
  "admit su env meth md req g =
     (case buildAuthenticator (su_config su) (Some (authenticate env)) of
        Inr (Some a) \<Rightarrow> UnaryInterceptor a (Some (machine_gate env)) meth md req g
      | _ \<Rightarrow> AnonymousUnaryInterceptor g)"

definition serve_as ::
  "server_setup \<Rightarrow> grpc_env \<Rightarrow> time list \<Rightarrow> metadata option \<Rightarrow> rpc_call \<Rightarrow> grpc_server \<Rightarrow> grpc_server \<times> response" where
  "serve_as su env polls md c g =
     (case admit su env (fst (rpc_of c)) md (snd (rpc_of c)) g of
        (g1, Inl e) \<Rightarrow> (g1, Rejected e)
      | (g1, Inr p) \<Rightarrow> handle env polls md (Some p) c g1)"

text \<open>The end of a run: which result arrives next, with whether it is an error.  \<open>None\<close> is a server that is
  still running.\<close>

datatype run_event = ServeEnded bool | MetricsEnded bool | StopDone

fun exit_code :: "run_event list \<Rightarrow> int option" where
  "exit_code [] = None"
| "exit_code (ServeEnded failed # es) = Some (if failed then 1 else 0)"
| "exit_code (MetricsEnded failed # es) = (if failed then Some 1 else exit_code es)"
| "exit_code (StopDone # es) = Some 0"
section \<open>What a running server guarantees\<close>

lemma started:
  assumes "RunContext w pg opts env = Serving su"
  shows "loadServerConfig env = Inr (su_config su)" and "OpenFromEnv w env = Inl ErrExplicitInMemoryMode \<or> su_postgres su"
    and "validateGRPCTLSSettings (sg_environment (su_config su)) (so_TLSCertFile opts) (so_TLSKeyFile opts) (trustedTransportDeclared env) = None"
    and "grpcServerTransport (sw_loadsTLS w) (so_TLSCertFile opts) (so_TLSKeyFile opts) = Some (if su_tls su then ''tls'' else ''plaintext'')"
    and "su_postgres su \<longleftrightarrow> (\<exists>pool. OpenFromEnv w env = Inr pool)"
proof -
  obtain cfg where c: "loadServerConfig env = Inr cfg"
    using assms by (cases "loadServerConfig env") (simp_all add: RunContext_def)
  let ?store = "case OpenFromEnv w env of Inr pool \<Rightarrow> Some True | Inl ErrExplicitInMemoryMode \<Rightarrow> Some False | Inl e \<Rightarrow> None"
  let ?tls = "grpcServerTransport (sw_loadsTLS w) (so_TLSCertFile opts) (so_TLSKeyFile opts)"
  obtain b where o: "?store = Some b"
    using assms by (cases "?store") (simp_all add: RunContext_def c split: if_splits)
  obtain t where t: "?tls = Some t"
    using assms by (cases "?tls") (simp_all add: RunContext_def c o split: if_splits sum.splits)
  have r: "su_config su = cfg" "su_postgres su = b" "su_tls su = (t = ''tls'')"
    "validateGRPCTLSSettings (sg_environment cfg) (so_TLSCertFile opts) (so_TLSKeyFile opts) (trustedTransportDeclared env) = None"
    using assms by (auto simp: RunContext_def c o t split: if_splits sum.splits)
  have b: "b \<longleftrightarrow> (\<exists>pool. OpenFromEnv w env = Inr pool)" "OpenFromEnv w env = Inl ErrExplicitInMemoryMode \<or> b"
    using o by (auto split: sum.splits open_error.splits)
  have "t = (if t = ''tls'' then ''tls'' else ''plaintext'')" using t by (auto simp: grpcServerTransport_def Let_def split: if_splits)
  then show "?tls = Some (if su_tls su then ''tls'' else ''plaintext'')" using t r(3) by simp
  show "loadServerConfig env = Inr (su_config su)"
    and "validateGRPCTLSSettings (sg_environment (su_config su)) (so_TLSCertFile opts) (so_TLSKeyFile opts) (trustedTransportDeclared env) = None"
    using c r by simp_all
  show "OpenFromEnv w env = Inl ErrExplicitInMemoryMode \<or> su_postgres su"
    and "su_postgres su \<longleftrightarrow> (\<exists>pool. OpenFromEnv w env = Inr pool)"
    using b r(2) by simp_all
qed

lemma loaded:
  assumes "loadServerConfig env = Inr cfg"
  shows "sg_environment cfg = normalizedEnvValue (Getenv env ''TOOLPLANE_ENV_MODE'') ''development''"
    and "sg_environment cfg \<in> {''development'', ''test'', ''production''}"
    and "auth_mode_error env cfg = None"
    and "sg_storageMode cfg = normalizedEnvValue (Getenv env ''TOOLPLANE_STORAGE_MODE'') ''''"
    and "sg_databaseURL cfg = TrimSpace (Getenv env ''TOOLPLANE_DATABASE_URL'')"
    and "sg_environment cfg = ''production'' \<Longrightarrow> effectiveStorageMode cfg = ''postgres''"
proof -
  have c: "cfg = env_config env" "sg_environment cfg \<in> {''development'', ''test'', ''production''}" "auth_mode_error env cfg = None"
    "sg_environment cfg = ''production'' \<Longrightarrow> effectiveStorageMode cfg = ''postgres''"
    using assms by (auto simp: loadServerConfig_def Let_def split: if_splits option.splits)
  then show "sg_environment cfg \<in> {''development'', ''test'', ''production''}" "auth_mode_error env cfg = None"
    "sg_environment cfg = ''production'' \<Longrightarrow> effectiveStorageMode cfg = ''postgres''" by blast+
  show "sg_environment cfg = normalizedEnvValue (Getenv env ''TOOLPLANE_ENV_MODE'') ''development''"
    "sg_storageMode cfg = normalizedEnvValue (Getenv env ''TOOLPLANE_STORAGE_MODE'') ''''"
    "sg_databaseURL cfg = TrimSpace (Getenv env ''TOOLPLANE_DATABASE_URL'')"
    by (simp_all add: c(1) env_config_def)
qed

text \<open>C13: A server in production is the one all theorems about \<open>serve\<close> speak of.  If a server configured for
  production accepts calls, then it authenticates them by the stored keys, exactly as \<open>serve\<close> does, its
  store is durable, and its transport is encrypted or declared to be inside a trusted boundary.\<close>

theorem production_is_guarded:
  assumes "RunContext w pg opts env = Serving su" and "sg_environment (su_config su) = ''production''"
  shows "serve_as su = serve \<and> su_postgres su \<and> (su_tls su \<or> trustedTransportDeclared env)"
proof -
  note s = started [OF assms(1)]
  note l = loaded [OF s(1)]
  have m: "sg_authMode (su_config su) = ''postgres''"
    using l(3) assms(2) by (auto simp: auth_mode_error_def split: if_splits)
  have "serve_as su = serve"
    by (intro ext) (simp add: serve_as_def serve_def admit_def buildAuthenticator_def m)
  moreover have "TrimSpace (ToLower (Getenv env ''TOOLPLANE_STORAGE_MODE'')) \<notin> {''memory'', ''in-memory'', ''inmemory''}"
    using l(6) [OF assms(2)] l(4) by (auto simp: effectiveStorageMode_def normalizedEnvValue_def Let_def split: if_splits)
  then have "su_postgres su" using s(2) by (auto simp: OpenFromEnv_def Let_def split: if_splits)
  moreover have "TrimSpace (ToLower ''production'') = ''production''" by code_simp
  then have "su_tls su \<or> trustedTransportDeclared env"
    using s(3,4) assms(2) by (auto simp: validateGRPCTLSSettings_def grpcServerTransport_def Let_def split: if_splits)
  ultimately show ?thesis by blast
qed

text \<open>A caller without a credential is admitted to a guarded method only by a server whose operator set the
  opt-in for insecure development, and never in production.\<close>

theorem anonymous_service_needs_opt_in:
  assumes "RunContext w pg opts env = Serving su" and "methodPolicyFor meth = Some pol" and "\<not> mp_Public pol"
    and "case md of None \<Rightarrow> True | Some m \<Rightarrow> tokenFromMetadata m = None"
    and "admit su genv meth md req g = (g', Inr p)"
  shows "boolEnv (Getenv env) ''TOOLPLANE_ALLOW_INSECURE_DEV'' False
    \<and> normalizedEnvValue (Getenv env ''TOOLPLANE_ENV_MODE'') ''development'' \<in> {''development'', ''test''}"
proof -
  note l = loaded [OF started(1) [OF assms(1)]]
  have r: "UnaryInterceptor a (Some gate) meth md req g = (g', Inr p) \<Longrightarrow> False" for a :: "grpc_server authenticator" and gate
    using assms(2-4) by (auto simp: UnaryInterceptor_def authenticateRequest_def split: option.splits)
  have "sg_authMode (su_config su) \<in> {''disabled'', ''fixed'', ''postgres''}"
    using l(3) by (auto simp: auth_mode_error_def split: if_splits)
  then have "sg_authMode (su_config su) = ''disabled''"
    using assms(5) r by (auto simp: admit_def buildAuthenticator_def split: if_splits)
  then show ?thesis using l(1,2,3) by (auto simp: auth_mode_error_def split: if_splits)
qed

text \<open>Validation misses a missing store: a configuration that names neither a storage mode nor a database
  can pass it, and then the server does not start.\<close>

theorem valid_config_may_not_start:
  assumes "TrimSpace (ToLower (Getenv env ''TOOLPLANE_STORAGE_MODE'')) = ''''" and "TrimSpace (Getenv env ''TOOLPLANE_DATABASE_URL'') = ''''"
    and "ValidateConfig env = None"
  shows "RunContext w pg opts env = Exit 1"
  using assms by (auto simp: RunContext_def OpenFromEnv_def ValidateConfig_def Let_def split: sum.splits if_splits)

text \<open>Every limit of the connection pool is positive, where zero would mean no limit.\<close>

theorem pool_is_limited:
  assumes "OpenFromEnv w env = Inr pool"
  shows "ps_maxOpenConns pool > 0 \<and> ps_maxIdleConns pool > 0 \<and> ps_connMaxIdleTime pool > 0 \<and> ps_connMaxLifetime pool > 0"
proof -
  have i: "intEnv env name n > 0" if "n > 0" for name n
    using that by (auto simp: intEnv_def Let_def split: option.split)
  have d: "durationEnv parse env name n > 0" if "n > 0" for parse name n
    using that by (auto simp: durationEnv_def Let_def split: option.split)
  have "Second > 0" by (simp add: Second_def)
  then show ?thesis using assms by (auto simp: OpenFromEnv_def Let_def intro!: i d split: if_splits)
qed
section \<open>The configuration file\<close>

lemma Getenv_Setenv [simp]: "Getenv (Setenv k v env) k' = (if k' = k then v else Getenv env k')"
  by (simp add: Getenv_def Setenv_def)

lemma setting_keeps:
  "Getenv (fst (apply_setting k v source ep)) k' = (if k' = k \<and> Getenv (fst ep) k = '''' then v else Getenv (fst ep) k')"
  by (cases ep) (auto simp: apply_setting_def)

lemma contract_keeps:
  "Getenv (fst ep) k \<noteq> '''' \<or> k \<notin> fst ` set cs \<Longrightarrow> Getenv (fst (apply_contract cfg cs ep)) k = Getenv (fst ep) k"
proof (induction cfg cs ep rule: apply_contract.induct)
  case (2 cfg envVar v rest ep)
  have "Getenv (fst (apply_setting envVar (ExpandEnv (fst ep) (v cfg)) ''file'' ep)) k = Getenv (fst ep) k"
    using 2(2) by (auto simp: setting_keeps)
  then show ?case using 2 by auto
qed simp

lemma plain_value: "CHR ''$'' \<notin> set s \<Longrightarrow> ExpandEnv env s = s"
  by (induction env s rule: ExpandEnv.induct) auto

lemma contract_fills:
  assumes "distinct (map fst cs)" and "(k, v) \<in> set cs" and "Getenv (fst ep) k = ''''" and "CHR ''$'' \<notin> set (v cfg)"
  shows "Getenv (fst (apply_contract cfg cs ep)) k = v cfg"
  using assms
proof (induction cfg cs ep rule: apply_contract.induct)
  case (2 cfg k' v' rest ep)
  show ?case
  proof (cases "k' = k")
    case True
    then have "v' = v" using 2(2,3) by force
    moreover have "k \<notin> fst ` set rest" using 2(2) True by auto
    ultimately show ?thesis using True 2(4,5) by (simp add: contract_keeps setting_keeps plain_value)
  next
    case False
    then show ?thesis using 2 by (simp add: setting_keeps)
  qed
qed simp

lemma contract_distinct: "distinct (map fst envContract)"
  by code_simp

text \<open>Flag over environment over file: applying a configuration file never changes a variable that is set,
  nor one outside the contract; a variable of the contract that is unset gets the value of the file,
  unless the value refers to variables; and the database address of a secret file counts only when there is
  no other.\<close>

theorem environment_wins_over_file:
  assumes "ApplyConfigFile readFile decode path env = (env', Inr settings)" and "readFile path = Some raw" and "decode raw = Some cfg"
  shows "(Getenv env k \<noteq> '''' \<longrightarrow> Getenv env' k = Getenv env k)
    \<and> (k \<notin> fst ` set envContract \<longrightarrow> Getenv env' k = Getenv env k)
    \<and> ((k, v) \<in> set envContract \<longrightarrow> Getenv env k = '''' \<longrightarrow> v cfg \<noteq> '''' \<longrightarrow> CHR ''$'' \<notin> set (v cfg) \<longrightarrow> Getenv env' k = v cfg)"
proof -
  let ?ep = "apply_contract cfg envContract (env, [])"
  have d: "''TOOLPLANE_DATABASE_URL'' \<in> fst ` set envContract" by (simp add: envContract_def)
  have e: "env' = fst ?ep \<or> (Getenv (fst ?ep) ''TOOLPLANE_DATABASE_URL'' = ''''
      \<and> (\<exists>secret source. env' = fst (apply_setting ''TOOLPLANE_DATABASE_URL'' secret source ?ep)))"
    using assms by (auto simp: ApplyConfigFile_def Let_def split_beta split: if_splits sum.splits)
  then have "Getenv env' k = Getenv (fst ?ep) k" if "Getenv (fst ?ep) k \<noteq> '''' \<or> k \<noteq> ''TOOLPLANE_DATABASE_URL''"
    using that by (auto simp: setting_keeps)
  then show ?thesis
    using contract_keeps [of "(env, [])" k envContract cfg] contract_fills [OF contract_distinct, of k v "(env, [])" cfg] d
    by (metis fst_conv)
qed

text \<open>Expansion is not limited to references in braces: a literal dollar sign of a value, as in a password,
  is lost or takes what follows with it.\<close>

theorem literal_dollars_are_lost:
  assumes "Getenv env ''$'' = ''''" and "Getenv env ''word'' = ''''"
  shows "ExpandEnv env ''postgres://u:pa$$1@db'' = ''postgres://u:pa1@db'' \<and> ExpandEnv env ''pass$word!'' = ''pass!''"
  using assms by (simp add: getShellName_def isShellSpecialVar_def isAlphaNum_def)

definition demo_production :: environ where
  "demo_production = [(''TOOLPLANE_ENV_MODE'', '' Production ''), (''TOOLPLANE_AUTH_MODE'', ''postgres''),
     (''TOOLPLANE_DATABASE_URL'', ''postgres://db''), (''TOOLPLANE_SERVER_TRUSTED_TRANSPORT'', ''1'')]"

definition demo_world :: start_world where
  "demo_world = \<lparr> sw_parseDuration = (\<lambda>s. None), sw_opens = True, sw_pings = True, sw_migrates = True, sw_loadsTLS = (\<lambda>c k. True),
     sw_listens = True \<rparr>"

theorem production_is_guarded_witness:
  "\<exists>su. RunContext demo_world (\<lambda>token s. (s, Inl ErrOther) :: unit \<times> auth_principal svc_result) DefaultOptions demo_production = Serving su
    \<and> serve_as su = serve \<and> su_postgres su"
proof -
  let ?run = "RunContext demo_world (\<lambda>token s. (s, Inl ErrOther) :: unit \<times> auth_principal svc_result) DefaultOptions demo_production"
  have "case ?run of Serving su \<Rightarrow> sg_environment (su_config su) = ''production'' | Exit n \<Rightarrow> False" by code_simp
  then obtain su where su: "?run = Serving su" "sg_environment (su_config su) = ''production''" by (auto split: boot.splits)
  from production_is_guarded [OF this] su(1) show ?thesis by blast
qed

end
