(* ===== verification/Audit_Trail.thy ===== *)
theory Audit_Trail
  imports Mem_Registry "HOL-Library.Sublist"
begin

text \<open>
  Lifecycle events and the durable audit trail made of them (\<open>trace/tracer.go\<close>, \<open>observability/audit.go\<close>).  A tracer
  is a function of the event on whatever state it writes.  The recorder of the trail is a bounded
  queue with one writer; the times at which events arrive, rows are written and the process is told
  to stop are an arbitrary sequence of actions.  Log lines are left out.
\<close>

section \<open>tracer.go\<close>

datatype event_type =
    EventSessionCreated | EventSessionUpdated | EventSessionDeleted | EventAPIKeyCreated | EventAPIKeyRevoked
  | EventAuthValidated | EventAuthRejected | EventAuthPolicyDenied | EventToolRegistered | EventToolRefreshed
  | EventToolDeleted | EventToolRegistrationRejected | EventMachineRegistered | EventMachineDrainStarted | EventMachineDrainCompleted
  | EventMachineUnregistered | EventMachinePingUpdate | EventMachineInactivePruned | EventRequestCreated | EventRequestClaimed
  | EventRequestExecutionStarted | EventRequestExecutionCompleted | EventRequestExecutionFailed | EventRequestCancelled | EventRequestChunksAppended
  | EventRequestLeaseExpired | EventRequestLeaseRenewed | EventRequestRequeued | EventRequestDeadLettered | EventTaskCreated
  | EventTaskExecutionStarted | EventTaskRetryScheduled | EventTaskExecutionCompleted | EventTaskExecutionFailed | EventTaskCancelled
  | EventTaskDeadLettered

fun event_name :: "event_type \<Rightarrow> string" where
  "event_name EventSessionCreated = ''session_created''"
| "event_name EventSessionUpdated = ''session_updated''"
| "event_name EventSessionDeleted = ''session_deleted''"
| "event_name EventAPIKeyCreated = ''api_key_created''"
| "event_name EventAPIKeyRevoked = ''api_key_revoked''"
| "event_name EventAuthValidated = ''auth_validated''"
| "event_name EventAuthRejected = ''auth_rejected''"
| "event_name EventAuthPolicyDenied = ''auth_policy_denied''"
| "event_name EventToolRegistered = ''tool_registered''"
| "event_name EventToolRefreshed = ''tool_refreshed''"
| "event_name EventToolDeleted = ''tool_deleted''"
| "event_name EventToolRegistrationRejected = ''tool_registration_rejected''"
| "event_name EventMachineRegistered = ''machine_registered''"
| "event_name EventMachineDrainStarted = ''machine_drain_started''"
| "event_name EventMachineDrainCompleted = ''machine_drain_completed''"
| "event_name EventMachineUnregistered = ''machine_unregistered''"
| "event_name EventMachinePingUpdate = ''machine_ping_update''"
| "event_name EventMachineInactivePruned = ''machine_inactive_pruned''"
| "event_name EventRequestCreated = ''request_created''"
| "event_name EventRequestClaimed = ''request_claimed''"
| "event_name EventRequestExecutionStarted = ''request_execution_started''"
| "event_name EventRequestExecutionCompleted = ''request_execution_completed''"
| "event_name EventRequestExecutionFailed = ''request_execution_failed''"
| "event_name EventRequestCancelled = ''request_cancelled''"
| "event_name EventRequestChunksAppended = ''request_chunks_appended''"
| "event_name EventRequestLeaseExpired = ''request_lease_expired''"
| "event_name EventRequestLeaseRenewed = ''request_lease_renewed''"
| "event_name EventRequestRequeued = ''request_requeued''"
| "event_name EventRequestDeadLettered = ''request_dead_lettered''"
| "event_name EventTaskCreated = ''task_created''"
| "event_name EventTaskExecutionStarted = ''task_execution_started''"
| "event_name EventTaskRetryScheduled = ''task_retry_scheduled''"
| "event_name EventTaskExecutionCompleted = ''task_execution_completed''"
| "event_name EventTaskExecutionFailed = ''task_execution_failed''"
| "event_name EventTaskCancelled = ''task_cancelled''"
| "event_name EventTaskDeadLettered = ''task_dead_lettered''"

record session_event =
  ev_SessionID :: string
  ev_MachineID :: string
  ev_ToolID :: string
  ev_RequestID :: string
  ev_TaskID :: string
  ev_Event :: event_type
  ev_Timestamp :: time
  ev_Metadata :: "go_value gomap option"

type_synonym 'w tracer = "session_event \<Rightarrow> 'w \<Rightarrow> 'w"

definition NopTracer :: "'w tracer" where
  "NopTracer ev w = w"

text \<open>A missing tracer is \<open>None\<close>.\<close>

definition multi_Record :: "'w tracer list \<Rightarrow> 'w tracer" where
  "multi_Record tracers ev w = fold (\<lambda>t. t ev) tracers w"

definition NewMultiTracer :: "'w tracer option list \<Rightarrow> 'w tracer" where
  "NewMultiTracer tracers =
     (case map the (filter (\<lambda>t. t \<noteq> None) tracers) of
        [] \<Rightarrow> NopTracer
      | [t] \<Rightarrow> t
      | filtered \<Rightarrow> multi_Record filtered)"

section \<open>audit.go\<close>

definition auditedEvents :: "event_type list" where
  "auditedEvents = [EventSessionCreated, EventSessionDeleted, EventAPIKeyCreated, EventAPIKeyRevoked, EventMachineRegistered,
     EventMachineUnregistered, EventRequestDeadLettered, EventTaskDeadLettered]"

definition auditQueueCapacity :: nat where "auditQueueCapacity = 256"

text \<open>The recorder: the queue, and whether the writer still runs.\<close>

record audit_recorder =
  ar_queue :: "audit_event list"
  ar_writing :: bool

definition NewAuditRecorder :: audit_recorder where
  "NewAuditRecorder = \<lparr> ar_queue = [], ar_writing = True \<rparr>"

definition event_actor :: "session_event \<Rightarrow> string" where
  "event_actor event =
     (case ev_Metadata event of
        None \<Rightarrow> ''''
      | Some md \<Rightarrow> (case gm_get md ''actorKeyId'' of Some (VString s) \<Rightarrow> s | _ \<Rightarrow> ''''))"

definition audit_row :: "time \<Rightarrow> session_event \<Rightarrow> audit_event" where
  "audit_row now event =
     (let actor = event_actor event;
          details = (if actor \<noteq> '''' then map_option (gm_del ''actorKeyId'') (ev_Metadata event) else ev_Metadata event)
      in \<lparr> a_ID = 0, a_CreatedAt = now, a_Event = event_name (ev_Event event), a_SessionID = ev_SessionID event,
           a_MachineID = ev_MachineID event, a_RequestID = ev_RequestID event, a_TaskID = ev_TaskID event, a_ActorKeyID = actor,
           a_Details = details \<rparr>)"

definition audit_Record :: "time \<Rightarrow> session_event \<Rightarrow> audit_recorder \<Rightarrow> audit_recorder" where
  "audit_Record now event r =
     (if ev_Event event \<notin> set auditedEvents then r
      else if length (ar_queue r) < auditQueueCapacity then r\<lparr> ar_queue := ar_queue r @ [audit_row now event] \<rparr>
      else r)"

text \<open>The writer: one row, or, once the context has ended, the rest of the queue, after which it is gone.
  \<open>save\<close> is the write to the store, which changes nothing when it fails.\<close>

definition write_one :: "(audit_event \<Rightarrow> 's \<Rightarrow> 's) \<Rightarrow> audit_recorder \<times> 's \<Rightarrow> audit_recorder \<times> 's" where
  "write_one save rs =
     (case rs of (r, s) \<Rightarrow>
        if \<not> ar_writing r then (r, s)
        else case ar_queue r of [] \<Rightarrow> (r, s) | e # q \<Rightarrow> (r\<lparr> ar_queue := q \<rparr>, save e s))"

definition write_rest :: "(audit_event \<Rightarrow> 's \<Rightarrow> 's) \<Rightarrow> audit_recorder \<times> 's \<Rightarrow> audit_recorder \<times> 's" where
  "write_rest save rs =
     (case rs of (r, s) \<Rightarrow>
        if \<not> ar_writing r then (r, s) else (r\<lparr> ar_queue := [], ar_writing := False \<rparr>, fold save (ar_queue r) s))"

datatype audit_action = Emit time session_event | WriteOne | ContextDone

fun audit_act :: "(audit_event \<Rightarrow> 's \<Rightarrow> 's) \<Rightarrow> audit_action \<Rightarrow> audit_recorder \<times> 's \<Rightarrow> audit_recorder \<times> 's" where
  "audit_act save (Emit now ev) rs = (audit_Record now ev (fst rs), snd rs)"
| "audit_act save WriteOne rs = write_one save rs"
| "audit_act save ContextDone rs = write_rest save rs"

section \<open>What reaches the trail\<close>

text \<open>Fanning out: whatever the list of tracers looks like, each present one gets every event, in order.\<close>

theorem every_tracer_is_told: "NewMultiTracer tracers ev w = fold (\<lambda>t w. case t of None \<Rightarrow> w | Some f \<Rightarrow> f ev w) tracers w"
proof -
  have "multi_Record (map the (filter (\<lambda>t. t \<noteq> None) ts)) ev w = fold (\<lambda>t w. case t of None \<Rightarrow> w | Some f \<Rightarrow> f ev w) ts w" for ts
    by (induction ts arbitrary: w) (auto simp: multi_Record_def)
  moreover have "NewMultiTracer tracers ev w = multi_Record (map the (filter (\<lambda>t. t \<noteq> None) tracers)) ev w"
    by (simp add: NewMultiTracer_def multi_Record_def NopTracer_def split: list.split)
  ultimately show ?thesis by simp
qed

text \<open>The rows of the audited events among some actions.\<close>

fun audited_rows :: "audit_action list \<Rightarrow> audit_event list" where
  "audited_rows [] = []"
| "audited_rows (Emit now ev # as) = (if ev_Event ev \<in> set auditedEvents then audit_row now ev # audited_rows as else audited_rows as)"
| "audited_rows (_ # as) = audited_rows as"

lemma subseq_extend: "subseq xs ys \<Longrightarrow> subseq (xs @ [z]) (ys @ [z])"
  by (rule list_emb_append_mono) auto

lemma rows_snoc: "audited_rows (as @ [a]) = audited_rows as @ audited_rows [a]"
  by (induction as rule: audited_rows.induct) (cases a; simp)+

text \<open>The audit trail is an honest record.  Whatever the order of events, writes and the end of the context,
  the rows written and then the rows still queued are audited events in the order they happened, none
  invented, none twice; at most 256 wait; and as long as no more than 256 audited events happened,
  none is missing.\<close>

theorem audit_trail_is_faithful:
  assumes "fold (audit_act save) as (NewAuditRecorder, s) = (r, s')"
  shows "\<exists>written. s' = fold save written s \<and> subseq (written @ ar_queue r) (audited_rows as)
    \<and> length (ar_queue r) \<le> auditQueueCapacity
    \<and> (length (audited_rows as) \<le> auditQueueCapacity \<longrightarrow> written @ ar_queue r = audited_rows as)"
  using assms
proof (induction as arbitrary: r s' rule: rev_induct)
  case Nil
  then show ?case by (auto simp: NewAuditRecorder_def intro!: exI [of _ "[]"])
next
  case (snoc a as)
  obtain r0 s0 where f: "fold (audit_act save) as (NewAuditRecorder, s) = (r0, s0)" by fastforce
  from snoc.IH [OF f] obtain w where w: "s0 = fold save w s" "subseq (w @ ar_queue r0) (audited_rows as)"
    "length (ar_queue r0) \<le> auditQueueCapacity" "length (audited_rows as) \<le> auditQueueCapacity \<longrightarrow> w @ ar_queue r0 = audited_rows as" by blast
  have step: "audit_act save a (r0, s0) = (r, s')" using snoc.prems f by simp
  show ?case
  proof (cases a)
    case (Emit now ev)
    have "length (ar_queue r0) \<le> length (audited_rows as)" using list_emb_length [OF w(2)] by simp
    then show ?thesis using step w Emit subseq_extend [OF w(2), of "audit_row now ev"]
      by (auto simp: audit_Record_def rows_snoc intro!: exI [of _ w] split: if_splits dest: list_emb_append2)
  next
    case WriteOne
    then show ?thesis
    proof (cases "ar_writing r0 \<and> ar_queue r0 \<noteq> []")
      case True
      then obtain e q where q: "ar_queue r0 = e # q" by (cases "ar_queue r0") auto
      then have "s' = fold save (w @ [e]) s \<and> ar_queue r = q" using True WriteOne step w(1) by (auto simp: write_one_def)
      then show ?thesis using w q WriteOne by (auto simp: rows_snoc intro!: exI [of _ "w @ [e]"])
    next
      case False
      then have "r = r0 \<and> s' = s0" using WriteOne step by (auto simp: write_one_def split: list.splits if_splits)
      then show ?thesis using w WriteOne by (auto simp: rows_snoc)
    qed
  next
    case ContextDone
    then show ?thesis
    proof (cases "ar_writing r0")
      case True
      then have "s' = fold save (w @ ar_queue r0) s \<and> ar_queue r = []" using ContextDone step w(1) by (auto simp: write_rest_def)
      then show ?thesis using w ContextDone by (intro exI [of _ "w @ ar_queue r0"]) (simp add: rows_snoc)
    next
      case False
      then have "r = r0 \<and> s' = s0" using ContextDone step by (auto simp: write_rest_def)
      then show ?thesis using w ContextDone by (auto simp: rows_snoc)
    qed
  qed
qed

text \<open>The writer leaves as soon as the context has ended, while calls in flight are still being finished: an
  event of such a call is queued and never written.\<close>

theorem late_events_are_lost:
  "snd (fold (audit_act save) (ContextDone # as) rs) = snd (write_rest save rs)"
proof -
  have "\<not> ar_writing (fst rs) \<Longrightarrow> snd (fold (audit_act save) as rs) = snd rs" for rs :: "audit_recorder \<times> 'a"
  proof (induction as arbitrary: rs)
    case (Cons a as)
    have "\<not> ar_writing (fst (audit_act save a rs)) \<and> snd (audit_act save a rs) = snd rs"
      using Cons.prems by (cases a; cases rs) (auto simp: audit_Record_def write_one_def write_rest_def)
    then show ?case using Cons.IH by simp
  qed simp
  moreover have "\<not> ar_writing (fst (write_rest save rs))" by (cases rs) (simp add: write_rest_def)
  ultimately show ?thesis by simp
qed

end
